(* ===== verification/Prelude.thy ===== *)
theory Prelude
  imports Main "HOL-Library.Sublist"
begin

text \<open>
  The vocabulary the component theories share.

  \<^item> \<open>exn\<close>: the Python exceptions the code raises or lets through.
  \<^item> \<open>('w, 'a) py\<close>: a Python statement or call.  It runs on a world \<open>'w\<close> and
    either returns a value or raises; the effects made before a raise stay, as in Python.
    \<open>retP\<close>, \<open>bindP\<close>, \<open>raiseP\<close>, \<open>tryP\<close>, \<open>forP\<close> and \<open>foldP\<close> are return, sequencing, raise,
    \<^verbatim>\<open>try/except Exception\<close>, a \<^verbatim>\<open>for\<close> loop and a loop that carries local variables.
  \<^item> \<open>wp\<close>: the weakest precondition of a statement for a postcondition on normal and one on
    exceptional exit; its equations are the collection \<open>wp_simps\<close>.
  \<^item> the locale \<open>py_rel\<close>: what every statement keeps of a reflexive and transitive relation
    between worlds, proved once and interpreted by the components for their frames.
  \<^item> dictionaries: association lists in insertion order, as Python's \<^verbatim>\<open>dict\<close>.
\<close>

named_theorems wp_simps
named_theorems rel_intros

section \<open>Exceptions and Python statements\<close>

datatype exn =
    KeyError string
  | IndexError
  | TypeError
  | ValueError
  | AttributeError
  | ZeroDivisionError
  | NotImplementedError
  | UnboundLocalError
  | NameError string
  | SystemExit string
  | GenericException string
  | ExternalError string

type_synonym ('w, 'a) py = "'w \<Rightarrow> (exn + 'a) \<times> 'w"

definition retP :: "'a \<Rightarrow> ('w, 'a) py" where
  "retP x = (\<lambda>w. (Inr x, w))"

definition raiseP :: "exn \<Rightarrow> ('w, 'a) py" where
  "raiseP e = (\<lambda>w. (Inl e, w))"

definition bindP :: "('w, 'a) py \<Rightarrow> ('a \<Rightarrow> ('w, 'b) py) \<Rightarrow> ('w, 'b) py" where
  "bindP m f = (\<lambda>w. case m w of (Inl e, w') \<Rightarrow> (Inl e, w') | (Inr x, w') \<Rightarrow> f x w')"

definition thenP :: "('w, 'a) py \<Rightarrow> ('w, 'b) py \<Rightarrow> ('w, 'b) py" where
  "thenP m n = bindP m (\<lambda>_. n)"

definition tryP :: "('w, 'a) py \<Rightarrow> (exn \<Rightarrow> ('w, 'a) py) \<Rightarrow> ('w, 'a) py" where
  "tryP m h = (\<lambda>w. case m w of (Inl e, w') \<Rightarrow> h e w' | (Inr x, w') \<Rightarrow> (Inr x, w'))"

text \<open>An expression that does not touch the world but may raise.\<close>

definition liftP :: "exn + 'a \<Rightarrow> ('w, 'a) py" where
  "liftP r = (\<lambda>w. (r, w))"

definition readP :: "('w \<Rightarrow> 'a) \<Rightarrow> ('w, 'a) py" where
  "readP f = (\<lambda>w. (Inr (f w), w))"

definition modifyP :: "('w \<Rightarrow> 'w) \<Rightarrow> ('w, unit) py" where
  "modifyP f = (\<lambda>w. (Inr (), f w))"

definition whenP :: "bool \<Rightarrow> ('w, unit) py \<Rightarrow> ('w, unit) py" where
  "whenP b m = (if b then m else retP ())"

fun forP :: "'a list \<Rightarrow> ('a \<Rightarrow> ('w, unit) py) \<Rightarrow> ('w, unit) py" where
  "forP [] body = retP ()"
| "forP (x # xs) body = bindP (body x) (\<lambda>_. forP xs body)"

fun foldP :: "'a list \<Rightarrow> 's \<Rightarrow> ('a \<Rightarrow> 's \<Rightarrow> ('w, 's) py) \<Rightarrow> ('w, 's) py" where
  "foldP [] s body = retP s"
| "foldP (x # xs) s body = bindP (body x s) (\<lambda>s'. foldP xs s' body)"

text \<open>Expressions that may raise are sums; these are their sequencing operators.\<close>

fun bindE :: "exn + 'a \<Rightarrow> ('a \<Rightarrow> exn + 'b) \<Rightarrow> exn + 'b" where
  "bindE (Inl e) f = Inl e"
| "bindE (Inr x) f = f x"

fun mapE :: "('a \<Rightarrow> exn + 'b) \<Rightarrow> 'a list \<Rightarrow> exn + 'b list" where
  "mapE f [] = Inr []"
| "mapE f (x # xs) = bindE (f x) (\<lambda>y. bindE (mapE f xs) (\<lambda>ys. Inr (y # ys)))"

fun foldE :: "('a \<Rightarrow> 's \<Rightarrow> exn + 's) \<Rightarrow> 'a list \<Rightarrow> 's \<Rightarrow> exn + 's" where
  "foldE f [] s = Inr s"
| "foldE f (x # xs) s = bindE (f x s) (foldE f xs)"

lemma bindE_Inr_iff: "bindE r f = Inr y \<longleftrightarrow> (\<exists>x. r = Inr x \<and> f x = Inr y)"
  by (cases r) auto

lemma mapE_all: "(\<And>x. x \<in> set xs \<Longrightarrow> f x = Inr (g x)) \<Longrightarrow> mapE f xs = Inr (map g xs)"
  by (induction xs) auto

text \<open>An invariant of a loop that may raise.\<close>

lemma foldE_inv:
  assumes "foldE f xs s = Inr s'" and "I s" and "\<And>x t t'. x \<in> set xs \<Longrightarrow> I t \<Longrightarrow> f x t = Inr t' \<Longrightarrow> I t'"
  shows "I s'"
  using assms
proof (induction xs arbitrary: s)
  case (Cons x xs)
  from Cons.prems(1) obtain t where t: "f x s = Inr t" "foldE f xs t = Inr s'" by (auto simp: bindE_Inr_iff)
  have "I t" using Cons.prems(2,3) t(1) by (meson list.set_intros(1))
  then show ?case by (rule Cons.IH [OF t(2)]) (use Cons.prems(3) in auto)
qed simp

lemma foldE_unit: "(\<And>x. x \<in> set xs \<Longrightarrow> f x () = Inr ()) \<Longrightarrow> foldE f xs () = Inr ()"
  by (induction xs) auto

lemma bindP_liftP: "bindP (liftP (Inr x)) f = f x"
  by (simp add: bindP_def liftP_def)

section \<open>Weakest preconditions\<close>

definition wp :: "('w, 'a) py \<Rightarrow> ('a \<Rightarrow> 'w \<Rightarrow> bool) \<Rightarrow> (exn \<Rightarrow> 'w \<Rightarrow> bool) \<Rightarrow> 'w \<Rightarrow> bool" where
  "wp m Q X w = (case m w of (Inr x, w') \<Rightarrow> Q x w' | (Inl e, w') \<Rightarrow> X e w')"

lemma wp_retP [wp_simps]: "wp (retP x) Q X w = Q x w"
  by (simp add: wp_def retP_def)

lemma wp_retP_fun: "wp (retP x) Q X = Q x"
  by (simp add: fun_eq_iff wp_retP)

lemma wp_raiseP [wp_simps]: "wp (raiseP e) Q X w = X e w"
  by (simp add: wp_def raiseP_def)

lemma wp_bindP [wp_simps]: "wp (bindP m f) Q X w = wp m (\<lambda>x. wp (f x) Q X) X w"
  by (auto simp: wp_def bindP_def split: prod.splits sum.splits)

lemma wp_thenP [wp_simps]: "wp (thenP m n) Q X w = wp m (\<lambda>_. wp n Q X) X w"
  by (simp add: thenP_def wp_bindP)

lemma wp_thenP_fun: "wp (thenP m n) Q X = wp m (\<lambda>_. wp n Q X) X"
  by (rule ext) (rule wp_thenP)

lemma wp_tryP [wp_simps]: "wp (tryP m h) Q X w = wp m Q (\<lambda>e. wp (h e) Q X) w"
  by (auto simp: wp_def tryP_def split: prod.splits sum.splits)

lemma wp_liftP_Inr [wp_simps]: "wp (liftP (Inr x)) Q X w = Q x w"
  by (simp add: wp_def liftP_def)

lemma wp_liftP_Inl [wp_simps]: "wp (liftP (Inl e)) Q X w = X e w"
  by (simp add: wp_def liftP_def)

lemma wp_readP [wp_simps]: "wp (readP f) Q X w = Q (f w) w"
  by (simp add: wp_def readP_def)

lemma wp_modifyP [wp_simps]: "wp (modifyP f) Q X w = Q () (f w)"
  by (simp add: wp_def modifyP_def)

lemma wp_whenP [wp_simps]: "wp (whenP b m) Q X w = (if b then wp m Q X w else Q () w)"
  by (simp add: whenP_def wp_retP)

lemma wp_forP_Nil [wp_simps]: "wp (forP [] body) Q X w = Q () w"
  by (simp add: wp_retP)

lemma wp_forP_Cons [wp_simps]:
  "wp (forP (x # xs) body) Q X w = wp (body x) (\<lambda>_. wp (forP xs body) Q X) X w"
  by (simp add: wp_bindP)

lemma wp_foldP_Nil [wp_simps]: "wp (foldP [] s body) Q X w = Q s w"
  by (simp add: wp_retP)

lemma wp_foldP_Cons [wp_simps]:
  "wp (foldP (x # xs) s body) Q X w = wp (body x s) (\<lambda>s'. wp (foldP xs s' body) Q X) X w"
  by (simp add: wp_bindP)

lemma wp_mono:
  assumes "wp m Q X w" and "\<And>x w'. Q x w' \<Longrightarrow> Q' x w'" and "\<And>e w'. X e w' \<Longrightarrow> X' e w'"
  shows "wp m Q' X' w"
  using assms by (auto simp: wp_def split: prod.splits sum.splits)

lemma wp_conj:
  "wp m (\<lambda>x w'. Q x w' \<and> Q' x w') (\<lambda>e w'. X e w' \<and> X' e w') w \<longleftrightarrow> wp m Q X w \<and> wp m Q' X' w"
  by (auto simp: wp_def split: prod.splits sum.splits)

lemma wp_True [simp]: "wp m (\<lambda>_ _. True) (\<lambda>_ _. True) = (\<lambda>_. True)"
  by (auto simp: wp_def split: prod.splits sum.splits)

lemma wp_run: "m w = (Inr x, w') \<Longrightarrow> wp m Q X w = Q x w'"
  by (simp add: wp_def)

lemma wp_run_exn: "m w = (Inl e, w') \<Longrightarrow> wp m Q X w = X e w'"
  by (simp add: wp_def)

lemma wpD: "wp m Q (\<lambda>_ _. False) w \<Longrightarrow> \<exists>x w'. m w = (Inr x, w') \<and> Q x w'"
  by (auto simp: wp_def split: prod.splits sum.splits)

text \<open>A loop keeps an invariant that may mention the elements still to come.\<close>

lemma wp_forP_inv:
  assumes "I xs w"
    and "\<And>y ys w. I (y # ys) w \<Longrightarrow> set (y # ys) \<subseteq> set xs \<Longrightarrow> wp (body y) (\<lambda>_. I ys) X w"
    and "\<And>w. I [] w \<Longrightarrow> Q () w"
  shows "wp (forP xs body) Q X w"
  using assms
proof (induction xs arbitrary: w)
  case Nil
  then show ?case by (simp add: wp_simps)
next
  case (Cons y ys)
  have step: "wp (body y) (\<lambda>_. I ys) X w"
    by (rule Cons.prems(2)) (simp_all add: Cons.prems(1))
  have rest: "wp (forP ys body) Q X w'" if "I ys w'" for w'
  proof (rule Cons.IH [OF that _ Cons.prems(3)])
    fix z zs v assume "I (z # zs) v" and "set (z # zs) \<subseteq> set ys"
    then show "wp (body z) (\<lambda>_. I zs) X v" by (intro Cons.prems(2)) auto
  qed
  show ?case
    unfolding wp_forP_Cons by (rule wp_mono [OF step]) (auto intro: rest)
qed

section \<open>Relations every statement keeps\<close>

definition keeps :: "('w \<Rightarrow> 'w \<Rightarrow> bool) \<Rightarrow> ('w, 'a) py \<Rightarrow> bool" where
  "keeps R m \<longleftrightarrow> (\<forall>w. R w (snd (m w)))"

lemma keepsD: "keeps R m \<Longrightarrow> m w = (r, w') \<Longrightarrow> R w w'"
  unfolding keeps_def by (metis snd_conv)

lemma keeps_wp: "keeps R m \<Longrightarrow> wp m (\<lambda>_. R w) (\<lambda>_. R w) w"
  by (auto simp: keeps_def wp_def split: prod.splits sum.splits) (metis snd_conv)+

lemma keeps_mono: "keeps R m \<Longrightarrow> (\<And>w w'. R w w' \<Longrightarrow> S w w') \<Longrightarrow> keeps S m"
  by (simp add: keeps_def)

text \<open>
  A component that claims a frame (``nothing outside these keys changes'', ``the log only
  grows'') proves it for its primitive operations; sequencing, exceptions, handlers and
  loops carry it over.
\<close>

locale py_rel =
  fixes R :: "'w \<Rightarrow> 'w \<Rightarrow> bool"
  assumes R_refl: "R w w"
    and R_trans: "R u v \<Longrightarrow> R v w \<Longrightarrow> R u w"
begin

lemma keeps_pure:
  "keeps R (retP x)" "keeps R (raiseP e)" "keeps R (liftP r)" "keeps R (readP f)"
  by (simp_all add: keeps_def retP_def raiseP_def liftP_def readP_def R_refl)

lemma keeps_bind: "keeps R m \<Longrightarrow> (\<And>x. keeps R (f x)) \<Longrightarrow> keeps R (bindP m f)"
  by (auto simp: keeps_def bindP_def split: prod.splits sum.splits)
    (metis R_trans snd_conv)+

lemma keeps_then: "keeps R m \<Longrightarrow> keeps R n \<Longrightarrow> keeps R (thenP m n)"
  by (simp add: thenP_def keeps_bind)

lemma keeps_try: "keeps R m \<Longrightarrow> (\<And>e. keeps R (h e)) \<Longrightarrow> keeps R (tryP m h)"
  by (auto simp: keeps_def tryP_def split: prod.splits sum.splits)
    (metis R_trans snd_conv)+

lemma keeps_when: "(b \<Longrightarrow> keeps R m) \<Longrightarrow> keeps R (whenP b m)"
  by (simp add: whenP_def keeps_pure)

lemma keeps_for: "(\<And>x. x \<in> set xs \<Longrightarrow> keeps R (body x)) \<Longrightarrow> keeps R (forP xs body)"
  by (induction xs) (auto simp: keeps_pure intro: keeps_bind)

lemma keeps_fold: "(\<And>x s. x \<in> set xs \<Longrightarrow> keeps R (body x s)) \<Longrightarrow> keeps R (foldP xs s body)"
  by (induction xs arbitrary: s) (auto simp: keeps_pure intro: keeps_bind)

lemma keeps_modify: "(\<And>w. R w (f w)) \<Longrightarrow> keeps R (modifyP f)"
  by (simp add: keeps_def modifyP_def)

lemma keeps_if: "(b \<Longrightarrow> keeps R m) \<Longrightarrow> (\<not> b \<Longrightarrow> keeps R n) \<Longrightarrow> keeps R (if b then m else n)"
  by simp

lemma keeps_option:
  "(x = None \<Longrightarrow> keeps R m) \<Longrightarrow> (\<And>y. x = Some y \<Longrightarrow> keeps R (f y)) \<Longrightarrow>
   keeps R (case x of None \<Rightarrow> m | Some y \<Rightarrow> f y)"
  by (cases x) auto

lemmas keeps_rules =
  keeps_pure keeps_bind keeps_then keeps_try keeps_when keeps_for keeps_fold keeps_if
  keeps_option

end

section \<open>What a statement returns\<close>

text \<open>\<open>yields P m\<close>: every value \<open>m\<close> returns satisfies \<open>P\<close>.\<close>

definition yields :: "('a \<Rightarrow> bool) \<Rightarrow> ('w, 'a) py \<Rightarrow> bool" where
  "yields P m \<longleftrightarrow> (\<forall>w x w'. m w = (Inr x, w') \<longrightarrow> P x)"

lemma yieldsD: "yields P m \<Longrightarrow> m w = (Inr x, w') \<Longrightarrow> P x"
  by (auto simp: yields_def)

lemma yields_bind: "(\<And>x. yields P (f x)) \<Longrightarrow> yields P (bindP m f)"
  by (auto simp: yields_def bindP_def split: prod.splits sum.splits)

lemma yields_bind_with: "yields R m \<Longrightarrow> (\<And>x. R x \<Longrightarrow> yields P (f x)) \<Longrightarrow> yields P (bindP m f)"
  by (fastforce simp: yields_def bindP_def split: prod.splits sum.splits)

lemma yields_ran: "yields (\<lambda>x. \<exists>w w'. m w = (Inr x, w')) m"
  by (auto simp: yields_def)

lemma yields_then: "yields P n \<Longrightarrow> yields P (thenP m n)"
  by (auto simp: yields_def thenP_def bindP_def split: prod.splits sum.splits)

lemma yields_ret: "P x \<Longrightarrow> yields P (retP x)"
  by (simp add: yields_def retP_def)

lemma yields_lift: "(\<And>x. r = Inr x \<Longrightarrow> P x) \<Longrightarrow> yields P (liftP r)"
  by (auto simp: yields_def liftP_def)

lemma yields_if: "(b \<Longrightarrow> yields P m) \<Longrightarrow> (\<not> b \<Longrightarrow> yields P n) \<Longrightarrow> yields P (if b then m else n)"
  by simp

lemma yields_fold:
  assumes "P s" and "\<And>x s. P s \<Longrightarrow> yields P (body x s)"
  shows "yields P (foldP xs s body)"
  using assms(1)
proof (induction xs arbitrary: s)
  case (Cons x xs)
  show ?case
    using Cons.IH assms(2) [OF Cons.prems]
    by (fastforce simp: yields_def bindP_def split: prod.splits sum.splits)
qed (simp add: yields_ret)

lemmas yields_rules = yields_bind yields_then yields_ret yields_lift yields_if

section \<open>Dictionaries\<close>

type_synonym 'v dict = "(string \<times> 'v) list"

fun dict_set :: "string \<Rightarrow> 'v \<Rightarrow> 'v dict \<Rightarrow> 'v dict" where
  "dict_set k v [] = [(k, v)]"
| "dict_set k v ((k', v') # d) = (if k = k' then (k, v) # d else (k', v') # dict_set k v d)"

definition dict_get :: "'v dict \<Rightarrow> string \<Rightarrow> exn + 'v" where
  "dict_get d k = (case map_of d k of None \<Rightarrow> Inl (KeyError k) | Some v \<Rightarrow> Inr v)"

definition dict_has :: "string \<Rightarrow> 'v dict \<Rightarrow> bool" where
  "dict_has k d \<longleftrightarrow> map_of d k \<noteq> None"

definition dict_keys :: "'v dict \<Rightarrow> string list" where
  "dict_keys d = map fst d"

fun dict_update :: "'v dict \<Rightarrow> 'v dict \<Rightarrow> 'v dict" where
  "dict_update d [] = d"
| "dict_update d ((k, v) # u) = dict_update (dict_set k v d) u"

lemma map_of_dict_set [simp]: "map_of (dict_set k v d) = (map_of d)(k \<mapsto> v)"
  by (induction d) (auto simp: fun_upd_twist)

lemma keys_dict_set: "fst ` set (dict_set k v d) = insert k (fst ` set d)"
  by (simp flip: dom_map_of_conv_image_fst)

lemma distinct_dict_set [simp]: "distinct (map fst d) \<Longrightarrow> distinct (map fst (dict_set k v d))"
  by (induction d) (auto simp: keys_dict_set image_iff)

lemma dict_set_idem: "map_of d k = Some v \<Longrightarrow> dict_set k v d = d"
  by (induction d) (auto split: if_splits)

lemma dict_set_new: "k \<notin> fst ` set d \<Longrightarrow> dict_set k v d = d @ [(k, v)]"
  by (induction d) auto

lemma dict_get_set [simp]: "dict_get (dict_set k v d) k' = (if k' = k then Inr v else dict_get d k')"
  by (simp add: dict_get_def)

lemma dict_has_set [simp]: "dict_has k' (dict_set k v d) = (k' = k \<or> dict_has k' d)"
  by (simp add: dict_has_def)

lemma dict_has_iff: "dict_has k d \<longleftrightarrow> k \<in> fst ` set d"
  by (auto simp: dict_has_def map_of_eq_None_iff)

lemma map_of_dict_update: "distinct (map fst u) \<Longrightarrow> map_of (dict_update d u) = map_of d ++ map_of u"
proof (induction d u rule: dict_update.induct)
  case (1 d)
  then show ?case by simp
next
  case (2 d k v u)
  then have "map_of u k = None" by (simp add: map_of_eq_None_iff)
  with 2 show ?case by (auto simp: fun_eq_iff map_add_def split: option.splits)
qed

end
