(* ===== verification/PyLib.thy ===== *)
theory PyLib
  imports Prelude
begin

text \<open>
  What the code uses of Python's own library: strings (\<open>split\<close>, \<open>strip\<close>, \<open>lower\<close>, \<open>in\<close>,
  \<open>%\<close>-formatting), \<open>int()\<close> and \<open>str()\<close>, and the dynamic operations on decoded JSON documents
  (subscripts, \<open>in\<close>, \<open>len\<close>, iteration), each with the exception Python raises where it does
  not apply.  Strings are sequences of code points below 256 (\<open>char\<close>).  A float is kept as
  its truncation and its \<open>repr\<close> text, which is all the code observes of one.
  The lemmas that the components rest on: splitting a path that ends in a component without
  separator, and that \<open>int()\<close> inverts \<open>str()\<close>.
\<close>

section \<open>Strings\<close>

fun py_split :: "char \<Rightarrow> string \<Rightarrow> string list" where
  "py_split c [] = [[]]"
| "py_split c (x # xs) =
     (if x = c then [] # py_split c xs
      else (case py_split c xs of [] \<Rightarrow> [[x]] | p # ps \<Rightarrow> (x # p) # ps))"

fun py_join :: "string \<Rightarrow> string list \<Rightarrow> string" where
  "py_join sep [] = []"
| "py_join sep [p] = p"
| "py_join sep (p # q # ps) = p @ sep @ py_join sep (q # ps)"

definition py_isspace :: "char \<Rightarrow> bool" where
  "py_isspace c = (let n = of_char c :: nat in (9 \<le> n \<and> n \<le> 13) \<or> (28 \<le> n \<and> n \<le> 32) \<or> n = 133 \<or> n = 160)"

definition py_strip :: "string \<Rightarrow> string" where
  "py_strip s = rev (dropWhile py_isspace (rev (dropWhile py_isspace s)))"

definition py_lower_char :: "char \<Rightarrow> char" where
  "py_lower_char c = (let n = of_char c :: nat in
     if (65 \<le> n \<and> n \<le> 90) \<or> (192 \<le> n \<and> n \<le> 222 \<and> n \<noteq> 215) then char_of (n + 32) else c)"

definition py_lower :: "string \<Rightarrow> string" where
  "py_lower s = map py_lower_char s"

fun py_in_str :: "string \<Rightarrow> string \<Rightarrow> bool" where
  "py_in_str sub [] = (sub = [])"
| "py_in_str sub (x # xs) = (prefix sub (x # xs) \<or> py_in_str sub xs)"

text \<open>\<open>s.split()\<close>\<close>

definition py_words :: "string \<Rightarrow> string list" where
  "py_words s = filter (\<lambda>t. t \<noteq> []) (py_split (CHR '' '') (map (\<lambda>c. if py_isspace c then CHR '' '' else c) s))"

text \<open>\<open>s.replace(old, new)\<close>\<close>

function py_replace :: "string \<Rightarrow> string \<Rightarrow> string \<Rightarrow> string" where
  "py_replace old new [] = []"
| "py_replace old new (c # s) =
     (if old \<noteq> [] \<and> prefix old (c # s) then new @ py_replace old new (drop (length old) (c # s))
      else c # py_replace old new s)"
  by pat_completeness auto
termination by (relation "measure (\<lambda>(old, new, s). length s)") auto

lemma py_split_neq_Nil [simp]: "py_split c s \<noteq> []"
  by (induction s) (auto split: list.splits)

lemma py_split_no_sep: "c \<notin> set s \<Longrightarrow> py_split c s = [s]"
  by (induction s) auto

lemma py_split_append_sep: "py_split c (a @ c # b) = py_split c a @ py_split c b"
proof (induction a)
  case Nil
  then show ?case by simp
next
  case (Cons x a)
  then show ?case by (cases "py_split c a") auto
qed

lemma py_split_append_list: "py_split c (a @ [c] @ b) = py_split c a @ py_split c b"
  using py_split_append_sep [of c a b] by simp

lemma py_join_split: "py_join [c] (py_split c s) = s"
proof (induction s)
  case Nil
  then show ?case by simp
next
  case (Cons x s)
  show ?case
  proof (cases "py_split c s")
    case Nil
    then show ?thesis by simp
  next
    case (Cons p ps)
    with Cons.IH show ?thesis by (cases ps) auto
  qed
qed

lemma py_split_join:
  "ps \<noteq> [] \<Longrightarrow> (\<And>p. p \<in> set ps \<Longrightarrow> c \<notin> set p) \<Longrightarrow> py_split c (py_join [c] ps) = ps"
proof (induction "[c]" ps rule: py_join.induct)
  case 1
  then show ?case by simp
next
  case (2 p)
  then show ?case by (simp add: py_split_no_sep)
next
  case (3 p q ps)
  then show ?case by (simp add: py_split_append_sep py_split_no_sep)
qed

lemma py_in_str_iff: "py_in_str sub s \<longleftrightarrow> (\<exists>a b. s = a @ sub @ b)"
proof (induction s)
  case Nil
  then show ?case by auto
next
  case (Cons x s)
  have "(\<exists>a b. x # s = a @ sub @ b) \<longleftrightarrow> prefix sub (x # s) \<or> (\<exists>a b. s = a @ sub @ b)"
    unfolding prefix_def by (metis Cons_eq_append_conv append_Nil)
  with Cons.IH show ?case by simp
qed

text \<open>The last component of a path, the value most database keys carry.\<close>

definition py_last :: "'a list \<Rightarrow> exn + 'a" where
  "py_last xs = (if xs = [] then Inl IndexError else Inr (last xs))"

definition py_second_last :: "'a list \<Rightarrow> exn + 'a" where
  "py_second_last xs = (if length xs < 2 then Inl IndexError else Inr (xs ! (length xs - 2)))"

definition path_last :: "string \<Rightarrow> string" where
  "path_last k = last (py_split (CHR ''/'') k)"

lemma path_last_append: "CHR ''/'' \<notin> set v \<Longrightarrow> path_last (p @ ''/'' @ v) = v"
  by (simp add: path_last_def py_split_append_sep py_split_no_sep)

lemma path_second_last:
  "CHR ''/'' \<notin> set a \<Longrightarrow> CHR ''/'' \<notin> set v \<Longrightarrow>
   py_second_last (py_split (CHR ''/'') (p @ ''/'' @ a @ ''/'' @ v)) = Inr a"
  using py_split_neq_Nil [of "CHR ''/''" p]
  by (cases "py_split (CHR ''/'') p")
    (auto simp: py_second_last_def py_split_append_sep py_split_no_sep nth_append)

section \<open>Decimal numbers\<close>

definition digit_char :: "nat \<Rightarrow> char" where
  "digit_char d = char_of (48 + d)"

fun nat_str :: "nat \<Rightarrow> string" where
  "nat_str n = (if n < 10 then [digit_char n] else nat_str (n div 10) @ [digit_char (n mod 10)])"

declare nat_str.simps [simp del]

definition int_str :: "int \<Rightarrow> string" where
  "int_str i = (if i < 0 then ''-'' @ nat_str (nat (- i)) else nat_str (nat i))"

definition is_digit :: "char \<Rightarrow> bool" where
  "is_digit c = (let n = of_char c :: nat in 48 \<le> n \<and> n \<le> 57)"

definition digit_val :: "char \<Rightarrow> nat" where
  "digit_val c = of_char c - 48"

definition digits_val :: "string \<Rightarrow> nat" where
  "digits_val s = foldl (\<lambda>a c. 10 * a + digit_val c) 0 s"

text \<open>
  \<open>int(s)\<close> for a decimal literal: surrounding white space, one sign, digits that may be
  grouped by single underscores.
\<close>

fun digits_ok :: "string \<Rightarrow> bool" where
  "digits_ok [] = False"
| "digits_ok [c] = is_digit c"
| "digits_ok (c # d # s) = (is_digit c \<and> (if d = CHR ''_'' then digits_ok s else digits_ok (d # s)))"

definition parse_nat :: "string \<Rightarrow> exn + nat" where
  "parse_nat s = (if digits_ok s then Inr (digits_val (filter (\<lambda>c. c \<noteq> CHR ''_'') s)) else Inl ValueError)"

definition py_int_str :: "string \<Rightarrow> exn + int" where
  "py_int_str s0 =
     (let s = py_strip s0 in
      case s of
        [] \<Rightarrow> Inl ValueError
      | c # t \<Rightarrow>
          if c = CHR ''-'' then bindE (parse_nat t) (\<lambda>n. Inr (- int n))
          else if c = CHR ''+'' then bindE (parse_nat t) (\<lambda>n. Inr (int n))
          else bindE (parse_nat s) (\<lambda>n. Inr (int n)))"

lemma of_char_digit_char [simp]: "d < 10 \<Longrightarrow> (of_char (digit_char d) :: nat) = 48 + d"
  by (simp add: digit_char_def)

lemma is_digit_digit_char [simp]: "d < 10 \<Longrightarrow> is_digit (digit_char d)"
  by (simp add: is_digit_def)

lemma digit_val_digit_char [simp]: "d < 10 \<Longrightarrow> digit_val (digit_char d) = d"
  by (simp add: digit_val_def)

lemma is_digit_simps:
  "is_digit c \<Longrightarrow> c \<noteq> CHR ''_''" "is_digit c \<Longrightarrow> c \<noteq> CHR ''-''" "is_digit c \<Longrightarrow> c \<noteq> CHR ''+''"
  "is_digit c \<Longrightarrow> c \<noteq> CHR ''/''" "is_digit c \<Longrightarrow> c \<noteq> CHR '',''" "is_digit c \<Longrightarrow> \<not> py_isspace c"
  by (auto simp: is_digit_def py_isspace_def Let_def)

lemma nat_str_digits: "c \<in> set (nat_str n) \<Longrightarrow> is_digit c"
proof (induction n rule: nat_str.induct)
  case (1 n)
  then show ?case
    by (cases "n < 10") (auto simp: nat_str.simps [of n])
qed

lemma nat_str_neq_Nil [simp]: "nat_str n \<noteq> []"
  by (subst nat_str.simps) simp

lemma digits_val_snoc: "digits_val (s @ [c]) = 10 * digits_val s + digit_val c"
  by (simp add: digits_val_def)

lemma digits_val_nat_str [simp]: "digits_val (nat_str n) = n"
proof (induction n rule: nat_str.induct)
  case (1 n)
  show ?case
  proof (cases "n < 10")
    case True
    then show ?thesis by (simp add: nat_str.simps [of n] digits_val_def)
  next
    case False
    with "1.IH" show ?thesis by (simp add: nat_str.simps [of n] digits_val_snoc)
  qed
qed

lemma digits_ok_digits: "s \<noteq> [] \<Longrightarrow> (\<And>c. c \<in> set s \<Longrightarrow> is_digit c) \<Longrightarrow> digits_ok s"
proof (induction s rule: digits_ok.induct)
  case 1
  then show ?case by simp
next
  case (2 c)
  then show ?case by simp
next
  case (3 c d s)
  from "3.prems"(2) have "is_digit c" and d: "is_digit d" by simp_all
  moreover have "digits_ok (d # s)"
    using is_digit_simps(1) [OF d] "3.prems"(2) by (intro "3.IH"(2)) auto
  ultimately show ?case using is_digit_simps(1) [OF d] by simp
qed

lemma filter_digits: "(\<And>c. c \<in> set s \<Longrightarrow> is_digit c) \<Longrightarrow> filter (\<lambda>c. c \<noteq> CHR ''_'') s = s"
  using is_digit_simps(1) by (auto simp: filter_id_conv)

lemma strip_digits: "(\<And>c. c \<in> set s \<Longrightarrow> \<not> py_isspace c) \<Longrightarrow> py_strip s = s"
proof -
  assume a: "\<And>c. c \<in> set s \<Longrightarrow> \<not> py_isspace c"
  have d: "dropWhile py_isspace t = t" if "set t \<subseteq> set s" for t
    using that a by (cases t) auto
  show ?thesis by (simp add: py_strip_def d)
qed

lemma parse_nat_str [simp]: "parse_nat (nat_str n) = Inr n"
  by (simp add: parse_nat_def digits_ok_digits nat_str_digits filter_digits)

lemma py_int_nat_str: "py_int_str (nat_str n) = Inr (int n)"
proof -
  obtain c t where ct: "nat_str n = c # t" by (cases "nat_str n") auto
  then have "is_digit c" using nat_str_digits [of c n] by simp
  then have c: "c \<noteq> CHR ''-''" "c \<noteq> CHR ''+''" using is_digit_simps by blast+
  have "py_strip (nat_str n) = nat_str n"
    by (rule strip_digits) (auto dest!: nat_str_digits is_digit_simps(6))
  with c ct show ?thesis
    using parse_nat_str [of n] by (simp add: py_int_str_def)
qed

lemma nat_str_no_char:
  "CHR ''/'' \<notin> set (nat_str n)" "CHR ''-'' \<notin> set (nat_str n)" "CHR '','' \<notin> set (nat_str n)"
  using nat_str_digits is_digit_simps by blast+

lemma py_int_str_int_str: "py_int_str (int_str i) = Inr i"
proof (cases "i < 0")
  case True
  have "py_strip (''-'' @ nat_str (nat (- i))) = ''-'' @ nat_str (nat (- i))"
    by (rule strip_digits) (auto dest!: nat_str_digits is_digit_simps(6) simp: py_isspace_def)
  with True show ?thesis by (simp add: int_str_def py_int_str_def)
next
  case False
  then show ?thesis by (simp add: int_str_def py_int_nat_str)
qed

lemma int_str_percent: "CHR ''%'' \<notin> set (int_str i)"
proof -
  have "CHR ''%'' \<notin> set (nat_str n)" for n
    using nat_str_digits [of "CHR ''%''" n] by (auto simp: is_digit_def)
  then show ?thesis by (simp add: int_str_def)
qed

text \<open>A list printed with a comma and a blank is read back by splitting and stripping.\<close>

lemma py_strip_blank: "py_strip (CHR '' '' # s) = py_strip s"
  by (simp add: py_strip_def py_isspace_def)

lemma strip_split_join:
  assumes "xs \<noteq> []" and "\<And>x. x \<in> set xs \<Longrightarrow> CHR '','' \<notin> set x"
    and "\<And>x c. x \<in> set xs \<Longrightarrow> c \<in> set x \<Longrightarrow> \<not> py_isspace c"
  shows "map py_strip (py_split (CHR '','') (py_join '', '' xs)) = xs"
  using assms
proof (induction "'', ''" xs rule: py_join.induct)
  case 1
  then show ?case by simp
next
  case (2 p)
  then show ?case by (simp add: py_split_no_sep strip_digits)
next
  case (3 p q ps)
  have IH: "map py_strip (py_split (CHR '','') (py_join '', '' (q # ps))) = q # ps"
    using "3.prems" by (intro "3.hyps") auto
  obtain r rs where r: "py_split (CHR '','') (py_join '', '' (q # ps)) = r # rs"
    using py_split_neq_Nil by (cases "py_split (CHR '','') (py_join '', '' (q # ps))") blast+
  have "py_split (CHR '','') (py_join '', '' (p # q # ps)) = p # (CHR '' '' # r) # rs"
    using "3.prems"(2) [of p] r by (simp add: py_split_append_sep py_split_no_sep)
  moreover have "py_strip p = p"
    using "3.prems"(3) [of p] by (intro strip_digits) auto
  ultimately show ?case using IH r by (simp add: py_strip_blank)
qed

end
