(* ===== verification/Json.thy ===== *)
theory Json
  imports PyLib
begin

text \<open>
  Decoded JSON documents and the Python operations the code applies to them.  A document is
  what \<^verbatim>\<open>json.loads\<close>, \<^verbatim>\<open>Response.json()\<close> or \<^verbatim>\<open>request.get_json()\<close> returns; objects are
  dictionaries in insertion order.  Every operation is total and returns the exception that
  Python raises on a value of the wrong type, so that a malformed answer of a switch or a
  malformed request is a branch of the model.
\<close>

datatype json =
    JNull
  | JBool bool
  | JInt int
  | JFloat int string
  | JStr string
  | JList "json list"
  | JObj "(string \<times> json) list"

section \<open>Text of a document\<close>

definition hex_digit :: "nat \<Rightarrow> char" where
  "hex_digit d = (if d < 10 then char_of (48 + d) else char_of (87 + d))"

definition hex_byte :: "nat \<Rightarrow> string" where
  "hex_byte n = [hex_digit (n div 16), hex_digit (n mod 16)]"

text \<open>\<^verbatim>\<open>json.dumps\<close> with its default \<^verbatim>\<open>ensure_ascii\<close> and separators.\<close>

definition dumps_char :: "char \<Rightarrow> string" where
  "dumps_char c = (let n = of_char c :: nat in
     if n = 34 then [char_of (92 :: nat), c]
     else if n = 92 then [c, c]
     else if n = 10 then char_of (92 :: nat) # ''n''
     else if n = 13 then char_of (92 :: nat) # ''r''
     else if n = 9 then char_of (92 :: nat) # ''t''
     else if n = 12 then char_of (92 :: nat) # ''f''
     else if n = 8 then char_of (92 :: nat) # ''b''
     else if 32 \<le> n \<and> n \<le> 126 then [c]
     else char_of (92 :: nat) # ''u00'' @ hex_byte n)"

definition dumps_str :: "string \<Rightarrow> string" where
  "dumps_str s = [CHR 0x22] @ concat (map dumps_char s) @ [CHR 0x22]"

fun json_dumps :: "json \<Rightarrow> string" and dumps_items :: "json list \<Rightarrow> string list"
  and dumps_pairs :: "(string \<times> json) list \<Rightarrow> string list" where
  "json_dumps JNull = ''null''"
| "json_dumps (JBool b) = (if b then ''true'' else ''false'')"
| "json_dumps (JInt i) = int_str i"
| "json_dumps (JFloat i r) = r"
| "json_dumps (JStr s) = dumps_str s"
| "json_dumps (JList xs) = ''['' @ py_join '', '' (dumps_items xs) @ '']''"
| "json_dumps (JObj d) = ''{'' @ py_join '', '' (dumps_pairs d) @ ''}''"
| "dumps_items [] = []"
| "dumps_items (x # xs) = json_dumps x # dumps_items xs"
| "dumps_pairs [] = []"
| "dumps_pairs ((k, v) # d) = (dumps_str k @ '': '' @ json_dumps v) # dumps_pairs d"

text \<open>\<^verbatim>\<open>str()\<close>; inside a list or a dictionary strings are shown by \<^verbatim>\<open>repr()\<close>.\<close>

definition repr_char :: "char \<Rightarrow> char \<Rightarrow> string" where
  "repr_char q c = (let n = of_char c :: nat in
     if c = q \<or> n = 92 then [char_of (92 :: nat), c]
     else if n = 10 then char_of (92 :: nat) # ''n''
     else if n = 13 then char_of (92 :: nat) # ''r''
     else if n = 9 then char_of (92 :: nat) # ''t''
     else if n < 32 \<or> (127 \<le> n \<and> n \<le> 160) \<or> n = 173 then char_of (92 :: nat) # ''x'' @ hex_byte n
     else [c])"

definition repr_str :: "string \<Rightarrow> string" where
  "repr_str s =
     (let q = (if CHR 0x27 \<in> set s \<and> CHR 0x22 \<notin> set s then CHR 0x22 else CHR 0x27)
      in [q] @ concat (map (repr_char q) s) @ [q])"

fun json_repr :: "json \<Rightarrow> string" and repr_items :: "json list \<Rightarrow> string list"
  and repr_pairs :: "(string \<times> json) list \<Rightarrow> string list" where
  "json_repr JNull = ''None''"
| "json_repr (JBool b) = (if b then ''True'' else ''False'')"
| "json_repr (JInt i) = int_str i"
| "json_repr (JFloat i r) = r"
| "json_repr (JStr s) = repr_str s"
| "json_repr (JList xs) = ''['' @ py_join '', '' (repr_items xs) @ '']''"
| "json_repr (JObj d) = ''{'' @ py_join '', '' (repr_pairs d) @ ''}''"
| "repr_items [] = []"
| "repr_items (x # xs) = json_repr x # repr_items xs"
| "repr_pairs [] = []"
| "repr_pairs ((k, v) # d) = (repr_str k @ '': '' @ json_repr v) # repr_pairs d"

fun py_str :: "json \<Rightarrow> string" where
  "py_str (JStr s) = s"
| "py_str j = json_repr j"

section \<open>Dynamic operations\<close>

fun py_truth :: "json \<Rightarrow> bool" where
  "py_truth JNull = False"
| "py_truth (JBool b) = b"
| "py_truth (JInt i) = (i \<noteq> 0)"
| "py_truth (JFloat i r) = (r \<noteq> ''0.0'' \<and> r \<noteq> ''-0.0'')"
| "py_truth (JStr s) = (s \<noteq> [])"
| "py_truth (JList xs) = (xs \<noteq> [])"
| "py_truth (JObj d) = (d \<noteq> [])"

text \<open>\<open>x[key]\<close> for a string key, and \<open>x[0]\<close>.\<close>

fun py_key :: "json \<Rightarrow> string \<Rightarrow> exn + json" where
  "py_key (JObj d) k = dict_get d k"
| "py_key j k = Inl TypeError"

fun py_first :: "json \<Rightarrow> exn + json" where
  "py_first (JList xs) = (case xs of [] \<Rightarrow> Inl IndexError | x # _ \<Rightarrow> Inr x)"
| "py_first (JStr s) = (case s of [] \<Rightarrow> Inl IndexError | c # _ \<Rightarrow> Inr (JStr [c]))"
| "py_first (JObj d) = Inl (KeyError ''0'')"
| "py_first j = Inl TypeError"

text \<open>\<open>key in x\<close> for a string key.\<close>

fun py_in :: "string \<Rightarrow> json \<Rightarrow> exn + bool" where
  "py_in k (JObj d) = Inr (dict_has k d)"
| "py_in k (JList xs) = Inr (JStr k \<in> set xs)"
| "py_in k (JStr s) = Inr (py_in_str k s)"
| "py_in k j = Inl TypeError"

fun py_len :: "json \<Rightarrow> exn + int" where
  "py_len (JObj d) = Inr (int (length d))"
| "py_len (JList xs) = Inr (int (length xs))"
| "py_len (JStr s) = Inr (int (length s))"
| "py_len j = Inl TypeError"

text \<open>\<open>for y in x\<close>, \<open>x.items()\<close> and the string methods.\<close>

fun py_iter :: "json \<Rightarrow> exn + json list" where
  "py_iter (JList xs) = Inr xs"
| "py_iter (JObj d) = Inr (map (\<lambda>(k, v). JStr k) d)"
| "py_iter (JStr s) = Inr (map (\<lambda>c. JStr [c]) s)"
| "py_iter j = Inl TypeError"

fun py_items :: "json \<Rightarrow> exn + (string \<times> json) list" where
  "py_items (JObj d) = Inr d"
| "py_items j = Inl AttributeError"

fun py_split_json :: "char \<Rightarrow> json \<Rightarrow> exn + string list" where
  "py_split_json c (JStr s) = Inr (py_split c s)"
| "py_split_json c j = Inl AttributeError"

text \<open>\<open>'text' + x\<close> is defined for a string \<open>x\<close> only.\<close>

fun as_str :: "json \<Rightarrow> exn + string" where
  "as_str (JStr s) = Inr s"
| "as_str j = Inl TypeError"

text \<open>\<open>int(x)\<close> and \<open>x & y\<close>; a Boolean counts as the integer 0 or 1.\<close>

fun py_int :: "json \<Rightarrow> exn + int" where
  "py_int (JInt i) = Inr i"
| "py_int (JBool b) = Inr (if b then 1 else 0)"
| "py_int (JFloat i r) = Inr i"
| "py_int (JStr s) = py_int_str s"
| "py_int j = Inl TypeError"

fun as_index :: "json \<Rightarrow> exn + int" where
  "as_index (JInt i) = Inr i"
| "as_index (JBool b) = Inr (if b then 1 else 0)"
| "as_index j = Inl TypeError"

lemma py_int_py_str: "py_int (JStr (py_str (JInt i))) = Inr i"
  by (simp add: py_int_str_int_str)

section \<open>Formatting with the percent operator\<close>

text \<open>
  \<open>fmt % args\<close>.  The formats of the code are literals with the conversions \<open>%s\<close> and \<open>%d\<close>, or
  arbitrary text with an empty argument tuple; there, every \<open>%\<close> but the escape \<open>%%\<close> raises,
  for want of an argument (TypeError) or of a conversion character (ValueError).
\<close>

fun fmt_arg :: "char \<Rightarrow> json list \<Rightarrow> exn + string \<times> json list" where
  "fmt_arg c [] = Inl TypeError"
| "fmt_arg c (a # as) =
     (if c = CHR ''s'' then Inr (py_str a, as)
      else if c = CHR ''d'' then
        (case a of JInt i \<Rightarrow> Inr (int_str i, as) | JBool b \<Rightarrow> Inr (int_str (if b then 1 else 0), as)
         | JFloat i r \<Rightarrow> Inr (int_str i, as) | _ \<Rightarrow> Inl TypeError)
      else Inl ValueError)"

fun py_percent :: "string \<Rightarrow> json list \<Rightarrow> exn + string" where
  "py_percent [] as = (if as = [] then Inr [] else Inl TypeError)"
| "py_percent [c] as =
     (if c = CHR ''%'' then Inl ValueError else bindE (py_percent [] as) (\<lambda>t. Inr (c # t)))"
| "py_percent (c # d # s) as =
     (if c \<noteq> CHR ''%'' then bindE (py_percent (d # s) as) (\<lambda>t. Inr (c # t))
      else if d = CHR ''%'' then bindE (py_percent s as) (\<lambda>t. Inr (CHR ''%'' # t))
      else bindE (fmt_arg d as) (\<lambda>(a, as'). bindE (py_percent s as') (\<lambda>t. Inr (a @ t))))"

lemma py_percent_plain: "CHR ''%'' \<notin> set s \<Longrightarrow> py_percent s [] = Inr s"
proof (induction s "[] :: json list" rule: py_percent.induct)
  case 1
  then show ?case by simp
next
  case (2 c)
  then show ?case by simp
next
  case (3 c d s)
  from "3.prems" "3.hyps"(1) have "py_percent (d # s) [] = Inr (d # s)" by auto
  with "3.prems" show ?case by auto
qed

text \<open>A message that holds a lone percent sign cannot be logged as it is.\<close>

lemma py_percent_lone: "CHR ''%'' \<notin> set s \<Longrightarrow> d \<noteq> CHR ''%'' \<Longrightarrow>
  \<exists>e. py_percent (s @ CHR ''%'' # d # t) [] = Inl e"
proof (induction s)
  case Nil
  then show ?case by simp
next
  case (Cons c s)
  then obtain e where "py_percent (s @ CHR ''%'' # d # t) [] = Inl e" by auto
  moreover obtain y ys where "s @ CHR ''%'' # d # t = y # ys"
    by (cases "s @ CHR ''%'' # d # t") auto
  ultimately show ?case using Cons.prems by auto
qed


lemma hex_digit_neq: "d < 16 \<Longrightarrow> of_char c < (48 :: nat) \<Longrightarrow> hex_digit d \<noteq> c"
  by (auto simp: hex_digit_def of_char_of take_bit_eq_mod dest: arg_cong [where f = "of_char :: char \<Rightarrow> nat"])

lemma percent_dumps_char:
  assumes "c \<noteq> CHR ''%''"
  shows "CHR ''%'' \<notin> set (dumps_char c)"
proof -
  have "of_char c < (256 :: nat)" by simp
  then have "of_char c div 16 < (16 :: nat)" by (simp add: less_mult_imp_div_less)
  then have "hex_digit (of_char c div 16) \<noteq> CHR ''%''" "hex_digit (of_char c mod 16) \<noteq> CHR ''%''"
    by (simp_all add: hex_digit_neq)
  moreover have "char_of (92 :: nat) \<noteq> CHR ''%''" by (simp add: char_of_def)
  ultimately show ?thesis
    using assms unfolding dumps_char_def Let_def hex_byte_def by auto
qed

lemma percent_dumps_str:
  assumes "CHR ''%'' \<notin> set s"
  shows "CHR ''%'' \<notin> set (dumps_str s)"
proof -
  have "CHR ''%'' \<notin> set (dumps_char c)" if "c \<in> set s" for c
    using that assms by (intro percent_dumps_char) auto
  then show ?thesis by (simp add: dumps_str_def)
qed

end
