(* ===== verification/Ufmlog.thy ===== *)
theory Ufmlog
  imports Json
begin

unbundle bit_operations_syntax

text \<open>
  The in-memory log of the fabric manager, \<^verbatim>\<open>src/ufm/fabricmanager/common/ufmlog/ufmlog.py\<close>:
  one global \<^verbatim>\<open>Ufmlog\<close> with five masks and a ring of the newest \<^verbatim>\<open>max_entries\<close> entries, and a
  \<^verbatim>\<open>log\<close> object per module, which filters by mask and formats its message with the percent
  operator.

  A mask is kept as a JSON value: the REST action \<^verbatim>\<open>ufm_setmask_action\<close> stores what the
  request holds without converting it, and the \<open>&\<close> of the next log call is where a mask that
  is no integer raises.  \<^verbatim>\<open>time.time()\<close> is a sequence of readings of the world
  (\<open>lw_clock\<close>), \<^verbatim>\<open>traceback.format_exc()\<close> a function of the exception (\<open>lw_traceback\<close>);
  the text file of the \<^verbatim>\<open>logging\<close> module is not modelled.

  Lemmas: the ring invariant and that every operation keeps it, the refinement of the ring
  to the list of all entries ever added, and what \<^verbatim>\<open>get_entries\<close> returns.
\<close>

section \<open>State\<close>

datatype pytime = PyTime (time_secs: int) (time_repr: string)

record UfmLogEntry =
  timestamp :: pytime
  le_id :: int
  le_module :: string
  le_msg :: string
  le_type :: string

record Ufmlog =
  ul_count :: int
  log_info_mask :: json
  log_error_mask :: json
  log_warning_mask :: json
  log_debug_mask :: json
  log_detail_mask :: json
  max_entries :: nat
  entries :: "UfmLogEntry option list"
  entry_id :: int
  entry_index :: int
  base_id :: int

definition UFM_MAIN :: int where "UFM_MAIN = 0x00000001"
definition UFM_DB :: int where "UFM_DB = 0x00000010"
definition UFM_REDFISH_DB :: int where "UFM_REDFISH_DB = 0x00000020"
definition UFM_MQ :: int where "UFM_MQ = 0x00000040"
definition UFM_MONITOR :: int where "UFM_MONITOR = 0x00010000"
definition UFM_CONTROLLER :: int where "UFM_CONTROLLER = 0x00020000"
definition UFM_COLLECTOR :: int where "UFM_COLLECTOR = 0x00040000"
definition UFM_POLLER :: int where "UFM_POLLER = 0x00080000"
definition UFM_NKV :: int where "UFM_NKV = 0x00100000"
definition UFM_SWITCH :: int where "UFM_SWITCH = 0x00200000"
definition UFM_ALL :: int where "UFM_ALL = 0xFFFFFFFF"
definition UFM_NONE :: int where "UFM_NONE = 0"

definition UfmModuleRegistry :: "json" where
  "UfmModuleRegistry = JObj
    [(''UFM_MAIN'', JInt UFM_MAIN), (''UFM_DB'', JInt UFM_DB),
     (''UFM_REDFISH_DB'', JInt UFM_REDFISH_DB), (''UFM_MQ'', JInt UFM_MQ),
     (''UFM_MONITOR'', JInt UFM_MONITOR), (''UFM_CONTROLLER'', JInt UFM_CONTROLLER),
     (''UFM_COLLECTOR'', JInt UFM_COLLECTOR), (''UFM_POLLER'', JInt UFM_POLLER),
     (''UFM_NKV'', JInt UFM_NKV), (''UFM_SWITCH'', JInt UFM_SWITCH)]"

definition Ufmlog_init :: "nat \<Rightarrow> Ufmlog" where
  "Ufmlog_init n =
     \<lparr>ul_count = 0, log_info_mask = JInt UFM_ALL, log_error_mask = JInt UFM_ALL,
      log_warning_mask = JInt UFM_ALL, log_debug_mask = JInt UFM_NONE,
      log_detail_mask = JInt UFM_NONE, max_entries = n, entries = replicate n None,
      entry_id = 0, entry_index = 0, base_id = 0\<rparr>"

section \<open>The global log\<close>

definition Ufmlog_open :: "Ufmlog \<Rightarrow> Ufmlog" where
  "Ufmlog_open u = (if ul_count u = 0 then u\<lparr>ul_count := 1\<rparr> else u\<lparr>ul_count := ul_count u + 1\<rparr>)"

definition Ufmlog_close :: "Ufmlog \<Rightarrow> Ufmlog" where
  "Ufmlog_close u = (if ul_count u = 1 then u\<lparr>ul_count := 0\<rparr> else u\<lparr>ul_count := ul_count u - 1\<rparr>)"

definition clear_log :: "Ufmlog \<Rightarrow> Ufmlog" where
  "clear_log u = u\<lparr>base_id := entry_id u\<rparr>"

definition get_entry_id :: "Ufmlog \<Rightarrow> int" where
  "get_entry_id u = entry_id u"

text \<open>The copy loop of \<^verbatim>\<open>get_entries\<close>: entries \<open>i, \<dots>, i + n - 1\<close>, empty slots skipped.\<close>

definition entry_at :: "Ufmlog \<Rightarrow> int \<Rightarrow> UfmLogEntry option" where
  "entry_at u i = entries u ! nat (i mod int (max_entries u))"

fun copy_entries :: "Ufmlog \<Rightarrow> int \<Rightarrow> nat \<Rightarrow> UfmLogEntry list" where
  "copy_entries u i 0 = []"
| "copy_entries u i (Suc n) =
     (case entry_at u i of
        None \<Rightarrow> copy_entries u (i + 1) n
      | Some e \<Rightarrow> e # copy_entries u (i + 1) n)"

definition get_entries :: "int option \<Rightarrow> int option \<Rightarrow> Ufmlog \<Rightarrow> UfmLogEntry list" where
  "get_entries idn cnt u =
     (let mx = int (max_entries u) in
      case (idn, cnt) of
        (None, None) \<Rightarrow>
          (let i = base_id u; c = min mx (entry_id u - i) in copy_entries u i (nat c))
      | (None, Some c0) \<Rightarrow>
          (if c0 = 0 then []
           else let c = min (min c0 mx) (entry_id u - base_id u); i = entry_id u - c
                in copy_entries u i (nat c))
      | (Some i0, None) \<Rightarrow>
          (if i0 \<ge> entry_id u then []
           else let i = min (max i0 (base_id u)) (entry_id u - 1); c = min mx (entry_id u - i)
                in copy_entries u i (nat c))
      | (Some i0, Some c0) \<Rightarrow>
          (if i0 \<ge> entry_id u then []
           else if c0 = 0 then []
           else let i = min (max i0 (base_id u)) (entry_id u - 1);
                    c = min (min c0 mx) (entry_id u - i)
                in copy_entries u i (nat c)))"

text \<open>
  \<^verbatim>\<open>_add\<close>: the slot is written before the counter advances.  An index outside the list raises,
  a negative one counts from its end;
  the remainder by zero of an empty ring is never reached, because the write raises first.
\<close>

definition Ufmlog_add :: "pytime \<Rightarrow> string \<Rightarrow> string \<Rightarrow> string \<Rightarrow> (Ufmlog, UfmLogEntry) py" where
  "Ufmlog_add t m ty msg u =
     (let e = \<lparr>timestamp = t, le_id = entry_id u, le_module = m, le_msg = msg, le_type = ty\<rparr> in
      if entry_index u < - int (length (entries u)) \<or> int (length (entries u)) \<le> entry_index u
      then (Inl IndexError, u)
      else (Inr e,
        u\<lparr>entries := (entries u)[nat (entry_index u mod int (length (entries u))) := Some e],
          entry_id := entry_id u + 1,
          entry_index := (entry_id u + 1) mod int (max_entries u)\<rparr>))"

definition set_log_info :: "json \<Rightarrow> Ufmlog \<Rightarrow> Ufmlog" where "set_log_info m u = u\<lparr>log_info_mask := m\<rparr>"
definition set_log_debug :: "json \<Rightarrow> Ufmlog \<Rightarrow> Ufmlog" where "set_log_debug m u = u\<lparr>log_debug_mask := m\<rparr>"
definition set_log_warning :: "json \<Rightarrow> Ufmlog \<Rightarrow> Ufmlog" where "set_log_warning m u = u\<lparr>log_warning_mask := m\<rparr>"
definition set_log_error :: "json \<Rightarrow> Ufmlog \<Rightarrow> Ufmlog" where "set_log_error m u = u\<lparr>log_error_mask := m\<rparr>"
definition set_log_detail :: "json \<Rightarrow> Ufmlog \<Rightarrow> Ufmlog" where "set_log_detail m u = u\<lparr>log_detail_mask := m\<rparr>"

section \<open>The log object of a module\<close>

text \<open>
  The part of the world the log needs; the database and the switch components extend it.
\<close>

record lworld =
  lw_log :: Ufmlog
  lw_clock :: "nat \<Rightarrow> pytime"
  lw_tick :: nat
  lw_traceback :: "exn \<Rightarrow> string"

definition time_time :: "('r lworld_scheme, pytime) py" where
  "time_time w = (Inr (lw_clock w (lw_tick w)), w\<lparr>lw_tick := lw_tick w + 1\<rparr>)"

definition on_log :: "(Ufmlog, 'a) py \<Rightarrow> ('r lworld_scheme, 'a) py" where
  "on_log m w = (case m (lw_log w) of (r, u) \<Rightarrow> (r, w\<lparr>lw_log := u\<rparr>))"

record logger =
  lg_module :: string
  lg_mask :: int

text \<open>\<^verbatim>\<open>Ufmlog._add\<close> with the time stamp that \<^verbatim>\<open>UfmLogEntry.__init__\<close> reads.\<close>

definition ulog_add :: "string \<Rightarrow> string \<Rightarrow> string \<Rightarrow> ('r lworld_scheme, UfmLogEntry) py" where
  "ulog_add m ty msg = bindP time_time (\<lambda>t. on_log (Ufmlog_add t m ty msg))"

definition ulog_info :: "string \<Rightarrow> string \<Rightarrow> ('r lworld_scheme, unit) py" where
  "ulog_info m msg = thenP (ulog_add m ''INFO'' msg) (retP ())"

definition ulog_error :: "string \<Rightarrow> string \<Rightarrow> ('r lworld_scheme, unit) py" where
  "ulog_error m msg = thenP (ulog_add m ''ERROR'' msg) (retP ())"

definition ulog_warning :: "string \<Rightarrow> string \<Rightarrow> ('r lworld_scheme, unit) py" where
  "ulog_warning m msg = thenP (ulog_add m ''WARNING'' msg) (retP ())"

definition ulog_debug :: "string \<Rightarrow> string \<Rightarrow> ('r lworld_scheme, unit) py" where
  "ulog_debug m msg = thenP (ulog_add m ''DEBUG'' msg) (retP ())"

definition ulog_detail :: "string \<Rightarrow> string \<Rightarrow> ('r lworld_scheme, unit) py" where
  "ulog_detail m msg = thenP (ulog_add m ''DETAIL'' msg) (retP ())"

definition ulog_except :: "string \<Rightarrow> exn \<Rightarrow> ('r lworld_scheme, unit) py" where
  "ulog_except m e =
     bindP (readP lw_traceback) (\<lambda>fmt. thenP (ulog_add m ''EXCEPTION'' (fmt e)) (retP ()))"

text \<open>\<open>(self.mask & ufmlog.log_x_mask) != 0\<close>, then \<open>msg % args\<close>, then the entry.\<close>

definition mask_hit :: "int \<Rightarrow> json \<Rightarrow> exn + bool" where
  "mask_hit k m = bindE (as_index m) (\<lambda>i. Inr (k AND i \<noteq> 0))"

definition log_filtered ::
  "(Ufmlog \<Rightarrow> json) \<Rightarrow> (string \<Rightarrow> string \<Rightarrow> ('r lworld_scheme, unit) py) \<Rightarrow>
   logger \<Rightarrow> string \<Rightarrow> json list \<Rightarrow> ('r lworld_scheme, unit) py" where
  "log_filtered mk out l msg args =
     bindP (readP (\<lambda>w. mk (lw_log w))) (\<lambda>m.
     bindP (liftP (mask_hit (lg_mask l) m)) (\<lambda>hit.
     if hit then bindP (liftP (py_percent msg args)) (\<lambda>s. out (lg_module l) s) else retP ()))"

definition log_info :: "logger \<Rightarrow> string \<Rightarrow> json list \<Rightarrow> ('r lworld_scheme, unit) py" where
  "log_info = log_filtered log_info_mask ulog_info"

definition log_detail :: "logger \<Rightarrow> string \<Rightarrow> json list \<Rightarrow> ('r lworld_scheme, unit) py" where
  "log_detail = log_filtered log_detail_mask ulog_detail"

definition log_debug :: "logger \<Rightarrow> string \<Rightarrow> json list \<Rightarrow> ('r lworld_scheme, unit) py" where
  "log_debug = log_filtered log_debug_mask ulog_debug"

definition log_warning :: "logger \<Rightarrow> string \<Rightarrow> json list \<Rightarrow> ('r lworld_scheme, unit) py" where
  "log_warning = log_filtered log_warning_mask ulog_warning"

definition log_error :: "logger \<Rightarrow> string \<Rightarrow> json list \<Rightarrow> ('r lworld_scheme, unit) py" where
  "log_error = log_filtered log_error_mask ulog_error"

definition log_exception :: "logger \<Rightarrow> exn \<Rightarrow> ('r lworld_scheme, unit) py" where
  "log_exception l e = ulog_except (lg_module l) e"

text \<open>
  \<^verbatim>\<open>log_x_on\<close> and \<^verbatim>\<open>log_x_off\<close>: set and clear the bits of the module in one mask.
\<close>

definition mask_on :: "int \<Rightarrow> json \<Rightarrow> exn + json" where
  "mask_on k m = bindE (as_index m) (\<lambda>i. Inr (JInt (i OR k)))"

definition mask_off :: "int \<Rightarrow> json \<Rightarrow> exn + json" where
  "mask_off k m = bindE (as_index m) (\<lambda>i. Inr (JInt (i AND NOT k)))"

definition upd_mask ::
  "(Ufmlog \<Rightarrow> json) \<Rightarrow> (json \<Rightarrow> Ufmlog \<Rightarrow> Ufmlog) \<Rightarrow> (json \<Rightarrow> exn + json) \<Rightarrow>
   ('r lworld_scheme, unit) py" where
  "upd_mask mk st f =
     bindP (readP (\<lambda>w. mk (lw_log w))) (\<lambda>m.
     bindP (liftP (f m)) (\<lambda>m'. modifyP (\<lambda>w. w\<lparr>lw_log := st m' (lw_log w)\<rparr>)))"

definition log_info_on :: "logger \<Rightarrow> ('r lworld_scheme, unit) py" where
  "log_info_on l = upd_mask log_info_mask set_log_info (mask_on (lg_mask l))"

definition log_info_off :: "logger \<Rightarrow> ('r lworld_scheme, unit) py" where
  "log_info_off l = upd_mask log_info_mask set_log_info (mask_off (lg_mask l))"

definition log_debug_on :: "logger \<Rightarrow> ('r lworld_scheme, unit) py" where
  "log_debug_on l = upd_mask log_debug_mask set_log_debug (mask_on (lg_mask l))"

definition log_debug_off :: "logger \<Rightarrow> ('r lworld_scheme, unit) py" where
  "log_debug_off l = upd_mask log_debug_mask set_log_debug (mask_off (lg_mask l))"

definition log_warning_on :: "logger \<Rightarrow> ('r lworld_scheme, unit) py" where
  "log_warning_on l = upd_mask log_warning_mask set_log_warning (mask_on (lg_mask l))"

definition log_warning_off :: "logger \<Rightarrow> ('r lworld_scheme, unit) py" where
  "log_warning_off l = upd_mask log_warning_mask set_log_warning (mask_off (lg_mask l))"

definition log_error_on :: "logger \<Rightarrow> ('r lworld_scheme, unit) py" where
  "log_error_on l = upd_mask log_error_mask set_log_error (mask_on (lg_mask l))"

definition log_error_off :: "logger \<Rightarrow> ('r lworld_scheme, unit) py" where
  "log_error_off l = upd_mask log_error_mask set_log_error (mask_off (lg_mask l))"

definition log_detail_on :: "logger \<Rightarrow> ('r lworld_scheme, unit) py" where
  "log_detail_on l = upd_mask log_detail_mask set_log_detail (mask_on (lg_mask l))"

definition log_detail_off :: "logger \<Rightarrow> ('r lworld_scheme, unit) py" where
  "log_detail_off l = upd_mask log_detail_mask set_log_detail (mask_off (lg_mask l))"

text \<open>
  \<^verbatim>\<open>log.__init__\<close> and \<^verbatim>\<open>log.__del__\<close>; the module names of the code are upper-case literals.
  When the first message raises, the half-built object is dropped and \<^verbatim>\<open>__del__\<close> runs.
\<close>

definition log_del :: "('r lworld_scheme, unit) py" where
  "log_del = modifyP (\<lambda>w. w\<lparr>lw_log := Ufmlog_close (lw_log w)\<rparr>)"

definition log_new :: "string \<Rightarrow> int \<Rightarrow> ('r lworld_scheme, logger) py" where
  "log_new m k =
     (let l = \<lparr>lg_module = m, lg_mask = k\<rparr> in
      thenP (modifyP (\<lambda>w. w\<lparr>lw_log := Ufmlog_open (lw_log w)\<rparr>))
      (tryP (thenP (log_detail l ''Logging Started.'' []) (retP l))
        (\<lambda>e. thenP log_del (raiseP e))))"

section \<open>The ring refines the list of all entries\<close>

text \<open>
  The specification of the log is the list \<open>h\<close> of all entries ever added.  Slot \<open>s\<close> of a ring of
  size \<open>mx\<close> holds the newest entry whose number is \<open>s\<close> modulo \<open>mx\<close>.
\<close>

definition slot_of :: "'a list \<Rightarrow> nat \<Rightarrow> nat \<Rightarrow> 'a option" where
  "slot_of h mx s =
     (if s < length h then Some (h ! (s + mx * ((length h - 1 - s) div mx))) else None)"

definition ring :: "UfmLogEntry list \<Rightarrow> Ufmlog \<Rightarrow> bool" where
  "ring h u \<longleftrightarrow>
     0 < max_entries u \<and> entry_id u = int (length h) \<and>
     entry_index u = int (length h mod max_entries u) \<and>
     0 \<le> base_id u \<and> base_id u \<le> entry_id u \<and>
     map le_id h = map int [0..<length h] \<and>
     entries u = map (slot_of h (max_entries u)) [0..<max_entries u]"

lemma slot_of_snoc_hit:
  assumes "0 < mx"
  shows "slot_of (h @ [e]) mx (length h mod mx) = Some e"
proof -
  have "length h - length h mod mx = mx * (length h div mx)"
    by (simp add: minus_mod_eq_mult_div)
  then have "length h mod mx + mx * ((length h - length h mod mx) div mx) = length h"
    using assms by simp
  moreover have "length h mod mx < Suc (length h)"
    by (simp add: less_Suc_eq_le mod_less_eq_dividend)
  ultimately show ?thesis by (simp add: slot_of_def)
qed

lemma div_same_step:
  fixes n mx :: nat
  assumes "0 < mx" "s < n" "s < mx" "s \<noteq> n mod mx"
  shows "(n - s) div mx = (n - 1 - s) div mx"
proof -
  have "(n - s) mod mx \<noteq> 0"
  proof
    assume "(n - s) mod mx = 0"
    then obtain q where "n - s = mx * q" by auto
    then have "n = s + mx * q" using assms(2) by simp
    then have "n mod mx = s" using assms(3) by simp
    with assms(4) show False by simp
  qed
  then show ?thesis using assms(2) div_Suc [of "n - 1 - s" mx] by (auto split: if_splits simp: Suc_diff_Suc)
qed

lemma slot_of_snoc_miss:
  assumes "0 < mx" "s < mx" "s \<noteq> length h mod mx"
  shows "slot_of (h @ [e]) mx s = slot_of h mx s"
proof (cases "s < length h")
  case True
  have "s + mx * ((length h - 1 - s) div mx) \<le> s + (length h - 1 - s)"
    by (simp add: times_div_less_eq_dividend)
  then have "s + mx * ((length h - 1 - s) div mx) < length h" using True by linarith
  with True show ?thesis
    using div_same_step [OF assms(1) True assms(2,3)] by (simp add: slot_of_def nth_append)
next
  case False
  with assms(2,3) have "s \<noteq> length h" by auto
  with False show ?thesis by (simp add: slot_of_def)
qed

lemma slot_of_window:
  assumes "0 < mx" "i < length h" "length h \<le> i + mx"
  shows "slot_of h mx (i mod mx) = Some (h ! i)"
proof -
  have "length h - 1 - i mod mx = mx * (i div mx) + (length h - 1 - i)"
    using assms(2) mult_div_mod_eq [of mx i] by linarith
  moreover have "(length h - 1 - i) div mx = 0" using assms by auto
  ultimately have "(length h - 1 - i mod mx) div mx = i div mx"
    using assms(1) by (simp add: div_mult_self4)
  moreover have "i mod mx < length h"
    using assms(2) mod_less_eq_dividend [of i mx] by linarith
  ultimately show ?thesis by (simp add: slot_of_def)
qed

lemma ring_init: "0 < n \<Longrightarrow> ring [] (Ufmlog_init n)"
  by (auto simp: ring_def Ufmlog_init_def slot_of_def intro: nth_equalityI)

lemma ring_add:
  assumes "ring h u"
  shows "\<exists>u'. Ufmlog_add t m ty msg u =
      (Inr \<lparr>timestamp = t, le_id = int (length h), le_module = m, le_msg = msg, le_type = ty\<rparr>, u') \<and>
    ring (h @ [\<lparr>timestamp = t, le_id = int (length h), le_module = m, le_msg = msg, le_type = ty\<rparr>]) u' \<and>
    base_id u' = base_id u \<and> max_entries u' = max_entries u"
proof -
  define e where "e = \<lparr>timestamp = t, le_id = int (length h), le_module = m, le_msg = msg, le_type = ty\<rparr>"
  define mx where "mx = max_entries u"
  define u' where "u' = u\<lparr>entries := (entries u)[length h mod mx := Some e],
     entry_id := entry_id u + 1, entry_index := (entry_id u + 1) mod int mx\<rparr>"
  from assms have mx: "0 < mx" and id: "entry_id u = int (length h)"
    and ix: "entry_index u = int (length h mod mx)" and le: "map le_id h = map int [0..<length h]"
    and es: "entries u = map (slot_of h mx) [0..<mx]"
    by (simp_all add: ring_def mx_def)
  have "Ufmlog_add t m ty msg u = (Inr e, u')"
    using mx by (simp add: Ufmlog_add_def Let_def ix es id e_def u'_def not_le mx_def [symmetric])
  moreover have "(entries u)[length h mod mx := Some e] = map (slot_of (h @ [e]) mx) [0..<mx]"
    by (rule nth_equalityI)
      (auto simp: es nth_list_update slot_of_snoc_hit slot_of_snoc_miss mx)
  moreover have "map le_id (h @ [e]) = map int [0..<length (h @ [e])]"
    by (simp add: le e_def)
  ultimately show ?thesis
    using assms unfolding e_def [symmetric]
    by (auto simp: ring_def u'_def id mx_def zmod_int add.commute)
qed

lemma entry_at_window:
  assumes "ring h u" "i < length h" "length h \<le> i + max_entries u"
  shows "entry_at u (int i) = Some (h ! i)"
proof -
  from assms(1) have mx: "0 < max_entries u" by (simp add: ring_def)
  have "nat (int i mod int (max_entries u)) = i mod max_entries u"
    by (simp flip: zmod_int)
  with assms mx show ?thesis
    by (simp add: entry_at_def ring_def slot_of_window)
qed

lemma copy_entries_window:
  assumes "ring h u" "i + c \<le> length h" "length h \<le> i + max_entries u"
  shows "copy_entries u (int i) c = take c (drop i h)"
  using assms(2,3)
proof (induction c arbitrary: i)
  case 0
  then show ?case by simp
next
  case (Suc c)
  then have "entry_at u (int i) = Some (h ! i)"
    by (intro entry_at_window [OF assms(1)]) auto
  moreover have "copy_entries u (int i + 1) c = take c (drop (Suc i) h)"
    using Suc.IH [of "Suc i"] Suc.prems by (simp add: add.commute)
  moreover have "drop i h = h ! i # drop (Suc i) h"
    using Suc.prems by (simp add: Cons_nth_drop_Suc)
  ultimately show ?case by simp
qed

lemma entry_at_shift: "entry_at u (i + int (max_entries u)) = entry_at u i"
  by (simp add: entry_at_def)

lemma copy_entries_shift: "copy_entries u (i + int (max_entries u)) c = copy_entries u i c"
proof (induction c arbitrary: i)
  case 0
  then show ?case by simp
next
  case (Suc c)
  have "i + int (max_entries u) + 1 = (i + 1) + int (max_entries u)" by simp
  with Suc show ?case by (simp only: copy_entries.simps entry_at_shift)
qed

lemma copy_entries_add: "copy_entries u i (a + b) = copy_entries u i a @ copy_entries u (i + int a) b"
  by (induction a arbitrary: i) (auto split: option.splits simp: add.assoc)

lemma nat_int_minus: "nat (int a - int b) = a - b"
  by linarith

text \<open>Clearing moves the base; the history and the ring stay.\<close>

lemma ring_clear: "ring h u \<Longrightarrow> ring h (clear_log u)"
  by (auto simp: ring_def clear_log_def)

lemma get_entries_last:
  assumes "ring h u" "0 \<le> c"
  shows "get_entries None (Some c) u =
    drop (length h - min (min (nat c) (max_entries u)) (length h - nat (base_id u))) h"
proof -
  define k where "k = min (min (nat c) (max_entries u)) (length h - nat (base_id u))"
  have id: "entry_id u = int (length h)" and b: "0 \<le> base_id u" "base_id u \<le> int (length h)"
    using assms(1) by (auto simp: ring_def)
  have c: "min (min c (int (max_entries u))) (entry_id u - base_id u) = int k"
    using assms(2) b by (simp add: k_def id)
  have k: "k \<le> length h" "k \<le> max_entries u" by (auto simp: k_def)
  have "copy_entries u (int (length h) - int k) k = take k (drop (length h - k) h)"
    using copy_entries_window [OF assms(1), of "length h - k" k] k by (simp add: of_nat_diff)
  then show ?thesis
    using k by (auto simp: get_entries_def Let_def c [unfolded id] id k_def [symmetric])
      (simp add: k_def)
qed

text \<open>
  Reading from a number: the window \<open>[length h - max_entries, length h)\<close> is what the ring still
  holds, so the start must lie in it, and above the base.
\<close>

lemma get_entries_from:
  assumes "ring h u" and "0 \<le> c" and "i < entry_id u" and "base_id u < entry_id u"
    and "length h \<le> nat (max i (base_id u)) + max_entries u"
  shows get_entries_from_count: "get_entries (Some i) (Some c) u = take (nat c) (drop (nat (max i (base_id u))) h)"
    and get_entries_from_all: "get_entries (Some i) None u = drop (nat (max i (base_id u))) h"
proof -
  define j where "j = nat (max i (base_id u))"
  have id: "entry_id u = int (length h)" and b: "0 \<le> base_id u"
    using assms(1) by (auto simp: ring_def)
  have ij: "min (max i (base_id u)) (int (length h) - 1) = int j"
    and j: "j < length h" "length h \<le> j + max_entries u"
    using b assms(3,4,5) by (auto simp: j_def id)
  define k where "k = min (min (nat c) (max_entries u)) (length h - j)"
  have kc: "min (min c (int (max_entries u))) (int (length h) - int j) = int k"
    using assms(2) j by (simp add: k_def)
  have "copy_entries u (int j) k = take k (drop j h)"
    using j by (intro copy_entries_window [OF assms(1)]) (auto simp: k_def)
  also have "\<dots> = take (nat c) (drop j h)"
    using j by (auto simp: k_def min_def)
  finally show "get_entries (Some i) (Some c) u = take (nat c) (drop (nat (max i (base_id u))) h)"
    using assms(3) by (auto simp: get_entries_def Let_def id ij kc j_def [symmetric])
  have "nat (min (int (max_entries u)) (int (length h) - int j)) = length h - j"
    using j by linarith
  moreover have "copy_entries u (int j) (length h - j) = drop j h"
    using j by (subst copy_entries_window [OF assms(1)]) auto
  ultimately show "get_entries (Some i) None u = drop (nat (max i (base_id u))) h"
    using assms(3) by (simp add: get_entries_def Let_def id ij nat_int_minus j_def [symmetric])
qed

text \<open>
  After \<^verbatim>\<open>clear_log\<close> a read from a number still yields the newest cleared entry: the start is
  capped at \<open>entry_id - 1\<close>, which lies below the base.
\<close>

lemma get_entries_cleared:
  assumes "ring h u" and "h \<noteq> []" and "i < entry_id u"
  shows "get_entries (Some i) None (clear_log u) = [last h]"
proof -
  define v where "v = clear_log u"
  have r: "ring h v" using assms(1) by (simp add: v_def ring_clear)
  have id: "entry_id v = int (length h)" "base_id v = int (length h)" "i < int (length h)"
    and mx: "0 < max_entries v"
    using assms by (auto simp: v_def clear_log_def ring_def)
  have "copy_entries v (int (length h - 1)) 1 = take 1 (drop (length h - 1) h)"
    using assms(2) mx by (intro copy_entries_window [OF r]) (auto simp: Suc_le_eq)
  also have "\<dots> = [last h]"
    using assms(2) by (cases h rule: rev_cases) auto
  finally have "copy_entries v (int (length h) - 1) 1 = [last h]"
    using assms(2) by (simp add: of_nat_diff Suc_le_eq)
  moreover have "nat (min (int (max_entries v)) 1) = 1" using mx by simp
  moreover have "max i (int (length h)) = int (length h)" using id(3) by simp
  ultimately show ?thesis
    using id by (simp add: get_entries_def Let_def v_def [symmetric])
qed

text \<open>
  Asking for everything starts at the base even when the ring has overwritten it: the first
  \<open>k\<close> slots read then hold the newest entries, and the result is rotated.
\<close>

lemma get_entries_all:
  assumes "ring h u" and "entry_id u - base_id u \<le> int (max_entries u)"
  shows "get_entries None None u = drop (nat (base_id u)) h"
proof -
  define b where "b = nat (base_id u)"
  have id: "entry_id u = int (length h)" and b: "base_id u = int b" "b \<le> length h"
    using assms(1) by (auto simp: ring_def b_def)
  have "nat (min (int (max_entries u)) (int (length h) - int b)) = length h - b"
    using assms(2) id b by linarith
  moreover have "copy_entries u (int b) (length h - b) = drop b h"
    using assms(2) id b by (subst copy_entries_window [OF assms(1)]) auto
  ultimately show ?thesis by (simp add: get_entries_def Let_def id b(1) nat_int_minus)
qed

lemma get_entries_all_rotated:
  assumes "ring h u" and "entry_id u - base_id u = int (max_entries u) + int k" and "k \<le> max_entries u"
  shows "get_entries None None u =
    drop (length h - k) h @ take (max_entries u - k) (drop (length h - max_entries u) h)"
proof -
  define mx where "mx = max_entries u"
  define b where "b = nat (base_id u)"
  have id: "entry_id u = int (length h)" and b: "base_id u = int b"
    and len: "length h = b + mx + k" and k: "k \<le> mx"
    using assms by (auto simp: ring_def b_def mx_def)
  have "copy_entries u (int b) k = copy_entries u (int (b + mx)) k"
    using copy_entries_shift [of u "int b" k] by (simp add: mx_def)
  also have "\<dots> = take k (drop (b + mx) h)"
    using len k by (intro copy_entries_window [OF assms(1)]) (auto simp: mx_def)
  finally have 1: "copy_entries u (int b) k = drop (length h - k) h"
    using len by simp
  have "copy_entries u (int (b + k)) (mx - k) = take (mx - k) (drop (b + k) h)"
    using len k by (intro copy_entries_window [OF assms(1)]) (auto simp: mx_def)
  then have 2: "copy_entries u (int b + int k) (mx - k) = take (mx - k) (drop (length h - mx) h)"
    using len by (simp add: add.commute)
  have "copy_entries u (int b) mx = copy_entries u (int b) (k + (mx - k))"
    using k by simp
  also have "\<dots> = drop (length h - k) h @ take (mx - k) (drop (length h - mx) h)"
    by (simp only: copy_entries_add 1 2)
  finally have "copy_entries u (int b) mx =
      drop (length h - k) h @ take (mx - k) (drop (length h - mx) h)" .
  moreover have "nat (min (int mx) (int (length h) - int b)) = mx" using len by simp
  ultimately show ?thesis
    by (simp add: get_entries_def Let_def id b mx_def [symmetric])
qed

section \<open>What a log call changes\<close>

text \<open>A log call touches the log and the clock, and leaves the masks alone.\<close>

definition same_masks :: "Ufmlog \<Rightarrow> Ufmlog \<Rightarrow> bool" where
  "same_masks u v \<longleftrightarrow>
     log_info_mask v = log_info_mask u \<and> log_error_mask v = log_error_mask u \<and>
     log_warning_mask v = log_warning_mask u \<and> log_debug_mask v = log_debug_mask u \<and>
     log_detail_mask v = log_detail_mask u"

definition log_step :: "'r lworld_scheme \<Rightarrow> 'r lworld_scheme \<Rightarrow> bool" where
  "log_step w w' \<longleftrightarrow>
     same_masks (lw_log w) (lw_log w') \<and> lw_clock w' = lw_clock w \<and>
     lw_traceback w' = lw_traceback w \<and> lworld.more w' = lworld.more w"

lemma log_step_refl: "log_step w w"
  by (simp add: log_step_def same_masks_def)

lemma log_step_trans: "log_step u v \<Longrightarrow> log_step v w \<Longrightarrow> log_step u w"
  by (auto simp: log_step_def same_masks_def)

interpretation lstep: py_rel log_step
  by unfold_locales (auto simp: log_step_refl intro: log_step_trans)

lemma wp_time_now: "wp time_time Q X w = Q (lw_clock w (lw_tick w)) (w\<lparr>lw_tick := lw_tick w + 1\<rparr>)"
  by (simp add: wp_def time_time_def)

lemma keeps_time: "keeps log_step time_time"
  by (simp add: keeps_def time_time_def log_step_def same_masks_def)

lemma keeps_ulog_add: "keeps log_step (ulog_add m ty msg)"
proof -
  have "keeps log_step (on_log (Ufmlog_add t m ty msg) :: ('a lworld_scheme, UfmLogEntry) py)" for t
    by (auto simp: keeps_def on_log_def Ufmlog_add_def log_step_def same_masks_def Let_def)
  then show ?thesis
    unfolding ulog_add_def by (intro lstep.keeps_rules keeps_time)
qed

lemma keeps_ulog:
  "keeps log_step (ulog_info m s)" "keeps log_step (ulog_error m s)"
  "keeps log_step (ulog_warning m s)" "keeps log_step (ulog_debug m s)"
  "keeps log_step (ulog_detail m s)" "keeps log_step (ulog_except m e)"
  unfolding ulog_info_def ulog_error_def ulog_warning_def ulog_debug_def ulog_detail_def ulog_except_def
  by (intro lstep.keeps_rules keeps_ulog_add)+

lemma keeps_log_filtered: "(\<And>m s. keeps log_step (out m s)) \<Longrightarrow> keeps log_step (log_filtered mk out l msg as)"
  unfolding log_filtered_def by (intro lstep.keeps_rules)

lemma keeps_log:
  "keeps log_step (log_info l s as)" "keeps log_step (log_detail l s as)"
  "keeps log_step (log_debug l s as)" "keeps log_step (log_warning l s as)"
  "keeps log_step (log_error l s as)" "keeps log_step (log_exception l e)"
  unfolding log_info_def log_detail_def log_debug_def log_warning_def log_error_def log_exception_def
  by (intro keeps_log_filtered keeps_ulog)+

text \<open>A log object whose detail messages are off says nothing.\<close>

definition quiet :: "logger \<Rightarrow> 'r lworld_scheme \<Rightarrow> bool" where
  "quiet l w \<longleftrightarrow> mask_hit (lg_mask l) (log_detail_mask (lw_log w)) = Inr False"

lemma log_detail_quiet: "quiet l w \<Longrightarrow> log_detail l s as w = (Inr (), w)"
  by (simp add: quiet_def log_detail_def log_filtered_def bindP_def readP_def liftP_def retP_def)

lemma wp_log_detail_quiet: "quiet l w \<Longrightarrow> wp (log_detail l s as) Q X w = Q () w"
  by (simp add: wp_def log_detail_quiet)

lemma quiet_log_step: "log_step w w' \<Longrightarrow> quiet l w' = quiet l w"
  by (simp add: quiet_def log_step_def same_masks_def)

text \<open>A mask that is no integer makes every call of that level raise.\<close>

lemma log_detail_bad_mask:
  "as_index (log_detail_mask (lw_log w)) = Inl e \<Longrightarrow> log_detail l s as w = (Inl e, w)"
  by (simp add: log_detail_def log_filtered_def mask_hit_def bindP_def readP_def liftP_def)

lemma mask_off_miss:
  assumes "mask_off k m = Inr m'"
  shows "mask_hit k m' = Inr False"
proof -
  from assms obtain i where "m' = JInt (i AND NOT k)"
    by (auto simp: mask_off_def bindE_Inr_iff)
  moreover have "k AND (i AND NOT k) = 0"
    by (simp add: bit_eq_iff bit_simps)
  ultimately show ?thesis by (simp add: mask_hit_def)
qed

lemma mask_on_hit:
  assumes "mask_on k m = Inr m'" and "k \<noteq> 0"
  shows "mask_hit k m' = Inr True"
proof -
  from assms(1) obtain i where "m' = JInt (i OR k)"
    by (auto simp: mask_on_def bindE_Inr_iff)
  moreover have "k AND (i OR k) = k"
    by (auto simp: bit_eq_iff bit_simps)
  ultimately show ?thesis using assms(2) by (simp add: mask_hit_def)
qed

lemma mask_other:
  assumes "k AND k' = 0"
  shows "mask_on k m = Inr m' \<Longrightarrow> mask_hit k' m' = mask_hit k' m"
    and "mask_off k m = Inr m' \<Longrightarrow> mask_hit k' m' = mask_hit k' m"
proof -
  have b: "\<not> (bit k n \<and> bit k' n)" for n
    using assms by (metis bit_0_eq bit_and_iff bot_apply bot_bool_def)
  have "k' AND (i OR k) = k' AND i" and "k' AND (i AND NOT k) = k' AND i" for i
    using b by (auto simp: bit_eq_iff bit_simps)
  then show "mask_on k m = Inr m' \<Longrightarrow> mask_hit k' m' = mask_hit k' m"
    and "mask_off k m = Inr m' \<Longrightarrow> mask_hit k' m' = mask_hit k' m"
    by (auto simp: mask_on_def mask_off_def mask_hit_def bindE_Inr_iff)
qed

text \<open>
  \<open>log_ok\<close>: the info mask is an integer and the ring index is in range, so an info message
  without a percent sign is always recorded.
\<close>

definition log_ok :: "Ufmlog \<Rightarrow> bool" where
  "log_ok u \<longleftrightarrow> (\<exists>i. as_index (log_info_mask u) = Inr i) \<and>
     0 \<le> entry_index u \<and> entry_index u < int (length (entries u)) \<and> length (entries u) = max_entries u"

lemma Ufmlog_add_ok:
  "log_ok u \<Longrightarrow> \<exists>e u'. Ufmlog_add t m ty msg u = (Inr e, u') \<and> log_ok u'"
  by (auto simp: log_ok_def Ufmlog_add_def Let_def)

lemma ring_log_ok: "ring h u \<Longrightarrow> as_index (log_info_mask u) = Inr i \<Longrightarrow> log_ok u"
  by (simp add: ring_def log_ok_def)

lemma wp_ulog_info:
  assumes "log_ok (lw_log w)" and "\<And>w'. log_step w w' \<Longrightarrow> log_ok (lw_log w') \<Longrightarrow> Q () w'"
  shows "wp (ulog_info m s) Q X w"
proof -
  obtain e u' where add: "Ufmlog_add (lw_clock w (lw_tick w)) m ''INFO'' s (lw_log w) = (Inr e, u')" "log_ok u'"
    using Ufmlog_add_ok [OF assms(1)] by blast
  have "same_masks (lw_log w) u'"
    using add(1) by (auto simp: Ufmlog_add_def Let_def same_masks_def split: if_splits)
  then have "Q () (w\<lparr>lw_tick := lw_tick w + 1, lw_log := u'\<rparr>)"
    using add(2) by (intro assms(2)) (simp_all add: log_step_def)
  then show ?thesis
    using add(1) by (simp add: ulog_info_def ulog_add_def wp_def thenP_def bindP_def retP_def
        time_time_def on_log_def)
qed

lemma wp_log_info:
  assumes "log_ok (lw_log w)" and "CHR ''%'' \<notin> set s"
    and "\<And>w'. log_step w w' \<Longrightarrow> log_ok (lw_log w') \<Longrightarrow> Q () w'"
  shows "wp (log_info l s []) Q X w"
proof -
  obtain i where "as_index (log_info_mask (lw_log w)) = Inr i"
    using assms(1) by (auto simp: log_ok_def)
  moreover have "Q () w" by (intro assms(3) log_step_refl assms(1))
  moreover have "wp (ulog_info (lg_module l) s) Q X w" by (rule wp_ulog_info [OF assms(1)]) (rule assms(3))
  ultimately show ?thesis
    by (simp add: log_info_def log_filtered_def wp_simps mask_hit_def py_percent_plain [OF assms(2)])
qed

lemma log_ok_core:
  "log_ok u \<Longrightarrow> log_info_mask u' = log_info_mask u \<Longrightarrow> entries u' = entries u \<Longrightarrow>
   entry_index u' = entry_index u \<Longrightarrow> max_entries u' = max_entries u \<Longrightarrow> log_ok u'"
  by (simp add: log_ok_def)

section \<open>Runs of the log\<close>

text \<open>
  Sequences of the two operations that change the entries.  \<open>history\<close> is the list of all entries
  they add and \<open>cleared\<close> how many of them the last \<^verbatim>\<open>clear_log\<close> hides.
\<close>

datatype log_op = OpAdd pytime string string string | OpClear

fun log_do :: "log_op \<Rightarrow> Ufmlog \<Rightarrow> Ufmlog" where
  "log_do (OpAdd t m ty msg) u = snd (Ufmlog_add t m ty msg u)"
| "log_do OpClear u = clear_log u"

fun log_run :: "log_op list \<Rightarrow> Ufmlog \<Rightarrow> Ufmlog" where
  "log_run [] u = u"
| "log_run (op # ops) u = log_run ops (log_do op u)"

fun history_from :: "UfmLogEntry list \<Rightarrow> log_op list \<Rightarrow> UfmLogEntry list" where
  "history_from h [] = h"
| "history_from h (OpAdd t m ty msg # ops) =
     history_from (h @ [\<lparr>timestamp = t, le_id = int (length h), le_module = m, le_msg = msg, le_type = ty\<rparr>]) ops"
| "history_from h (OpClear # ops) = history_from h ops"

fun cleared_from :: "nat \<Rightarrow> nat \<Rightarrow> log_op list \<Rightarrow> nat" where
  "cleared_from b n [] = b"
| "cleared_from b n (OpAdd t m ty msg # ops) = cleared_from b (n + 1) ops"
| "cleared_from b n (OpClear # ops) = cleared_from n n ops"

definition history :: "log_op list \<Rightarrow> UfmLogEntry list" where "history ops = history_from [] ops"
definition cleared :: "log_op list \<Rightarrow> nat" where "cleared ops = cleared_from 0 0 ops"

lemma log_run_ring:
  assumes "ring h u" and "base_id u = int b"
  shows "ring (history_from h ops) (log_run ops u) \<and> base_id (log_run ops u) = int (cleared_from b (length h) ops) \<and>
    max_entries (log_run ops u) = max_entries u"
  using assms
proof (induction ops arbitrary: h u b)
  case Nil
  then show ?case by simp
next
  case (Cons op ops)
  show ?case
  proof (cases op)
    case (OpAdd t m ty msg)
    let ?e = "\<lparr>timestamp = t, le_id = int (length h), le_module = m, le_msg = msg, le_type = ty\<rparr>"
    obtain u' where u': "Ufmlog_add t m ty msg u = (Inr ?e, u')" "ring (h @ [?e]) u'" "base_id u' = base_id u"
      "max_entries u' = max_entries u"
      using ring_add [OF Cons.prems(1)] by blast
    with Cons.IH [of "h @ [?e]" u' b] Cons.prems(2) OpAdd show ?thesis by simp
  next
    case OpClear
    have "base_id (clear_log u) = int (length h)" "max_entries (clear_log u) = max_entries u"
      using Cons.prems(1) by (simp_all add: clear_log_def ring_def)
    with Cons.IH [OF ring_clear [OF Cons.prems(1)], of "length h"] OpClear show ?thesis by simp
  qed
qed

lemma log_run_init:
  assumes "0 < n"
  shows "ring (history ops) (log_run ops (Ufmlog_init n))"
    and "base_id (log_run ops (Ufmlog_init n)) = int (cleared ops)"
    and "max_entries (log_run ops (Ufmlog_init n)) = n"
  using log_run_ring [OF ring_init [OF assms], of 0 ops]
  by (simp_all add: history_def cleared_def Ufmlog_init_def)

end
