(* ===== verification/Ufmdb.thy ===== *)
theory Ufmdb
  imports Ufmlog
begin

text \<open>
  The database layer: \<^verbatim>\<open>common/ufmdb/ufmdb_etcd3/ufmdb_etcd_client.py\<close> (the etcd3 client with
  its option check), \<^verbatim>\<open>common/ufmdb/ufmdb.py\<close> (\<^verbatim>\<open>Ufmdb\<close>: logs, and turns every exception into
  \<open>None\<close>) and \<^verbatim>\<open>common/ufmdb/redfish/ufmdb_util.py\<close>.

  etcd and the Python package \<^verbatim>\<open>etcd3\<close> are not part of the repository.  They are the parameter
  \<open>E\<close> of the definitions, a record of operations on an unknown server state \<open>'db\<close>, each of
  which may raise.  What the code relies on is stated by two locales over an abstraction
  \<open>kv\<close> of the server state to a map from keys to values:
  \<^item> \<open>etcd_frame\<close>: an operation touches no other key than those it names, whether it succeeds
    or fails, and reads change nothing;
  \<^item> \<open>etcd_store\<close>: while the server is \<open>up\<close>, operations succeed and do what etcd documents.
  The locales are interpreted by \<open>mem_etcd\<close>, an executable store over association lists.
\<close>

section \<open>The etcd3 interface\<close>

datatype kwval = KLease "int option" | KText "string option" | KFlag bool

type_synonym kwargs = "kwval dict"

text \<open>
  \<^verbatim>\<open>get_prefix\<close> returns an iterator: the pairs it yields, and the exception that ends the
  iteration, if one does.
\<close>

type_synonym kv_iter = "(string \<times> string) list \<times> exn option"

record 'db etcd3 =
  e_connect :: "('db, unit) py"
  e_close :: "('db, unit) py"
  e_put :: "string \<Rightarrow> string \<Rightarrow> kwargs \<Rightarrow> ('db, unit) py"
  e_get :: "string \<Rightarrow> ('db, string option) py"
  e_get_prefix :: "string \<Rightarrow> kwargs \<Rightarrow> ('db, kv_iter) py"
  e_get_all :: "kwargs \<Rightarrow> ('db, kv_iter) py"
  e_delete :: "string \<Rightarrow> kwargs \<Rightarrow> ('db, unit) py"
  e_delete_prefix :: "string \<Rightarrow> ('db, unit) py"
  e_lease :: "int \<Rightarrow> int option \<Rightarrow> ('db, int) py"
  e_revoke_lease :: "int \<Rightarrow> ('db, unit) py"

section \<open>Ufmdb_etcd3_Client\<close>

definition is_valid_params :: "string list \<Rightarrow> kwargs \<Rightarrow> bool" where
  "is_valid_params valid kw = list_all (\<lambda>k. k \<in> set valid) (dict_keys kw)"

text \<open>\<open>None\<close> is Python's \<open>None\<close>: an option was refused.\<close>

definition etcd_put :: "'db etcd3 \<Rightarrow> string \<Rightarrow> string \<Rightarrow> kwargs \<Rightarrow> ('db, unit option) py" where
  "etcd_put E k v kw =
     (if is_valid_params [''lease'', ''prev_kv''] kw
      then bindP (e_put E k v kw) (\<lambda>r. retP (Some r)) else retP None)"

definition etcd_get :: "'db etcd3 \<Rightarrow> string \<Rightarrow> ('db, string option option) py" where
  "etcd_get E k = bindP (e_get E k) (\<lambda>r. retP (Some r))"

definition etcd_get_prefix :: "'db etcd3 \<Rightarrow> string \<Rightarrow> kwargs \<Rightarrow> ('db, kv_iter option) py" where
  "etcd_get_prefix E p kw =
     (if is_valid_params [''sort_order'', ''sort_target''] kw
      then bindP (e_get_prefix E p kw) (\<lambda>r. retP (Some r)) else retP None)"

definition etcd_get_all :: "'db etcd3 \<Rightarrow> kwargs \<Rightarrow> ('db, kv_iter option) py" where
  "etcd_get_all E kw =
     (if is_valid_params [''sort_order'', ''sort_target''] kw
      then bindP (e_get_all E kw) (\<lambda>r. retP (Some r)) else retP None)"

definition etcd_delete :: "'db etcd3 \<Rightarrow> string \<Rightarrow> kwargs \<Rightarrow> ('db, unit option) py" where
  "etcd_delete E k kw =
     (if is_valid_params [''prev_kv'', ''return_response''] kw
      then bindP (e_delete E k kw) (\<lambda>r. retP (Some r)) else retP None)"

definition etcd_delete_prefix :: "'db etcd3 \<Rightarrow> string \<Rightarrow> ('db, unit option) py" where
  "etcd_delete_prefix E p = bindP (e_delete_prefix E p) (\<lambda>r. retP (Some r))"

definition etcd_lease :: "'db etcd3 \<Rightarrow> int \<Rightarrow> int option \<Rightarrow> ('db, int option) py" where
  "etcd_lease E ttl i = bindP (e_lease E ttl i) (\<lambda>r. retP (Some r))"

definition etcd_revoke_lease :: "'db etcd3 \<Rightarrow> int \<Rightarrow> ('db, unit option) py" where
  "etcd_revoke_lease E i = bindP (e_revoke_lease E i) (\<lambda>r. retP (Some r))"

definition is_valid_init_args :: "kwargs \<Rightarrow> bool" where
  "is_valid_init_args kw =
     is_valid_params [''host'', ''port'', ''ca_cert'', ''cert_key'', ''cert_cert'', ''timeout'',
       ''user'', ''password'', ''options''] kw"

section \<open>Ufmdb\<close>

record 'db dworld = lworld +
  w_db :: 'db

definition on_db :: "('db, 'a) py \<Rightarrow> (('db, 'r) dworld_scheme, 'a) py" where
  "on_db m w = (case m (w_db w) of (r, d) \<Rightarrow> (r, w\<lparr>w_db := d\<rparr>))"

text \<open>The decorator \<^verbatim>\<open>log_error\<close> of \<^verbatim>\<open>Ufmdb\<close>: an exception is logged and the call returns \<open>None\<close>.\<close>

definition log_error_guard ::
  "logger \<Rightarrow> ('r lworld_scheme, 'a option) py \<Rightarrow> ('r lworld_scheme, 'a option) py" where
  "log_error_guard l m = tryP m (\<lambda>e. thenP (log_exception l e) (retP None))"

text \<open>
  \<^verbatim>\<open>ufmdb.client(...)\<close>: \<^verbatim>\<open>Ufmdb.__new__\<close> checks the options, \<^verbatim>\<open>__init__\<close> makes the log object,
  switches its detail messages off and connects.  When a step raises, the log object is
  dropped again; the exception of \<^verbatim>\<open>Ufmdb.__del__\<close> is ignored by Python.
\<close>

definition Ufmdb_new :: "'db etcd3 \<Rightarrow> string \<Rightarrow> kwargs \<Rightarrow> (('db, 'r) dworld_scheme, logger) py" where
  "Ufmdb_new E db_type kw =
     (if db_type \<noteq> ''etcd'' then raiseP (GenericException ''Invalid database type provided'')
      else if \<not> is_valid_init_args kw then raiseP (GenericException ''Invalid inputs provided'')
      else bindP (log_new ''DB'' UFM_DB) (\<lambda>l.
        tryP (thenP (log_detail_off l) (thenP (on_db (e_connect E)) (retP l)))
          (\<lambda>e. thenP log_del (raiseP e))))"

definition Ufmdb_close :: "'db etcd3 \<Rightarrow> (('db, 'r) dworld_scheme, unit) py" where
  "Ufmdb_close E = on_db (e_close E)"

text \<open>\<^verbatim>\<open>Ufmdb.__del__\<close> and that of its log object, run when the last reference goes.\<close>

definition Ufmdb_del :: "'db etcd3 \<Rightarrow> (('db, 'r) dworld_scheme, unit) py" where
  "Ufmdb_del E = thenP (tryP (Ufmdb_close E) (\<lambda>_. retP ())) log_del"

definition Ufmdb_put ::
  "'db etcd3 \<Rightarrow> logger \<Rightarrow> string \<Rightarrow> string \<Rightarrow> kwargs \<Rightarrow> (('db, 'r) dworld_scheme, unit option) py" where
  "Ufmdb_put E l k v kw =
     log_error_guard l
       (thenP (log_detail l ''PUT: key=%s value=%s'' [JStr k, JStr v]) (on_db (etcd_put E k v kw)))"

definition Ufmdb_get ::
  "'db etcd3 \<Rightarrow> logger \<Rightarrow> string \<Rightarrow> (('db, 'r) dworld_scheme, string option option) py" where
  "Ufmdb_get E l k =
     log_error_guard l (thenP (log_detail l (''GET: key='' @ k) []) (on_db (etcd_get E k)))"

definition Ufmdb_get_prefix ::
  "'db etcd3 \<Rightarrow> logger \<Rightarrow> string \<Rightarrow> kwargs \<Rightarrow> (('db, 'r) dworld_scheme, kv_iter option) py" where
  "Ufmdb_get_prefix E l p kw =
     log_error_guard l
       (thenP (log_detail l (''GET_PREFIX: key_prefix='' @ p) []) (on_db (etcd_get_prefix E p kw)))"

definition Ufmdb_get_all ::
  "'db etcd3 \<Rightarrow> logger \<Rightarrow> kwargs \<Rightarrow> (('db, 'r) dworld_scheme, kv_iter option) py" where
  "Ufmdb_get_all E l kw =
     log_error_guard l (thenP (log_detail l ''GET_ALL:'' []) (on_db (etcd_get_all E kw)))"

definition Ufmdb_delete ::
  "'db etcd3 \<Rightarrow> logger \<Rightarrow> string \<Rightarrow> kwargs \<Rightarrow> (('db, 'r) dworld_scheme, unit option) py" where
  "Ufmdb_delete E l k kw =
     log_error_guard l
       (thenP (log_detail l (''DELETE: key='' @ k) []) (on_db (etcd_delete E k kw)))"

definition Ufmdb_delete_prefix ::
  "'db etcd3 \<Rightarrow> logger \<Rightarrow> string \<Rightarrow> (('db, 'r) dworld_scheme, unit option) py" where
  "Ufmdb_delete_prefix E l p =
     log_error_guard l
       (thenP (log_detail l (''DELETE_PREFIX: prefix='' @ p) []) (on_db (etcd_delete_prefix E p)))"

text \<open>A lease number, or \<open>None\<close>, as the argument of \<open>%d\<close>.\<close>

definition opt_int_json :: "int option \<Rightarrow> json" where
  "opt_int_json x = (case x of None \<Rightarrow> JNull | Some i \<Rightarrow> JInt i)"

definition Ufmdb_lease ::
  "'db etcd3 \<Rightarrow> logger \<Rightarrow> int \<Rightarrow> int option \<Rightarrow> (('db, 'r) dworld_scheme, int option) py" where
  "Ufmdb_lease E l ttl i =
     log_error_guard l
       (thenP (log_detail l ''LEASE: ttl=%d lease_id=%d'' [JInt ttl, opt_int_json i])
         (on_db (etcd_lease E ttl i)))"

definition Ufmdb_revoke_lease ::
  "'db etcd3 \<Rightarrow> logger \<Rightarrow> int \<Rightarrow> (('db, 'r) dworld_scheme, unit option) py" where
  "Ufmdb_revoke_lease E l i =
     log_error_guard l
       (thenP (log_detail l ''REVOKE_LEASE: lease_id=%d'' [JInt i]) (on_db (etcd_revoke_lease E i)))"

subsection \<open>Flat keys to a document\<close>

text \<open>
  One step of \<^verbatim>\<open>__convert_flat_key_list_to_json\<close>: walk down with \<^verbatim>\<open>setdefault\<close>, store at the
  last component.  A value where a dictionary is needed raises.
\<close>

fun json_put :: "string list \<Rightarrow> json \<Rightarrow> json \<Rightarrow> exn + json" where
  "json_put [] v j = Inl IndexError"
| "json_put [k] v (JObj d) = Inr (JObj (dict_set k v d))"
| "json_put [k] v j = Inl TypeError"
| "json_put (k # k2 # ks) v (JObj d) =
     bindE (json_put (k2 # ks) v (case map_of d k of None \<Rightarrow> JObj [] | Some j \<Rightarrow> j))
       (\<lambda>j'. Inr (JObj (dict_set k j' d)))"
| "json_put (k # k2 # ks) v j = Inl AttributeError"

fun convert_flat :: "(string \<times> string) list \<Rightarrow> json \<Rightarrow> exn + json" where
  "convert_flat [] j = Inr j"
| "convert_flat ((k, v) # kvs) j =
     bindE (json_put (tl (py_split (CHR ''/'') k)) (JStr v) j) (convert_flat kvs)"

definition convert_flat_key_list_to_json :: "string dict \<Rightarrow> exn + json" where
  "convert_flat_key_list_to_json d = convert_flat d (JObj [])"

text \<open>The answer for a prefix without keys: empty dictionaries down the path.\<close>

fun empty_path :: "string list \<Rightarrow> json" where
  "empty_path [] = JObj []"
| "empty_path (k # ks) = JObj [(k, empty_path ks)]"

definition iter_dict :: "kv_iter \<Rightarrow> string dict \<Rightarrow> exn + string dict" where
  "iter_dict it d =
     (case snd it of None \<Rightarrow> Inr (foldl (\<lambda>a (k, v). dict_set k v a) d (fst it)) | Some e \<Rightarrow> Inl e)"

text \<open>
  \<^verbatim>\<open>get_with_prefix\<close>.  Its own handler names \<^verbatim>\<open>self.logger\<close>, which no \<^verbatim>\<open>Ufmdb\<close> has: the
  AttributeError goes to the decorator, which returns \<open>None\<close>.  An iterator that is \<open>None\<close> raises
  TypeError in the \<^verbatim>\<open>for\<close> and ends the same way.
\<close>

definition Ufmdb_get_with_prefix ::
  "'db etcd3 \<Rightarrow> logger \<Rightarrow> string \<Rightarrow> bool \<Rightarrow> string option \<Rightarrow> string option \<Rightarrow>
   (('db, 'r) dworld_scheme, json option) py" where
  "Ufmdb_get_with_prefix E l key raw so st =
     log_error_guard l
       (bindP
         (tryP
           (bindP (on_db (etcd_get_prefix E key [(''sort_order'', KText so), (''sort_target'', KText st)]))
             (\<lambda>r. case r of None \<Rightarrow> raiseP TypeError | Some it \<Rightarrow> liftP (iter_dict it [])))
           (\<lambda>_. raiseP AttributeError))
         (\<lambda>flat.
           if raw then retP (Some (JObj (map (\<lambda>(k, v). (k, JStr v)) flat)))
           else if flat = [] then retP (Some (empty_path (tl (py_split (CHR ''/'') key))))
           else bindP (liftP (convert_flat_key_list_to_json flat)) (\<lambda>j. retP (Some j))))"

text \<open>
  \<^verbatim>\<open>put_multiple\<close> iterates with \<^verbatim>\<open>dict.iteritems\<close>, which Python 3 does not have; its handler
  swallows the AttributeError, so no transaction is ever built.
\<close>

definition Ufmdb_put_multiple ::
  "logger \<Rightarrow> string dict \<Rightarrow> string list \<Rightarrow> int option \<Rightarrow> ('r lworld_scheme, bool option) py" where
  "Ufmdb_put_multiple l kvs with_lease lease =
     log_error_guard l (tryP (raiseP AttributeError) (\<lambda>_. retP (Some False)))"

section \<open>ufmdb_util\<close>

text \<open>A local object that is dropped when the function is left.\<close>

definition with_client ::
  "'db etcd3 \<Rightarrow> (logger \<Rightarrow> (('db, 'r) dworld_scheme, 'a) py) \<Rightarrow> (('db, 'r) dworld_scheme, 'a) py" where
  "with_client E body =
     bindP (Ufmdb_new E ''etcd'' []) (\<lambda>l w. case body l w of (r, w') \<Rightarrow> (r, snd (Ufmdb_del E w')))"

definition query_prefix :: "'db etcd3 \<Rightarrow> string \<Rightarrow> (('db, 'r) dworld_scheme, string dict) py" where
  "query_prefix E q =
     with_client E (\<lambda>l.
       bindP (Ufmdb_get_prefix E l q []) (\<lambda>r1.
       bindP (case r1 of None \<Rightarrow> Ufmdb_get_prefix E l q [] | Some it \<Rightarrow> retP (Some it)) (\<lambda>r2.
       case r2 of None \<Rightarrow> retP [] | Some it \<Rightarrow> liftP (iter_dict it []))))"

text \<open>The checks of \<^verbatim>\<open>ufmdb_util\<close> return before they query.\<close>

definition has_fabrics :: bool where "has_fabrics = True"
definition is_valid_fabric :: "string \<Rightarrow> bool" where "is_valid_fabric f = True"
definition is_valid_switch :: "string \<Rightarrow> bool" where "is_valid_switch s = True"

definition get_mq_port :: "'db etcd3 \<Rightarrow> string \<Rightarrow> (('db, 'r) dworld_scheme, string option) py" where
  "get_mq_port E sw_uuid =
     bindP (query_prefix E (''/switches/'' @ sw_uuid @ ''/switch_attributes/mq_port/''))
       (\<lambda>d. retP (foldl (\<lambda>_ k. Some (path_last k)) None (dict_keys d)))"

definition range_of_str :: "string \<Rightarrow> exn + int list" where
  "range_of_str r =
     bindE (mapE py_int_str (py_split (CHR ''-'') r)) (\<lambda>l. Inr [hd l..last l])"

definition convert_ranges_to_list :: "string \<Rightarrow> exn + int list" where
  "convert_ranges_to_list s =
     bindE (mapE range_of_str (py_split (CHR '','') s)) (\<lambda>rs. Inr (concat rs))"

section \<open>What the code relies on of etcd\<close>

locale etcd_frame =
  fixes E :: "'db etcd3" and kv :: "'db \<Rightarrow> string \<rightharpoonup> string"
  assumes connect_kv: "kv (snd (e_connect E d)) = kv d"
    and close_kv: "kv (snd (e_close E d)) = kv d"
    and get_kv: "kv (snd (e_get E k d)) = kv d"
    and get_prefix_kv: "kv (snd (e_get_prefix E p kw d)) = kv d"
    and lease_kv: "kv (snd (e_lease E ttl i d)) = kv d"
    and put_other: "k' \<noteq> k \<Longrightarrow> kv (snd (e_put E k v kw d)) k' = kv d k'"
    and put_same: "kv (snd (e_put E k v kw d)) k \<in> {kv d k, Some v}"
    and delete_other: "k' \<noteq> k \<Longrightarrow> kv (snd (e_delete E k kw d)) k' = kv d k'"
    and delete_same: "kv (snd (e_delete E k kw d)) k \<in> {kv d k, None}"
    and delete_prefix_other: "\<not> prefix p k \<Longrightarrow> kv (snd (e_delete_prefix E p d)) k = kv d k"
    and delete_prefix_same: "kv (snd (e_delete_prefix E p d)) k \<in> {kv d k, None}"

locale etcd_store = etcd_frame E kv
  for E :: "'db etcd3" and kv :: "'db \<Rightarrow> string \<rightharpoonup> string" +
  fixes up :: "'db \<Rightarrow> bool"
  assumes up_connect: "up d \<Longrightarrow> \<exists>d'. e_connect E d = (Inr (), d') \<and> up d'"
    and up_close: "up d \<Longrightarrow> up (snd (e_close E d))"
    and up_put: "up d \<Longrightarrow> \<exists>d'. e_put E k v kw d = (Inr (), d') \<and> up d' \<and> kv d' k = Some v"
    and up_get: "up d \<Longrightarrow> \<exists>d'. e_get E k d = (Inr (kv d k), d') \<and> up d'"
    and up_get_prefix: "up d \<Longrightarrow> \<exists>items d'. e_get_prefix E p kw d = (Inr (items, None), d') \<and> up d' \<and>
      distinct (map fst items) \<and> map_of items = kv d |` {k. prefix p k}"
    and up_delete: "up d \<Longrightarrow> \<exists>d'. e_delete E k kw d = (Inr (), d') \<and> up d' \<and> kv d' k = None"
    and up_delete_prefix: "up d \<Longrightarrow> \<exists>d'. e_delete_prefix E p d = (Inr (), d') \<and> up d' \<and>
      (\<forall>k. prefix p k \<longrightarrow> kv d' k = None)"
    and up_lease: "up d \<Longrightarrow> \<exists>i' d'. e_lease E ttl i d = (Inr i', d') \<and> up d'"

subsection \<open>Frames\<close>

text \<open>Nothing outside the keys that satisfy \<open>P\<close> changes; nothing changes at all.\<close>

definition same_keys ::
  "('db \<Rightarrow> string \<rightharpoonup> string) \<Rightarrow> (string \<Rightarrow> bool) \<Rightarrow>
   ('db, 'r) dworld_scheme \<Rightarrow> ('db, 'r) dworld_scheme \<Rightarrow> bool" where
  "same_keys kv P w w' \<longleftrightarrow> (\<forall>k. \<not> P k \<longrightarrow> kv (w_db w') k = kv (w_db w) k)"

lemma same_keys_trans: "same_keys kv P u v \<Longrightarrow> same_keys kv P v w \<Longrightarrow> same_keys kv P u w"
  by (simp add: same_keys_def)

interpretation fr: py_rel "same_keys kv P" for kv P
  by unfold_locales (auto simp: same_keys_def)

lemma log_step_more: "log_step w w' \<Longrightarrow> lworld.more w' = lworld.more w"
  by (simp add: log_step_def)

lemma log_step_db:
  fixes w w' :: "('db, 'r) dworld_scheme"
  assumes "log_step w w'"
  shows "w_db w' = w_db w"
  using log_step_more [OF assms] by (cases w; cases w') auto

lemma keeps_log_same_keys:
  fixes m :: "(('db, 'r) dworld_scheme, 'a) py"
  shows "keeps log_step m \<Longrightarrow> keeps (same_keys kv P) m"
  by (erule keeps_mono) (simp add: same_keys_def log_step_db)

lemmas keeps_log_calls = keeps_log [THEN keeps_log_same_keys]

lemma keeps_mask:
  fixes kv :: "'db \<Rightarrow> string \<rightharpoonup> string"
  shows "keeps (same_keys kv P) (upd_mask mk st f :: (('db, 'r) dworld_scheme, unit) py)"
  unfolding upd_mask_def by (intro fr.keeps_rules fr.keeps_modify) (simp add: same_keys_def)

lemma keeps_log_new: "keeps (same_keys kv P) (log_new m k)"
  unfolding log_new_def Let_def log_del_def
  by (intro fr.keeps_rules fr.keeps_modify keeps_log_calls) (simp_all add: same_keys_def)

lemma keeps_log_del: "keeps (same_keys kv P) log_del"
  unfolding log_del_def by (intro fr.keeps_modify) (simp add: same_keys_def)

lemma keeps_on_db:
  "(\<And>d k. \<not> P k \<Longrightarrow> kv (snd (m d)) k = kv d k) \<Longrightarrow> keeps (same_keys kv P) (on_db m)"
  by (auto simp: keeps_def on_db_def same_keys_def split: prod.splits) (metis snd_conv)

lemma keeps_guard:
  fixes m :: "(('db, 'r) dworld_scheme, 'a option) py"
  shows "keeps (same_keys kv P) m \<Longrightarrow> keeps (same_keys kv P) (log_error_guard l m)"
  unfolding log_error_guard_def by (intro fr.keeps_rules keeps_log_calls)

lemma snd_bind_ret: "snd (bindP m (\<lambda>r. retP (f r)) d) = snd (m d)"
  by (auto simp: bindP_def retP_def split: prod.splits sum.splits)

lemma snd_ret: "snd (retP x d) = d"
  by (simp add: retP_def)

lemma keeps_with_client:
  assumes "\<And>l. keeps (same_keys kv P) (body l)"
    and "\<And>d. kv (snd (e_connect E d)) = kv d" and "\<And>d. kv (snd (e_close E d)) = kv d"
  shows "keeps (same_keys kv P) (with_client E body)"
proof -
  have del: "keeps (same_keys kv P) (Ufmdb_del E :: (('a, 'b) dworld_scheme, unit) py)"
    unfolding Ufmdb_del_def Ufmdb_close_def
    by (intro fr.keeps_rules keeps_on_db keeps_log_del) (simp add: assms)
  have "keeps (same_keys kv P) (\<lambda>w. case body l w of (r, w') \<Rightarrow> (r, snd (Ufmdb_del E w')))" for l
    using assms(1) [of l] del
    by (auto simp: keeps_def split: prod.splits) (metis same_keys_trans snd_conv)
  then show ?thesis
    unfolding with_client_def Ufmdb_new_def log_detail_off_def
    by (intro fr.keeps_rules keeps_log_new keeps_mask keeps_on_db keeps_log_del) (simp_all add: assms)
qed

context etcd_frame
begin

lemma keeps_put: "P k \<Longrightarrow> keeps (same_keys kv P) (Ufmdb_put E l k v kw)"
  unfolding Ufmdb_put_def
  by (intro keeps_guard fr.keeps_rules keeps_log_calls keeps_on_db)
    (auto simp: etcd_put_def snd_bind_ret snd_ret intro: put_other)

lemma keeps_delete: "P k \<Longrightarrow> keeps (same_keys kv P) (Ufmdb_delete E l k kw)"
  unfolding Ufmdb_delete_def
  by (intro keeps_guard fr.keeps_rules keeps_log_calls keeps_on_db)
    (auto simp: etcd_delete_def snd_bind_ret snd_ret intro: delete_other)

lemma keeps_delete_prefix:
  "(\<And>k. prefix p k \<Longrightarrow> P k) \<Longrightarrow> keeps (same_keys kv P) (Ufmdb_delete_prefix E l p)"
  unfolding Ufmdb_delete_prefix_def
  by (intro keeps_guard fr.keeps_rules keeps_log_calls keeps_on_db)
    (auto simp: etcd_delete_prefix_def snd_bind_ret intro: delete_prefix_other)

lemma keeps_reads:
  "keeps (same_keys kv P) (Ufmdb_get E l k)"
  "keeps (same_keys kv P) (Ufmdb_get_prefix E l p kw)"
  "keeps (same_keys kv P) (Ufmdb_lease E l ttl i)"
  unfolding Ufmdb_get_def Ufmdb_get_prefix_def Ufmdb_lease_def
  by (intro keeps_guard fr.keeps_rules keeps_log_calls keeps_on_db;
      simp add: etcd_get_def etcd_get_prefix_def etcd_lease_def snd_bind_ret snd_ret
        get_kv get_prefix_kv lease_kv)+

lemma keeps_query: "keeps (same_keys kv P) (query_prefix E q)"
  unfolding query_prefix_def
  by (intro keeps_with_client fr.keeps_rules keeps_reads) (simp_all add: connect_kv close_kv)

lemmas keeps_db = keeps_put keeps_delete keeps_delete_prefix keeps_reads keeps_query

end

subsection \<open>Operations on a store that is up\<close>

text \<open>
  \<open>db_is\<close>: the server is up, holds the map \<open>m\<close>, and the detail messages of the database log
  are off, as \<^verbatim>\<open>Ufmdb.__init__\<close> leaves them.  \<open>db_step\<close>: what a database call may change.
\<close>

definition db_is ::
  "('db \<Rightarrow> string \<rightharpoonup> string) \<Rightarrow> ('db \<Rightarrow> bool) \<Rightarrow> logger \<Rightarrow> (string \<rightharpoonup> string) \<Rightarrow>
   ('db, 'r) dworld_scheme \<Rightarrow> bool" where
  "db_is kv up l m w \<longleftrightarrow> lg_mask l = UFM_DB \<and> quiet l w \<and> up (w_db w) \<and> kv (w_db w) = m"

definition log_core where
  "log_core u =
     (log_info_mask u, log_error_mask u, log_warning_mask u, log_debug_mask u,
      max_entries u, entries u, entry_id u, entry_index u, base_id u)"

definition db_step :: "('db, 'r) dworld_scheme \<Rightarrow> ('db, 'r) dworld_scheme \<Rightarrow> bool" where
  "db_step w w' \<longleftrightarrow>
     log_core (lw_log w') = log_core (lw_log w) \<and> lw_clock w' = lw_clock w \<and> lw_tick w' = lw_tick w \<and>
     lw_traceback w' = lw_traceback w \<and> dworld.more w' = dworld.more w"

lemma db_step_more: "db_step w w' \<Longrightarrow> dworld.more w' = dworld.more w"
  by (simp add: db_step_def)

lemma db_step_trans: "db_step u v \<Longrightarrow> db_step v w \<Longrightarrow> db_step u w"
  by (simp add: db_step_def)

lemma quiet_w_db [simp]: "quiet l (w\<lparr>w_db := d\<rparr>) = quiet l w"
  by (simp add: quiet_def)

lemma db_step_w_db: "db_step w (w\<lparr>w_db := d\<rparr>)"
  by (simp add: db_step_def)

lemma wp_on_db: "wp (on_db m) Q X w = wp m (\<lambda>x d. Q x (w\<lparr>w_db := d\<rparr>)) (\<lambda>e d. X e (w\<lparr>w_db := d\<rparr>)) (w_db w)"
  by (auto simp: wp_def on_db_def split: prod.splits sum.splits)

text \<open>A call whose log message is off and whose server call succeeds.\<close>

lemma wp_guard_quiet:
  assumes "quiet l w" and "m (w_db w) = (Inr x, d')"
  shows "wp (log_error_guard l (thenP (log_detail l s as) (on_db m))) Q X w = Q x (w\<lparr>w_db := d'\<rparr>)"
  using assms
  by (simp add: log_error_guard_def wp_simps wp_log_detail_quiet wp_on_db wp_run)

lemma foldl_dict_set:
  "distinct (map fst (d @ u)) \<Longrightarrow> foldl (\<lambda>a (k, v). dict_set k v a) d u = d @ u"
proof (induction u arbitrary: d)
  case Nil
  then show ?case by simp
next
  case (Cons kv u)
  obtain k v where kv: "kv = (k, v)" by (cases kv)
  with Cons.prems have "dict_set k v d = d @ [(k, v)]"
    by (intro dict_set_new) (auto simp: image_iff)
  with Cons kv show ?case by (simp add: case_prod_beta)
qed

lemma iter_dict_items: "distinct (map fst items) \<Longrightarrow> iter_dict (items, None) [] = Inr items"
  using foldl_dict_set [of "[]" items] by (simp add: iter_dict_def)

context etcd_store
begin

lemma put_kv: "up d \<Longrightarrow> \<exists>d'. e_put E k v kw d = (Inr (), d') \<and> up d' \<and> kv d' = (kv d)(k \<mapsto> v)"
  using up_put [of d k v kw] put_other [of _ k v kw d] by (metis fun_upd_apply ext snd_conv)

lemma delete_kv: "up d \<Longrightarrow> \<exists>d'. e_delete E k kw d = (Inr (), d') \<and> up d' \<and> kv d' = (kv d)(k := None)"
  using up_delete [of d k kw] delete_other [of _ k kw d] by (metis fun_upd_apply ext snd_conv)

lemma delete_prefix_kv:
  assumes "up d"
  shows "\<exists>d'. e_delete_prefix E p d = (Inr (), d') \<and> up d' \<and> kv d' = kv d |` {k. \<not> prefix p k}"
proof -
  obtain d' where d': "e_delete_prefix E p d = (Inr (), d')" "up d'" "\<forall>k. prefix p k \<longrightarrow> kv d' k = None"
    using up_delete_prefix [OF assms] by blast
  then have "kv d' k = (kv d |` {k. \<not> prefix p k}) k" for k
    using delete_prefix_other [of p k d] by (simp add: restrict_map_def)
  with d' show ?thesis by blast
qed

lemma wp_put:
  assumes "db_is kv up l m w" and "is_valid_params [''lease'', ''prev_kv''] kw"
    and "\<And>w'. db_is kv up l (m(k \<mapsto> v)) w' \<Longrightarrow> db_step w w' \<Longrightarrow> Q (Some ()) w'"
  shows "wp (Ufmdb_put E l k v kw) Q X w"
proof -
  obtain d' where d': "e_put E k v kw (w_db w) = (Inr (), d')" "up d'" "kv d' = m(k \<mapsto> v)"
    using assms(1) put_kv [of "w_db w" k v kw] by (auto simp: db_is_def)
  then have "etcd_put E k v kw (w_db w) = (Inr (Some ()), d')"
    using assms(2) by (simp add: etcd_put_def bindP_def retP_def)
  moreover have "Q (Some ()) (w\<lparr>w_db := d'\<rparr>)"
    using d' assms(1) by (intro assms(3) db_step_w_db) (simp add: db_is_def)
  ultimately show ?thesis
    using assms(1) by (simp add: Ufmdb_put_def wp_guard_quiet db_is_def)
qed

lemma wp_delete:
  assumes "db_is kv up l m w" and "\<And>w'. db_is kv up l (m(k := None)) w' \<Longrightarrow> db_step w w' \<Longrightarrow> Q (Some ()) w'"
  shows "wp (Ufmdb_delete E l k []) Q X w"
proof -
  obtain d' where d': "e_delete E k [] (w_db w) = (Inr (), d')" "up d'" "kv d' = m(k := None)"
    using assms(1) delete_kv [of "w_db w" k "[]"] by (auto simp: db_is_def)
  then have "etcd_delete E k [] (w_db w) = (Inr (Some ()), d')"
    by (simp add: etcd_delete_def is_valid_params_def dict_keys_def bindP_def retP_def)
  moreover have "Q (Some ()) (w\<lparr>w_db := d'\<rparr>)"
    using d' assms(1) by (intro assms(2) db_step_w_db) (simp add: db_is_def)
  ultimately show ?thesis
    using assms(1) by (simp add: Ufmdb_delete_def wp_guard_quiet db_is_def)
qed

lemma wp_delete_prefix:
  assumes "db_is kv up l m w"
    and "\<And>w'. db_is kv up l (m |` {k. \<not> prefix p k}) w' \<Longrightarrow> db_step w w' \<Longrightarrow> Q (Some ()) w'"
  shows "wp (Ufmdb_delete_prefix E l p) Q X w"
proof -
  obtain d' where d': "e_delete_prefix E p (w_db w) = (Inr (), d')" "up d'" "kv d' = m |` {k. \<not> prefix p k}"
    using assms(1) delete_prefix_kv [of "w_db w" p] by (auto simp: db_is_def)
  then have "etcd_delete_prefix E p (w_db w) = (Inr (Some ()), d')"
    by (simp add: etcd_delete_prefix_def bindP_def retP_def)
  moreover have "Q (Some ()) (w\<lparr>w_db := d'\<rparr>)"
    using d' assms(1) by (intro assms(2) db_step_w_db) (simp add: db_is_def)
  ultimately show ?thesis
    using assms(1) by (simp add: Ufmdb_delete_prefix_def wp_guard_quiet db_is_def)
qed

lemma wp_lease:
  assumes "db_is kv up l m w"
    and "\<And>i' w'. db_is kv up l m w' \<Longrightarrow> db_step w w' \<Longrightarrow> Q (Some i') w'"
  shows "wp (Ufmdb_lease E l ttl i) Q X w"
proof -
  obtain i' d' where d': "e_lease E ttl i (w_db w) = (Inr i', d')" "up d'"
    using assms(1) up_lease [of "w_db w" ttl i] by (auto simp: db_is_def)
  then have "kv d' = m"
    using assms(1) lease_kv [of ttl i "w_db w"] by (simp add: db_is_def)
  then have "Q (Some i') (w\<lparr>w_db := d'\<rparr>)"
    using d' assms(1) by (intro assms(2) db_step_w_db) (simp add: db_is_def)
  moreover have "etcd_lease E ttl i (w_db w) = (Inr (Some i'), d')"
    using d' by (simp add: etcd_lease_def bindP_def retP_def)
  ultimately show ?thesis
    using assms(1) by (simp add: Ufmdb_lease_def wp_guard_quiet db_is_def)
qed

lemma wp_get_prefix:
  assumes "db_is kv up l m w"
    and "\<And>items w'. db_is kv up l m w' \<Longrightarrow> db_step w w' \<Longrightarrow> distinct (map fst items) \<Longrightarrow>
      map_of items = m |` {k. prefix p k} \<Longrightarrow> Q (Some (items, None)) w'"
  shows "wp (Ufmdb_get_prefix E l p []) Q X w"
proof -
  obtain items d' where d': "e_get_prefix E p [] (w_db w) = (Inr (items, None), d')" "up d'"
    "distinct (map fst items)" "map_of items = m |` {k. prefix p k}"
    using assms(1) up_get_prefix [of "w_db w" p "[]"] by (auto simp: db_is_def)
  then have "kv d' = m"
    using assms(1) get_prefix_kv [of p "[]" "w_db w"] by (simp add: db_is_def)
  then have "Q (Some (items, None)) (w\<lparr>w_db := d'\<rparr>)"
    using d' assms(1) by (intro assms(2) db_step_w_db) (simp_all add: db_is_def)
  moreover have "etcd_get_prefix E p [] (w_db w) = (Inr (Some (items, None)), d')"
    using d' by (simp add: etcd_get_prefix_def is_valid_params_def dict_keys_def bindP_def retP_def)
  ultimately show ?thesis
    using assms(1) by (simp add: Ufmdb_get_prefix_def wp_guard_quiet db_is_def)
qed

lemma wp_get:
  assumes "db_is kv up l m w" and "\<And>w'. db_is kv up l m w' \<Longrightarrow> db_step w w' \<Longrightarrow> Q (Some (m k)) w'"
  shows "wp (Ufmdb_get E l k) Q X w"
proof -
  obtain d' where d': "e_get E k (w_db w) = (Inr (m k), d')" "up d'"
    using assms(1) up_get [of "w_db w" k] by (auto simp: db_is_def)
  then have "kv d' = m"
    using assms(1) get_kv [of k "w_db w"] by (simp add: db_is_def)
  then have "Q (Some (m k)) (w\<lparr>w_db := d'\<rparr>)"
    using d' assms(1) by (intro assms(2) db_step_w_db) (simp_all add: db_is_def)
  moreover have "etcd_get E k (w_db w) = (Inr (Some (m k)), d')"
    using d' by (simp add: etcd_get_def bindP_def retP_def)
  ultimately show ?thesis
    using assms(1) by (simp add: Ufmdb_get_def wp_guard_quiet db_is_def)
qed

lemma wp_Ufmdb_new:
  assumes "db_is kv up l m w"
    and "\<And>l' w'. db_is kv up l' m w' \<Longrightarrow> db_is kv up l m w' \<Longrightarrow> db_step w w' \<Longrightarrow> Q l' w'"
  shows "wp (Ufmdb_new E ''etcd'' []) Q X w"
proof -
  define l' where "l' = \<lparr>lg_module = ''DB'', lg_mask = UFM_DB\<rparr>"
  define w1 where "w1 = w\<lparr>lw_log := Ufmlog_open (lw_log w)\<rparr>"
  have q: "quiet l' w1" and up: "up (w_db w1)"
    using assms(1) by (auto simp: db_is_def quiet_def l'_def w1_def Ufmlog_open_def)
  obtain m' where m': "mask_off UFM_DB (log_detail_mask (lw_log w1)) = Inr m'"
    using q by (auto simp: quiet_def mask_hit_def mask_off_def bindE_Inr_iff)
  define w2 where "w2 = w1\<lparr>lw_log := (lw_log w1)\<lparr>log_detail_mask := m'\<rparr>\<rparr>"
  obtain d' where d': "e_connect E (w_db w1) = (Inr (), d')" "up d'"
    using up_connect [OF up] by blast
  then have kv: "kv d' = m"
    using connect_kv [of "w_db w1"] assms(1) by (simp add: db_is_def w1_def)
  have q2: "mask_hit UFM_DB m' = Inr False" by (rule mask_off_miss [OF m'])
  have "Q l' (w2\<lparr>w_db := d'\<rparr>)"
  proof (rule assms(2))
    show "db_is kv up l' m (w2\<lparr>w_db := d'\<rparr>)"
      using kv d' q2 by (simp add: db_is_def quiet_def l'_def w2_def)
    show "db_is kv up l m (w2\<lparr>w_db := d'\<rparr>)"
      using kv d' q2 assms(1) by (simp add: db_is_def quiet_def w2_def)
    show "db_step w (w2\<lparr>w_db := d'\<rparr>)"
      by (simp add: db_step_def log_core_def w2_def w1_def Ufmlog_open_def)
  qed
  then show ?thesis
    using m' d' q unfolding Ufmdb_new_def log_new_def Let_def
    by (simp add: is_valid_init_args_def is_valid_params_def dict_keys_def wp_simps
        wp_log_detail_quiet wp_on_db wp_run log_detail_off_def upd_mask_def set_log_detail_def
        l'_def [symmetric] w1_def [symmetric] w2_def [symmetric])
      (simp add: l'_def w2_def wp_simps set_log_detail_def wp_on_db wp_run)
qed

lemma db_is_del:
  assumes "db_is kv up l m w"
  shows "db_is kv up l m (snd (Ufmdb_del E w)) \<and> db_step w (snd (Ufmdb_del E w))"
proof -
  obtain r d' where d': "e_close E (w_db w) = (r, d')" by fastforce
  have "up d'" "kv d' = m"
    using assms up_close [of "w_db w"] close_kv [of "w_db w"] d' by (auto simp: db_is_def)
  moreover have "snd (Ufmdb_del E w) = w\<lparr>w_db := d', lw_log := Ufmlog_close (lw_log w)\<rparr>"
    using d' by (cases r) (simp_all add: Ufmdb_del_def Ufmdb_close_def log_del_def thenP_def bindP_def
        tryP_def on_db_def retP_def modifyP_def)
  ultimately show ?thesis
    using assms by (auto simp: db_is_def quiet_def Ufmlog_close_def db_step_def log_core_def)
qed

lemma wp_query:
  assumes "db_is kv up l m w"
    and "\<And>items w'. db_is kv up l m w' \<Longrightarrow> db_step w w' \<Longrightarrow> distinct (map fst items) \<Longrightarrow>
      map_of items = m |` {k. prefix q k} \<Longrightarrow> Q items w'"
  shows "wp (query_prefix E q) Q X w"
proof -
  have body: "wp (\<lambda>w. case body l' w of (r, w') \<Rightarrow> (r, snd (Ufmdb_del E w'))) Q X w1"
    if "wp (body l') (\<lambda>x w'. Q x (snd (Ufmdb_del E w'))) (\<lambda>e w'. X e (snd (Ufmdb_del E w'))) w1"
    for body l' w1
    using that by (auto simp: wp_def split: prod.splits sum.splits)
  show ?thesis
    unfolding query_prefix_def with_client_def wp_bindP
  proof (rule wp_Ufmdb_new [OF assms(1)], rule body, unfold wp_bindP, rule wp_get_prefix, assumption)
    fix l' w1 items w2
    assume a: "db_is kv up l m w1" "db_step w w1" "db_step w1 w2" "db_is kv up l' m w2"
      "distinct (map fst items)" "map_of items = m |` {k. prefix q k}"
    have "db_is kv up l m w2"
      using a(1,3,4) by (auto simp: db_is_def quiet_def)
    then have "Q items (snd (Ufmdb_del E w2))"
      using db_is_del db_step_trans [OF db_step_trans [OF a(2,3)]] a by (intro assms(2)) blast+
    then show "wp (case Some (items, None) of None \<Rightarrow> Ufmdb_get_prefix E l' q [] | Some it \<Rightarrow> retP (Some it))
        (\<lambda>x. wp (case x of None \<Rightarrow> retP [] | Some it \<Rightarrow> liftP (iter_dict it []))
          (\<lambda>x w'. Q x (snd (Ufmdb_del E w'))) (\<lambda>e w'. X e (snd (Ufmdb_del E w'))))
        (\<lambda>e w'. X e (snd (Ufmdb_del E w'))) w2"
      using a(5) by (simp add: wp_simps iter_dict_items)
  qed
qed

lemmas wp_db = wp_put wp_get wp_delete wp_delete_prefix wp_lease wp_get_prefix wp_query

end

subsection \<open>An executable store\<close>

definition mem_etcd :: "string dict etcd3" where
  "mem_etcd =
     \<lparr>e_connect = retP (), e_close = retP (),
      e_put = (\<lambda>k v kw. modifyP (dict_set k v)),
      e_get = (\<lambda>k. readP (\<lambda>d. map_of d k)),
      e_get_prefix = (\<lambda>p kw. readP (\<lambda>d. (filter (\<lambda>kv. prefix p (fst kv)) d, None))),
      e_get_all = (\<lambda>kw. readP (\<lambda>d. (d, None))),
      e_delete = (\<lambda>k kw. modifyP (filter (\<lambda>kv. fst kv \<noteq> k))),
      e_delete_prefix = (\<lambda>p. modifyP (filter (\<lambda>kv. \<not> prefix p (fst kv)))),
      e_lease = (\<lambda>ttl i. retP 1),
      e_revoke_lease = (\<lambda>i. retP ())\<rparr>"

definition mem_up :: "string dict \<Rightarrow> bool" where
  "mem_up d = distinct (map fst d)"

lemma map_of_filter_key: "map_of (filter (\<lambda>kv. P (fst kv)) d) = map_of d |` {k. P k}"
  by (induction d) (auto simp: fun_eq_iff restrict_map_def)

lemmas map_of_filter_keys =
  map_of_filter_key [of "\<lambda>k. k \<noteq> k'" for k'] map_of_filter_key [of "\<lambda>k. prefix p k" for p]
  map_of_filter_key [of "\<lambda>k. \<not> prefix p k" for p]

lemma mem_etcd_frame: "etcd_frame mem_etcd map_of"
  by unfold_locales
    (auto simp: mem_etcd_def retP_def modifyP_def readP_def map_of_filter_keys restrict_map_def)

lemma distinct_filter_keys: "distinct (map fst d) \<Longrightarrow> distinct (map fst (filter P d))"
  by (induction d) auto

lemma mem_etcd_store: "etcd_store mem_etcd map_of mem_up"
proof (rule etcd_store.intro [OF mem_etcd_frame], unfold_locales)
qed (auto simp: mem_etcd_def mem_up_def retP_def modifyP_def readP_def map_of_filter_keys
    restrict_map_def distinct_filter_keys)

interpretation mem: etcd_store mem_etcd map_of mem_up
  by (rule mem_etcd_store)

section \<open>Calls that never raise\<close>

text \<open>
  \<open>has_ring\<close>: the log is a ring of some history.  While it is, the decorator of \<^verbatim>\<open>Ufmdb\<close> turns
  every exception into a log entry and \<open>None\<close>.
\<close>

definition has_ring :: "'r lworld_scheme \<Rightarrow> bool" where
  "has_ring w \<longleftrightarrow> (\<exists>h. ring h (lw_log w))"

definition ring_step :: "'r lworld_scheme \<Rightarrow> 'r lworld_scheme \<Rightarrow> bool" where
  "ring_step w w' \<longleftrightarrow> (has_ring w \<longrightarrow> has_ring w')"

interpretation rs: py_rel ring_step
  by unfold_locales (auto simp: ring_step_def)

lemma keeps_ring_add: "keeps ring_step (ulog_add m ty s)"
proof -
  have "ring_step w (snd (ulog_add m ty s w))" for w :: "'a lworld_scheme"
  proof (unfold ring_step_def has_ring_def, intro impI, elim exE)
    fix h assume "ring h (lw_log w)"
    from ring_add [OF this, of "lw_clock w (lw_tick w)" m ty s]
    show "\<exists>h. ring h (lw_log (snd (ulog_add m ty s w)))"
      by (auto simp: ulog_add_def bindP_def time_time_def on_log_def)
  qed
  then show ?thesis by (simp add: keeps_def)
qed

lemma keeps_ring_detail: "keeps ring_step (log_detail l s as)"
  unfolding log_detail_def log_filtered_def ulog_detail_def
  by (intro rs.keeps_rules keeps_ring_add)

lemma keeps_ring_db: "keeps ring_step (on_db m)"
  by (auto simp: keeps_def on_db_def ring_step_def has_ring_def split: prod.splits)

lemma ulog_add_returns:
  assumes "has_ring w"
  shows "\<exists>e w'. ulog_add m ty s w = (Inr e, w')"
proof -
  obtain h where "ring h (lw_log w)" using assms by (auto simp: has_ring_def)
  from ring_add [OF this, of "lw_clock w (lw_tick w)" m ty s] show ?thesis
    by (auto simp: ulog_add_def bindP_def time_time_def on_log_def)
qed

lemma guard_returns:
  assumes "has_ring w" and "keeps ring_step m"
  shows "\<exists>r w'. log_error_guard l m w = (Inr r, w')"
proof (cases "m w")
  case (Pair out w1)
  have "has_ring w1" using keepsD [OF assms(2) Pair] assms(1) by (simp add: ring_step_def)
  then have exc: "\<exists>w'. log_exception l e w1 = (Inr (), w')" for e
    using ulog_add_returns [of w1 "lg_module l" "''EXCEPTION''" "lw_traceback w1 e"]
    by (auto simp: log_exception_def ulog_except_def bindP_def readP_def thenP_def retP_def)
  show ?thesis
  proof (cases out)
    case (Inl e)
    then show ?thesis
      using Pair exc [of e] by (auto simp: log_error_guard_def tryP_def thenP_def bindP_def retP_def)
  next
    case (Inr x)
    then show ?thesis using Pair by (simp add: log_error_guard_def tryP_def)
  qed
qed

lemma guarded_call_returns:
  "has_ring w \<Longrightarrow> \<exists>r w'. log_error_guard l (thenP (log_detail l s as) (on_db m)) w = (Inr r, w')"
  by (intro guard_returns rs.keeps_rules keeps_ring_detail keeps_ring_db)

section \<open>Printed ranges\<close>

text \<open>The text a switch prints for its allowed VLANs, such as \<^verbatim>\<open>1-8,10,14-20\<close>.\<close>

definition range_str :: "nat \<times> nat \<Rightarrow> string" where
  "range_str = (\<lambda>(a, b). if a = b then nat_str a else nat_str a @ ''-'' @ nat_str b)"

lemma range_of_str_print: "range_of_str (range_str (a, b)) = Inr [int a..int b]"
proof (cases "a = b")
  case True
  then show ?thesis
    using nat_str_no_char(2) [of a]
    by (simp add: range_str_def range_of_str_def py_split_no_sep py_int_nat_str)
next
  case False
  then show ?thesis
    using nat_str_no_char(2) [of a] nat_str_no_char(2) [of b]
    by (simp add: range_str_def range_of_str_def py_split_append_sep py_split_no_sep py_int_nat_str)
qed

lemma ranges_print:
  assumes "rs \<noteq> []"
  shows "convert_ranges_to_list (py_join '','' (map range_str rs)) = Inr (concat (map (\<lambda>(a, b). [int a..int b]) rs))"
proof -
  have "CHR '','' \<notin> set (range_str r)" for r
    using nat_str_no_char(3) by (auto simp: range_str_def split: prod.splits if_splits)
  then have "py_split (CHR '','') (py_join '','' (map range_str rs)) = map range_str rs"
    using assms by (intro py_split_join) auto
  moreover have "mapE range_of_str (map range_str rs) = Inr (map (\<lambda>(a, b). [int a..int b]) rs)"
    by (induction rs) (auto simp: range_of_str_print)
  ultimately show ?thesis by (simp add: convert_ranges_to_list_def)
qed

section \<open>Flat keys\<close>

fun json_get :: "string list \<Rightarrow> json \<Rightarrow> json option" where
  "json_get [] j = Some j"
| "json_get (k # ks) (JObj d) = (case map_of d k of None \<Rightarrow> None | Some j \<Rightarrow> json_get ks j)"
| "json_get (k # ks) j = None"

text \<open>
  \<open>open_at ks j\<close>: the dictionaries of \<open>j\<close> leave room for the path \<open>ks\<close>: on the way down there is a
  dictionary or nothing yet.
\<close>

fun open_at :: "string list \<Rightarrow> json \<Rightarrow> bool" where
  "open_at [] j = False"
| "open_at [k] (JObj d) = True"
| "open_at (k # k2 # ks) (JObj d) = (case map_of d k of None \<Rightarrow> True | Some j \<Rightarrow> open_at (k2 # ks) j)"
| "open_at (k # ks) j = False"

lemma open_at_empty: "ks \<noteq> [] \<Longrightarrow> open_at ks (JObj [])"
  by (cases ks rule: remdups_adj.cases) auto

lemma json_put_empty:
  "\<exists>j'. json_put (k # ks) v (JObj []) = Inr j' \<and> json_get (k # ks) j' = Some v"
proof (induction ks arbitrary: k)
  case Nil
  then show ?case by simp
next
  case (Cons a ks)
  then obtain j where "json_put (a # ks) v (JObj []) = Inr j" "json_get (a # ks) j = Some v" by blast
  then show ?case by simp
qed

lemma json_put_ok:
  "open_at ks j \<Longrightarrow> \<exists>j'. json_put ks v j = Inr j' \<and> json_get ks j' = Some v"
proof (induction ks j rule: open_at.induct)
  case (3 k k2 ks d)
  show ?case
  proof (cases "map_of d k")
    case None
    have "\<exists>j'. json_put (k2 # ks) v (JObj []) = Inr j' \<and> json_get (k2 # ks) j' = Some v"
      by (rule json_put_empty)
    with None show ?thesis by auto
  next
    case (Some j)
    with 3 show ?thesis by auto
  qed
qed auto

text \<open>A put keeps what stands at every path that is not below it and not above it.\<close>

lemma json_get_put_other:
  "json_put ks v j = Inr j' \<Longrightarrow> \<not> prefix ks ps \<Longrightarrow> \<not> prefix ps ks \<Longrightarrow> json_get ps j' = json_get ps j"
proof (induction ks v j arbitrary: j' ps rule: json_put.induct)
  case (2 k v d)
  then show ?case by (cases ps) auto
next
  case (4 k k2 ks v d)
  obtain j2 where j2: "json_put (k2 # ks) v (case map_of d k of None \<Rightarrow> JObj [] | Some j \<Rightarrow> j) = Inr j2"
    "j' = JObj (dict_set k j2 d)"
    using "4.prems"(1) by (auto simp: bindE_Inr_iff)
  show ?case
  proof (cases ps)
    case Nil
    with "4.prems"(3) show ?thesis by simp
  next
    case (Cons p qs)
    show ?thesis
    proof (cases "p = k")
      case True
      have "json_get qs j2 = json_get qs (case map_of d k of None \<Rightarrow> JObj [] | Some j \<Rightarrow> j)"
        using "4.IH" [OF j2(1), of qs] "4.prems"(2,3) Cons True by auto
      moreover have "qs \<noteq> []" using "4.prems"(3) Cons True by auto
      ultimately show ?thesis
        using Cons True j2(2) by (cases qs) (auto split: option.splits)
    next
      case False
      with Cons j2(2) show ?thesis by simp
    qed
  qed
qed auto

lemma open_at_Cons: "open_at (k # k2 # ks) (JObj d) = open_at (k2 # ks) (case map_of d k of None \<Rightarrow> JObj [] | Some j \<Rightarrow> j)"
  by (auto simp: open_at_empty split: option.splits)

lemma open_at_put:
  "json_put ks v j = Inr j' \<Longrightarrow> open_at ps j \<Longrightarrow> \<not> prefix ks ps \<Longrightarrow> open_at ps j'"
proof (induction ks v j arbitrary: j' ps rule: json_put.induct)
  case (2 k v d)
  then show ?case by (cases ps rule: remdups_adj.cases) (auto split: option.splits)
next
  case (4 k k2 ks v d)
  obtain j2 where j2: "json_put (k2 # ks) v (case map_of d k of None \<Rightarrow> JObj [] | Some j \<Rightarrow> j) = Inr j2"
    "j' = JObj (dict_set k j2 d)"
    using "4.prems"(1) by (auto simp: bindE_Inr_iff)
  show ?case
  proof (cases ps rule: remdups_adj.cases)
    case 1
    with "4.prems"(2) show ?thesis by simp
  next
    case (2 p)
    with j2(2) show ?thesis by simp
  next
    case (3 p p2 qs)
    show ?thesis
    proof (cases "p = k")
      case True
      have "open_at (p2 # qs) (case map_of d k of None \<Rightarrow> JObj [] | Some j \<Rightarrow> j)"
        using "4.prems"(2) 3 True by (simp only: open_at_Cons)
      moreover have "\<not> prefix (k2 # ks) (p2 # qs)"
        using "4.prems"(3) 3 True by simp
      ultimately have "open_at (p2 # qs) j2" using "4.IH" [OF j2(1)] by blast
      then show ?thesis using 3 True j2(2) by (simp add: open_at_Cons)
    next
      case False
      then show ?thesis using "4.prems"(2) 3 j2(2) by (simp only: open_at_Cons) simp
    qed
  qed
qed auto

text \<open>
  The keys of a flat dictionary are unambiguous when no path is a prefix of another; then the
  document holds every value at its path.
\<close>

definition key_path :: "string \<Rightarrow> string list" where
  "key_path k = tl (py_split (CHR ''/'') k)"

definition prefix_free :: "string list \<Rightarrow> bool" where
  "prefix_free ks \<longleftrightarrow> distinct ks \<and> (\<forall>k \<in> set ks. key_path k \<noteq> []) \<and>
     (\<forall>k \<in> set ks. \<forall>k' \<in> set ks. k \<noteq> k' \<longrightarrow> \<not> prefix (key_path k) (key_path k'))"

lemma convert_flat_all:
  assumes "prefix_free (map fst kvs)" and "\<And>k. k \<in> set (map fst kvs) \<Longrightarrow> open_at (key_path k) j"
  shows "\<exists>j'. convert_flat kvs j = Inr j' \<and> (\<forall>(k, v) \<in> set kvs. json_get (key_path k) j' = Some (JStr v)) \<and>
    (\<forall>ps. (\<forall>k \<in> set (map fst kvs). \<not> prefix (key_path k) ps \<and> \<not> prefix ps (key_path k)) \<longrightarrow> json_get ps j' = json_get ps j)"
  using assms
proof (induction kvs arbitrary: j)
  case Nil
  then show ?case by simp
next
  case (Cons kv kvs)
  obtain k v where kv: "kv = (k, v)" by (cases kv)
  obtain j1 where j1: "json_put (key_path k) (JStr v) j = Inr j1" "json_get (key_path k) j1 = Some (JStr v)"
    using json_put_ok [of "key_path k" j "JStr v"] Cons.prems(2) kv by auto
  have free: "prefix_free (map fst kvs)" using Cons.prems(1) by (auto simp: prefix_free_def)
  have inc: "\<not> prefix (key_path k) (key_path k') \<and> \<not> prefix (key_path k') (key_path k)" if "k' \<in> set (map fst kvs)" for k'
    using that Cons.prems(1) kv unfolding prefix_free_def by (metis distinct.simps(2) fst_conv list.set_intros list.simps(9))
  have "open_at (key_path k') j1" if "k' \<in> set (map fst kvs)" for k'
    using open_at_put [OF j1(1)] inc [OF that] Cons.prems(2) that by auto
  with Cons.IH [OF free] obtain j' where j': "convert_flat kvs j1 = Inr j'"
    "\<forall>(k, v) \<in> set kvs. json_get (key_path k) j' = Some (JStr v)"
    "\<And>ps. (\<forall>k \<in> set (map fst kvs). \<not> prefix (key_path k) ps \<and> \<not> prefix ps (key_path k)) \<Longrightarrow> json_get ps j' = json_get ps j1"
    by blast
  have "json_get (key_path k) j' = Some (JStr v)"
    using j'(3) [of "key_path k"] inc j1(2) by auto
  moreover have "json_get ps j' = json_get ps j"
    if "\<forall>k \<in> set (map fst (kv # kvs)). \<not> prefix (key_path k) ps \<and> \<not> prefix ps (key_path k)" for ps
    using that j'(3) [of ps] json_get_put_other [OF j1(1), of ps] kv by auto
  ultimately show ?case
    using j' j1(1) kv by (auto simp: key_path_def)
qed

text \<open>Keys that form a tree: no key continues another one.\<close>

definition tree_keys :: "string set \<Rightarrow> bool" where
  "tree_keys S \<longleftrightarrow> (\<forall>k \<in> S. key_path k \<noteq> []) \<and>
     (\<forall>k \<in> S. \<forall>k' \<in> S. k \<noteq> k' \<longrightarrow> \<not> prefix (key_path k) (key_path k'))"

context etcd_store
begin

text \<open>Reading a subtree as a document: every key below the prefix is at its place.\<close>

lemma wp_get_with_prefix:
  assumes "db_is kv up l m w" and "tree_keys {k \<in> dom m. prefix p k}" and "prefix p k" and "m k = Some v"
    and "\<And>j w'. db_is kv up l m w' \<Longrightarrow> db_step w w' \<Longrightarrow>
      (\<And>k v. prefix p k \<Longrightarrow> m k = Some v \<Longrightarrow> json_get (key_path k) j = Some (JStr v)) \<Longrightarrow> Q (Some j) w'"
  shows "wp (Ufmdb_get_with_prefix E l p False None None) Q X w"
proof -
  let ?kw = "[(''sort_order'', KText None), (''sort_target'', KText None)]"
  obtain items d' where d': "e_get_prefix E p ?kw (w_db w) = (Inr (items, None), d')" "up d'"
      "distinct (map fst items)" "map_of items = m |` {k. prefix p k}"
    using assms(1) up_get_prefix [of "w_db w" p ?kw] by (auto simp: db_is_def)
  then have kv': "kv d' = m"
    using assms(1) get_prefix_kv [of p ?kw "w_db w"] by (simp add: db_is_def)
  have get: "etcd_get_prefix E p ?kw (w_db w) = (Inr (Some (items, None)), d')"
    using d' by (simp add: etcd_get_prefix_def is_valid_params_def dict_keys_def bindP_def retP_def)
  have "fst ` set items = {k \<in> dom m. prefix p k}"
    using arg_cong [OF d'(4), of dom] by (auto simp: dom_map_of_conv_image_fst)
  then have free: "prefix_free (map fst items)"
    using assms(2) d'(3) by (simp add: prefix_free_def tree_keys_def)
  then have "\<And>k. k \<in> set (map fst items) \<Longrightarrow> open_at (key_path k) (JObj [])"
    by (intro open_at_empty) (auto simp: prefix_free_def)
  from convert_flat_all [OF free this] obtain j where j: "convert_flat_key_list_to_json items = Inr j"
      "\<forall>(k, v) \<in> set items. json_get (key_path k) j = Some (JStr v)"
    by (auto simp: convert_flat_key_list_to_json_def)
  have "json_get (key_path k) j = Some (JStr v)" if "prefix p k" "m k = Some v" for k v
  proof -
    have "map_of items k = Some v" using that d'(4) by simp
    with j(2) show ?thesis by (auto dest: map_of_SomeD)
  qed
  then have Q: "Q (Some j) (w\<lparr>w_db := d'\<rparr>)"
    using d'(2) kv' assms(1) by (intro assms(5) db_step_w_db) (simp_all add: db_is_def)
  have "items \<noteq> []" using assms(3,4) d'(4) by (auto simp: fun_eq_iff restrict_map_def split: if_splits)
  then show ?thesis
    using Q get by (simp add: Ufmdb_get_with_prefix_def log_error_guard_def wp_simps wp_on_db wp_run iter_dict_items d'(3) j(1))
qed

end

section \<open>A log that works\<close>

text \<open>While the log is a ring and its masks are integers, a message that can be formatted is logged.\<close>

definition log_works :: "'r lworld_scheme \<Rightarrow> bool" where
  "log_works w \<longleftrightarrow> has_ring w \<and> (\<exists>i. as_index (log_detail_mask (lw_log w)) = Inr i) \<and> (\<exists>i. as_index (log_error_mask (lw_log w)) = Inr i)"

lemma log_works_step: "log_works w \<Longrightarrow> log_step w w' \<Longrightarrow> has_ring w' \<Longrightarrow> log_works w'"
  by (auto simp: log_works_def log_step_def same_masks_def)

lemma wp_ulog_add:
  assumes "log_works w" and "\<And>e w'. log_step w w' \<Longrightarrow> log_works w' \<Longrightarrow> Q e w'"
  shows "wp (ulog_add m ty s) Q X w"
proof -
  have ring: "has_ring w" using assms(1) by (simp add: log_works_def)
  then obtain e w' where run: "ulog_add m ty s w = (Inr e, w')" using ulog_add_returns by blast
  have "log_step w w'" "has_ring w'"
    using keepsD [OF keeps_ulog_add run] keepsD [OF keeps_ring_add run] ring by (simp_all add: ring_step_def)
  with assms run show ?thesis by (simp add: wp_run log_works_step)
qed

lemma wp_log_works:
  assumes "log_works w" and "py_percent s as = Inr t" and "\<And>w'. log_step w w' \<Longrightarrow> log_works w' \<Longrightarrow> Q () w'"
  shows "wp (log_detail l s as) Q X w" "wp (log_error l s as) Q X w"
proof -
  obtain i j where ij: "as_index (log_detail_mask (lw_log w)) = Inr i" "as_index (log_error_mask (lw_log w)) = Inr j"
    using assms(1) by (auto simp: log_works_def)
  have out: "wp (ulog_add n ty t) (\<lambda>_. Q ()) X w" for n ty by (rule wp_ulog_add [OF assms(1)]) (rule assms(3))
  have "Q () w" by (intro assms(3) log_step_refl assms(1))
  with out ij show "wp (log_detail l s as) Q X w" "wp (log_error l s as) Q X w"
    by (simp_all add: log_detail_def log_error_def log_filtered_def ulog_detail_def ulog_error_def mask_hit_def assms(2)
        wp_simps wp_retP_fun)
qed

lemma wp_log_exception_works:
  assumes "log_works w" and "\<And>w'. log_step w w' \<Longrightarrow> log_works w' \<Longrightarrow> Q () w'"
  shows "wp (log_exception l e) Q X w"
  unfolding log_exception_def ulog_except_def wp_bindP wp_readP wp_thenP wp_retP_fun
  by (rule wp_ulog_add [OF assms(1)]) (rule assms(2))

end
