(* ===== verification/LogActions.thy ===== *)
theory LogActions
  imports Ufmdb
begin

text \<open>
  The Redfish actions on the fabric manager's log,
  \<^verbatim>\<open>src/ufm/fabricmanager/common/ufmdb/redfish/redfish_action.py\<close>: clearing it, reading its
  entries, reading and setting its masks, and the reset request.  A payload is the decoded
  JSON body of the request.  The shell that \<^verbatim>\<open>ufm_reset_action\<close> calls is the parameter
  \<open>shell\<close>.

  Lemmas: what the entries action returns for every pair of options, which masks a request
  changes, and what a mask that is no integer does to later calls.
\<close>

section \<open>Actions\<close>

definition ok_fields :: "(string \<times> json) list" where
  "ok_fields = [(''Status'', JInt 200), (''Message'', JStr ''Successfully completed request.'')]"

definition ufm_clearlog_action :: "json \<Rightarrow> ('r lworld_scheme, json) py" where
  "ufm_clearlog_action payload =
     thenP (modifyP (\<lambda>w. w\<lparr>lw_log := clear_log (lw_log w)\<rparr>)) (retP (JObj ok_fields))"

definition severity :: "string \<Rightarrow> (string \<times> json) list" where
  "severity ty =
     (if ty = ''ERROR'' then [(''Severity'', JStr ''Warning'')]
      else if ty = ''WARNING'' then [(''Severity'', JStr ''Warning'')]
      else if ty = ''INFO'' then [(''Severity'', JStr ''OK'')]
      else if ty = ''DEBUG'' then [(''Severity'', JStr ''OK'')]
      else if ty = ''DETAIL'' then [(''Severity'', JStr ''OK'')]
      else if ty = ''EXCEPT'' then [(''Severity'', JStr ''Critical'')]
      else [])"

definition redfish_log_entry :: "UfmLogEntry \<Rightarrow> json" where
  "redfish_log_entry e = JObj
     ([(''@odata.context'', JStr ''/redfish/v1/$metadata#LogEntry.LogEntry''),
       (''@odata.id'', JStr ''/redfish/v1/Managers/ufm/LogServices/Log/Actions/LogService.Entries''),
       (''@odata.type'', JStr ''#LogEntry.v1_3_0.LogEntry''),
       (''Id'', JStr (int_str (le_id e))), (''Name'', JStr (''Log Entry '' @ int_str (le_id e))),
       (''EntryType'', JStr ''Oem''), (''OemRecordFormat'', JStr ''Samsung'')] @
      severity (le_type e) @
      [(''Created'', JStr (time_repr (timestamp e))), (''SensorType'', JStr (le_module e)),
       (''EntryCode'', JStr (le_type e)), (''Message'', JStr (le_msg e))])"

definition redfish_log_entries :: "UfmLogEntry list \<Rightarrow> json list" where
  "redfish_log_entries es = map redfish_log_entry es"

definition opt_int :: "string \<Rightarrow> json \<Rightarrow> exn + int option" where
  "opt_int key payload =
     bindE (py_in key payload) (\<lambda>b.
       if b then bindE (bindE (py_key payload key) py_int) (\<lambda>i. Inr (Some i)) else Inr None)"

definition log_collection :: "UfmLogEntry list \<Rightarrow> json" where
  "log_collection es = JObj
     [(''@odata.context'', JStr ''/redfish/v1/$metadata#LogEntryCollection.LogEntryCollection''),
      (''@odata.type'', JStr ''#LogEntryCollection.LogEntryCollection''),
      (''@odata.id'', JStr ''/redfish/v1/Managers/ufm/LogServices/Log/Entries''),
      (''Name'', JStr ''Log Service Collection''), (''Description'', JStr ''Collection of Logs for this System''),
      (''Members'', JList (redfish_log_entries es)), (''Members@odata.count'', JInt (int (length es)))]"

definition ufm_entries_action :: "json \<Rightarrow> ('r lworld_scheme, json) py" where
  "ufm_entries_action payload =
     bindP (liftP (opt_int ''$skip'' payload)) (\<lambda>skip.
     bindP (liftP (opt_int ''$top'' payload)) (\<lambda>cnt.
     bindP (readP (\<lambda>w. get_entries (map_option (\<lambda>i. i + 1) skip) cnt (lw_log w))) (\<lambda>es.
     retP (log_collection es))))"

definition ufm_getregistry_action :: "json \<Rightarrow> ('r lworld_scheme, json) py" where
  "ufm_getregistry_action payload = retP (JObj (ok_fields @ [(''Registry'', UfmModuleRegistry)]))"

definition ufm_getmask_action :: "json \<Rightarrow> ('r lworld_scheme, json) py" where
  "ufm_getmask_action payload =
     bindP (liftP (py_key payload ''MaskType'')) (\<lambda>ty.
     bindP (readP lw_log) (\<lambda>u.
     if ty = JStr ''All'' then
       bindP (liftP (mapE py_int [log_error_mask u, log_warning_mask u, log_info_mask u, log_debug_mask u,
         log_detail_mask u])) (\<lambda>is.
       retP (JObj (ok_fields @ zip [''ErrorMask'', ''WarningMask'', ''InfoMask'', ''DebugMask'', ''DetailMask'']
         (map JInt is))))
     else if ty = JStr ''ErrorMask'' then retP (JObj (ok_fields @ [(''ErrorMask'', log_error_mask u)]))
     else if ty = JStr ''WarningMask'' then retP (JObj (ok_fields @ [(''WarningMask'', log_warning_mask u)]))
     else if ty = JStr ''InfoMask'' then retP (JObj (ok_fields @ [(''InfoMask'', log_info_mask u)]))
     else if ty = JStr ''DebugMask'' then retP (JObj (ok_fields @ [(''DebugMask'', log_debug_mask u)]))
     else if ty = JStr ''DetailMask'' then retP (JObj (ok_fields @ [(''DetailMask'', log_detail_mask u)]))
     else raiseP UnboundLocalError))"

text \<open>One \<^verbatim>\<open>if "XMask" in payload\<close> block: store what the request holds, report what is stored.\<close>

definition set_mask ::
  "string \<Rightarrow> (json \<Rightarrow> Ufmlog \<Rightarrow> Ufmlog) \<Rightarrow> (Ufmlog \<Rightarrow> json) \<Rightarrow> json \<Rightarrow> (string \<times> json) list \<Rightarrow>
   ('r lworld_scheme, (string \<times> json) list) py" where
  "set_mask key st get payload response =
     bindP (liftP (py_in key payload)) (\<lambda>b.
     if b then
       bindP (liftP (py_key payload key)) (\<lambda>value.
       thenP (modifyP (\<lambda>w. w\<lparr>lw_log := st value (lw_log w)\<rparr>))
       (bindP (readP (\<lambda>w. get (lw_log w))) (\<lambda>v. retP (response @ [(key, v)]))))
     else retP response)"

definition ufm_setmask_action :: "json \<Rightarrow> ('r lworld_scheme, json) py" where
  "ufm_setmask_action payload =
     bindP (set_mask ''ErrorMask'' set_log_error log_error_mask payload ok_fields) (\<lambda>r1.
     bindP (set_mask ''WarningMask'' set_log_warning log_warning_mask payload r1) (\<lambda>r2.
     bindP (set_mask ''InfoMask'' set_log_info log_info_mask payload r2) (\<lambda>r3.
     bindP (set_mask ''DebugMask'' set_log_debug log_debug_mask payload r3) (\<lambda>r4.
     bindP (set_mask ''DetailMask'' set_log_detail log_detail_mask payload r4) (\<lambda>r5.
     retP (JObj r5))))))"

definition ufm_reset_action ::
  "(string \<Rightarrow> ('r lworld_scheme, unit) py) \<Rightarrow> logger \<Rightarrow> json \<Rightarrow> ('r lworld_scheme, json) py" where
  "ufm_reset_action shell g payload =
     bindP (liftP (py_key payload ''ResetType'')) (\<lambda>ty.
     if ty = JStr ''ForceOff'' then
       thenP (log_info g ''SHUTDOWN: requested.'' []) (thenP (shell ''python ufm.py stop &'')
         (retP (JObj [(''Status'', JInt 200), (''Message'', JStr ''Successfully requested shutdown.'')])))
     else if ty = JStr ''ForceRestart'' then
       thenP (log_info g ''RESTART: requested.'' []) (thenP (shell ''python ufm.py restart &'')
         (retP (JObj [(''Status'', JInt 200), (''Message'', JStr ''Successfully requested restart.'')])))
     else retP (JObj [(''Status'', JInt 400), (''Message'', JStr ''Bad Request'')]))"

section \<open>Properties\<close>

text \<open>What the entries action shows of the history \<open>h\<close> for each form of the request.\<close>

lemma entries_action_run:
  assumes "opt_int ''$skip'' payload = Inr skip" and "opt_int ''$top'' payload = Inr cnt"
  shows "ufm_entries_action payload w =
    (Inr (log_collection (get_entries (map_option (\<lambda>i. i + 1) skip) cnt (lw_log w))), w)"
  using assms by (simp add: ufm_entries_action_def bindP_def liftP_def readP_def retP_def)

lemma set_mask_run:
  "set_mask key st get (JObj d) r w =
     (case map_of d key of
        None \<Rightarrow> (Inr r, w)
      | Some v \<Rightarrow> (Inr (r @ [(key, get (st v (lw_log w)))]), w\<lparr>lw_log := st v (lw_log w)\<rparr>))"
  by (auto simp: set_mask_def bindP_def liftP_def readP_def modifyP_def retP_def thenP_def dict_has_def
      dict_get_def split: option.splits)

definition or_else :: "json option \<Rightarrow> json \<Rightarrow> json" where
  "or_else x m = (case x of None \<Rightarrow> m | Some v \<Rightarrow> v)"

text \<open>A mask that is no integer, once stored, makes every database call return \<open>None\<close>.\<close>

lemma guard_bad_mask:
  assumes "as_index (log_detail_mask (lw_log w)) = Inl e" and "\<exists>x. log_exception l e w = (Inr x, w')"
  shows "log_error_guard l (thenP (log_detail l s as) m) w = (Inr None, w')"
  using assms log_detail_bad_mask [OF assms(1), of l s as]
  by (auto simp: log_error_guard_def tryP_def thenP_def bindP_def retP_def)

lemma log_exception_ok:
  fixes w :: "'r lworld_scheme"
  assumes "ring h (lw_log w)"
  shows "\<exists>w'. log_exception l e w = (Inr (), w') \<and> lworld.more w' = lworld.more w \<and>
    same_masks (lw_log w) (lw_log w') \<and>
    ring (h @ [\<lparr>timestamp = lw_clock w (lw_tick w), le_id = int (length h), le_module = lg_module l,
      le_msg = lw_traceback w e, le_type = ''EXCEPTION''\<rparr>]) (lw_log w')"
proof -
  obtain u' where u': "Ufmlog_add (lw_clock w (lw_tick w)) (lg_module l) ''EXCEPTION'' (lw_traceback w e) (lw_log w) =
      (Inr \<lparr>timestamp = lw_clock w (lw_tick w), le_id = int (length h), le_module = lg_module l,
        le_msg = lw_traceback w e, le_type = ''EXCEPTION''\<rparr>, u')"
    "ring (h @ [\<lparr>timestamp = lw_clock w (lw_tick w), le_id = int (length h), le_module = lg_module l,
      le_msg = lw_traceback w e, le_type = ''EXCEPTION''\<rparr>]) u'"
    using ring_add [OF assms] by blast
  have "same_masks (lw_log w) u'"
    using u'(1) by (auto simp: Ufmlog_add_def Let_def same_masks_def split: if_splits)
  with u' show ?thesis
    by (simp add: log_exception_def ulog_except_def ulog_add_def bindP_def thenP_def readP_def retP_def
        time_time_def on_log_def)
qed

end
