(* ===== verification/SwitchClient.thy ===== *)
theory SwitchClient
  imports Ufmdb
begin

text \<open>
  The client of a Mellanox switch,
  \<^verbatim>\<open>src/ufm/fabricmanager/systems/switch/switch_mellanox/switch_mellanox_client.py\<close>, with
  \<^verbatim>\<open>switch_constants.py\<close> and \<^verbatim>\<open>switch_arg.py\<close>: the commands it sends, and the five polls that
  write the answers of the switch to the database under \<^verbatim>\<open>/switches/<uuid>/...\<close>.

  The switch and the package \<^verbatim>\<open>requests\<close> are the parameter \<open>S\<close>: a login and a post over an
  unknown switch state \<open>'sw\<close>; a post yields a status code and the outcome of
  \<^verbatim>\<open>response.json()\<close>.  The world gets two fields: the switch, and the client object with its
  mutable \<^verbatim>\<open>url\<close> and \<^verbatim>\<open>uuid\<close> (a JSON value: \<^verbatim>\<open>None\<close> or what the switch reported).

  Lemmas: which keys the polls touch, whatever the switch answers, and what they write for a
  well-formed answer.
\<close>

section \<open>State\<close>

record swarg =
  sw_type :: string
  sw_ip :: string
  sa_log :: logger
  sa_db :: logger
  usrname :: string
  pwd :: string
  sa_port :: json

record 'sw switch_env =
  s_login :: "string \<Rightarrow> string \<Rightarrow> string \<Rightarrow> ('sw, int) py"
  s_post :: "string \<Rightarrow> json \<Rightarrow> ('sw, int \<times> (exn + json)) py"

record mclient =
  mc_url :: string
  mc_uuid :: json

record ('db, 'sw) world = "'db dworld" +
  w_sw :: 'sw
  w_client :: mclient

definition on_sw :: "('sw, 'a) py \<Rightarrow> (('db, 'sw, 'r) world_scheme, 'a) py" where
  "on_sw m w = (case m (w_sw w) of (r, s) \<Rightarrow> (r, w\<lparr>w_sw := s\<rparr>))"

definition SWITCH_BASE :: string where "SWITCH_BASE = ''/switches''"
definition SWITCH_LIST_KEY_PREFIX :: string where "SWITCH_LIST_KEY_PREFIX = SWITCH_BASE @ ''/list''"
definition SWITCH_POLLER_INTERVAL_SECS :: int where "SWITCH_POLLER_INTERVAL_SECS = 5"
definition SWITCH_DB_KEY_TTL_SECS :: int where "SWITCH_DB_KEY_TTL_SECS = SWITCH_POLLER_INTERVAL_SECS + 5"
definition DEFAULT_VLAN :: int where "DEFAULT_VLAN = 1"

section \<open>Connection and commands\<close>

definition send_cmd ::
  "'sw switch_env \<Rightarrow> swarg \<Rightarrow> json \<Rightarrow> (('db, 'sw, 'r) world_scheme, exn + json) py" where
  "send_cmd S a json_data =
     thenP (log_info (sa_log a) ''Sending EthSwitch cmd: '' [])
     (thenP (log_info (sa_log a) (json_dumps json_data) [])
     (bindP (readP (\<lambda>w. mc_url (w_client w))) (\<lambda>url.
      bindP (on_sw (s_post S (url @ ''?script=json'') json_data)) (\<lambda>(status, resp).
      thenP (log_info (sa_log a) (''Switch response status_code (200=OK): '' @ int_str status) [])
       (retP resp)))))"

definition commands :: "string list \<Rightarrow> json" where
  "commands cs = JObj [(''commands'', JList (map JStr cs))]"

definition send_cmds ::
  "'sw switch_env \<Rightarrow> swarg \<Rightarrow> string list \<Rightarrow> (('db, 'sw, 'r) world_scheme, exn + json) py" where
  "send_cmds S a cs = send_cmd S a (commands cs)"

definition enable_cmd where "enable_cmd S a = send_cmds S a [''enable'']"
definition show_version where "show_version S a = send_cmds S a [''show version'']"
definition show_vlan where "show_vlan S a = send_cmds S a [''show vlan'']"
definition show_port where "show_port S a = send_cmds S a [''show interfaces switchport'']"
definition show_pfc_status where "show_pfc_status S a = send_cmds S a [''show dcb priority-flow-control'']"
definition show_qos where "show_qos S a = send_cmds S a [''show qos'']"

definition connect ::
  "'sw switch_env \<Rightarrow> swarg \<Rightarrow> (('db, 'sw, 'r) world_scheme, unit) py" where
  "connect S a =
     (let url = ''https://'' @ sw_ip a @ ''/admin/launch'' in
      thenP (modifyP (\<lambda>w. w\<lparr>w_client := (w_client w)\<lparr>mc_url := url\<rparr>\<rparr>))
      (thenP (log_info (sa_log a) (''EthSwitch login url: '' @ url) [])
      (bindP (on_sw (s_login S url (usrname a) (pwd a))) (\<lambda>status.
        log_info (sa_log a) (''Switch connection status_code (200=OK): '' @ int_str status) []))))"

text \<open>\<open>json_obj['results'][0]\<close>\<close>

definition first_result :: "json \<Rightarrow> exn + json" where
  "first_result j = bindE (py_key j ''results'') py_first"

definition poll_uuid ::
  "'sw switch_env \<Rightarrow> swarg \<Rightarrow> (('db, 'sw, 'r) world_scheme, json) py" where
  "poll_uuid S a =
     bindP (show_version S a) (\<lambda>resp.
     bindP (liftP resp) (\<lambda>j.
     liftP (bindE (first_result j) (\<lambda>r.
       bindE (py_key r ''executed_command'') (\<lambda>c.
         if c = JStr ''show version''
         then bindE (py_key r ''data'') (\<lambda>d. py_key d ''System UUID'')
         else Inr JNull)))))"

definition get_uuid ::
  "'sw switch_env \<Rightarrow> swarg \<Rightarrow> (('db, 'sw, 'r) world_scheme, json) py" where
  "get_uuid S a =
     bindP (readP (\<lambda>w. mc_uuid (w_client w))) (\<lambda>u. if py_truth u then retP u else poll_uuid S a)"

definition client_init ::
  "'sw switch_env \<Rightarrow> swarg \<Rightarrow> (('db, 'sw, 'r) world_scheme, unit) py" where
  "client_init S a =
     thenP (connect S a)
     (bindP (poll_uuid S a) (\<lambda>u.
      thenP (modifyP (\<lambda>w. w\<lparr>w_client := (w_client w)\<lparr>mc_uuid := u\<rparr>\<rparr>))
      (thenP (log_info (sa_log a) (''SwitchMellanoxClient ip = '' @ sw_ip a) [])
      (thenP (log_info (sa_log a) ''Init SwitchMellanoxClient'' [])
        (log_detail_on (sa_log a))))))"

subsection \<open>VLAN commands\<close>

definition eth :: "json \<Rightarrow> string" where
  "eth port_id = ''interface ethernet 1/'' @ py_str port_id"

definition delete_vlan where
  "delete_vlan S a vlan_id = send_cmds S a [''no vlan '' @ py_str vlan_id]"

definition create_vlan where
  "create_vlan S a vlan_id = send_cmds S a [''vlan '' @ py_str vlan_id, ''exit'']"

definition name_vlan where
  "name_vlan S a vlan_id name =
     bindP (liftP (as_str name)) (\<lambda>n. send_cmds S a [''vlan '' @ py_str vlan_id @ '' name '' @ n])"

definition set_access_port_vlan where
  "set_access_port_vlan S a port_id vlan_id =
     send_cmds S a [eth port_id @ '' switchport mode access'',
                    eth port_id @ '' switchport access vlan '' @ py_str vlan_id]"

definition unassign_access_port_vlan where
  "unassign_access_port_vlan S a port_id =
     send_cmds S a [eth port_id @ '' no switchport access vlan'']"

definition set_trunk_port_vlans_all where
  "set_trunk_port_vlans_all S a port_id =
     send_cmds S a [eth port_id @ '' switchport mode trunk'',
                    eth port_id @ '' switchport trunk allowed-vlan all'']"

definition set_trunk_port_vlans_range where
  "set_trunk_port_vlans_range S a port_id start_vlan_id end_vlan_id =
     send_cmds S a [eth port_id @ '' switchport mode trunk'',
                    eth port_id @ '' switchport trunk allowed-vlan '' @ py_str start_vlan_id @ ''-'' @
                      py_str end_vlan_id]"

definition set_hybrid_port_access_vlan where
  "set_hybrid_port_access_vlan S a port_id access_vlan_id =
     send_cmds S a [eth port_id @ '' switchport mode hybrid'',
                    eth port_id @ '' switchport access vlan '' @ py_str access_vlan_id]"

definition set_hybrid_port_allowed_vlan where
  "set_hybrid_port_allowed_vlan S a port_id allowed_vlan_id =
     send_cmds S a [eth port_id @ '' switchport mode hybrid'',
                    eth port_id @ '' switchport hybrid allowed-vlan add '' @ py_str allowed_vlan_id]"

definition remove_hybrid_port_allowed_vlan where
  "remove_hybrid_port_allowed_vlan S a port_id vlan_id =
     send_cmds S a [eth port_id @ '' switchport hybrid allowed-vlan remove '' @ py_str vlan_id]"

definition associate_ip_to_vlan where
  "associate_ip_to_vlan S a vlan_id ip_address =
     bindP (liftP (as_str ip_address)) (\<lambda>ip.
       send_cmds S a [''interface vlan '' @ py_str vlan_id, ''ip address '' @ ip, ''exit''])"

definition remove_ip_from_vlan where
  "remove_ip_from_vlan S a vlan_id ip_address =
     bindP (liftP (as_str ip_address)) (\<lambda>ip.
       send_cmds S a [''interface vlan '' @ py_str vlan_id, ''no ip address '' @ ip, ''exit''])"

subsection \<open>Priority flow control, congestion, buffers\<close>

definition enable_pfc_globally where
  "enable_pfc_globally S a = send_cmds S a [''dcb priority-flow-control enable force'']"

definition disable_pfc_globally where
  "disable_pfc_globally S a = send_cmds S a [''no dcb priority-flow-control enable force'']"

definition enable_pfc_per_priority where
  "enable_pfc_per_priority S a prio =
     send_cmds S a [''dcb priority-flow-control priority '' @ py_str prio @ '' enable'']"

definition disable_pfc_per_priority where
  "disable_pfc_per_priority S a prio =
     send_cmds S a [''no dcb priority-flow-control priority '' @ py_str prio @ '' enable'']"

definition enable_port_pfc where
  "enable_port_pfc S a port_id =
     send_cmds S a [eth port_id @ '' dcb priority-flow-control mode on force'']"

definition disable_port_pfc where
  "disable_port_pfc S a port_id =
     send_cmds S a [eth port_id @ '' no dcb priority-flow-control mode force'']"

definition show_port_pfc_counters where
  "show_port_pfc_counters S a port_id prio =
     send_cmds S a [''show interfaces ethernet 1/'' @ py_str port_id @ '' counters pfc prio '' @ py_str prio]"

definition enable_ecn_marking_for_traffic_class_queue where
  "enable_ecn_marking_for_traffic_class_queue S a port_id tc min_absolute max_absolute =
     send_cmds S a [eth port_id @ '' traffic-class '' @ py_str tc @
       '' congestion-control ecn minimum-absolute '' @ py_str min_absolute @
       '' maximum-absolute '' @ py_str max_absolute]"

definition disable_ecn_marking_for_traffic_class_queue where
  "disable_ecn_marking_for_traffic_class_queue S a port_id tc =
     send_cmds S a [eth port_id @ '' no traffic-class '' @ py_str tc @ '' congestion-control'']"

definition show_port_congestion_control where
  "show_port_congestion_control S a port_id =
     send_cmds S a [''show interface ethernet 1/'' @ py_str port_id @ '' congestion-control'']"

text \<open>The text of \<^verbatim>\<open>any_cmd\<close> is sent as the request holds it.\<close>

definition any_cmd where
  "any_cmd S a any_cmd_str = send_cmd S a (JObj [(''commands'', JList [any_cmd_str])])"

definition save_configuration_file_no_switch where
  "save_configuration_file_no_switch S a file_name =
     bindP (liftP (as_str file_name)) (\<lambda>f.
       send_cmds S a [''configuration write to '' @ f @ '' no-switch''])"

definition show_configuration_files where
  "show_configuration_files S a = send_cmds S a [''show configuration files'']"

definition enable_buffer_management where
  "enable_buffer_management S a = send_cmds S a [''advanced buffer management force'']"

definition disable_buffer_management where
  "disable_buffer_management S a = send_cmds S a [''no advanced buffer management force'']"

definition show_port_buffer_details where
  "show_port_buffer_details S a port_id =
     send_cmds S a [''show buffers details interfaces ethernet 1/'' @ py_str port_id]"

definition bind_port_priority_to_specific_buffer where
  "bind_port_priority_to_specific_buffer S a port_id buf prio =
     bindP (liftP (as_str buf)) (\<lambda>b.
       send_cmds S a [eth port_id @ '' ingress-buffer '' @ b @ '' bind switch-priority '' @ py_str prio])"

section \<open>Polling the switch into the database\<close>

text \<open>
  The checks every poll makes before it reads an answer: \<open>None\<close> when one of them fails, else
  \<^verbatim>\<open>json_obj['results'][0]['data']\<close>.
\<close>

definition guarded_data :: "string \<Rightarrow> json \<Rightarrow> exn + json option" where
  "guarded_data cmd j =
     bindE (py_in ''results'' j) (\<lambda>b. if \<not> b then Inr None else
     bindE (py_key j ''results'') (\<lambda>rs.
     bindE (py_len rs) (\<lambda>n. if \<not> 0 < n then Inr None else
     bindE (py_first rs) (\<lambda>r.
     bindE (py_in ''executed_command'' r) (\<lambda>b1. if \<not> b1 then Inr None else
     bindE (py_in ''data'' r) (\<lambda>b2. if \<not> b2 then Inr None else
     bindE (py_key r ''executed_command'') (\<lambda>c. if c \<noteq> JStr cmd then Inr None else
     bindE (py_key r ''data'') (\<lambda>d. Inr (Some d)))))))))"

definition poll_answer ::
  "(('db, 'sw, 'r) world_scheme, exn + json) py \<Rightarrow> string \<Rightarrow>
   (json \<Rightarrow> (('db, 'sw, 'r) world_scheme, unit) py) \<Rightarrow> (('db, 'sw, 'r) world_scheme, unit) py" where
  "poll_answer show cmd body =
     bindP show (\<lambda>resp.
     bindP (liftP resp) (\<lambda>j.
     bindP (liftP (guarded_data cmd j)) (\<lambda>d. case d of None \<Rightarrow> retP () | Some data \<Rightarrow> body data)))"

text \<open>\<^verbatim>\<open>self.uuid\<close> where it is added to a string; \<^verbatim>\<open>self.db.lease(self.lease_ttl)\<close>; a put with a lease.\<close>

definition client_uuid :: "(('db, 'sw, 'r) world_scheme, string) py" where
  "client_uuid = bindP (readP (\<lambda>w. mc_uuid (w_client w))) (\<lambda>u. liftP (as_str u))"

definition new_lease ::
  "'db etcd3 \<Rightarrow> swarg \<Rightarrow> (('db, 'sw, 'r) world_scheme, int option) py" where
  "new_lease E a = Ufmdb_lease E (sa_db a) SWITCH_DB_KEY_TTL_SECS None"

definition put_leased ::
  "'db etcd3 \<Rightarrow> swarg \<Rightarrow> int option \<Rightarrow> string \<Rightarrow> (('db, 'sw, 'r) world_scheme, unit) py" where
  "put_leased E a lease k =
     thenP (Ufmdb_put E (sa_db a) k '''' [(''lease'', KLease lease)]) (retP ())"

text \<open>\<open>d[k][0][field]\<close>\<close>

definition port_field :: "json \<Rightarrow> string \<Rightarrow> string \<Rightarrow> exn + string" where
  "port_field d k field =
     bindE (py_key d k) (\<lambda>x. bindE (py_first x) (\<lambda>y. bindE (py_key y field) as_str))"

definition poll_qos_entry where
  "poll_qos_entry E a ports lease d k =
     bindP (liftP (py_in ''Eth1/'' k)) (\<lambda>b. if \<not> b then retP () else
     bindP (liftP (py_split_json (CHR ''/'') k)) (\<lambda>parts.
     bindP (liftP (port_field d (py_str k) ''Trust mode'')) (\<lambda>t.
       put_leased E a lease (ports @ last parts @ ''/pfc/trust_mode/'' @ t))))"

definition poll_qos ::
  "'db etcd3 \<Rightarrow> 'sw switch_env \<Rightarrow> swarg \<Rightarrow> (('db, 'sw, 'r) world_scheme, unit) py" where
  "poll_qos E S a =
     poll_answer (show_qos S a) ''show qos'' (\<lambda>data.
       bindP client_uuid (\<lambda>u.
       bindP (new_lease E a) (\<lambda>lease.
       bindP (liftP (py_iter data)) (\<lambda>ds.
       forP ds (\<lambda>d. bindP (liftP (py_iter d)) (\<lambda>ks.
       forP ks (poll_qos_entry E a (SWITCH_BASE @ ''/'' @ u @ ''/ports/'') lease d)))))))"

definition put_priorities where
  "put_priorities E a lease pre v =
     (if py_truth v
      then bindP (liftP (py_split_json (CHR '' '') v)) (\<lambda>ps. forP ps (\<lambda>i. put_leased E a lease (pre @ i)))
      else retP ())"

definition poll_pfc_entry where
  "poll_pfc_entry E a attrs ports lease d k =
     (if k = JStr ''PFC'' then
        bindP (liftP (bindE (py_key d ''PFC'') as_str)) (\<lambda>v.
          put_leased E a lease (attrs @ ''/pfc/pfc_status/'' @ v))
      else if k = JStr ''Priority Enabled List'' then
        bindP (liftP (py_key d ''Priority Enabled List''))
          (put_priorities E a lease (attrs @ ''/pfc/priority_enabled_list/''))
      else if k = JStr ''Priority Disabled List'' then
        bindP (liftP (py_key d ''Priority Disabled List''))
          (put_priorities E a lease (attrs @ ''/pfc/priority_disabled_list/''))
      else
        bindP (liftP (py_in ''Eth1/'' k)) (\<lambda>b. if \<not> b then retP () else
        bindP (liftP (py_split_json (CHR ''/'') k)) (\<lambda>parts.
        bindP (liftP (port_field d (py_str k) ''PFC oper'')) (\<lambda>t.
          put_leased E a lease (ports @ last parts @ ''/pfc/pfc_status/'' @ t)))))"

definition poll_pfc_status ::
  "'db etcd3 \<Rightarrow> 'sw switch_env \<Rightarrow> swarg \<Rightarrow> (('db, 'sw, 'r) world_scheme, unit) py" where
  "poll_pfc_status E S a =
     poll_answer (show_pfc_status S a) ''show dcb priority-flow-control'' (\<lambda>data.
       bindP client_uuid (\<lambda>u.
       bindP (new_lease E a) (\<lambda>lease.
       bindP (liftP (py_iter data)) (\<lambda>ds.
       forP ds (\<lambda>d. bindP (liftP (py_iter d)) (\<lambda>ks.
       forP ks (poll_pfc_entry E a (SWITCH_BASE @ ''/'' @ u @ ''/switch_attributes'')
         (SWITCH_BASE @ ''/'' @ u @ ''/ports/'') lease d)))))))"

text \<open>\<open>if field in data: put(prefix + data[field])\<close>\<close>

definition put_attribute where
  "put_attribute E a lease data field pre =
     bindP (liftP (py_in field data)) (\<lambda>b. if \<not> b then retP () else
     bindP (liftP (bindE (py_key data field) as_str)) (\<lambda>v. put_leased E a lease (pre @ v)))"

definition put_attribute_list where
  "put_attribute_list E a lease attrs u secs data =
     thenP (put_leased E a lease (attrs @ ''/uptime/'' @ int_str secs))
     (thenP (put_leased E a lease (attrs @ ''/uuid/'' @ u))
     (thenP (put_leased E a lease (attrs @ ''/manufacturer/'' @ py_lower (sw_type a)))
     (thenP (put_leased E a lease (attrs @ ''/ipv4/'' @ sw_ip a))
     (thenP (put_attribute E a lease data ''Name'' (attrs @ ''/name/''))
     (thenP (put_attribute E a lease data ''Product model'' (attrs @ ''/model/''))
       (put_attribute E a lease data ''System serial num'' (attrs @ ''/serial_number/'')))))))"

definition put_attributes where
  "put_attributes E a lease data =
     bindP client_uuid (\<lambda>u.
     thenP (put_leased E a lease (SWITCH_LIST_KEY_PREFIX @ ''/'' @ u))
     (bindP time_time (\<lambda>t.
      put_attribute_list E a lease (SWITCH_BASE @ ''/'' @ u @ ''/switch_attributes'') u (time_secs t) data)))"

definition poll_switch_attributes ::
  "'db etcd3 \<Rightarrow> 'sw switch_env \<Rightarrow> swarg \<Rightarrow> (('db, 'sw, 'r) world_scheme, unit) py" where
  "poll_switch_attributes E S a =
     poll_answer (show_version S a) ''show version'' (\<lambda>data.
       bindP (liftP (py_in ''System UUID'' data)) (\<lambda>b. if \<not> b then retP () else
       bindP (new_lease E a) (\<lambda>lease.
       bindP (liftP (py_key data ''System UUID'')) (\<lambda>u.
       thenP (modifyP (\<lambda>w. w\<lparr>w_client := (w_client w)\<lparr>mc_uuid := u\<rparr>\<rparr>))
         (put_attributes E a lease data)))))"

definition poll_vlan_field where
  "poll_vlan_field E a lease this f v =
     (if f = ''Name'' then
        bindP (liftP (as_str v)) (\<lambda>n. put_leased E a lease (this @ ''/name/'' @ n))
      else if f = ''Ports'' then
        bindP (liftP (py_split_json (CHR '','') v)) (\<lambda>xs.
          forP (map py_strip xs) (\<lambda>x. let port_id = path_last x in
            whenP (port_id \<noteq> []) (put_leased E a lease (this @ ''/network/ports/'' @ port_id))))
      else retP ())"

definition poll_vlan_entry where
  "poll_vlan_entry E a lease pre vlan_id vlan_info =
     thenP (put_leased E a lease (pre @ ''/list/'' @ vlan_id))
     (bindP (liftP (bindE (py_first vlan_info) py_items)) (\<lambda>fs.
      forP fs (\<lambda>(f, v). poll_vlan_field E a lease (pre @ ''/'' @ vlan_id) f v)))"

definition poll_vlan_info ::
  "'db etcd3 \<Rightarrow> 'sw switch_env \<Rightarrow> swarg \<Rightarrow> (('db, 'sw, 'r) world_scheme, unit) py" where
  "poll_vlan_info E S a =
     poll_answer (show_vlan S a) ''show vlan'' (\<lambda>data.
       bindP (liftP (py_items data)) (\<lambda>vlans.
       forP vlans (\<lambda>(vlan_id, vlan_info).
         bindP (new_lease E a) (\<lambda>lease.
         bindP client_uuid (\<lambda>u.
         poll_vlan_entry E a lease (SWITCH_BASE @ ''/'' @ u @ ''/VLANs'') vlan_id vlan_info)))))"

text \<open>The loop over the allowed VLANs writes the whole text \<open>v\<close> in every round.\<close>

definition poll_port_field where
  "poll_port_field E a lease this f v =
     (if f = ''Mode'' then
        bindP (liftP (as_str v)) (\<lambda>m. put_leased E a lease (this @ ''/mode/'' @ m))
      else if f = ''Access vlan'' then
        (if v \<noteq> JStr ''N/A''
         then bindP (liftP (as_str v)) (\<lambda>x. put_leased E a lease (this @ ''/network/access_vlan/'' @ x))
         else retP ())
      else if f = ''Allowed vlans'' then
        bindP (liftP (py_split_json (CHR '','') v)) (\<lambda>xs.
          forP (map py_strip xs) (\<lambda>allowed_id.
            bindP (liftP (as_str v)) (\<lambda>x. put_leased E a lease (this @ ''/network/allowed_vlans/'' @ x))))
      else retP ())"

definition poll_port_entry where
  "poll_port_entry E a lease pre port_id port_info =
     thenP (put_leased E a lease (pre @ ''/list/'' @ port_id))
     (bindP (liftP (bindE (py_first port_info) py_items)) (\<lambda>fs.
      forP fs (\<lambda>(f, v). poll_port_field E a lease (pre @ ''/'' @ port_id) f v)))"

definition poll_port_info ::
  "'db etcd3 \<Rightarrow> 'sw switch_env \<Rightarrow> swarg \<Rightarrow> (('db, 'sw, 'r) world_scheme, unit) py" where
  "poll_port_info E S a =
     poll_answer (show_port S a) ''show interfaces switchport'' (\<lambda>data.
       bindP (liftP (py_items data)) (\<lambda>ports.
       forP ports (\<lambda>(port, port_info).
         bindP (new_lease E a) (\<lambda>lease.
         bindP client_uuid (\<lambda>u.
         poll_port_entry E a lease (SWITCH_BASE @ ''/'' @ u @ ''/ports'') (path_last port) port_info)))))"

definition put_fresh where
  "put_fresh E a k = bindP (new_lease E a) (\<lambda>lease. put_leased E a lease k)"

definition poll_to_db ::
  "'db etcd3 \<Rightarrow> 'sw switch_env \<Rightarrow> swarg \<Rightarrow> (('db, 'sw, 'r) world_scheme, unit) py" where
  "poll_to_db E S a =
     thenP (put_fresh E a ''/Fabrics/list/Fabric.1'')
     (thenP (put_fresh E a ''/Fabrics/Fabric.1/type/NVME'')
     (thenP (bindP client_uuid (\<lambda>u. put_fresh E a (''/Fabrics/Fabric.1/list/'' @ u)))
     (thenP (poll_switch_attributes E S a)
     (thenP (poll_vlan_info E S a)
     (thenP (poll_port_info E S a)
     (thenP (poll_pfc_status E S a)
     (thenP (poll_qos E S a)
     (tryP
       (bindP client_uuid (\<lambda>u.
         put_fresh E a (''/switches/'' @ u @ ''/switch_attributes/mq_port/'' @ py_str (sa_port a))))
       (\<lambda>_. retP ())))))))))"

section \<open>Which keys the client can touch\<close>

definition sw_key :: "string \<Rightarrow> bool" where
  "sw_key k \<longleftrightarrow> prefix ''/switches/'' k \<or> prefix ''/Fabrics/'' k"

lemma sw_key_switches [simp]:
  "sw_key (SWITCH_BASE @ CHR ''/'' # k)" "sw_key (SWITCH_LIST_KEY_PREFIX @ k)"
  by (simp_all add: sw_key_def SWITCH_BASE_def SWITCH_LIST_KEY_PREFIX_def)

lemma keeps_on_sw [rel_intros]: "keeps (same_keys kv P) (on_sw m)"
  by (auto simp: keeps_def on_sw_def same_keys_def split: prod.splits)

lemma keeps_set_client [rel_intros]:
  "keeps (same_keys kv P) (modifyP (\<lambda>w. w\<lparr>w_client := f w\<rparr>))"
  by (intro fr.keeps_modify) (simp add: same_keys_def)

lemma keeps_time_time [rel_intros]: "keeps (same_keys kv P) time_time"
  by (rule keeps_log_same_keys [OF keeps_time])

declare keeps_log_calls [rel_intros] fr.keeps_rules [rel_intros] keeps_mask [rel_intros]

lemma keeps_send_cmd [rel_intros]: "keeps (same_keys kv P) (send_cmd S a j)"
  unfolding send_cmd_def by (auto simp: split_beta intro!: rel_intros)

lemma keeps_send_cmds [rel_intros]: "keeps (same_keys kv P) (send_cmds S a cs)"
  unfolding send_cmds_def by (rule keeps_send_cmd)

lemma keeps_show [rel_intros]:
  "keeps (same_keys kv P) (show_version S a)" "keeps (same_keys kv P) (show_vlan S a)"
  "keeps (same_keys kv P) (show_port S a)" "keeps (same_keys kv P) (show_pfc_status S a)"
  "keeps (same_keys kv P) (show_qos S a)"
  unfolding show_version_def show_vlan_def show_port_def show_pfc_status_def show_qos_def
  by (rule keeps_send_cmds)+

lemma keeps_client_uuid [rel_intros]: "keeps (same_keys kv P) client_uuid"
  unfolding client_uuid_def by (intro rel_intros)

lemma keeps_poll_answer:
  "keeps (same_keys kv P) show \<Longrightarrow> (\<And>data. keeps (same_keys kv P) (body data)) \<Longrightarrow>
   keeps (same_keys kv P) (poll_answer show cmd body)"
  unfolding poll_answer_def by (intro rel_intros)

context etcd_frame
begin

lemma keeps_new_lease: "keeps (same_keys kv P) (new_lease E a)"
  unfolding new_lease_def by (rule keeps_reads)

lemma keeps_put_leased: "P k \<Longrightarrow> keeps (same_keys kv P) (put_leased E a lease k)"
  unfolding put_leased_def by (intro rel_intros keeps_put)

lemma keeps_put_priorities:
  "(\<And>x. P (pre @ x)) \<Longrightarrow> keeps (same_keys kv P) (put_priorities E a lease pre v)"
  unfolding put_priorities_def by (intro rel_intros keeps_put_leased)

lemma keeps_put_attribute:
  "(\<And>x. P (pre @ x)) \<Longrightarrow> keeps (same_keys kv P) (put_attribute E a lease data field pre)"
  unfolding put_attribute_def by (intro rel_intros keeps_put_leased)

lemma keeps_poll_qos: "keeps (same_keys kv sw_key) (poll_qos E S a)"
  unfolding poll_qos_def poll_qos_entry_def
  by (intro keeps_poll_answer rel_intros keeps_new_lease keeps_put_leased) simp

lemma keeps_poll_pfc_status: "keeps (same_keys kv sw_key) (poll_pfc_status E S a)"
  unfolding poll_pfc_status_def poll_pfc_entry_def
  by (intro keeps_poll_answer rel_intros keeps_new_lease keeps_put_leased keeps_put_priorities) simp_all

lemma keeps_poll_switch_attributes: "keeps (same_keys kv sw_key) (poll_switch_attributes E S a)"
  unfolding poll_switch_attributes_def put_attributes_def put_attribute_list_def
  by (intro keeps_poll_answer rel_intros keeps_new_lease keeps_put_leased keeps_put_attribute) simp_all

lemma keeps_poll_vlan_info: "keeps (same_keys kv sw_key) (poll_vlan_info E S a)"
  unfolding poll_vlan_info_def poll_vlan_entry_def poll_vlan_field_def Let_def split_beta
  by (intro keeps_poll_answer rel_intros keeps_new_lease keeps_put_leased) simp_all

lemma keeps_poll_port_info: "keeps (same_keys kv sw_key) (poll_port_info E S a)"
  unfolding poll_port_info_def poll_port_entry_def poll_port_field_def Let_def split_beta
  by (intro keeps_poll_answer rel_intros keeps_new_lease keeps_put_leased) simp_all

lemma keeps_poll_to_db: "keeps (same_keys kv sw_key) (poll_to_db E S a)"
  unfolding poll_to_db_def put_fresh_def
  by (intro rel_intros keeps_new_lease keeps_put_leased keeps_poll_qos keeps_poll_pfc_status
      keeps_poll_switch_attributes keeps_poll_vlan_info keeps_poll_port_info) (simp_all add: sw_key_def)

end

section \<open>What the polls write\<close>

subsection \<open>A judgement for statements that add keys\<close>

text \<open>
  \<open>cl_is\<close>: the database is up and holds \<open>m\<close>, the log works, the switch is in state \<open>s\<close> and the
  client object is \<open>c\<close>.  \<open>adds \<dots> body ks\<close>: from every such world \<open>body\<close> returns normally and
  the only change is that the keys \<open>ks\<close> are present, with the empty value.
\<close>

definition cl_is where
  "cl_is kv up a m s c w \<longleftrightarrow>
     db_is kv up (sa_db a) m w \<and> log_ok (lw_log w) \<and> w_sw w = s \<and> w_client w = c"

definition put_all :: "(string \<rightharpoonup> string) \<Rightarrow> string list \<Rightarrow> string \<rightharpoonup> string" where
  "put_all m ks = (\<lambda>k. if k \<in> set ks then Some '''' else m k)"

definition adds where
  "adds kv up a s c body ks \<longleftrightarrow>
     (\<forall>m w. cl_is kv up a m s c w \<longrightarrow>
        wp body (\<lambda>_. cl_is kv up a (put_all m ks) s c) (\<lambda>_ _. False) w)"

lemma put_all_Nil [simp]: "put_all m [] = m"
  by (simp add: put_all_def)

lemma put_all_append: "put_all (put_all m ks) ls = put_all m (ks @ ls)"
  by (auto simp: put_all_def)

lemma put_all_set: "set ks = set ls \<Longrightarrow> put_all m ks = put_all m ls"
  by (simp add: put_all_def)

lemma put_all_upd: "m(k \<mapsto> '''') = put_all m [k]"
  by (auto simp: put_all_def)

lemma log_step_world:
  fixes w w' :: "('db, 'sw, 'r) world_scheme"
  assumes "log_step w w'"
  shows "w_db w' = w_db w \<and> w_sw w' = w_sw w \<and> w_client w' = w_client w"
  using log_step_more [OF assms] by (cases w; cases w') auto

lemma db_step_world:
  fixes w w' :: "('db, 'sw, 'r) world_scheme"
  assumes "db_step w w'"
  shows "w_sw w' = w_sw w \<and> w_client w' = w_client w"
  using db_step_more [OF assms] by (cases w; cases w') auto

lemma cl_is_log_step:
  assumes "cl_is kv up a m s c w" and "log_step w w'" and "log_ok (lw_log w')"
  shows "cl_is kv up a m s c w'"
  using assms(1,3) log_step_world [OF assms(2)] quiet_log_step [OF assms(2)]
  by (simp add: cl_is_def db_is_def)

lemma cl_is_db_step:
  assumes "cl_is kv up a m s c w" and "db_step w w'" and "db_is kv up (sa_db a) m' w'"
  shows "cl_is kv up a m' s c w'"
proof -
  have "log_ok (lw_log w')"
    using assms(1,2) by (auto simp: cl_is_def db_step_def log_core_def log_ok_def)
  with assms(1,3) db_step_world [OF assms(2)] show ?thesis by (simp add: cl_is_def)
qed

lemma adds_wp:
  "adds kv up a s c body ks \<Longrightarrow> cl_is kv up a m s c w \<Longrightarrow>
   (\<And>x w'. cl_is kv up a (put_all m ks) s c w' \<Longrightarrow> Q x w') \<Longrightarrow> wp body Q X w"
  unfolding adds_def by (rule wp_mono [of body "\<lambda>_. cl_is kv up a (put_all m ks) s c" "\<lambda>_ _. False"]) auto

lemma adds_ret: "adds kv up a s c (retP x) []"
  by (simp add: adds_def wp_simps)

lemma adds_then:
  "adds kv up a s c body ks \<Longrightarrow> adds kv up a s c n ls \<Longrightarrow> adds kv up a s c (thenP body n) (ks @ ls)"
  unfolding adds_def [of kv up a s c "thenP body n"] wp_thenP
  by (auto intro!: adds_wp [of kv up a s c body ks] adds_wp [of kv up a s c n ls] simp: put_all_append)

lemma adds_for:
  "(\<And>x. x \<in> set xs \<Longrightarrow> adds kv up a s c (body x) (f x)) \<Longrightarrow>
   adds kv up a s c (forP xs body) (concat (map f xs))"
proof (induction xs)
  case Nil
  then show ?case by (simp add: adds_ret)
next
  case (Cons x xs)
  then have "adds kv up a s c (thenP (body x) (forP xs body)) (f x @ concat (map f xs))"
    by (intro adds_then) auto
  then show ?case by (simp add: thenP_def)
qed

lemma adds_for_map:
  assumes "\<And>x. x \<in> set xs \<Longrightarrow> adds kv up a s c (body (q x)) (f x)"
  shows "adds kv up a s c (forP (map q xs) body) (concat (map f xs))"
proof -
  have "forP (map q xs) body = forP xs (\<lambda>x. body (q x))"
    by (induction xs) auto
  then show ?thesis using adds_for [of xs kv up a s c "\<lambda>x. body (q x)" f] assms by simp
qed

lemma adds_for_each:
  "list_all2 (\<lambda>x. adds kv up a s c (body x)) xs kss \<Longrightarrow> adds kv up a s c (forP xs body) (concat kss)"
proof (induction xs kss rule: list_all2_induct)
  case Nil
  then show ?case by (simp add: adds_ret)
next
  case (Cons x xs ks kss)
  then have "adds kv up a s c (thenP (body x) (forP xs body)) (ks @ concat kss)"
    by (intro adds_then)
  then show ?case by (simp add: thenP_def)
qed

lemma concat_map_pairs: "concat (map (\<lambda>(i, t). [g i t]) xs) = map (\<lambda>(i, t). g i t) xs"
  by (induction xs) auto

lemma adds_lift: "r = Inr x \<Longrightarrow> adds kv up a s c (f x) ks \<Longrightarrow> adds kv up a s c (bindP (liftP r) f) ks"
  by (simp add: adds_def wp_simps)

lemma adds_lift_Inr [simp]: "adds kv up a s c (bindP (liftP (Inr x)) f) ks = adds kv up a s c (f x) ks"
  by (simp add: adds_def wp_simps)

lemma adds_uuid:
  "mc_uuid c = JStr u \<Longrightarrow> adds kv up a s c (f u) ks \<Longrightarrow> adds kv up a s c (bindP client_uuid f) ks"
  by (auto simp: adds_def client_uuid_def wp_simps cl_is_def)

lemma adds_info:
  "CHR ''%'' \<notin> set t \<Longrightarrow> adds kv up a s c (log_info l t []) []"
  unfolding adds_def put_all_Nil by (auto intro!: wp_log_info intro: cl_is_log_step simp: cl_is_def)

lemma adds_empty: "adds kv up a s c body [] \<Longrightarrow> adds kv up a s c n ks \<Longrightarrow> adds kv up a s c (thenP body n) ks"
  using adds_then [of kv up a s c body "[]"] by simp

lemma adds_same: "adds kv up a s c body ks \<Longrightarrow> set ks = set ls \<Longrightarrow> adds kv up a s c body ls"
  unfolding adds_def using put_all_set by metis

text \<open>A \<^verbatim>\<open>show\<close> command whose answer is known, and the poll that reads it.\<close>

definition result_json :: "string \<Rightarrow> json \<Rightarrow> json" where
  "result_json cmd data =
     JObj [(''results'', JList [JObj [(''status'', JStr ''OK''), (''executed_command'', JStr cmd),
       (''status_message'', JStr ''''), (''data'', data)]])]"

definition answers_show ::
  "'sw switch_env \<Rightarrow> string \<Rightarrow> 'sw \<Rightarrow> string \<Rightarrow> json \<Rightarrow> bool" where
  "answers_show S url s cmd data \<longleftrightarrow>
     s_post S (url @ ''?script=json'') (commands [cmd]) s = (Inr (200, Inr (result_json cmd data)), s)"

lemma guarded_data_result: "guarded_data cmd (result_json cmd data) = Inr (Some data)"
  by (simp add: guarded_data_def result_json_def dict_has_def dict_get_def)

lemma percent_join: "(\<And>x. x \<in> set xs \<Longrightarrow> CHR ''%'' \<notin> set x) \<Longrightarrow> CHR ''%'' \<notin> set (py_join '', '' xs)"
  by (induction "'', ''" xs rule: py_join.induct) auto

lemma dumps_items_map: "dumps_items (map JStr cs) = map dumps_str cs"
  by (induction cs) auto

lemma percent_commands_all:
  assumes "\<And>c. c \<in> set cs \<Longrightarrow> CHR ''%'' \<notin> set c"
  shows "CHR ''%'' \<notin> set (json_dumps (commands cs))"
proof -
  have "CHR ''%'' \<notin> set (py_join '', '' (map dumps_str cs))"
    using assms percent_dumps_str by (intro percent_join) auto
  moreover have "CHR ''%'' \<notin> set (dumps_str ''commands'')"
    by (rule percent_dumps_str) simp
  ultimately show ?thesis by (simp add: commands_def dumps_items_map)
qed

lemma percent_commands: "CHR ''%'' \<notin> set c \<Longrightarrow> CHR ''%'' \<notin> set (json_dumps (commands [c]))"
  by (rule percent_commands_all) simp

lemma wp_post:
  assumes "cl_is kv up a m s c w" and "s_post S (mc_url c @ ''?script=json'') j s = (Inr (st, r), s')"
    and "CHR ''%'' \<notin> set (json_dumps j)" and "\<And>w'. cl_is kv up a m s' c w' \<Longrightarrow> wp (f r) Q X w'"
  shows "wp (bindP (send_cmd S a j) f) Q X w"
proof -
  have info: "wp (log_info (sa_log a) t []) Q X w"
    if "cl_is kv up a m s c w" "CHR ''%'' \<notin> set t" "\<And>w'. cl_is kv up a m s c w' \<Longrightarrow> Q () w'"
    for t s w Q X
    using adds_wp [OF adds_info [OF that(2)] that(1)] that(3) by simp
  have post: "wp (on_sw (s_post S (mc_url (w_client w) @ ''?script=json'') j)) Q X w = Q (st, r) (w\<lparr>w_sw := s'\<rparr>)"
    if "cl_is kv up a m s c w" for w Q X
    using that assms(2) by (intro wp_run) (simp add: cl_is_def on_sw_def)
  have upd: "cl_is kv up a m s' c (w\<lparr>w_sw := s'\<rparr>)" if "cl_is kv up a m s c w" for w
    using that by (auto simp: cl_is_def db_is_def quiet_def)
  have after: "wp (thenP (log_info (sa_log a) (''Switch response status_code (200=OK): '' @ int_str st) []) (retP r))
      (\<lambda>x. wp (f x) Q X) X (w\<lparr>w_sw := s'\<rparr>)" if "cl_is kv up a m s c w" for w
    unfolding wp_thenP wp_retP_fun
    by (rule info [OF upd [OF that]]) (simp_all add: int_str_percent assms(4))
  show ?thesis
    unfolding send_cmd_def wp_bindP wp_thenP wp_readP
    by (rule info, rule assms(1), simp, rule info, assumption, rule assms(3))
      (simp only: post split_conv after)
qed

lemma wp_poll_answer:
  assumes "cl_is kv up a m s c w" and "answers_show S (mc_url c) s cmd data" and "CHR ''%'' \<notin> set cmd"
    and "\<And>w'. cl_is kv up a m s c w' \<Longrightarrow> wp (body data) Q X w'"
  shows "wp (poll_answer (send_cmds S a [cmd]) cmd body) Q X w"
  unfolding poll_answer_def send_cmds_def
  using assms by (intro wp_post [where r = "Inr (result_json cmd data)" and st = 200 and s = s and s' = s])
    (auto simp: answers_show_def percent_commands bindP_liftP guarded_data_result)

lemma adds_poll_answer:
  assumes "answers_show S (mc_url c) s cmd data" and "CHR ''%'' \<notin> set cmd" and "adds kv up a s c (body data) ks"
  shows "adds kv up a s c (poll_answer (send_cmds S a [cmd]) cmd body) ks"
  using assms unfolding adds_def by (blast intro: wp_poll_answer)

subsection \<open>The configuration of a switch and its answers\<close>

text \<open>
  \<open>swview\<close> is what a switch is configured to, and the \<open>_data\<close> functions are its answers to the
  five \<^verbatim>\<open>show\<close> commands in the format that the comments of the client document.  The
  \<open>_keys\<close> functions say which database keys such a configuration means.
\<close>

record swview =
  v_uuid :: string
  v_model :: string
  v_serial :: string
  v_vlans :: "(string \<times> string \<times> string list) list"
  v_ports :: "(string \<times> string \<times> string \<times> string) list"
  v_pfc :: string
  v_prio_on :: "string list"
  v_prio_off :: "string list"
  v_port_pfc :: "(string \<times> string) list"
  v_trust :: "(string \<times> string) list"

definition version_data :: "swview \<Rightarrow> json" where
  "version_data V = JObj [(''System serial num'', JStr (v_serial V)), (''System UUID'', JStr (v_uuid V)),
     (''Product model'', JStr (v_model V))]"

definition vlan_data :: "swview \<Rightarrow> json" where
  "vlan_data V = JObj (map (\<lambda>(i, n, ps). (i, JList [JObj [(''Name'', JStr n),
     (''Ports'', JStr (py_join '', '' (map ((@) ''Eth1/'') ps)))]])) (v_vlans V))"

definition port_data :: "swview \<Rightarrow> json" where
  "port_data V = JObj (map (\<lambda>(i, mode, acc, al). (''Eth1/'' @ i, JList [JObj [(''Access vlan'', JStr acc),
     (''Allowed vlans'', JStr al), (''Mode'', JStr mode)]])) (v_ports V))"

definition pfc_data :: "swview \<Rightarrow> json" where
  "pfc_data V = JList [JObj [(''PFC'', JStr (v_pfc V)),
       (''Priority Enabled List'', JStr (py_join '' '' (v_prio_on V))),
       (''Priority Disabled List'', JStr (py_join '' '' (v_prio_off V)))],
     JObj (map (\<lambda>(i, t). (''Eth1/'' @ i, JList [JObj [(''PFC admin'', JStr ''Auto''),
       (''PFC oper'', JStr t)]])) (v_port_pfc V))]"

definition qos_data :: "swview \<Rightarrow> json" where
  "qos_data V = JList (map (\<lambda>(i, t). JObj [(''Eth1/'' @ i, JList [JObj [(''Trust mode'', JStr t)]])]) (v_trust V))"

definition num_str :: "string \<Rightarrow> bool" where
  "num_str x \<longleftrightarrow> x \<noteq> [] \<and> list_all is_digit x"

definition wf_view :: "swview \<Rightarrow> bool" where
  "wf_view V \<longleftrightarrow>
     list_all (\<lambda>(i, n, ps). list_all num_str ps) (v_vlans V) \<and>
     list_all (\<lambda>(i, r). num_str i) (v_ports V) \<and>
     list_all num_str (v_prio_on V) \<and> list_all num_str (v_prio_off V) \<and>
     list_all (\<lambda>(i, t). num_str i) (v_port_pfc V) \<and> distinct (map fst (v_port_pfc V)) \<and>
     list_all (\<lambda>(i, t). num_str i) (v_trust V)"

definition sw_pre :: "swview \<Rightarrow> string" where
  "sw_pre V = ''/switches/'' @ v_uuid V"

definition attr_keys :: "swarg \<Rightarrow> swview \<Rightarrow> int \<Rightarrow> string list" where
  "attr_keys a V t =
     [''/switches/list/'' @ v_uuid V,
      sw_pre V @ ''/switch_attributes/uptime/'' @ int_str t,
      sw_pre V @ ''/switch_attributes/uuid/'' @ v_uuid V,
      sw_pre V @ ''/switch_attributes/manufacturer/'' @ py_lower (sw_type a),
      sw_pre V @ ''/switch_attributes/ipv4/'' @ sw_ip a,
      sw_pre V @ ''/switch_attributes/model/'' @ v_model V,
      sw_pre V @ ''/switch_attributes/serial_number/'' @ v_serial V]"

definition vlan_keys :: "swview \<Rightarrow> string list" where
  "vlan_keys V = concat (map (\<lambda>(i, n, ps).
     [sw_pre V @ ''/VLANs/list/'' @ i, sw_pre V @ ''/VLANs/'' @ i @ ''/name/'' @ n] @
     map (\<lambda>p. sw_pre V @ ''/VLANs/'' @ i @ ''/network/ports/'' @ p) ps) (v_vlans V))"

definition port_keys :: "swview \<Rightarrow> string list" where
  "port_keys V = concat (map (\<lambda>(i, mode, acc, al).
     [sw_pre V @ ''/ports/list/'' @ i] @
     (if acc = ''N/A'' then [] else [sw_pre V @ ''/ports/'' @ i @ ''/network/access_vlan/'' @ acc]) @
     [sw_pre V @ ''/ports/'' @ i @ ''/network/allowed_vlans/'' @ al,
      sw_pre V @ ''/ports/'' @ i @ ''/mode/'' @ mode]) (v_ports V))"

definition pfc_keys :: "swview \<Rightarrow> string list" where
  "pfc_keys V =
     [sw_pre V @ ''/switch_attributes/pfc/pfc_status/'' @ v_pfc V] @
     map (\<lambda>i. sw_pre V @ ''/switch_attributes/pfc/priority_enabled_list/'' @ i) (v_prio_on V) @
     map (\<lambda>i. sw_pre V @ ''/switch_attributes/pfc/priority_disabled_list/'' @ i) (v_prio_off V) @
     map (\<lambda>(i, t). sw_pre V @ ''/ports/'' @ i @ ''/pfc/pfc_status/'' @ t) (v_port_pfc V)"

definition qos_keys :: "swview \<Rightarrow> string list" where
  "qos_keys V = map (\<lambda>(i, t). sw_pre V @ ''/ports/'' @ i @ ''/pfc/trust_mode/'' @ t) (v_trust V)"

definition fabric_keys :: "swview \<Rightarrow> string list" where
  "fabric_keys V =
     [''/Fabrics/list/Fabric.1'', ''/Fabrics/Fabric.1/type/NVME'', ''/Fabrics/Fabric.1/list/'' @ v_uuid V]"

definition poll_keys :: "swarg \<Rightarrow> swview \<Rightarrow> int \<Rightarrow> string list" where
  "poll_keys a V t =
     fabric_keys V @ attr_keys a V t @ vlan_keys V @ port_keys V @ pfc_keys V @ qos_keys V @
     [sw_pre V @ ''/switch_attributes/mq_port/'' @ py_str (sa_port a)]"

definition answers :: "'sw switch_env \<Rightarrow> string \<Rightarrow> 'sw \<Rightarrow> swview \<Rightarrow> bool" where
  "answers S url s V \<longleftrightarrow>
     answers_show S url s ''show version'' (version_data V) \<and>
     answers_show S url s ''show vlan'' (vlan_data V) \<and>
     answers_show S url s ''show interfaces switchport'' (port_data V) \<and>
     answers_show S url s ''show dcb priority-flow-control'' (pfc_data V) \<and>
     answers_show S url s ''show qos'' (qos_data V)"

lemma num_str_no_sep:
  assumes "num_str x"
  shows "CHR ''/'' \<notin> set x" "CHR '','' \<notin> set x" "c \<in> set x \<Longrightarrow> \<not> py_isspace c" "CHR '' '' \<notin> set x"
proof -
  have d: "c \<in> set x \<Longrightarrow> is_digit c" for c using assms by (simp add: num_str_def list_all_iff)
  show "CHR ''/'' \<notin> set x" "CHR '','' \<notin> set x" "c \<in> set x \<Longrightarrow> \<not> py_isspace c"
    using d is_digit_simps by blast+
  have "py_isspace (CHR '' '')" by (simp add: py_isspace_def)
  then show "CHR '' '' \<notin> set x" using d is_digit_simps(6) by blast
qed

lemma path_last_eth: "num_str x \<Longrightarrow> path_last (''Eth1/'' @ x) = x"
  using path_last_append [of x "''Eth1''"] num_str_no_sep(1) by simp

lemma eth_in: "py_in ''Eth1/'' (JStr (''Eth1/'' @ x)) = Inr True"
  by simp

context etcd_store
begin

lemma adds_lease:
  assumes "\<And>l. adds kv up a s c (f l) ks"
  shows "adds kv up a s c (bindP (new_lease E a) f) ks"
proof -
  have "wp (Ufmdb_lease E (sa_db a) SWITCH_DB_KEY_TTL_SECS None)
      (\<lambda>x. wp (f x) (\<lambda>_. cl_is kv up a (put_all m ks) s c) (\<lambda>_ _. False)) (\<lambda>_ _. False) w"
    if "cl_is kv up a m s c w" for m w
    using that
    by (auto intro!: wp_lease [where m = m] adds_wp [OF assms] dest: cl_is_db_step simp: cl_is_def)
      (metis cl_is_db_step cl_is_def)+
  then show ?thesis by (simp add: adds_def new_lease_def wp_simps)
qed

lemma adds_put: "adds kv up a s c (put_leased E a lease k) [k]"
  unfolding adds_def put_leased_def wp_thenP wp_retP_fun
proof (intro allI impI, rule wp_put [of "sa_db a"])
  fix m w assume w: "cl_is kv up a m s c w"
  show "db_is kv up (sa_db a) m w" using w by (simp add: cl_is_def)
  show "\<And>w'. db_is kv up (sa_db a) (m(k \<mapsto> '''')) w' \<Longrightarrow> db_step w w' \<Longrightarrow> cl_is kv up a (put_all m [k]) s c w'"
    using cl_is_db_step [OF w] by (simp add: put_all_upd)
qed (simp add: is_valid_params_def dict_keys_def)

lemma adds_put_for: "adds kv up a s c (forP xs (\<lambda>x. put_leased E a lease (f x))) (map f xs)"
  using adds_for [of xs kv up a s c "\<lambda>x. put_leased E a lease (f x)" "\<lambda>x. [f x]"]
  by (simp add: adds_put concat_map_singleton)

lemma adds_qos_entry:
  assumes "num_str i"
  shows "adds kv up a s c
    (poll_qos_entry E a pre lease (JObj [(''Eth1/'' @ i, JList [JObj [(''Trust mode'', JStr t)]])])
      (JStr (''Eth1/'' @ i))) [pre @ i @ ''/pfc/trust_mode/'' @ t]"
  using path_last_eth [OF assms] num_str_no_sep(1) [OF assms]
  by (simp add: poll_qos_entry_def path_last_def port_field_def dict_get_def adds_put py_split_no_sep)

lemma adds_poll_qos:
  assumes "answers S (mc_url c) s V" and "wf_view V" and "mc_uuid c = JStr (v_uuid V)"
  shows "adds kv up a s c (poll_qos E S a) (qos_keys V)"
proof -
  let ?q = "\<lambda>(i, t). JObj [(''Eth1/'' @ i, JList [JObj [(''Trust mode'', JStr t)]])]"
  let ?pre = "SWITCH_BASE @ ''/'' @ v_uuid V @ ''/ports/''"
  let ?f = "\<lambda>(i, t). [sw_pre V @ ''/ports/'' @ i @ ''/pfc/trust_mode/'' @ t]"
  have entry: "adds kv up a s c (bindP (liftP (py_iter (?q x)))
      (\<lambda>ks. forP ks (poll_qos_entry E a ?pre lease (?q x)))) (?f x)"
    if mem: "x \<in> set (v_trust V)" for x lease
  proof -
    obtain i t where x: "x = (i, t)" "num_str i"
      using mem assms(2) by (auto simp: wf_view_def list_all_iff)
    have "adds kv up a s c (forP [JStr (''Eth1/'' @ i)] (poll_qos_entry E a ?pre lease (?q x)))
        (concat (map (\<lambda>_. ?f x) [JStr (''Eth1/'' @ i)]))"
      using adds_qos_entry [OF x(2), of a s c ?pre lease t] x(1)
      by (intro adds_for) (simp add: sw_pre_def SWITCH_BASE_def)
    then show ?thesis
      using x(1) by (intro adds_lift [of _ "[JStr (''Eth1/'' @ i)]"]) simp_all
  qed
  have keys: "qos_keys V = concat (map ?f (v_trust V))"
    by (simp add: qos_keys_def concat_map_pairs del: append_Cons)
  show ?thesis
    unfolding poll_qos_def show_qos_def keys
  proof (rule adds_poll_answer [where data = "qos_data V"])
    show "answers_show S (mc_url c) s ''show qos'' (qos_data V)" using assms(1) by (simp add: answers_def)
    have "adds kv up a s c (forP (map ?q (v_trust V)) (\<lambda>d. bindP (liftP (py_iter d)) (\<lambda>ks.
        forP ks (poll_qos_entry E a ?pre lease d)))) (concat (map ?f (v_trust V)))" for lease
      by (rule adds_for_map) (rule entry)
    then show "adds kv up a s c (bindP client_uuid (\<lambda>u. bindP (new_lease E a) (\<lambda>lease.
        bindP (liftP (py_iter (qos_data V))) (\<lambda>ds. forP ds (\<lambda>d. bindP (liftP (py_iter d)) (\<lambda>ks.
        forP ks (poll_qos_entry E a (SWITCH_BASE @ ''/'' @ u @ ''/ports/'') lease d)))))))
        (concat (map ?f (v_trust V)))"
      by (intro adds_uuid [OF assms(3)] adds_lease) (simp only: qos_data_def py_iter.simps adds_lift_Inr)
  qed simp
qed

lemma adds_priorities:
  assumes "list_all num_str ps" and "\<And>i. f i = pre @ i"
  shows "adds kv up a s c (put_priorities E a lease pre (JStr (py_join '' '' ps))) (map f ps)"
proof (cases ps)
  case Nil
  then show ?thesis by (simp add: put_priorities_def adds_ret)
next
  case (Cons p qs)
  have sp: "py_split (CHR '' '') (py_join '' '' ps) = ps"
    using assms(1) Cons num_str_no_sep(4) by (intro py_split_join) (auto simp: list_all_iff)
  have "py_join '' '' ps \<noteq> []"
    using assms(1) Cons by (cases qs) (auto simp: num_str_def)
  with sp show ?thesis by (simp add: put_priorities_def adds_put_for assms(2) [symmetric])
qed

lemma adds_pfc_port:
  assumes "num_str i" and "map_of d (''Eth1/'' @ i) = Some (JList [JObj [(''PFC admin'', JStr ''Auto''), (''PFC oper'', JStr t)]])"
  shows "adds kv up a s c (poll_pfc_entry E a attrs pre lease (JObj d) (JStr (''Eth1/'' @ i)))
    [pre @ i @ ''/pfc/pfc_status/'' @ t]"
  using assms(2) path_last_eth [OF assms(1)] num_str_no_sep(1) [OF assms(1)]
  by (simp add: poll_pfc_entry_def path_last_def port_field_def dict_get_def adds_put py_split_no_sep)

lemma adds_poll_pfc:
  assumes "answers S (mc_url c) s V" and "wf_view V" and "mc_uuid c = JStr (v_uuid V)"
  shows "adds kv up a s c (poll_pfc_status E S a) (pfc_keys V)"
proof -
  let ?attrs = "SWITCH_BASE @ ''/'' @ v_uuid V @ ''/switch_attributes''"
  let ?ports = "SWITCH_BASE @ ''/'' @ v_uuid V @ ''/ports/''"
  define d1 where "d1 = [(''PFC'', JStr (v_pfc V)),
       (''Priority Enabled List'', JStr (py_join '' '' (v_prio_on V))),
       (''Priority Disabled List'', JStr (py_join '' '' (v_prio_off V)))]"
  define q where "q = (\<lambda>(i, t). (''Eth1/'' @ i, JList [JObj [(''PFC admin'', JStr ''Auto''), (''PFC oper'', JStr t)]]))"
  define d2 where "d2 = map q (v_port_pfc V)"
  let ?f = "\<lambda>(i, t). [?ports @ i @ ''/pfc/pfc_status/'' @ t]"
  let ?k1 = "concat [[?attrs @ ''/pfc/pfc_status/'' @ v_pfc V],
      map (\<lambda>i. ?attrs @ ''/pfc/priority_enabled_list/'' @ i) (v_prio_on V),
      map (\<lambda>i. ?attrs @ ''/pfc/priority_disabled_list/'' @ i) (v_prio_off V)]"
  let ?body = "\<lambda>lease d. bindP (liftP (py_iter d)) (\<lambda>ks. forP ks (poll_pfc_entry E a ?attrs ?ports lease d))"
  have g: "adds kv up a s c (?body lease (JObj d1)) ?k1" for lease
    using assms(2) unfolding py_iter.simps adds_lift_Inr
    by (intro adds_for_each)
      (simp add: d1_def poll_pfc_entry_def dict_get_def adds_put adds_priorities wf_view_def)
  have dist: "distinct (map fst d2)"
    using assms(2) by (simp add: d2_def q_def wf_view_def comp_def split_beta distinct_map inj_on_def)
  have at: "adds kv up a s c (poll_pfc_entry E a ?attrs ?ports lease (JObj d2) (JStr (fst (q x)))) (?f x)"
    if mem: "x \<in> set (v_port_pfc V)" for x lease
  proof -
    obtain i t where x: "x = (i, t)" "num_str i"
      using mem assms(2) by (auto simp: wf_view_def list_all_iff)
    have "q x \<in> set d2" using mem by (simp add: d2_def)
    then have "map_of d2 (fst (q x)) = Some (snd (q x))"
      using dist by (intro map_of_is_SomeI) simp_all
    then show ?thesis
      using adds_pfc_port [OF x(2), of d2 t a s c ?attrs ?ports lease] x(1) by (simp add: q_def)
  qed
  have p: "adds kv up a s c (?body lease (JObj d2)) (concat (map ?f (v_port_pfc V)))" for lease
  proof -
    have "py_iter (JObj d2) = Inr (map (\<lambda>x. JStr (fst (q x))) (v_port_pfc V))"
      by (simp add: d2_def split_beta)
    moreover have "adds kv up a s c (forP (map (\<lambda>x. JStr (fst (q x))) (v_port_pfc V))
        (poll_pfc_entry E a ?attrs ?ports lease (JObj d2))) (concat (map ?f (v_port_pfc V)))"
      by (rule adds_for_map) (rule at)
    ultimately show ?thesis by (simp only: adds_lift_Inr)
  qed
  have all: "adds kv up a s c (forP [JObj d1, JObj d2] (?body lease)) (pfc_keys V)" for lease
  proof -
    have "adds kv up a s c (forP [JObj d1, JObj d2] (?body lease)) (concat [?k1, concat (map ?f (v_port_pfc V))])"
      by (rule adds_for_each) (simp only: list_all2_Cons list_all2_Nil g p simp_thms)
    then show ?thesis
      by (simp add: pfc_keys_def sw_pre_def SWITCH_BASE_def concat_map_pairs comp_def)
  qed
  show ?thesis
    unfolding poll_pfc_status_def show_pfc_status_def
  proof (rule adds_poll_answer [where data = "pfc_data V"])
    show "answers_show S (mc_url c) s ''show dcb priority-flow-control'' (pfc_data V)"
      using assms(1) by (simp add: answers_def)
    have "pfc_data V = JList [JObj d1, JObj d2]"
      by (simp add: pfc_data_def d1_def d2_def q_def)
    then show "adds kv up a s c (bindP client_uuid (\<lambda>u. bindP (new_lease E a) (\<lambda>lease.
        bindP (liftP (py_iter (pfc_data V))) (\<lambda>ds. forP ds (\<lambda>d. bindP (liftP (py_iter d)) (\<lambda>ks.
        forP ks (poll_pfc_entry E a (SWITCH_BASE @ ''/'' @ u @ ''/switch_attributes'')
          (SWITCH_BASE @ ''/'' @ u @ ''/ports/'') lease d))))))) (pfc_keys V)"
      by (intro adds_uuid [OF assms(3)] adds_lease) (simp only: py_iter.simps adds_lift_Inr all)
  qed simp
qed

lemma adds_whenP_put:
  "adds kv up a s c (whenP b (put_leased E a lease k)) (if b then [k] else [])"
  by (simp add: whenP_def adds_put adds_ret)

lemma adds_vlan_ports:
  assumes "list_all num_str ps"
  shows "adds kv up a s c (poll_vlan_field E a lease this ''Ports'' (JStr (py_join '', '' (map ((@) ''Eth1/'') ps))))
    (map (\<lambda>p. this @ ''/network/ports/'' @ p) ps)"
proof (cases "ps = []")
  case True
  then show ?thesis
    by (simp add: poll_vlan_field_def py_strip_def path_last_def whenP_def)
      (simp add: adds_def wp_simps wp_retP_fun)
next
  case False
  let ?body = "\<lambda>x. let port_id = path_last x in
    whenP (port_id \<noteq> []) (put_leased E a lease (this @ ''/network/ports/'' @ port_id))"
  have sp: "\<not> py_isspace c" if "p \<in> set ps" "c \<in> set (''Eth1/'' @ p)" for p c
    using that assms num_str_no_sep(3) [of p c] by (auto simp: list_all_iff py_isspace_def)
  have xs: "map py_strip (py_split (CHR '','') (py_join '', '' (map ((@) ''Eth1/'') ps))) = map ((@) ''Eth1/'') ps"
    using False assms num_str_no_sep(2) sp
    by (intro strip_split_join) (auto simp: list_all_iff simp del: append_Cons)
  have "adds kv up a s c (forP (map ((@) ''Eth1/'') ps) ?body)
      (concat (map (\<lambda>p. [this @ ''/network/ports/'' @ p]) ps))"
  proof (rule adds_for_map)
    fix p assume "p \<in> set ps"
    then have "num_str p" using assms by (simp add: list_all_iff)
    then show "adds kv up a s c (?body (''Eth1/'' @ p)) [this @ ''/network/ports/'' @ p]"
      using path_last_eth [of p] adds_whenP_put [of a s c True lease "this @ ''/network/ports/'' @ p"]
      by (simp only: Let_def) (simp add: num_str_def)
  qed
  then show ?thesis
    by (simp add: poll_vlan_field_def xs concat_map_singleton)
qed

lemma adds_vlan_entry:
  assumes "list_all num_str ps"
    and "ks = [pre @ ''/list/'' @ i] @ concat [[(pre @ ''/'' @ i) @ ''/name/'' @ n],
      map (\<lambda>p. (pre @ ''/'' @ i) @ ''/network/ports/'' @ p) ps]"
  shows "adds kv up a s c (poll_vlan_entry E a lease pre i (JList [JObj [(''Name'', JStr n),
      (''Ports'', JStr (py_join '', '' (map ((@) ''Eth1/'') ps)))]])) ks"
proof -
  have name: "adds kv up a s c (poll_vlan_field E a lease this ''Name'' (JStr n)) [this @ ''/name/'' @ n]" for this
    using adds_put [of a s c lease "this @ ''/name/'' @ n"] by (simp add: poll_vlan_field_def)
  show ?thesis
    unfolding poll_vlan_entry_def py_first.simps list.case bindE.simps py_items.simps assms(2)
    by (intro adds_then adds_put, simp only: adds_lift_Inr, intro adds_for_each)
      (simp only: list_all2_Cons list_all2_Nil split_conv name adds_vlan_ports [OF assms(1)] simp_thms)
qed

lemma adds_poll_vlan:
  assumes "answers S (mc_url c) s V" and "wf_view V" and "mc_uuid c = JStr (v_uuid V)"
  shows "adds kv up a s c (poll_vlan_info E S a) (vlan_keys V)"
proof -
  let ?q = "\<lambda>(i, n, ps). (i :: string, JList [JObj [(''Name'', JStr n),
     (''Ports'', JStr (py_join '', '' (map ((@) ''Eth1/'') ps)))]])"
  let ?f = "\<lambda>(i, n, ps). [sw_pre V @ ''/VLANs/list/'' @ i, sw_pre V @ ''/VLANs/'' @ i @ ''/name/'' @ n] @
     map (\<lambda>p. sw_pre V @ ''/VLANs/'' @ i @ ''/network/ports/'' @ p) ps"
  let ?body = "\<lambda>(vlan_id, vlan_info). bindP (new_lease E a) (\<lambda>lease. bindP client_uuid (\<lambda>u.
     poll_vlan_entry E a lease (SWITCH_BASE @ ''/'' @ u @ ''/VLANs'') vlan_id vlan_info))"
  have each: "adds kv up a s c (?body (?q x)) (?f x)" if mem: "x \<in> set (v_vlans V)" for x
  proof -
    obtain i n ps where x: "x = (i, n, ps)" "list_all num_str ps"
      using mem assms(2) by (auto simp: wf_view_def list_all_iff)
    show ?thesis
      unfolding x(1) split_conv
      by (intro adds_lease adds_uuid [OF assms(3)] adds_vlan_entry [OF x(2)])
        (simp add: SWITCH_BASE_def sw_pre_def)
  qed
  have loop: "adds kv up a s c (forP (map ?q (v_vlans V)) ?body) (vlan_keys V)"
    unfolding vlan_keys_def by (rule adds_for_map) (rule each)
  show ?thesis
    unfolding poll_vlan_info_def show_vlan_def
  proof (rule adds_poll_answer [where data = "vlan_data V"])
    show "answers_show S (mc_url c) s ''show vlan'' (vlan_data V)" using assms(1) by (simp add: answers_def)
  qed (use loop in \<open>simp_all add: vlan_data_def\<close>)
qed

lemma adds_allowed:
  "adds kv up a s c (poll_port_field E a lease this ''Allowed vlans'' (JStr al))
     [this @ ''/network/allowed_vlans/'' @ al]"
proof -
  have "adds kv up a s c (forP (map py_strip (py_split (CHR '','') al))
      (\<lambda>x. put_leased E a lease (this @ ''/network/allowed_vlans/'' @ al)))
      (map (\<lambda>x. this @ ''/network/allowed_vlans/'' @ al) (map py_strip (py_split (CHR '','') al)))"
    by (rule adds_put_for)
  then have "adds kv up a s c (forP (map py_strip (py_split (CHR '','') al))
      (\<lambda>x. put_leased E a lease (this @ ''/network/allowed_vlans/'' @ al)))
      [this @ ''/network/allowed_vlans/'' @ al]"
    by (rule adds_same) (auto simp: image_iff ex_in_conv)
  then show ?thesis by (simp add: poll_port_field_def bindP_liftP)
qed

lemma adds_port_entry:
  assumes "ks = [pre @ ''/list/'' @ i] @ concat
    [if acc = ''N/A'' then [] else [(pre @ ''/'' @ i) @ ''/network/access_vlan/'' @ acc],
     [(pre @ ''/'' @ i) @ ''/network/allowed_vlans/'' @ al], [(pre @ ''/'' @ i) @ ''/mode/'' @ mode]]"
  shows "adds kv up a s c (poll_port_entry E a lease pre i (JList [JObj [(''Access vlan'', JStr acc),
     (''Allowed vlans'', JStr al), (''Mode'', JStr mode)]])) ks"
proof -
  have mode: "adds kv up a s c (poll_port_field E a lease this ''Mode'' (JStr mode)) [this @ ''/mode/'' @ mode]" for this
    using adds_put [of a s c lease "this @ ''/mode/'' @ mode"] by (simp add: poll_port_field_def)
  have acc: "adds kv up a s c (poll_port_field E a lease this ''Access vlan'' (JStr acc))
      (if acc = ''N/A'' then [] else [this @ ''/network/access_vlan/'' @ acc])" for this
    by (simp add: poll_port_field_def adds_ret adds_put)
  show ?thesis
    unfolding poll_port_entry_def py_first.simps list.case bindE.simps py_items.simps assms
    by (intro adds_then adds_put, simp only: adds_lift_Inr, intro adds_for_each)
      (simp only: list_all2_Cons list_all2_Nil split_conv mode acc adds_allowed simp_thms)
qed

lemma adds_poll_port:
  assumes "answers S (mc_url c) s V" and "wf_view V" and "mc_uuid c = JStr (v_uuid V)"
  shows "adds kv up a s c (poll_port_info E S a) (port_keys V)"
proof -
  let ?q = "\<lambda>(i, mode, acc, al). (''Eth1/'' @ i, JList [JObj [(''Access vlan'', JStr acc),
     (''Allowed vlans'', JStr al), (''Mode'', JStr mode)]])"
  let ?f = "\<lambda>(i, mode, acc, al). [sw_pre V @ ''/ports/list/'' @ i] @
     (if acc = ''N/A'' then [] else [sw_pre V @ ''/ports/'' @ i @ ''/network/access_vlan/'' @ acc]) @
     [sw_pre V @ ''/ports/'' @ i @ ''/network/allowed_vlans/'' @ al,
      sw_pre V @ ''/ports/'' @ i @ ''/mode/'' @ mode]"
  let ?body = "\<lambda>(port, port_info). bindP (new_lease E a) (\<lambda>lease. bindP client_uuid (\<lambda>u.
     poll_port_entry E a lease (SWITCH_BASE @ ''/'' @ u @ ''/ports'') (path_last port) port_info))"
  have each: "adds kv up a s c (?body (?q x)) (?f x)" if mem: "x \<in> set (v_ports V)" for x
  proof -
    obtain i mode acc al where x: "x = (i, mode, acc, al)" "num_str i"
      using mem assms(2) by (cases x) (auto simp: wf_view_def list_all_iff)
    show ?thesis
      unfolding x(1) split_conv path_last_eth [OF x(2)]
      by (intro adds_lease adds_uuid [OF assms(3)] adds_port_entry)
        (simp add: SWITCH_BASE_def sw_pre_def)
  qed
  have loop: "adds kv up a s c (forP (map ?q (v_ports V)) ?body) (port_keys V)"
    unfolding port_keys_def by (rule adds_for_map) (rule each)
  show ?thesis
    unfolding poll_port_info_def show_port_def
  proof (rule adds_poll_answer [where data = "port_data V"])
    show "answers_show S (mc_url c) s ''show interfaces switchport'' (port_data V)"
      using assms(1) by (simp add: answers_def)
  qed (use loop in \<open>simp_all add: port_data_def\<close>)
qed

lemma adds_attribute:
  assumes "map_of d field = Some (JStr v)"
  shows "adds kv up a s c (put_attribute E a lease (JObj d) field pre) [pre @ v]"
  using assms by (simp add: put_attribute_def dict_has_def dict_get_def adds_put)

lemma adds_no_attribute:
  "map_of d field = None \<Longrightarrow> adds kv up a s c (put_attribute E a lease (JObj d) field pre) []"
  by (simp add: put_attribute_def dict_has_def adds_ret)

lemma wp_time_time:
  assumes "cl_is kv up a m s c w" and "\<And>t w'. cl_is kv up a m s c w' \<Longrightarrow> Q t w'"
  shows "wp time_time Q X w"
proof -
  have "cl_is kv up a m s c (w\<lparr>lw_tick := lw_tick w + 1\<rparr>)"
    using assms(1) by (auto simp: cl_is_def db_is_def quiet_def)
  then show ?thesis using assms(2) by (simp add: wp_def time_time_def)
qed

lemma adds_attribute_list:
  "adds kv up a s c (put_attribute_list E a lease pre u t (version_data V))
     ([pre @ ''/uptime/'' @ int_str t] @ [pre @ ''/uuid/'' @ u] @
      [pre @ ''/manufacturer/'' @ py_lower (sw_type a)] @ [pre @ ''/ipv4/'' @ sw_ip a] @ [] @
      [(pre @ ''/model/'') @ v_model V] @ [(pre @ ''/serial_number/'') @ v_serial V])"
  unfolding put_attribute_list_def version_data_def
  by (intro adds_then adds_put adds_attribute adds_no_attribute) simp_all

lemma wp_poll_attributes:
  assumes "cl_is kv up a m s c w" and "answers S (mc_url c) s V" and "mc_uuid c = JStr (v_uuid V)"
    and "\<And>t x w'. cl_is kv up a (put_all m (attr_keys a V t)) s c w' \<Longrightarrow> Q x w'"
  shows "wp (poll_switch_attributes E S a) Q X w"
proof -
  let ?pre = "SWITCH_BASE @ ''/'' @ v_uuid V @ ''/switch_attributes''"
  have keys: "[SWITCH_LIST_KEY_PREFIX @ ''/'' @ v_uuid V] @ ([?pre @ ''/uptime/'' @ int_str t] @ [?pre @ ''/uuid/'' @ v_uuid V] @
        [?pre @ ''/manufacturer/'' @ py_lower (sw_type a)] @ [?pre @ ''/ipv4/'' @ sw_ip a] @ [] @
        [(?pre @ ''/model/'') @ v_model V] @ [(?pre @ ''/serial_number/'') @ v_serial V]) = attr_keys a V t" for t
    by (simp add: attr_keys_def sw_pre_def SWITCH_LIST_KEY_PREFIX_def SWITCH_BASE_def)
  have put: "wp (put_attributes E a lease (version_data V)) Q X w'" if w': "cl_is kv up a m s c w'" for lease w'
  proof -
    have "wp client_uuid Q X w' = Q (v_uuid V) w'" for Q X
      using w' assms(3) by (simp add: client_uuid_def wp_simps cl_is_def)
    then show ?thesis
      unfolding put_attributes_def wp_bindP wp_thenP
      by (simp only:) (rule adds_wp [OF adds_put w'], erule wp_time_time, erule adds_wp [OF adds_attribute_list],
        unfold put_all_append keys, erule assms(4))
  qed
  have c: "c\<lparr>mc_uuid := JStr (v_uuid V)\<rparr> = c" using assms(3) by (cases c) simp
  have same: "w'\<lparr>w_client := (w_client w')\<lparr>mc_uuid := JStr (v_uuid V)\<rparr>\<rparr> = w'"
    if "cl_is kv up a m s c w'" for w' :: "('db, 'a, 'b) world_scheme"
    using that c by (cases w') (simp add: cl_is_def)
  have "wp (bindP (new_lease E a) (\<lambda>lease. bindP (liftP (Inr (JStr (v_uuid V)))) (\<lambda>u.
       thenP (modifyP (\<lambda>w. w\<lparr>w_client := (w_client w)\<lparr>mc_uuid := u\<rparr>\<rparr>))
         (put_attributes E a lease (version_data V))))) Q X w'" if w': "cl_is kv up a m s c w'" for w'
    unfolding bindP_liftP new_lease_def wp_bindP
  proof (rule wp_lease [of "sa_db a" m])
    show "db_is kv up (sa_db a) m w'" using w' by (simp add: cl_is_def)
    fix i' and v :: "('db, 'a, 'b) world_scheme"
    assume "db_is kv up (sa_db a) m v" "db_step w' v"
    then have "cl_is kv up a m s c v" using cl_is_db_step [OF w'] by blast
    then show "wp (thenP (modifyP (\<lambda>w. w\<lparr>w_client := (w_client w)\<lparr>mc_uuid := JStr (v_uuid V)\<rparr>\<rparr>))
        (put_attributes E a (Some i') (version_data V))) Q X v"
      using same put by (simp add: wp_simps)
  qed
  then show ?thesis
    unfolding poll_switch_attributes_def show_version_def using assms(2)
    by (intro wp_poll_answer [OF assms(1)]) (auto simp: answers_def version_data_def dict_has_def dict_get_def bindP_liftP)
qed

lemma adds_put_fresh: "adds kv up a s c (put_fresh E a k) [k]"
  unfolding put_fresh_def by (intro adds_lease adds_put)

lemma wp_poll_to_db:
  assumes "cl_is kv up a m s c w" and "answers S (mc_url c) s V" and "wf_view V"
    and "mc_uuid c = JStr (v_uuid V)"
    and "\<And>t x w'. cl_is kv up a (put_all m (poll_keys a V t)) s c w' \<Longrightarrow> Q x w'"
  shows "wp (poll_to_db E S a) Q X w"
proof -
  let ?mq = "''/switches/'' @ v_uuid V @ ''/switch_attributes/mq_port/'' @ py_str (sa_port a)"
  have fab: "adds kv up a s c (bindP client_uuid (\<lambda>u. put_fresh E a (''/Fabrics/Fabric.1/list/'' @ u)))
      [''/Fabrics/Fabric.1/list/'' @ v_uuid V]"
    by (rule adds_uuid [OF assms(4)]) (rule adds_put_fresh)
  have mq: "adds kv up a s c (bindP client_uuid (\<lambda>u.
      put_fresh E a (''/switches/'' @ u @ ''/switch_attributes/mq_port/'' @ py_str (sa_port a)))) [?mq]"
    by (rule adds_uuid [OF assms(4)]) (rule adds_put_fresh)
  have keys: "[''/Fabrics/list/Fabric.1''] @ [''/Fabrics/Fabric.1/type/NVME''] @ [''/Fabrics/Fabric.1/list/'' @ v_uuid V] @
      attr_keys a V t @ vlan_keys V @ port_keys V @ pfc_keys V @ qos_keys V @ [?mq] = poll_keys a V t" for t
    by (simp add: poll_keys_def fabric_keys_def sw_pre_def)
  note polls = adds_poll_vlan [OF assms(2-4)] adds_poll_port [OF assms(2-4)] adds_poll_pfc [OF assms(2-4)]
    adds_poll_qos [OF assms(2-4)]
  show ?thesis
    unfolding poll_to_db_def wp_thenP wp_tryP
    by (rule adds_wp [OF adds_put_fresh assms(1)], erule adds_wp [OF adds_put_fresh], erule adds_wp [OF fab],
        erule wp_poll_attributes [OF _ assms(2,4)], erule adds_wp [OF polls(1)], erule adds_wp [OF polls(2)],
        erule adds_wp [OF polls(3)], erule adds_wp [OF polls(4)], erule adds_wp [OF mq],
        unfold put_all_append append_assoc keys, erule assms(5))
qed

end

end
