(* ===== verification/SwitchController.thy ===== *)
theory SwitchController
  imports SwitchClient
begin

text \<open>
  \<^verbatim>\<open>src/ufm/fabricmanager/systems/switch/switch_controller.py\<close>: the handlers behind the Redfish
  actions of a switch.  A handler reads its parameters from the request, sends the command,
  and when the switch reports the command as executed with status \<^verbatim>\<open>OK\<close> it deletes the
  stale keys of the database and polls the switch again.

  \<open>U\<close> is the controller's own copy of the switch's identifier, which \<^verbatim>\<open>start\<close> sets and
  nothing changes later.  A request is the outcome of \<^verbatim>\<open>json.loads\<close> on the message.  The
  prints are not modelled.

  Lemmas: which keys a request can touch, whatever the switch answers; that a request whose
  command is not confirmed leaves the database alone; and what a confirmed command leaves
  there.
\<close>

section \<open>Starting\<close>

record ctl =
  c_running :: bool
  c_uuid :: json

text \<open>
  \<^verbatim>\<open>start\<close> without the two threads: the Redfish server it starts first is modelled in the
  theory of the server, and the controller's own thread has no work to do.
\<close>

definition controller_start ::
  "'sw switch_env \<Rightarrow> swarg \<Rightarrow> (('db, 'sw, 'r) world_scheme, ctl) py" where
  "controller_start S a =
     thenP (log_info (sa_log a) ''Start SwitchController'' [])
     (if py_lower (sw_type a) = ''mellanox'' then
        thenP (client_init S a)
        (bindP (get_uuid S a) (\<lambda>u. retP \<lparr>c_running = True, c_uuid = u\<rparr>))
      else raiseP (GenericException (''Invalid switch type, '' @ sw_type a @ '' is not valid'')))"

section \<open>Deleting stale keys\<close>

definition delete_vlan_ports where
  "delete_vlan_ports E a u port_id kv_dict =
     forP (dict_keys kv_dict) (\<lambda>k.
       thenP (Ufmdb_delete_prefix E (sa_db a)
         (''/switches/'' @ u @ ''/VLANs/'' @ path_last k @ ''/network/ports/'' @ py_str port_id)) (retP ()))"

definition delete_prefixes where
  "delete_prefixes E a ps = forP ps (\<lambda>p. thenP (Ufmdb_delete_prefix E (sa_db a) p) (retP ()))"

definition remove_entry_for_port_mode_change ::
  "'db etcd3 \<Rightarrow> swarg \<Rightarrow> json \<Rightarrow> json \<Rightarrow> (('db, 'sw, 'r) world_scheme, unit) py" where
  "remove_entry_for_port_mode_change E a U port_id =
     bindP (liftP (as_str U)) (\<lambda>u.
     let pre = ''/switches/'' @ u @ ''/ports/'' @ py_str port_id in
     bindP (query_prefix E (pre @ ''/network/access_vlan'')) (\<lambda>d1.
     thenP (delete_vlan_ports E a u port_id d1)
     (bindP (query_prefix E (pre @ ''/network/allowed_vlans'')) (\<lambda>d2.
     thenP (delete_vlan_ports E a u port_id d2)
       (delete_prefixes E a [pre @ ''/mode/'', pre @ ''/network/access_vlan/'', pre @ ''/network/allowed_vlans/''])))))"

definition remove_entry_for_pfc_change ::
  "'db etcd3 \<Rightarrow> swarg \<Rightarrow> json \<Rightarrow> json \<Rightarrow> (('db, 'sw, 'r) world_scheme, unit) py" where
  "remove_entry_for_pfc_change E a U port_id =
     bindP (liftP (as_str U)) (\<lambda>u.
       if py_truth port_id
       then delete_prefixes E a [''/switches/'' @ u @ ''/ports/'' @ py_str port_id @ ''/pfc'']
       else delete_prefixes E a [''/switches/'' @ u @ ''/switch_attributes/pfc''])"

definition remove_all_per_switch ::
  "'db etcd3 \<Rightarrow> swarg \<Rightarrow> json \<Rightarrow> (('db, 'sw, 'r) world_scheme, unit) py" where
  "remove_all_per_switch E a U =
     bindP (liftP (as_str U)) (\<lambda>u. delete_prefixes E a [''/switches/'' @ u])"

section \<open>Handlers\<close>

text \<open>
  The loop the handlers share: \<open>act\<close> runs once for every result that reports the command as
  executed with status \<^verbatim>\<open>OK\<close>.
\<close>

definition on_ok ::
  "json \<Rightarrow> ('w, unit) py \<Rightarrow> json \<Rightarrow> ('w, unit) py" where
  "on_ok cmd act json_obj =
     bindP (liftP (bindE (py_key json_obj ''results'') py_iter)) (\<lambda>items.
     forP items (\<lambda>item.
       bindP (liftP (py_key item ''executed_command'')) (\<lambda>c.
       if c = cmd
       then bindP (liftP (py_key item ''status'')) (\<lambda>st. whenP (st = JStr ''OK'') act)
       else retP ())))"

text \<open>Send, decode the answer, update the database, return the answer.\<close>

definition send_update ::
  "('w, exn + json) py \<Rightarrow> json \<Rightarrow> ('w, unit) py \<Rightarrow> ('w, json) py" where
  "send_update send cmd act =
     bindP send (\<lambda>resp. bindP (liftP resp) (\<lambda>j. thenP (on_ok cmd act j) (retP j)))"

definition send_only :: "('w, exn + json) py \<Rightarrow> ('w, json) py" where
  "send_only send = bindP send (\<lambda>resp. liftP resp)"

subsection \<open>VLANs\<close>

definition handle_create_vlan where
  "handle_create_vlan E S a U payload =
     bindP (liftP (py_key payload ''VLANId'')) (\<lambda>vlan_id.
     send_update (create_vlan S a vlan_id) (JStr (''vlan '' @ py_str vlan_id)) (poll_to_db E S a))"

definition handle_name_vlan where
  "handle_name_vlan E S a U payload =
     bindP (liftP (py_key payload ''VLANId'')) (\<lambda>vlan_id.
     bindP (liftP (py_key payload ''Name'')) (\<lambda>vlan_name.
     send_update (name_vlan S a vlan_id vlan_name)
       (JStr (''vlan '' @ py_str vlan_id @ '' name '' @ py_str vlan_name))
       (bindP (liftP (as_str U)) (\<lambda>u.
        thenP (delete_prefixes E a [''/switches/'' @ u @ ''/VLANs/'' @ py_str vlan_id @ ''/name/''])
          (poll_to_db E S a)))))"

definition handle_delete_vlan where
  "handle_delete_vlan E S a U payload =
     bindP (liftP (py_key payload ''VLANId'')) (\<lambda>vlan_id.
     send_update (delete_vlan S a vlan_id) (JStr (''no vlan '' @ py_str vlan_id))
       (bindP (liftP (as_str U)) (\<lambda>u.
        bindP (liftP (as_str vlan_id)) (\<lambda>v.
        thenP (delete_prefixes E a [''/switches/'' @ u @ ''/VLANs/'' @ v])
        (thenP (Ufmdb_delete E (sa_db a) (''/switches/'' @ u @ ''/VLANs/list/'' @ v) [])
          (poll_to_db E S a))))))"

subsection \<open>Port modes\<close>

definition port_mode_change where
  "port_mode_change E S a U port_id =
     thenP (remove_entry_for_port_mode_change E a U port_id) (poll_to_db E S a)"

definition handle_set_access_port_vlan where
  "handle_set_access_port_vlan E S a U payload =
     bindP (liftP (py_key payload ''port_id'')) (\<lambda>port_id.
     bindP (liftP (py_key payload ''VLANId'')) (\<lambda>vlan_id.
     send_update (set_access_port_vlan S a port_id vlan_id)
       (JStr (eth port_id @ '' switchport access vlan '' @ py_str vlan_id))
       (port_mode_change E S a U port_id)))"

definition handle_unassign_access_port_vlan where
  "handle_unassign_access_port_vlan E S a U payload =
     bindP (liftP (py_key payload ''port_id'')) (\<lambda>port_id.
     send_update (unassign_access_port_vlan S a port_id)
       (JStr (eth port_id @ '' no switchport access vlan''))
       (port_mode_change E S a U port_id))"

definition handle_set_trunk_port_vlans_all where
  "handle_set_trunk_port_vlans_all E S a U payload =
     bindP (liftP (py_key payload ''port_id'')) (\<lambda>port_id.
     send_update (set_trunk_port_vlans_all S a port_id)
       (JStr (eth port_id @ '' switchport trunk allowed-vlan all''))
       (port_mode_change E S a U port_id))"

definition handle_set_trunk_port_vlans_range where
  "handle_set_trunk_port_vlans_range E S a U payload =
     bindP (liftP (py_key payload ''port_id'')) (\<lambda>port_id.
     bindP (liftP (py_key payload ''RangeFromVLANId'')) (\<lambda>start_vlan_id.
     bindP (liftP (py_key payload ''RangeToVLANId'')) (\<lambda>end_vlan_id.
     send_update (set_trunk_port_vlans_range S a port_id start_vlan_id end_vlan_id)
       (JStr (eth port_id @ '' switchport trunk allowed-vlan '' @ py_str start_vlan_id @ ''-'' @ py_str end_vlan_id))
       (port_mode_change E S a U port_id))))"

definition handle_set_hybrid_port_access_vlan where
  "handle_set_hybrid_port_access_vlan E S a U payload =
     bindP (liftP (py_key payload ''port_id'')) (\<lambda>port_id.
     bindP (liftP (py_key payload ''VLANId'')) (\<lambda>vlan_id.
     send_update (set_hybrid_port_access_vlan S a port_id vlan_id)
       (JStr (eth port_id @ '' switchport access vlan '' @ py_str vlan_id))
       (port_mode_change E S a U port_id)))"

definition handle_set_hybrid_port_allowed_vlan where
  "handle_set_hybrid_port_allowed_vlan E S a U payload =
     bindP (liftP (py_key payload ''port_id'')) (\<lambda>port_id.
     bindP (liftP (py_key payload ''VLANId'')) (\<lambda>vlan_id.
     send_update (set_hybrid_port_allowed_vlan S a port_id vlan_id)
       (JStr (eth port_id @ '' switchport hybrid allowed-vlan add '' @ py_str vlan_id))
       (port_mode_change E S a U port_id)))"

definition handle_remove_hybrid_port_allowed_vlan where
  "handle_remove_hybrid_port_allowed_vlan E S a U payload =
     bindP (liftP (py_key payload ''port_id'')) (\<lambda>port_id.
     bindP (liftP (py_key payload ''VLANId'')) (\<lambda>vlan_id.
     send_update (remove_hybrid_port_allowed_vlan S a port_id vlan_id)
       (JStr (eth port_id @ '' switchport hybrid allowed-vlan remove '' @ py_str vlan_id))
       (port_mode_change E S a U port_id)))"

subsection \<open>Priority flow control\<close>

definition handle_enable_pfc_globally where
  "handle_enable_pfc_globally E S a U payload =
     send_update (enable_pfc_globally S a) (JStr ''dcb priority-flow-control enable force'')
       (thenP (remove_all_per_switch E a U) (poll_to_db E S a))"

definition pfc_change where
  "pfc_change E S a U port_id = thenP (remove_entry_for_pfc_change E a U port_id) (poll_to_db E S a)"

definition handle_disable_pfc_globally where
  "handle_disable_pfc_globally E S a U payload =
     send_update (disable_pfc_globally S a) (JStr ''no dcb priority-flow-control enable force'')
       (pfc_change E S a U JNull)"

definition handle_enable_pfc_per_priority where
  "handle_enable_pfc_per_priority E S a U payload =
     bindP (liftP (py_key payload ''Priority'')) (\<lambda>prio.
     send_update (enable_pfc_per_priority S a prio)
       (JStr (''dcb priority-flow-control priority '' @ py_str prio @ '' enable''))
       (pfc_change E S a U JNull))"

definition handle_disable_pfc_per_priority where
  "handle_disable_pfc_per_priority E S a U payload =
     bindP (liftP (py_key payload ''Priority'')) (\<lambda>prio.
     send_update (disable_pfc_per_priority S a prio)
       (JStr (''no dcb priority-flow-control priority '' @ py_str prio @ '' enable''))
       (pfc_change E S a U JNull))"

definition handle_enable_port_pfc where
  "handle_enable_port_pfc E S a U payload =
     bindP (liftP (py_key payload ''port_id'')) (\<lambda>port_id.
     send_update (enable_port_pfc S a port_id)
       (JStr (eth port_id @ '' dcb priority-flow-control mode on force''))
       (pfc_change E S a U port_id))"

definition handle_disable_port_pfc where
  "handle_disable_port_pfc E S a U payload =
     bindP (liftP (py_key payload ''port_id'')) (\<lambda>port_id.
     send_update (disable_port_pfc S a port_id)
       (JStr (eth port_id @ '' no dcb priority-flow-control mode force''))
       (pfc_change E S a U port_id))"

subsection \<open>Commands that only report, and the free command\<close>

definition handle_show_port_pfc_counters where
  "handle_show_port_pfc_counters S a payload =
     bindP (liftP (py_key payload ''port_id'')) (\<lambda>port_id.
     bindP (liftP (py_key payload ''Priority'')) (\<lambda>prio.
     send_only (show_port_pfc_counters S a port_id prio)))"

definition handle_show_port_congestion_control where
  "handle_show_port_congestion_control S a payload =
     bindP (liftP (py_key payload ''port_id'')) (\<lambda>port_id.
     send_only (show_port_congestion_control S a port_id))"

definition handle_enable_ecn_marking where
  "handle_enable_ecn_marking S a payload =
     bindP (liftP (py_key payload ''port_id'')) (\<lambda>port_id.
     bindP (liftP (py_key payload ''TrafficClass'')) (\<lambda>tc.
     bindP (liftP (py_key payload ''MinAbsoluteInKBs'')) (\<lambda>min_ab.
     bindP (liftP (py_key payload ''MaxAbsoluteInKBs'')) (\<lambda>max_ab.
     send_only (enable_ecn_marking_for_traffic_class_queue S a port_id tc min_ab max_ab)))))"

definition handle_disable_ecn_marking where
  "handle_disable_ecn_marking S a payload =
     bindP (liftP (py_key payload ''port_id'')) (\<lambda>port_id.
     bindP (liftP (py_key payload ''TrafficClass'')) (\<lambda>tc.
     send_only (disable_ecn_marking_for_traffic_class_queue S a port_id tc)))"

definition handle_any_cmd where
  "handle_any_cmd E S a U payload =
     bindP (liftP (py_key payload ''AnyCmdStr'')) (\<lambda>any_cmd_str.
     send_update (any_cmd S a any_cmd_str) any_cmd_str
       (thenP (remove_all_per_switch E a U) (poll_to_db E S a)))"

definition handle_save_configuration_file_no_switch where
  "handle_save_configuration_file_no_switch S a payload =
     bindP (liftP (py_key payload ''FileName'')) (\<lambda>file_name.
     send_only (save_configuration_file_no_switch S a file_name))"

definition handle_show_configuration_files where
  "handle_show_configuration_files S a payload = send_only (show_configuration_files S a)"

definition handle_enable_buffer_management where
  "handle_enable_buffer_management S a payload = send_only (enable_buffer_management S a)"

definition handle_disable_buffer_management where
  "handle_disable_buffer_management S a payload = send_only (disable_buffer_management S a)"

definition handle_show_port_buffer_details where
  "handle_show_port_buffer_details S a payload =
     bindP (liftP (py_key payload ''port_id'')) (\<lambda>port_id.
     send_only (show_port_buffer_details S a port_id))"

definition handle_bind_port_priority_to_specific_buffer where
  "handle_bind_port_priority_to_specific_buffer S a payload =
     bindP (liftP (py_key payload ''port_id'')) (\<lambda>port_id.
     bindP (liftP (py_key payload ''Buffer'')) (\<lambda>buf.
     bindP (liftP (py_key payload ''Priority'')) (\<lambda>prio.
     send_only (bind_port_priority_to_specific_buffer S a port_id buf prio))))"

section \<open>Dispatch\<close>

definition dispatcher ::
  "'db etcd3 \<Rightarrow> 'sw switch_env \<Rightarrow> swarg \<Rightarrow> json \<Rightarrow> (json \<Rightarrow> (('db, 'sw, 'r) world_scheme, json) py) dict" where
  "dispatcher E S a U =
     [(''DeleteVLAN'', handle_delete_vlan E S a U),
      (''CreateVLAN'', handle_create_vlan E S a U),
      (''NameVLAN'', handle_name_vlan E S a U),
      (''SetAccessPortVLAN'', handle_set_access_port_vlan E S a U),
      (''UnassignAccessPortVLAN'', handle_unassign_access_port_vlan E S a U),
      (''SetTrunkPortVLANsAll'', handle_set_trunk_port_vlans_all E S a U),
      (''SetTrunkPortVLANsRange'', handle_set_trunk_port_vlans_range E S a U),
      (''SetHybridPortAccessVLAN'', handle_set_hybrid_port_access_vlan E S a U),
      (''SetHybridPortAllowedVLAN'', handle_set_hybrid_port_allowed_vlan E S a U),
      (''RemoveHybridPortAllowedVLAN'', handle_remove_hybrid_port_allowed_vlan E S a U),
      (''EnablePortPfc'', handle_enable_port_pfc E S a U),
      (''DisablePortPfc'', handle_disable_port_pfc E S a U),
      (''EnableEcnMarking'', handle_enable_ecn_marking S a),
      (''DisableEcnMarking'', handle_disable_ecn_marking S a),
      (''ShowCongestionControl'', handle_show_port_congestion_control S a),
      (''ShowPfcCounters'', handle_show_port_pfc_counters S a),
      (''ShowBufferDetails'', handle_show_port_buffer_details S a),
      (''BindPriorityToBuffer'', handle_bind_port_priority_to_specific_buffer S a),
      (''EnablePfcGlobally'', handle_enable_pfc_globally E S a U),
      (''DisablePfcGlobally'', handle_disable_pfc_globally E S a U),
      (''EnablePfcPerPriority'', handle_enable_pfc_per_priority E S a U),
      (''DisablePfcPerPriority'', handle_disable_pfc_per_priority E S a U),
      (''SaveConfigurationFileNoSwitch'', handle_save_configuration_file_no_switch S a),
      (''ShowConfigurationFiles'', handle_show_configuration_files S a),
      (''EnableBufferManagement'', handle_enable_buffer_management S a),
      (''DisableBufferManagement'', handle_disable_buffer_management S a),
      (''AnyCmd'', handle_any_cmd E S a U)]"

text \<open>
  \<^verbatim>\<open>dispatcher.get(cmd, lambda: ...)(payload)\<close>: the fallback takes no argument, so calling it
  with the payload raises TypeError, as does looking up a list or an object.

  \<^verbatim>\<open>RedfishErrorResponse.get_server_error_response(e)\<close>: the decorator \<^verbatim>\<open>singleton\<close> replaces
  the class by a function that carries the class's attributes, so the call reaches the plain
  method with the exception for \<^verbatim>\<open>self\<close> and no argument left: TypeError.
\<close>

definition dispatch where
  "dispatch E S a U payload =
     bindP (liftP (py_key payload ''cmd'')) (\<lambda>cmd.
     case cmd of
       JStr s \<Rightarrow> (case map_of (dispatcher E S a U) s of None \<Rightarrow> raiseP TypeError | Some h \<Rightarrow> h payload)
     | _ \<Rightarrow> raiseP TypeError)"

definition get_server_error_response_unbound :: "exn \<Rightarrow> ('w, 'a) py" where
  "get_server_error_response_unbound e = raiseP TypeError"

definition action_handler ::
  "'db etcd3 \<Rightarrow> 'sw switch_env \<Rightarrow> swarg \<Rightarrow> json \<Rightarrow> exn + json \<Rightarrow> (('db, 'sw, 'r) world_scheme, json) py" where
  "action_handler E S a U message =
     tryP (bindP (liftP message) (dispatch E S a U)) get_server_error_response_unbound"

section \<open>Which keys a request can touch\<close>

lemma keeps_on_ok [rel_intros]:
  "keeps (same_keys kv P) act \<Longrightarrow> keeps (same_keys kv P) (on_ok cmd act j)"
  unfolding on_ok_def by (intro rel_intros)

lemma keeps_send_update [rel_intros]:
  "keeps (same_keys kv P) send \<Longrightarrow> keeps (same_keys kv P) act \<Longrightarrow>
   keeps (same_keys kv P) (send_update send cmd act)"
  unfolding send_update_def by (intro rel_intros)

lemma keeps_send_only [rel_intros]:
  "keeps (same_keys kv P) send \<Longrightarrow> keeps (same_keys kv P) (send_only send)"
  unfolding send_only_def by (intro rel_intros)

text \<open>The command methods of the client.\<close>

lemmas client_cmd_defs =
  create_vlan_def name_vlan_def delete_vlan_def set_access_port_vlan_def unassign_access_port_vlan_def
  set_trunk_port_vlans_all_def set_trunk_port_vlans_range_def set_hybrid_port_access_vlan_def
  set_hybrid_port_allowed_vlan_def remove_hybrid_port_allowed_vlan_def enable_pfc_globally_def
  disable_pfc_globally_def enable_pfc_per_priority_def disable_pfc_per_priority_def enable_port_pfc_def
  disable_port_pfc_def show_port_pfc_counters_def show_port_congestion_control_def
  enable_ecn_marking_for_traffic_class_queue_def disable_ecn_marking_for_traffic_class_queue_def
  any_cmd_def save_configuration_file_no_switch_def show_configuration_files_def
  enable_buffer_management_def disable_buffer_management_def show_port_buffer_details_def
  bind_port_priority_to_specific_buffer_def

lemmas handler_defs =
  handle_delete_vlan_def handle_create_vlan_def handle_name_vlan_def handle_set_access_port_vlan_def
  handle_unassign_access_port_vlan_def handle_set_trunk_port_vlans_all_def
  handle_set_trunk_port_vlans_range_def handle_set_hybrid_port_access_vlan_def
  handle_set_hybrid_port_allowed_vlan_def handle_remove_hybrid_port_allowed_vlan_def
  handle_enable_port_pfc_def handle_disable_port_pfc_def handle_enable_ecn_marking_def
  handle_disable_ecn_marking_def handle_show_port_congestion_control_def
  handle_show_port_pfc_counters_def handle_show_port_buffer_details_def
  handle_bind_port_priority_to_specific_buffer_def handle_enable_pfc_globally_def
  handle_disable_pfc_globally_def handle_enable_pfc_per_priority_def handle_disable_pfc_per_priority_def
  handle_save_configuration_file_no_switch_def handle_show_configuration_files_def
  handle_enable_buffer_management_def handle_disable_buffer_management_def handle_any_cmd_def

lemma sw_key_mono: "prefix p k \<Longrightarrow> prefix ''/switches/'' p \<Longrightarrow> sw_key k"
  using prefix_order.trans by (auto simp: sw_key_def)

context etcd_frame
begin

lemma keeps_delete_prefixes:
  "list_all (prefix ''/switches/'') ps \<Longrightarrow> keeps (same_keys kv sw_key) (delete_prefixes E a ps)"
  unfolding delete_prefixes_def
  by (intro rel_intros keeps_delete_prefix sw_key_mono) (auto simp: list_all_iff)

lemma keeps_remove:
  "keeps (same_keys kv sw_key) (remove_entry_for_port_mode_change E a U p)"
  "keeps (same_keys kv sw_key) (remove_entry_for_pfc_change E a U p)"
  "keeps (same_keys kv sw_key) (remove_all_per_switch E a U)"
  unfolding remove_entry_for_port_mode_change_def remove_entry_for_pfc_change_def remove_all_per_switch_def
    delete_vlan_ports_def Let_def
  by (intro rel_intros keeps_query keeps_delete_prefixes keeps_delete_prefix; (erule sw_key_mono)?; simp)+

lemma keeps_handler:
  "(c, h) \<in> set (dispatcher E S a U) \<Longrightarrow> keeps (same_keys kv sw_key) (h payload)"
  unfolding dispatcher_def
  by (auto simp: handler_defs client_cmd_defs port_mode_change_def pfc_change_def sw_key_def
      intro!: rel_intros keeps_remove keeps_poll_to_db keeps_delete_prefixes keeps_delete)

lemma keeps_action_handler: "keeps (same_keys kv sw_key) (action_handler E S a U msg)"
proof -
  have "keeps (same_keys kv sw_key) (dispatch E S a U payload)" for payload
  proof -
    have h: "keeps (same_keys kv sw_key) (h payload)" if "map_of (dispatcher E S a U) s = Some h" for s h
      using keeps_handler [OF map_of_SomeD [OF that]] .
    show ?thesis
      unfolding dispatch_def
      by (rule fr.keeps_bind, rule fr.keeps_pure)
        (auto simp: fr.keeps_pure h split: json.splits option.splits)
  qed
  then show ?thesis
    unfolding action_handler_def get_server_error_response_unbound_def by (intro rel_intros)
qed

end

section \<open>A command that is not confirmed changes nothing\<close>

text \<open>
  \<open>confirms j\<close>: some result of the answer has status \<^verbatim>\<open>OK\<close>.  \<open>refuses S s\<close>: in state \<open>s\<close> the
  switch gives no confirming answer, to whatever is posted.
\<close>

definition confirms :: "json \<Rightarrow> bool" where
  "confirms j =
     (case bindE (py_key j ''results'') py_iter of
        Inl e \<Rightarrow> False
      | Inr items \<Rightarrow> list_ex (\<lambda>it. py_key it ''status'' = Inr (JStr ''OK'')) items)"

definition refuses :: "'sw switch_env \<Rightarrow> 'sw \<Rightarrow> bool" where
  "refuses S s \<longleftrightarrow> (\<forall>url j st r s'. s_post S url j s = (Inr (st, Inr r), s') \<longrightarrow> \<not> confirms r)"

definition sends :: "'sw switch_env \<Rightarrow> swarg \<Rightarrow> (('db, 'sw, 'r) world_scheme, exn + json) py \<Rightarrow> bool" where
  "sends S a m \<longleftrightarrow> (\<exists>j. m = send_cmd S a j) \<or> (\<exists>e. m = raiseP e)"

lemma sends_cmds [simp]: "sends S a (send_cmds S a cs)" "sends S a (send_cmd S a j)"
  by (auto simp: sends_def send_cmds_def)

lemma bindP_liftP_Inl: "bindP (liftP (Inl e)) f = raiseP e"
  by (simp add: bindP_def liftP_def raiseP_def)

lemma sends_lift [simp]: "(\<And>x. sends S a (f x)) \<Longrightarrow> sends S a (bindP (liftP r) f)"
  by (cases r) (auto simp: bindP_liftP bindP_liftP_Inl sends_def)

abbreviation same_db where "same_db kv \<equiv> same_keys kv (\<lambda>_. False)"

lemma wp_on_ok_refused:
  assumes "\<not> confirms j" and "R w" shows "wp (on_ok cmd act j) (\<lambda>_. R) (\<lambda>_. R) w"
proof (cases "bindE (py_key j ''results'') py_iter")
  case (Inl e)
  then show ?thesis using assms(2) by (simp add: on_ok_def wp_simps)
next
  case (Inr items)
  then have "list_all (\<lambda>it. py_key it ''status'' \<noteq> Inr (JStr ''OK'')) items"
    using assms(1) by (simp add: confirms_def list_ex_iff list_all_iff)
  then have "wp (forP items (\<lambda>item.
       bindP (liftP (py_key item ''executed_command'')) (\<lambda>c.
       if c = cmd then bindP (liftP (py_key item ''status'')) (\<lambda>st. whenP (st = JStr ''OK'') act)
       else retP ()))) (\<lambda>_. R) (\<lambda>_. R) w"
    using assms(2)
  proof (induction items arbitrary: w)
    case Nil
    then show ?case by (simp add: wp_simps wp_retP)
  next
    case (Cons it items)
    then have IH: "wp (forP items (\<lambda>item.
       bindP (liftP (py_key item ''executed_command'')) (\<lambda>c.
       if c = cmd then bindP (liftP (py_key item ''status'')) (\<lambda>st. whenP (st = JStr ''OK'') act)
       else retP ()))) (\<lambda>_. R) (\<lambda>_. R) w" by simp
    show ?case
      using Cons.prems IH
      by (cases "py_key it ''executed_command''"; cases "py_key it ''status''") (auto simp: wp_simps)
  qed
  with Inr show ?thesis by (simp add: on_ok_def wp_simps bindP_liftP)
qed

lemma same_keys_refl [simp]: "same_keys kv P w w"
  by (simp add: same_keys_def)

lemma wp_send_refused:
  assumes "refuses S (w_sw w)" and "sends S a m"
  shows "wp m (\<lambda>r w'. same_db kv w w' \<and> (\<forall>j. r = Inr j \<longrightarrow> \<not> confirms j)) (\<lambda>_. same_db kv w) w"
proof -
  have log: "wp (log_info l t []) Q X v"
    if "same_db kv w v" "w_sw v = s"
      "\<And>v'. same_db kv w v' \<Longrightarrow> w_sw v' = s \<Longrightarrow> Q () v'" "\<And>e v'. same_db kv w v' \<Longrightarrow> X e v'"
    for l t Q X v s
  proof (rule wp_mono [OF keeps_wp [OF keeps_log(1) [of l t "[]"], where w = v]])
    fix x v' assume "log_step v v'"
    then have "Q () v'" using that(1,2) log_step_world [of v v'] by (intro that(3)) (auto simp: same_keys_def)
    then show "Q x v'" by simp
  next
    fix e v' assume "log_step v v'"
    then show "X e v'" using that(1) log_step_world [of v v'] by (intro that(4)) (auto simp: same_keys_def)
  qed
  have post: "wp (bindP (on_sw (s_post S url j)) (\<lambda>(st, r). thenP (log_info l (f st) []) (retP r)))
      (\<lambda>r w'. same_db kv w w' \<and> (\<forall>j. r = Inr j \<longrightarrow> \<not> confirms j)) (\<lambda>_. same_db kv w) v"
    if "same_db kv w v" "w_sw v = w_sw w" for v url j l f
  proof (cases "s_post S url j (w_sw w)")
    case (Pair out s')
    have v': "same_db kv w (v\<lparr>w_sw := s'\<rparr>)" using that(1) by (simp add: same_keys_def)
    show ?thesis
    proof (cases out)
      case (Inl e)
      then show ?thesis using Pair that v' by (simp add: wp_def bindP_def on_sw_def)
    next
      case (Inr y)
      obtain st r where y: "y = (st, r)" by (cases y)
      have "\<not> confirms j" if "r = Inr j" for j
        using that Pair Inr y assms(1) unfolding refuses_def by blast
      moreover have "wp (on_sw (s_post S url j)) Q X v = Q (st, r) (v\<lparr>w_sw := s'\<rparr>)" for Q X
        using Pair Inr y that by (intro wp_run) (simp add: on_sw_def)
      ultimately show ?thesis
        unfolding wp_bindP using v' by (simp add: wp_thenP wp_retP_fun) (rule log [where s = s'], auto)
    qed
  qed
  consider (send) j where "m = send_cmd S a j" | (exn) e where "m = raiseP e"
    using assms(2) by (auto simp: sends_def)
  then show ?thesis
  proof cases
    case send
    show ?thesis
      unfolding send send_cmd_def wp_thenP wp_bindP [of "readP _"] wp_readP
      by (rule log [where s = "w_sw w"], simp, simp, rule log [where s = "w_sw w"], assumption, assumption)
        (simp_all add: post)
  next
    case exn
    then show ?thesis by (simp add: wp_simps)
  qed
qed

lemma refused_update:
  assumes "refuses S (w_sw w)" and "sends S a m"
  shows "wp (send_update m cmd act) (\<lambda>_. same_db kv w) (\<lambda>_. same_db kv w) w"
  unfolding send_update_def wp_bindP
proof (rule wp_mono [OF wp_send_refused [OF assms]])
  fix r :: "exn + json" and w' assume r: "same_db kv w w' \<and> (\<forall>j. r = Inr j \<longrightarrow> \<not> confirms j)"
  show "wp (liftP r) (\<lambda>j. wp (thenP (on_ok cmd act j) (retP j)) (\<lambda>_. same_db kv w) (\<lambda>_. same_db kv w))
      (\<lambda>_. same_db kv w) w'"
    using r wp_on_ok_refused [of _ "same_db kv w" w' cmd act]
    by (cases r) (auto simp: wp_simps wp_retP_fun)
qed

lemma refused_only:
  assumes "refuses S (w_sw w)" and "sends S a m"
  shows "wp (send_only m) (\<lambda>_. same_db kv w) (\<lambda>_. same_db kv w) w"
  unfolding send_only_def wp_bindP
proof (rule wp_mono [OF wp_send_refused [OF assms]])
  fix r :: "exn + json" and w' assume "same_db kv w w' \<and> (\<forall>j. r = Inr j \<longrightarrow> \<not> confirms j)"
  then show "wp (liftP r) (\<lambda>_. same_db kv w) (\<lambda>_. same_db kv w) w'"
    by (cases r) (auto simp: wp_simps)
qed auto

lemma refused_lift:
  "(\<And>x. wp (f x) (\<lambda>_. R) (\<lambda>_. R) w) \<Longrightarrow> R w \<Longrightarrow> wp (bindP (liftP r) f) (\<lambda>_. R) (\<lambda>_. R) w"
  by (cases r) (simp_all add: wp_simps)

lemma refused_handler:
  assumes "refuses S (w_sw w)" and "(c, h) \<in> set (dispatcher E S a U)"
  shows "wp (h payload) (\<lambda>_. same_db kv w) (\<lambda>_. same_db kv w) w"
  using assms(2) unfolding dispatcher_def
  by (auto simp: handler_defs client_cmd_defs
      intro!: refused_lift refused_update [OF assms(1), where a = a] refused_only [OF assms(1), where a = a])

lemma refused_action:
  assumes "refuses S (w_sw w)"
  shows "wp (action_handler E S a U msg) (\<lambda>_. same_db kv w) (\<lambda>_. same_db kv w) w"
proof -
  have h: "wp (h payload) (\<lambda>_. same_db kv w) (\<lambda>_. same_db kv w) w"
    if "map_of (dispatcher E S a U) s = Some h" for s h payload
    using refused_handler [OF assms map_of_SomeD [OF that]] .
  have "wp (dispatch E S a U payload) (\<lambda>_. same_db kv w) (\<lambda>_. same_db kv w) w" for payload
    unfolding dispatch_def
    by (rule refused_lift) (auto simp: wp_simps h split: json.splits option.splits)
  then have "wp (bindP (liftP msg) (dispatch E S a U)) (\<lambda>_. same_db kv w) (\<lambda>_. same_db kv w) w"
    by (rule refused_lift) simp
  then show ?thesis
    unfolding action_handler_def get_server_error_response_unbound_def wp_tryP
    by (rule wp_mono) (simp_all add: wp_simps)
qed

section \<open>What a confirmed command leaves in the database\<close>

definition results_json :: "(string \<times> string) list \<Rightarrow> json" where
  "results_json xs =
     JObj [(''results'', JList (map (\<lambda>(c, st). JObj [(''status'', JStr st), (''executed_command'', JStr c),
       (''status_message'', JStr ''''), (''data'', JStr '''')]) xs))]"

definition all_ok :: "string list \<Rightarrow> json" where
  "all_ok cs = results_json (map (\<lambda>c. (c, ''OK'')) cs)"

text \<open>The switch executes the posted commands, reports each as \<^verbatim>\<open>OK\<close>, and goes to state \<open>s'\<close>.\<close>

definition executes :: "'sw switch_env \<Rightarrow> string \<Rightarrow> 'sw \<Rightarrow> string list \<Rightarrow> 'sw \<Rightarrow> bool" where
  "executes S url s cs s' \<longleftrightarrow>
     s_post S (url @ ''?script=json'') (commands cs) s = (Inr (200, Inr (all_ok cs)), s')"

text \<open>The action runs exactly once when the command is reported once, with status \<^verbatim>\<open>OK\<close>.\<close>

lemma wp_on_ok_once:
  assumes "xs = ys @ (cmd, ''OK'') # zs" and "cmd \<notin> fst ` set ys" and "cmd \<notin> fst ` set zs"
  shows "wp (on_ok (JStr cmd) act (results_json xs)) Q X w = wp act Q X w"
proof -
  let ?it = "\<lambda>(c, st). JObj [(''status'', JStr st), (''executed_command'', JStr c),
       (''status_message'', JStr ''''), (''data'', JStr '''')]"
  let ?body = "\<lambda>item. bindP (liftP (py_key item ''executed_command'')) (\<lambda>c.
       if c = JStr cmd then bindP (liftP (py_key item ''status'')) (\<lambda>st. whenP (st = JStr ''OK'') act)
       else retP ())"
  have skip: "wp (forP (map ?it ys @ rest) ?body) Q X w = wp (forP rest ?body) Q X w"
    if "cmd \<notin> fst ` set ys" for ys rest Q X w
    using that by (induction ys) (auto simp: wp_simps dict_get_def)
  have "wp (forP (map ?it zs) ?body) Q X = Q ()" for Q X
    using skip [OF assms(3), of "[]"] by (simp add: fun_eq_iff wp_simps)
  then have "wp (forP (map ?it ys @ ?it (cmd, ''OK'') # map ?it zs) ?body) Q X w = wp act (\<lambda>_. Q ()) X w"
    unfolding skip [OF assms(2)] by (simp add: wp_simps dict_get_def)
  moreover have "(\<lambda>_. Q ()) = Q" by (simp add: fun_eq_iff)
  ultimately show ?thesis
    by (simp add: on_ok_def results_json_def assms(1) bindP_liftP dict_get_def)
qed

text \<open>The keys that a mode change of port \<open>p\<close> makes stale.\<close>

definition port_pre :: "string \<Rightarrow> string \<Rightarrow> string" where
  "port_pre u p = ''/switches/'' @ u @ ''/ports/'' @ p"

definition stale_port :: "string \<Rightarrow> string \<Rightarrow> (string \<rightharpoonup> string) \<Rightarrow> string set" where
  "stale_port u p m =
     {k. list_ex (\<lambda>q. prefix q k) [port_pre u p @ ''/mode/'', port_pre u p @ ''/network/access_vlan/'',
        port_pre u p @ ''/network/allowed_vlans/'']} \<union>
     {k. \<exists>k' \<in> dom m. (prefix (port_pre u p @ ''/network/access_vlan'') k' \<or>
          prefix (port_pre u p @ ''/network/allowed_vlans'') k') \<and>
        prefix (''/switches/'' @ u @ ''/VLANs/'' @ path_last k' @ ''/network/ports/'' @ p) k}"

lemma keys_of_restrict:
  assumes "map_of d = m |` A" shows "set (dict_keys d) = dom m \<inter> A"
proof -
  have "set (dict_keys d) = dom (map_of d)" by (simp add: dict_keys_def dom_map_of_conv_image_fst)
  then show ?thesis by (simp add: assms)
qed

lemma port_not_vlan:
  "prefix (port_pre u p @ x) k \<Longrightarrow> \<not> prefix (''/switches/'' @ u @ ''/VLANs/'' @ y) k"
  by (auto simp: port_pre_def prefix_def)

context etcd_store
begin

lemma wp_cl_query:
  assumes "cl_is kv up a m s c w"
    and "\<And>items w'. cl_is kv up a m s c w' \<Longrightarrow> distinct (map fst items) \<Longrightarrow>
      map_of items = m |` {k. prefix q k} \<Longrightarrow> Q items w'"
  shows "wp (query_prefix E q) Q X w"
  using assms(1) by (intro wp_query [of "sa_db a" m]) (auto simp: cl_is_def intro!: assms(2) dest: cl_is_db_step [OF assms(1)])

lemma wp_cl_delete_prefixes:
  assumes "cl_is kv up a m s c w"
    and "\<And>x w'. cl_is kv up a (m |` {k. \<not> list_ex (\<lambda>p. prefix p k) ps}) s c w' \<Longrightarrow> Q x w'"
  shows "wp (delete_prefixes E a ps) Q X w"
  using assms
proof (induction ps arbitrary: m w)
  case Nil
  then show ?case by (simp add: delete_prefixes_def wp_retP)
next
  case (Cons p ps)
  have "wp (delete_prefixes E a ps) Q X w'"
    if "cl_is kv up a (m |` {k. \<not> prefix p k}) s c w'" for w'
  proof (rule Cons.IH [OF that])
    have "m |` {k. \<not> prefix p k} |` {k. \<not> list_ex (\<lambda>p. prefix p k) ps} = m |` {k. \<not> list_ex (\<lambda>p. prefix p k) (p # ps)}"
      by (auto simp: restrict_map_def)
    then show "\<And>x w'. cl_is kv up a (m |` {k. \<not> prefix p k} |` {k. \<not> list_ex (\<lambda>p. prefix p k) ps}) s c w' \<Longrightarrow> Q x w'"
      using Cons.prems(2) by simp
  qed
  then have "wp (Ufmdb_delete_prefix E (sa_db a) p) (\<lambda>_. wp (delete_prefixes E a ps) Q X) X w"
    using Cons.prems(1) cl_is_db_step [OF Cons.prems(1)]
    by (intro wp_delete_prefix [of "sa_db a" m]) (auto simp: cl_is_def [of kv up a m])
  then show ?case by (simp add: delete_prefixes_def wp_simps wp_retP_fun)
qed

lemma delete_vlan_ports_eq:
  "delete_vlan_ports E a u pid d = delete_prefixes E a
     (map (\<lambda>k. ''/switches/'' @ u @ ''/VLANs/'' @ path_last k @ ''/network/ports/'' @ py_str pid) (dict_keys d))"
  by (induction d) (simp_all add: delete_vlan_ports_def delete_prefixes_def dict_keys_def)

lemma wp_remove_port:
  assumes "cl_is kv up a m s c w"
    and "\<And>x w'. cl_is kv up a (m |` (- stale_port u (py_str pid) m)) s c w' \<Longrightarrow> Q x w'"
  shows "wp (remove_entry_for_port_mode_change E a (JStr u) pid) Q X w"
proof -
  let ?pre = "port_pre u (py_str pid)"
  let ?acc = "?pre @ ''/network/access_vlan''" and ?all = "?pre @ ''/network/allowed_vlans''"
  let ?v = "\<lambda>k. ''/switches/'' @ u @ ''/VLANs/'' @ path_last k @ ''/network/ports/'' @ py_str pid"
  let ?ps = "[?pre @ ''/mode/'', ?pre @ ''/network/access_vlan/'', ?pre @ ''/network/allowed_vlans/'']"
  have keys: "m |` {k. \<not> list_ex (\<lambda>p. prefix p k) (map ?v (dict_keys d1))}
      |` {k. \<not> list_ex (\<lambda>p. prefix p k) (map ?v (dict_keys d2))} |` {k. \<not> list_ex (\<lambda>p. prefix p k) ?ps} =
      m |` (- stale_port u (py_str pid) m)"
    if d1: "map_of d1 = m |` {k. prefix ?acc k}"
      and d2: "map_of d2 = m |` {k. \<not> list_ex (\<lambda>p. prefix p k) (map ?v (dict_keys d1))} |` {k. prefix ?all k}" for d1 d2
  proof -
    note k1 = keys_of_restrict [OF d1]
    have "\<not> list_ex (\<lambda>p. prefix p k) (map ?v (dict_keys d1))" if "prefix ?all k" for k
      using port_not_vlan [of u "py_str pid" "''/network/allowed_vlans''" k] that by (auto simp: list_ex_iff)
    then have "map_of d2 = m |` {k. prefix ?all k}"
      unfolding d2 by (auto simp: restrict_map_def fun_eq_iff)
    note k2 = keys_of_restrict [OF this]
    have "{k. \<not> list_ex (\<lambda>p. prefix p k) (map ?v (dict_keys d1))} \<inter> {k. \<not> list_ex (\<lambda>p. prefix p k) (map ?v (dict_keys d2))} \<inter>
      {k. \<not> list_ex (\<lambda>p. prefix p k) ?ps} = - stale_port u (py_str pid) m"
      unfolding stale_port_def list_ex_iff set_map k1 k2 by blast
    then show ?thesis by (simp add: Int_assoc)
  qed
  show ?thesis
    unfolding remove_entry_for_port_mode_change_def as_str.simps bindP_liftP Let_def port_pre_def [symmetric]
      delete_vlan_ports_eq wp_bindP wp_thenP
    by (rule wp_cl_query [OF assms(1)], erule wp_cl_delete_prefixes, erule wp_cl_query,
        erule wp_cl_delete_prefixes, erule wp_cl_delete_prefixes)
      (simp only: keys assms(2))
qed

lemma wp_confirmed:
  assumes "cl_is kv up a m s c w" and "executes S (mc_url c) s cs s'"
    and "distinct cs" and "cmd \<in> set cs" and "\<And>d. d \<in> set cs \<Longrightarrow> CHR ''%'' \<notin> set d"
    and "\<And>w'. cl_is kv up a m s' c w' \<Longrightarrow> wp act (\<lambda>_. Q (all_ok cs)) X w'"
  shows "wp (send_update (send_cmds S a cs) (JStr cmd) act) Q X w"
proof -
  obtain ys zs where cs: "cs = ys @ cmd # zs" "cmd \<notin> set ys" "cmd \<notin> set zs"
    using split_list [OF assms(4)] assms(3) by auto
  have ok: "wp (on_ok (JStr cmd) act (all_ok cs)) Q' X w' = wp act Q' X w'" for Q' w'
    unfolding all_ok_def
    by (rule wp_on_ok_once [of _ "map (\<lambda>c. (c, ''OK'')) ys" _ "map (\<lambda>c. (c, ''OK'')) zs"])
      (use cs in \<open>auto simp: image_iff\<close>)
  show ?thesis
    unfolding send_update_def send_cmds_def
  proof (rule wp_post [OF assms(1) assms(2) [unfolded executes_def] percent_commands_all [OF assms(5)]])
    fix w' :: "('db, 'a, 'b) world_scheme" assume "cl_is kv up a m s' c w'"
    then show "wp (bindP (liftP (Inr (all_ok cs))) (\<lambda>j. thenP (on_ok (JStr cmd) act j) (retP j))) Q X w'"
      by (simp add: bindP_liftP wp_thenP ok wp_retP_fun assms(6))
  qed
qed

lemma wp_port_mode_cmd:
  assumes "cl_is kv up a m s c w" and "executes S (mc_url c) s cs s'" and "distinct cs" and "cmd \<in> set cs"
    and "\<And>d. d \<in> set cs \<Longrightarrow> CHR ''%'' \<notin> set d" and "answers S (mc_url c) s' V" and "wf_view V"
    and "mc_uuid c = JStr (v_uuid V)"
    and "\<And>t w'. cl_is kv up a (put_all (m |` (- stale_port (v_uuid V) (py_str pid) m)) (poll_keys a V t)) s' c w' \<Longrightarrow>
      Q (all_ok cs) w'"
  shows "wp (send_update (send_cmds S a cs) (JStr cmd) (port_mode_change E S a (JStr (v_uuid V)) pid)) Q X w"
  unfolding port_mode_change_def
proof (rule wp_confirmed [OF assms(1-4)])
  show "\<And>d. d \<in> set cs \<Longrightarrow> CHR ''%'' \<notin> set d" by (rule assms(5))
  fix w' :: "('db, 'a, 'b) world_scheme" assume "cl_is kv up a m s' c w'"
  then show "wp (thenP (remove_entry_for_port_mode_change E a (JStr (v_uuid V)) pid) (poll_to_db E S a))
      (\<lambda>_. Q (all_ok cs)) X w'"
    unfolding wp_thenP
    by (elim wp_remove_port wp_poll_to_db [OF _ assms(6-8)] assms(9))
qed

lemma wp_cl_delete:
  assumes "cl_is kv up a m s c w" and "\<And>x w'. cl_is kv up a (m(k := None)) s c w' \<Longrightarrow> Q x w'"
  shows "wp (Ufmdb_delete E (sa_db a) k []) Q X w"
proof (rule wp_delete [of "sa_db a" m])
  show "db_is kv up (sa_db a) m w" using assms(1) by (simp add: cl_is_def)
qed (rule assms(2), rule cl_is_db_step [OF assms(1)])

lemma wp_delete_vlan:
  assumes "cl_is kv up a m s c w" and "executes S (mc_url c) s [''no vlan '' @ v] s'" and "CHR ''%'' \<notin> set v"
    and "answers S (mc_url c) s' V" and "wf_view V" and "mc_uuid c = JStr (v_uuid V)"
    and "py_key payload ''VLANId'' = Inr (JStr v)"
    and "\<And>t w'. cl_is kv up a (put_all ((m |` {k. \<not> prefix (sw_pre V @ ''/VLANs/'' @ v) k})
        (sw_pre V @ ''/VLANs/list/'' @ v := None)) (poll_keys a V t)) s' c w' \<Longrightarrow> Q (all_ok [''no vlan '' @ v]) w'"
  shows "wp (handle_delete_vlan E S a (JStr (v_uuid V)) payload) Q X w"
  unfolding handle_delete_vlan_def assms(7) bindP_liftP delete_vlan_def py_str.simps as_str.simps
proof (rule wp_confirmed [OF assms(1,2)])
  fix w' :: "('db, 'a, 'b) world_scheme" assume w': "cl_is kv up a m s' c w'"
  have one: "{k. \<not> list_ex (\<lambda>p. prefix p k) [''/switches/'' @ v_uuid V @ ''/VLANs/'' @ v]} =
      {k. \<not> prefix (sw_pre V @ ''/VLANs/'' @ v) k}"
    by (simp add: sw_pre_def)
  have key: "''/switches/'' @ v_uuid V @ ''/VLANs/list/'' @ v = sw_pre V @ ''/VLANs/list/'' @ v"
    by (simp add: sw_pre_def)
  show "wp (thenP (delete_prefixes E a [''/switches/'' @ v_uuid V @ ''/VLANs/'' @ v])
      (thenP (Ufmdb_delete E (sa_db a) (''/switches/'' @ v_uuid V @ ''/VLANs/list/'' @ v) []) (poll_to_db E S a)))
      (\<lambda>_. Q (all_ok [''no vlan '' @ v])) X w'"
    unfolding wp_thenP
    by (rule wp_cl_delete_prefixes [OF w'], unfold one, erule wp_cl_delete, unfold key,
        erule wp_poll_to_db [OF _ assms(4-6)], erule assms(8))
qed (use assms(3) in auto)

end

section \<open>Text that cannot be logged\<close>

text \<open>
  \<^verbatim>\<open>send_cmd\<close> logs the command before it posts it.  The text is a format string there, so a
  lone percent sign raises and the command is never sent.
\<close>

lemma dumps_char_neq: "c \<noteq> CHR ''%'' \<Longrightarrow> \<exists>d t. dumps_char c = d # t \<and> d \<noteq> CHR ''%''"
proof -
  assume c: "c \<noteq> CHR ''%''"
  have "dumps_char c \<noteq> []" by (simp add: dumps_char_def Let_def)
  then obtain d t where "dumps_char c = d # t" by (cases "dumps_char c") auto
  with percent_dumps_char [OF c] show ?thesis by auto
qed

lemma dumps_percent: "dumps_char (CHR ''%'') = ''%''"
  by (simp add: dumps_char_def)

lemma dumps_lone:
  assumes "CHR ''%'' \<notin> set x" and "y = [] \<or> hd y \<noteq> CHR ''%''"
  shows "\<exists>s d t. dumps_str (x @ ''%'' @ y) = s @ CHR ''%'' # d # t \<and> CHR ''%'' \<notin> set s \<and> d \<noteq> CHR ''%''"
proof -
  let ?s = "[CHR 0x22] @ concat (map dumps_char x)"
  have s: "CHR ''%'' \<notin> set ?s"
  proof -
    have "CHR ''%'' \<notin> set (dumps_char c)" if "c \<in> set x" for c
      using that assms(1) by (intro percent_dumps_char) auto
    then show ?thesis by simp
  qed
  obtain d t where "concat (map dumps_char y) @ [CHR 0x22] = d # t" "d \<noteq> CHR ''%''"
  proof (cases y)
    case (Cons c z)
    with assms(2) dumps_char_neq [of c] that show ?thesis by auto
  qed (use that in auto)
  then have "dumps_str (x @ ''%'' @ y) = ?s @ CHR ''%'' # d # t"
    by (simp add: dumps_str_def dumps_percent)
  with s \<open>d \<noteq> CHR ''%''\<close> show ?thesis by blast
qed

lemma commands_lone:
  assumes "CHR ''%'' \<notin> set x" and "y = [] \<or> hd y \<noteq> CHR ''%''"
  shows "\<exists>e. py_percent (json_dumps (commands [x @ ''%'' @ y])) [] = Inl e"
proof -
  obtain s d t where s: "dumps_str (x @ ''%'' @ y) = s @ CHR ''%'' # d # t" "CHR ''%'' \<notin> set s" "d \<noteq> CHR ''%''"
    using dumps_lone [OF assms] by blast
  have "json_dumps (commands [x @ ''%'' @ y]) =
      (''{'' @ dumps_str ''commands'' @ '': ['' @ s) @ CHR ''%'' # d # (t @ '']}'')"
    by (simp add: commands_def s(1) [simplified])
  moreover have "CHR ''%'' \<notin> set (''{'' @ dumps_str ''commands'' @ '': ['' @ s)"
    using s(2) percent_dumps_str [of "''commands''"] by simp
  ultimately show ?thesis using py_percent_lone s(3) by metis
qed

lemma send_cmd_percent:
  assumes "log_ok (lw_log w)" and "mask_hit (lg_mask (sa_log a)) (log_info_mask (lw_log w)) = Inr True"
    and "\<exists>e. py_percent (json_dumps j) [] = Inl e"
  shows "\<exists>e w'. send_cmd S a j w = (Inl e, w') \<and> log_step w w'"
proof -
  obtain e where e: "py_percent (json_dumps j) [] = Inl e" using assms(3) by blast
  have "wp (log_info (sa_log a) ''Sending EthSwitch cmd: '' []) (\<lambda>_ w'. log_step w w') (\<lambda>_ _. False) w"
    using assms(1) by (intro wp_log_info) auto
  then obtain w1 where w1: "log_info (sa_log a) ''Sending EthSwitch cmd: '' [] w = (Inr (), w1)" "log_step w w1"
    by (auto dest: wpD)
  have "mask_hit (lg_mask (sa_log a)) (log_info_mask (lw_log w1)) = Inr True"
    using assms(2) w1(2) by (simp add: log_step_def same_masks_def)
  then have "log_info (sa_log a) (json_dumps j) [] w1 = (Inl e, w1)"
    using e by (simp add: log_info_def log_filtered_def bindP_def readP_def liftP_def)
  with w1 show ?thesis by (auto simp: send_cmd_def thenP_def bindP_def)
qed

end
