(* ===== verification/SwitchService.thy ===== *)
theory SwitchService
  imports SwitchController
begin

text \<open>
  The threads around the switch client: \<^verbatim>\<open>src/ufm/fabricmanager/ufm_thread.py\<close> (a loop that runs
  a callback every few seconds), \<^verbatim>\<open>systems/switch/switch_poller.py\<close> and \<^verbatim>\<open>systems/subsystem.py\<close>.

  A thread is modelled by the number \<open>n\<close> of times its wait runs into the timeout before
  \<^verbatim>\<open>stop\<close> sets the shutdown flag; claims are made for every \<open>n\<close>.  The interleaving of several
  threads is not modelled: a claim about a thread is about its own calls.

  Lemmas: a raising callback does not end the thread, and every pass of the poller leaves the
  database with the configuration the switch reports.
\<close>

section \<open>UfmThread\<close>

fun thread_run :: "('w, unit) py option \<Rightarrow> nat \<Rightarrow> ('w, unit) py" where
  "thread_run cb 0 = retP ()"
| "thread_run cb (Suc n) =
     thenP (case cb of None \<Rightarrow> retP () | Some f \<Rightarrow> tryP f (\<lambda>_. retP ())) (thread_run cb n)"

lemma thread_run_returns: "\<exists>w'. thread_run cb n w = (Inr (), w')"
proof (induction n arbitrary: w)
  case 0
  then show ?case by (simp add: retP_def)
next
  case (Suc n)
  have "\<exists>w1. (case cb of None \<Rightarrow> retP () | Some f \<Rightarrow> tryP f (\<lambda>_. retP ())) w = (Inr (), w1)"
    by (auto simp: retP_def tryP_def split: option.splits prod.splits sum.splits)
  with Suc.IH show ?case by (fastforce simp: thenP_def bindP_def)
qed

section \<open>SwitchPoller\<close>

definition poller_start ::
  "'sw switch_env \<Rightarrow> swarg \<Rightarrow> (('db, 'sw, 'r) world_scheme, unit) py" where
  "poller_start S a =
     thenP (log_info (sa_log a) ''Start SwitchPoller'' [])
     (if py_lower (sw_type a) = ''mellanox'' then client_init S a
      else raiseP (GenericException (''Invalid switch type, '' @ sw_type a @ '' is not valid'')))"

definition poller where "poller E S a = poll_to_db E S a"

definition poller_run where "poller_run E S a n = thread_run (Some (poller E S a)) n"

text \<open>The keys written by the passes, one time stamp per pass.\<close>

definition polled_keys :: "swarg \<Rightarrow> swview \<Rightarrow> int list \<Rightarrow> string list" where
  "polled_keys a V ts = concat (map (poll_keys a V) ts)"

context etcd_store
begin

lemma wp_poller_run:
  assumes "cl_is kv up a m s c w" and "answers S (mc_url c) s V" and "wf_view V"
    and "mc_uuid c = JStr (v_uuid V)"
    and "\<And>ts x w'. length ts = n \<Longrightarrow> cl_is kv up a (put_all m (polled_keys a V ts)) s c w' \<Longrightarrow> Q x w'"
  shows "wp (poller_run E S a n) Q X w"
  unfolding poller_run_def poller_def
  using assms(1,5)
proof (induction n arbitrary: m w Q)
  case 0
  have "Q () w" by (rule "0.prems"(2) [of "[]"]) (simp_all add: polled_keys_def "0.prems"(1))
  then show ?case by (simp add: wp_simps)
next
  case (Suc n)
  show ?case
    unfolding thread_run.simps option.case wp_thenP wp_tryP
  proof (rule wp_poll_to_db [OF Suc.prems(1) assms(2-4)], rule Suc.IH)
    fix t ts x and w1 w2 :: "('db, 'a, 'b) world_scheme"
    assume "length ts = n" "cl_is kv up a (put_all (put_all m (poll_keys a V t)) (polled_keys a V ts)) s c w2"
    then show "Q x w2"
      by (intro Suc.prems(2) [of "t # ts"]) (simp_all add: polled_keys_def put_all_append)
  qed
qed

end

section \<open>SubSystem\<close>

record 'w service =
  sv_start :: "('w, unit) py"
  sv_stop :: "('w, unit) py"

text \<open>\<open>run\<close> is the flag \<^verbatim>\<open>_running\<close>, paired with the world of the services.\<close>

definition on_snd :: "('w, 'a) py \<Rightarrow> (bool \<times> 'w, 'a) py" where
  "on_snd m = (\<lambda>(b, w). case m w of (r, w') \<Rightarrow> (r, (b, w')))"

definition note_subsystem :: "logger option \<Rightarrow> string \<Rightarrow> (bool \<times> 'r lworld_scheme, unit) py" where
  "note_subsystem lg msg = (case lg of None \<Rightarrow> retP () | Some l \<Rightarrow> on_snd (log_info l msg []))"

definition subsystem_start ::
  "logger option \<Rightarrow> string \<Rightarrow> 'r lworld_scheme service list \<Rightarrow> (bool \<times> 'r lworld_scheme, unit) py" where
  "subsystem_start lg cls svs =
     thenP (note_subsystem lg (''SubSystem Start '' @ cls))
       (forP svs (\<lambda>sv. thenP (on_snd (sv_start sv)) (modifyP (\<lambda>(b, w). (True, w)))))"

definition subsystem_stop ::
  "logger option \<Rightarrow> string \<Rightarrow> 'r lworld_scheme service list \<Rightarrow> (bool \<times> 'r lworld_scheme, unit) py" where
  "subsystem_stop lg cls svs =
     thenP (forP svs (\<lambda>sv. on_snd (sv_stop sv)))
     (thenP (modifyP (\<lambda>(b, w). (False, w))) (note_subsystem lg (''SubSystem Stop '' @ cls)))"

text \<open>\<open>started svs w\<close>: the world after starting the services one after the other.\<close>

fun started :: "'w service list \<Rightarrow> 'w \<Rightarrow> (exn + unit) \<times> 'w" where
  "started [] w = (Inr (), w)"
| "started (sv # svs) w = (case sv_start sv w of (Inl e, w') \<Rightarrow> (Inl e, w') | (Inr _, w') \<Rightarrow> started svs w')"

text \<open>The flag is set as soon as one service has started, also when a later one raises.\<close>

lemma start_services:
  "forP svs (\<lambda>sv. thenP (on_snd (sv_start sv)) (modifyP (\<lambda>(b, w). (True, w)))) (b, w) =
     (fst (started svs w),
      (b \<or> (case svs of [] \<Rightarrow> False | sv # _ \<Rightarrow> fst (sv_start sv w) = Inr ()), snd (started svs w)))"
proof (induction svs arbitrary: b w)
  case Nil
  then show ?case by (simp add: retP_def)
next
  case (Cons sv svs)
  show ?case
    using Cons.IH [of True "snd (sv_start sv w)"]
    by (auto simp: bindP_def thenP_def on_snd_def modifyP_def split: prod.splits sum.splits)
qed

lemma subsystem_start_run:
  "subsystem_start None cls svs (b, w) =
     (fst (started svs w),
      (b \<or> (case svs of [] \<Rightarrow> False | sv # _ \<Rightarrow> fst (sv_start sv w) = Inr ()), snd (started svs w)))"
  using start_services [of svs b w]
  by (simp add: subsystem_start_def note_subsystem_def thenP_def bindP_def retP_def)

end
