(* ===== verification/RedfishBackend.thy ===== *)
theory RedfishBackend
  imports SwitchController
begin

text \<open>
  The Redfish views of fabrics, switches, ports and VLANs,
  \<^verbatim>\<open>src/ufm/fabricmanager/common/ufmdb/redfish/redfish_{fabric,switch,port,vlan}_backend.py\<close>.
  Each request makes a fresh backend object and calls its \<^verbatim>\<open>get\<close> once, so a definition builds
  the document that \<^verbatim>\<open>self.cfg\<close> holds at the end, with its keys in insertion order.  The
  methods \<^verbatim>\<open>put\<close> are empty.

  All error paths end in \<^verbatim>\<open>RedfishErrorResponse.get_server_error_response(e)\<close>, which raises
  (see the theory of the controller).

  Lemmas: a collection lists exactly the members the database holds, and the view of a port
  shows what the switch reported at the last poll.
\<close>

section \<open>Constants and pieces of documents\<close>

definition SUCCESS :: int where "SUCCESS = 200"
definition SERVER_ERROR :: int where "SERVER_ERROR = 500"
definition NOT_FOUND :: int where "NOT_FOUND = 404"
definition METHOD_NOT_ALLOWED :: int where "METHOD_NOT_ALLOWED = 405"
definition REST_BASE :: string where "REST_BASE = ''/redfish/v1''"
definition FABRICS :: string where "FABRICS = ''Fabrics''"
definition SWITCHES :: string where "SWITCHES = ''Switches''"
definition PORTS :: string where "PORTS = ''Ports''"
definition VLANS :: string where "VLANS = ''VLANs''"

text \<open>What a resource method returns: a document with a status, or a bare status.\<close>

datatype response = Resp json int | Status int

definition fabrics_path :: string where
  "fabrics_path = REST_BASE @ ''/'' @ FABRICS"

definition fabric_path :: "string \<Rightarrow> string" where
  "fabric_path fab_id = fabrics_path @ ''/'' @ fab_id"

definition switches_path :: "string \<Rightarrow> string" where
  "switches_path fab_id = fabric_path fab_id @ ''/'' @ SWITCHES"

definition switch_path :: "string \<Rightarrow> string \<Rightarrow> string" where
  "switch_path fab_id sw_id = switches_path fab_id @ ''/'' @ sw_id"

definition ports_path :: "string \<Rightarrow> string \<Rightarrow> string" where
  "ports_path fab_id sw_id = switch_path fab_id sw_id @ ''/'' @ PORTS"

definition vlans_path :: "string \<Rightarrow> string \<Rightarrow> string" where
  "vlans_path fab_id sw_id = switch_path fab_id sw_id @ ''/'' @ VLANS"

definition odata :: "string \<Rightarrow> json" where
  "odata p = JObj [(''@odata.id'', JStr p)]"

definition num_param :: "string \<Rightarrow> string \<Rightarrow> string \<Rightarrow> json" where
  "num_param name lo hi = JObj [(''Name'', JStr name), (''Required'', JBool True), (''DataType'', JStr ''Number''),
     (''MinimumValue'', JStr lo), (''MaximumValue'', JStr hi)]"

definition plain_param :: "string \<Rightarrow> string \<Rightarrow> json" where
  "plain_param name ty = JObj [(''Name'', JStr name), (''Required'', JBool True), (''DataType'', JStr ty)]"

definition vlan_param :: "string \<Rightarrow> json" where
  "vlan_param name = num_param name ''1'' ''4094''"

definition action :: "string \<Rightarrow> string \<Rightarrow> string \<Rightarrow> json list option \<Rightarrow> string \<times> json" where
  "action path name descr params =
     (''#'' @ name, JObj ([(''description'', JStr descr), (''target'', JStr (path @ ''/Actions/'' @ name))] @
       (case params of None \<Rightarrow> [] | Some ps \<Rightarrow> [(''Parameters'', JList ps)])))"

definition guard_error :: "('w, 'a) py \<Rightarrow> ('w, 'a) py" where
  "guard_error m = tryP m get_server_error_response_unbound"

text \<open>Members of a collection, and the two keys that describe them.\<close>

definition members_of :: "string \<Rightarrow> string list \<Rightarrow> (string \<times> json) list" where
  "members_of path ids =
     [(''Members'', JList (map (\<lambda>i. odata (path @ ''/'' @ i)) ids)),
      (''Members@odata.count'', JInt (int (length ids)))]"

definition last_parts :: "'db etcd3 \<Rightarrow> string \<Rightarrow> (('db, 'r) dworld_scheme, string list) py" where
  "last_parts E q = bindP (query_prefix E q) (\<lambda>d. retP (map path_last (dict_keys d)))"

text \<open>\<open>ret[key] = val\<close> for the last two components of a key.\<close>

definition last_two :: "string \<Rightarrow> exn + string \<times> string" where
  "last_two k =
     (let parts = py_split (CHR ''/'') k in
      bindE (py_second_last parts) (\<lambda>a. bindE (py_last parts) (\<lambda>b. Inr (a, b))))"

fun dict_append :: "string \<Rightarrow> json \<Rightarrow> json dict \<Rightarrow> exn + json dict" where
  "dict_append k v d =
     (case map_of d k of
        None \<Rightarrow> Inl (KeyError k)
      | Some (JList xs) \<Rightarrow> Inr (dict_set k (JList (xs @ [v])) d)
      | Some _ \<Rightarrow> Inl AttributeError)"

section \<open>Fabrics\<close>

definition fabric_entry :: "string \<Rightarrow> json dict \<Rightarrow> exn + json dict" where
  "fabric_entry k ret = bindE (last_two k) (\<lambda>(key, val). Inr (dict_set key (JStr val) ret))"

definition get_fabric :: "'db etcd3 \<Rightarrow> string \<Rightarrow> (('db, 'r) dworld_scheme, json dict) py" where
  "get_fabric E fab_id =
     bindP (query_prefix E (''/Fabrics/'' @ fab_id @ ''/type'')) (\<lambda>d.
     bindP (liftP (foldE fabric_entry (dict_keys d) [])) (\<lambda>ret.
     bindP (last_parts E (''/Fabrics/'' @ fab_id @ ''/list'')) (\<lambda>sws.
     retP (dict_set ''switches'' (JList (map JStr sws)) ret))))"

definition fabric_backend_get ::
  "'db etcd3 \<Rightarrow> string \<Rightarrow> (('db, 'r) dworld_scheme, response) py" where
  "fabric_backend_get E fab_id = guard_error
     (if is_valid_fabric fab_id then
        bindP (get_fabric E fab_id) (\<lambda>fab.
        bindP (liftP (dict_get fab ''type'')) (\<lambda>ty.
        bindP (liftP (dict_get fab ''switches'')) (\<lambda>sws.
        retP (Resp (JObj ([(''@odata.id'', JStr (fabric_path fab_id)),
             (''@odata.type'', JStr ''#Fabric.v1_1_1.Fabric''), (''Id'', JStr fab_id),
             (''Description'', JStr ''Fabric information''), (''Name'', JStr ''Fabric''),
             (''FabricType'', JStr (py_str ty))] @
           (if py_truth sws then [(''Switches'', odata (switches_path fab_id))] else []))) SUCCESS))))
      else retP (Status NOT_FOUND))"

definition fabric_collection_get :: "'db etcd3 \<Rightarrow> (('db, 'r) dworld_scheme, response) py" where
  "fabric_collection_get E = guard_error
     (bindP (last_parts E ''/Fabrics/list'') (\<lambda>fabs.
      retP (Resp (JObj ([(''@odata.id'', JStr fabrics_path),
          (''@odata.type'', JStr ''#FabricCollection.FabricCollection''),
          (''Description'', JStr ''Collection of Fabrics''), (''Name'', JStr ''Fabric Collection'')] @
        members_of fabrics_path fabs)) SUCCESS)))"

section \<open>Switches\<close>

definition switch_entry :: "string \<Rightarrow> json dict \<Rightarrow> exn + json dict" where
  "switch_entry k ret =
     bindE (last_two k) (\<lambda>(key, val).
       if key = ''priority_enabled_list'' then dict_append ''prio_enabled_list'' (JStr val) ret
       else if key = ''priority_disabled_list'' then dict_append ''prio_disabled_list'' (JStr val) ret
       else Inr (dict_set key (JStr val) ret))"

definition get_switch ::
  "'db etcd3 \<Rightarrow> string \<Rightarrow> string \<Rightarrow> (('db, 'r) dworld_scheme, json dict) py" where
  "get_switch E fab_id sw_id =
     bindP (query_prefix E (''/switches/'' @ sw_id @ ''/switch_attributes/'')) (\<lambda>d.
     bindP (liftP (foldE switch_entry (dict_keys d)
        [(''prio_enabled_list'', JList []), (''prio_disabled_list'', JList [])])) (\<lambda>ret.
     bindP (last_parts E (''/switches/'' @ sw_id @ ''/ports/list'')) (\<lambda>ports.
     bindP (last_parts E (''/switches/'' @ sw_id @ ''/VLANs/list'')) (\<lambda>vlans.
     retP (dict_set ''vlans'' (JList (map JStr vlans)) (dict_set ''ports'' (JList (map JStr ports)) ret))))))"

definition switch_actions :: "string \<Rightarrow> json" where
  "switch_actions p = JObj
    [action p ''EnablePfcGlobally'' ''Enables priority flow control globally on the switch.'' None,
     action p ''DisablePfcGlobally'' ''Disables priority flow control globally on the switch.'' None,
     action p ''EnablePfcPerPriority'' ''Enables PFC per priority on the switch.'' (Some [num_param ''Priority'' ''0'' ''7'']),
     action p ''DisablePfcPerPriority'' ''Disables PFC per priority on the switch.'' (Some [num_param ''Priority'' ''0'' ''7'']),
     action p ''EnableBufferManagement'' ''Enable advanced buffer management on the switch.'' None,
     action p ''DisableBufferManagement'' ''Disable advanced buffer management on the switch.'' None,
     action p ''SaveConfigurationFileNoSwitch'' ''Save configuration file without making the new file active.''
       (Some [plain_param ''FileName'' ''String'']),
     action p ''ShowConfigurationFiles'' ''Display the available configuration files and the active file.'' None,
     action p ''AnyCmd'' (''Send any cmd directly to the switch, e.g. AnyCmd interface ethernet 1/5 ingress-buffer iPort '' @
         ''pool iPool1 reserved 10k shared alpha 1'')
       (Some [plain_param ''AnyCmdStr'' ''String''])]"

definition switch_backend_get ::
  "'db etcd3 \<Rightarrow> string \<Rightarrow> string \<Rightarrow> (('db, 'r) dworld_scheme, response) py" where
  "switch_backend_get E fab_id sw_id = guard_error
     (bindP (get_switch E fab_id sw_id) (\<lambda>sw.
      bindP (liftP (dict_get sw ''serial_number'')) (\<lambda>serial.
      bindP (liftP (dict_get sw ''uuid'')) (\<lambda>uuid.
      bindP (liftP (dict_get sw ''pfc_status'')) (\<lambda>pfc.
      bindP (liftP (dict_get sw ''prio_enabled_list'')) (\<lambda>on.
      bindP (liftP (dict_get sw ''prio_disabled_list'')) (\<lambda>off.
      bindP (liftP (dict_get sw ''ports'')) (\<lambda>ports.
      bindP (liftP (dict_get sw ''vlans'')) (\<lambda>vlans.
      retP (Resp (JObj ([(''@odata.id'', JStr (switch_path fab_id sw_id)),
          (''@odata.type'', JStr ''#Switch.v1_3_1.Switch''), (''Id'', JStr sw_id),
          (''Description'', JStr ''Ethernet Switch information''), (''Name'', JStr ''Switch''),
          (''SerialNumber'', JStr (py_str serial)), (''UUID'', JStr (py_str uuid)),
          (''Oem'', JObj [(''PFC'', JStr (py_str pfc)), (''PriorityEnabledList'', on), (''PriorityDisabledList'', off)]),
          (''Actions'', switch_actions (switch_path fab_id sw_id))] @
        (if py_truth ports then [(''Ports'', odata (ports_path fab_id sw_id))] else []) @
        (if py_truth vlans then [(''VLANs'', odata (vlans_path fab_id sw_id))] else []))) SUCCESS))))))))))"

definition switch_collection_get ::
  "'db etcd3 \<Rightarrow> string \<Rightarrow> (('db, 'r) dworld_scheme, response) py" where
  "switch_collection_get E fab_id = guard_error
     (if is_valid_fabric fab_id then
        bindP (last_parts E (''/'' @ FABRICS @ ''/'' @ fab_id @ ''/list'')) (\<lambda>sws.
        retP (Resp (JObj ([(''@odata.id'', JStr (switches_path fab_id)),
            (''@odata.type'', JStr ''#SwitchCollection.SwitchCollection''),
            (''Description'', JStr ''Collection of Switches''), (''Name'', JStr ''Ethernet Switches Collection'')] @
          members_of (switches_path fab_id) sws)) SUCCESS))
      else retP (Status NOT_FOUND))"

section \<open>Ports\<close>

record port_info =
  p_mode :: string
  p_pfc_status :: string
  p_trust_mode :: string
  p_access_vlan :: string
  p_allowed_vlans :: "int list"

text \<open>A loop that overwrites its result with the last component of every key.\<close>

definition last_value :: "'db etcd3 \<Rightarrow> string \<Rightarrow> (('db, 'r) dworld_scheme, string) py" where
  "last_value E q = bindP (last_parts E q) (\<lambda>vs. retP (foldl (\<lambda>_ v. v) '''' vs))"

definition allowed_entry :: "string \<Rightarrow> int list \<Rightarrow> exn + int list" where
  "allowed_entry kk vs = (if kk \<noteq> [] then convert_ranges_to_list kk else Inr vs)"

definition get_port :: "'db etcd3 \<Rightarrow> string \<Rightarrow> string \<Rightarrow> (('db, 'r) dworld_scheme, port_info) py" where
  "get_port E sw_id port_id =
     (let pre = ''/switches/'' @ sw_id @ ''/ports/'' @ port_id in
      bindP (last_value E (pre @ ''/mode/'')) (\<lambda>mode.
      bindP (last_value E (pre @ ''/pfc/pfc_status/'')) (\<lambda>pfc.
      bindP (last_value E (pre @ ''/pfc/trust_mode/'')) (\<lambda>trust.
      bindP (last_value E (pre @ ''/network/access_vlan/'')) (\<lambda>acc.
      bindP (last_parts E (pre @ ''/network/allowed_vlans/'')) (\<lambda>kks.
      bindP (liftP (foldE allowed_entry kks [])) (\<lambda>allowed.
      retP \<lparr>p_mode = mode, p_pfc_status = pfc, p_trust_mode = trust, p_access_vlan = acc,
            p_allowed_vlans = allowed\<rparr>)))))))"

definition port_vlan_actions :: "string \<Rightarrow> (string \<times> json) list" where
  "port_vlan_actions p =
    [action p ''SetAccessPortVLAN'' (''Set this port to access mode that connects to a host. '' @
         ''Must specify a default configured VLAN.'') (Some [vlan_param ''VLANId'']),
     action p ''UnassignAccessPortVLAN'' ''Set this port access VLAN to default 1.'' None,
     action p ''SetTrunkPortVLANsAll'' (''Set this port to trunk mode connecting 2 switches. '' @
         ''By default, a trunk port is automatically a member on all current and future VLANs.'') None,
     action p ''SetTrunkPortVLANsRange'' (''Set this port to trunk mode connecting 2 switches. '' @
         ''This trunk port is a member on the range of VLANs specified by RangeFromVLANId and RangeToVLANId.'')
       (Some [vlan_param ''RangeFromVLANId'', vlan_param ''RangeToVLANId'']),
     action p ''SetHybridPortAccessVLAN'' ''Set this port to hybrid mode and specify the access VLAN. ''
       (Some [vlan_param ''VLANId'']),
     action p ''SetHybridPortAllowedVLAN'' ''Set this port to hybrid mode and add the allowed VLAN. ''
       (Some [vlan_param ''VLANId'']),
     action p ''RemoveHybridPortAllowedVLAN'' ''Remove the specified VLAN from the hybrid port. ''
       (Some [vlan_param ''VLANId''])]"

definition port_qos_actions :: "string \<Rightarrow> (string \<times> json) list" where
  "port_qos_actions p =
    [action p ''EnablePortPfc'' ''Enables PFC mode on port.'' None,
     action p ''DisablePortPfc'' ''Disables PFC mode on port.'' None,
     action p ''EnableEcnMarking'' ''Enables explicit congestion notification for traffic class queue.''
       (Some [num_param ''TrafficClass'' ''0'' ''7'', plain_param ''MinAbsoluteInKBs'' ''Number'',
          plain_param ''MaxAbsoluteInKBs'' ''Number'']),
     action p ''DisableEcnMarking'' ''Disables ECN marking for traffic class queue.'' None,
     action p ''ShowPfcCounters'' ''Display priority flow control counters for the specified interface and priority.''
       (Some [num_param ''Priority'' ''0'' ''7'']),
     action p ''ShowCongestionControl'' ''Displays specific interface congestion control information.'' None,
     action p ''ShowBufferDetails'' ''Displays specific interface buffer information.'' None,
     action p ''BindPriorityToBuffer'' ''Bind switch priority to specific buffer.''
       (Some [plain_param ''Buffer'' ''String'', num_param ''Priority'' ''0'' ''7''])]"

definition port_links :: "string \<Rightarrow> string \<Rightarrow> port_info \<Rightarrow> json" where
  "port_links fab_id sw_id port =
     JObj [(''AccessVLAN'', JObj (if p_access_vlan port \<noteq> []
              then [(''@odata.id'', JStr (vlans_path fab_id sw_id @ ''/'' @ p_access_vlan port))] else [])),
           (''AllowedVLANs'', JList (map (\<lambda>i. odata (vlans_path fab_id sw_id @ ''/'' @ int_str i)) (p_allowed_vlans port)))]"

definition port_document :: "string \<Rightarrow> string \<Rightarrow> string \<Rightarrow> port_info \<Rightarrow> json" where
  "port_document fab_id sw_id port_id port =
     (let path = ports_path fab_id sw_id @ ''/'' @ port_id in
      JObj [(''@odata.id'', JStr path), (''@odata.type'', JStr ''#Port.v1_2_1.Port''), (''Id'', JStr port_id),
        (''Description'', JStr ''Port Interface''), (''PortId'', JStr port_id), (''Name'', JStr (''Eth1/'' @ port_id)),
        (''Mode'', JStr (p_mode port)),
        (''Oem'', JObj [(''PFC'', JStr (p_pfc_status port)), (''TrustMode'', JStr (p_trust_mode port))]),
        (''Links'', port_links fab_id sw_id port),
        (''Actions'', JObj (port_vlan_actions path @ port_qos_actions path))])"

definition port_backend_get ::
  "'db etcd3 \<Rightarrow> string \<Rightarrow> string \<Rightarrow> string \<Rightarrow> (('db, 'r) dworld_scheme, response) py" where
  "port_backend_get E fab_id sw_id port_id = guard_error
     (bindP (get_port E sw_id port_id) (\<lambda>port. retP (Resp (port_document fab_id sw_id port_id port) SUCCESS)))"

definition get_ports_for_switch :: "'db etcd3 \<Rightarrow> string \<Rightarrow> (('db, 'r) dworld_scheme, string list) py" where
  "get_ports_for_switch E sw_id = last_parts E (''/switches/'' @ sw_id @ ''/ports/list/'')"

definition port_collection_get ::
  "'db etcd3 \<Rightarrow> string \<Rightarrow> string \<Rightarrow> (('db, 'r) dworld_scheme, response) py" where
  "port_collection_get E fab_id sw_id = guard_error
     (if is_valid_fabric fab_id \<and> is_valid_switch sw_id then
        bindP (get_ports_for_switch E sw_id) (\<lambda>ps.
        retP (Resp (JObj ([(''@odata.id'', JStr (ports_path fab_id sw_id)),
            (''@odata.type'', JStr ''#PortCollection.PortCollection''),
            (''Description'', JStr ''Collection of Ports''), (''Name'', JStr ''Port Collection'')] @
          members_of (ports_path fab_id sw_id) ps)) SUCCESS))
      else retP (Status NOT_FOUND))"

section \<open>VLANs\<close>

definition vlan_entry :: "string \<Rightarrow> json dict \<Rightarrow> exn + json dict" where
  "vlan_entry k ret =
     bindE (last_two k) (\<lambda>(key, val).
       if key = ''ports'' \<and> val \<noteq> [] then dict_append ''ports'' (JStr val) ret
       else Inr (dict_set key (JStr val) ret))"

definition get_vlan :: "'db etcd3 \<Rightarrow> string \<Rightarrow> string \<Rightarrow> (('db, 'r) dworld_scheme, json dict) py" where
  "get_vlan E sw_id vlan_id =
     bindP (query_prefix E (''/switches/'' @ sw_id @ ''/VLANs/'' @ vlan_id @ ''/'')) (\<lambda>d.
     liftP (foldE vlan_entry (dict_keys d) [(''ports'', JList [])]))"

definition vlan_actions :: "string \<Rightarrow> json" where
  "vlan_actions p = JObj
    [action p ''DeleteVLAN'' ''Delete VLAN'' None,
     action p ''NameVLAN'' ''Name the VLAN'' (Some [plain_param ''Name'' ''String''])]"

text \<open>\<open>for p in vlan['ports']: p.split('/')[-1]\<close>; a text is iterated by characters.\<close>

definition port_link :: "string \<Rightarrow> string \<Rightarrow> json \<Rightarrow> exn + json" where
  "port_link fab_id sw_id p =
     bindE (py_split_json (CHR ''/'') p) (\<lambda>parts. Inr (odata (ports_path fab_id sw_id @ ''/'' @ last parts)))"

definition vlan_backend_get ::
  "'db etcd3 \<Rightarrow> string \<Rightarrow> string \<Rightarrow> string \<Rightarrow> (('db, 'r) dworld_scheme, response) py" where
  "vlan_backend_get E fab_id sw_id vlan_id = guard_error
     (bindP (get_vlan E sw_id vlan_id) (\<lambda>vlan.
      bindP (liftP (dict_get vlan ''name'')) (\<lambda>name.
      bindP (liftP (bindE (dict_get vlan ''ports'') py_iter)) (\<lambda>ps.
      bindP (liftP (mapE (port_link fab_id sw_id) ps)) (\<lambda>links.
      let path = vlans_path fab_id sw_id @ ''/'' @ vlan_id in
      retP (Resp (JObj [(''@odata.id'', JStr path),
          (''@odata.type'', JStr ''#VLanNetworkInterface.v1_1_5.VLanNetworkInterface''), (''Id'', JStr vlan_id),
          (''Description'', JStr ''VLAN Network Interface''), (''Name'', JStr (py_str name)),
          (''VLANEnable'', JStr ''True''), (''VLANId'', JStr vlan_id), (''Actions'', vlan_actions path),
          (''Links'', JObj [(''Ports'', JList links)])]) SUCCESS))))))"

definition get_vlans_for_switch :: "'db etcd3 \<Rightarrow> string \<Rightarrow> (('db, 'r) dworld_scheme, string list) py" where
  "get_vlans_for_switch E sw_id = last_parts E (''/switches/'' @ sw_id @ ''/VLANs/list/'')"

definition vlan_collection_get ::
  "'db etcd3 \<Rightarrow> string \<Rightarrow> string \<Rightarrow> (('db, 'r) dworld_scheme, response) py" where
  "vlan_collection_get E fab_id sw_id = guard_error
     (if is_valid_fabric fab_id \<and> is_valid_switch sw_id then
        bindP (get_vlans_for_switch E sw_id) (\<lambda>vs.
        retP (Resp (JObj ([(''@odata.id'', JStr (vlans_path fab_id sw_id)),
            (''@odata.type'', JStr ''#VLanCollection.VLanCollection''),
            (''Description'', JStr ''Collection of VLANs''), (''Name'', JStr ''VLANs Collection'')] @
          members_of (vlans_path fab_id sw_id) vs @
          [(''Actions'', JObj [action (vlans_path fab_id sw_id) ''CreateVLAN'' ''Create a VLAN with Id''
             (Some [vlan_param ''VLANId''])])])) SUCCESS))
      else retP (Status NOT_FOUND))"

section \<open>What a view shows\<close>

lemma prefix_segment:
  "CHR ''/'' \<notin> set x \<Longrightarrow> CHR ''/'' \<notin> set y \<Longrightarrow>
   prefix (x @ CHR ''/'' # r) (y @ CHR ''/'' # t) \<longleftrightarrow> x = y \<and> prefix r t"
proof (induction x arbitrary: y)
  case Nil
  then show ?case by (cases y) auto
next
  case (Cons c x)
  then show ?case by (cases y) auto
qed

lemma distinct_singleton: "distinct xs \<Longrightarrow> set xs = {x} \<Longrightarrow> xs = [x]"
  by (cases xs; cases "tl xs") auto

context etcd_store
begin

lemma wp_last_parts:
  assumes "db_is kv up l m w"
    and "\<And>ks w'. db_is kv up l m w' \<Longrightarrow> db_step w w' \<Longrightarrow> distinct ks \<Longrightarrow>
      set ks = dom m \<inter> {k. prefix q k} \<Longrightarrow> Q (map path_last ks) w'"
  shows "wp (last_parts E q) Q X w"
  unfolding last_parts_def wp_bindP wp_retP_fun
  by (rule wp_query [OF assms(1)]) (auto intro!: assms(2) simp: keys_of_restrict, simp add: dict_keys_def)

lemma wp_last_value:
  assumes "db_is kv up l m w" and "dom m \<inter> {k. prefix q k} = {q @ v}" and "suffix ''/'' q" and "CHR ''/'' \<notin> set v"
    and "\<And>w'. db_is kv up l m w' \<Longrightarrow> db_step w w' \<Longrightarrow> Q v w'"
  shows "wp (last_value E q) Q X w"
  unfolding last_value_def wp_bindP wp_retP_fun
proof (rule wp_last_parts [OF assms(1)])
  fix ks w' assume "db_is kv up l m w'" "db_step w w'" and ks: "distinct ks" "set ks = dom m \<inter> {k. prefix q k}"
  obtain p where "q = p @ ''/''" using assms(3) by (auto simp: suffix_def)
  then have "path_last (q @ v) = v" using path_last_append [OF assms(4), of p] by simp
  moreover have "ks = [q @ v]"
    using ks assms(2) by (intro distinct_singleton) auto
  ultimately show "Q (foldl (\<lambda>_ v. v) '''' (map path_last ks)) w'"
    using assms(5) \<open>db_is kv up l m w'\<close> \<open>db_step w w'\<close> by simp
qed

lemma wp_last_value_none:
  assumes "db_is kv up l m w" and "dom m \<inter> {k. prefix q k} = {}"
    and "\<And>w'. db_is kv up l m w' \<Longrightarrow> db_step w w' \<Longrightarrow> Q '''' w'"
  shows "wp (last_value E q) Q X w"
  unfolding last_value_def wp_bindP wp_retP_fun
  using assms(2,3) by (intro wp_last_parts [OF assms(1)]) auto

text \<open>A value whose keys are not known: the request still returns something.\<close>

lemma wp_last_value_any:
  assumes "db_is kv up l m w" and "\<And>v w'. db_is kv up l m w' \<Longrightarrow> db_step w w' \<Longrightarrow> Q v w'"
  shows "wp (last_value E q) Q X w"
  unfolding last_value_def wp_bindP wp_retP_fun
  by (rule wp_last_parts [OF assms(1)]) (rule assms(2))

lemma wp_get_port:
  assumes "db_is kv up l M w"
    and "dom M \<inter> {k. prefix (port_pre u p @ ''/mode/'') k} = {port_pre u p @ ''/mode/'' @ mode}"
    and "dom M \<inter> {k. prefix (port_pre u p @ ''/network/access_vlan/'') k} =
      (if acc = ''N/A'' then {} else {port_pre u p @ ''/network/access_vlan/'' @ acc})"
    and "dom M \<inter> {k. prefix (port_pre u p @ ''/network/allowed_vlans/'') k} =
      {port_pre u p @ ''/network/allowed_vlans/'' @ al}"
    and "CHR ''/'' \<notin> set mode" and "acc \<noteq> ''N/A'' \<Longrightarrow> CHR ''/'' \<notin> set acc" and "CHR ''/'' \<notin> set al"
    and "allowed_entry al [] = Inr vs"
    and "\<And>pfc trust w'. Q \<lparr>p_mode = mode, p_pfc_status = pfc, p_trust_mode = trust,
      p_access_vlan = (if acc = ''N/A'' then '''' else acc), p_allowed_vlans = vs\<rparr> w'"
  shows "wp (get_port E u p) Q X w"
proof -
  have acc: "wp (last_value E (port_pre u p @ ''/network/access_vlan/'')) Q' X' w1"
    if "db_is kv up l M w1" "\<And>w'. db_is kv up l M w' \<Longrightarrow> Q' (if acc = ''N/A'' then '''' else acc) w'" for Q' X' w1
  proof (cases "acc = ''N/A''")
    case True
    with that assms(3) show ?thesis by (intro wp_last_value_none [of l M]) auto
  next
    case False
    with that assms(3,6) show ?thesis by (intro wp_last_value [of l M _ _ acc]) (auto simp: suffix_def)
  qed
  have al: "wp (last_parts E (port_pre u p @ ''/network/allowed_vlans/'')) Q' X' w1"
    if "db_is kv up l M w1" "\<And>w'. Q' [al] w'" for Q' X' w1
  proof (rule wp_last_parts [OF that(1)])
    fix ks w' assume "distinct ks" "set ks = dom M \<inter> {k. prefix (port_pre u p @ ''/network/allowed_vlans/'') k}"
    then have "ks = [port_pre u p @ ''/network/allowed_vlans/'' @ al]"
      using assms(4) by (intro distinct_singleton) auto
    moreover have "path_last (port_pre u p @ ''/network/allowed_vlans/'' @ al) = al"
      using path_last_append [OF assms(7), of "port_pre u p @ ''/network/allowed_vlans''"] by simp
    ultimately show "Q' (map path_last ks) w'" using that(2) by simp
  qed
  show ?thesis
    unfolding get_port_def port_pre_def [symmetric] Let_def wp_bindP
    by (rule wp_last_value [OF assms(1), of _ mode]; (simp add: assms(2,5) suffix_def; fail)?)
      (erule wp_last_value_any, erule wp_last_value_any, erule acc, erule al,
        simp add: wp_simps assms(8,9) wp_retP_fun)
qed

end

text \<open>Which of the keys of a poll lie below a port.\<close>

lemma sw_pre_port: "port_pre (v_uuid V) p = sw_pre V @ ''/ports/'' @ p"
  by (simp add: port_pre_def sw_pre_def)

lemma below_port:
  assumes "CHR ''/'' \<notin> set i" "CHR ''/'' \<notin> set p"
  shows "prefix (port_pre (v_uuid V) p @ ''/'') (sw_pre V @ ''/ports/'' @ i @ CHR ''/'' # r) \<longleftrightarrow> i = p"
  using prefix_segment [OF assms(2,1), of "[]"] by (auto simp: sw_pre_port)

lemma not_below_port:
  assumes "CHR ''/'' \<notin> set (v_uuid V)" "num_str p"
  shows "k \<in> set (fabric_keys V @ attr_keys a V t @ vlan_keys V @ [sw_pre V @ ''/switch_attributes/mq_port/'' @ q]) \<Longrightarrow>
      \<not> prefix (port_pre (v_uuid V) p @ ''/'') k"
    and "\<not> prefix (port_pre (v_uuid V) p @ ''/'') (sw_pre V @ ''/ports/list/'' @ i)"
    and "k \<in> set (pfc_keys V) \<Longrightarrow> prefix (port_pre (v_uuid V) p @ ''/'') k \<Longrightarrow> wf_view V \<Longrightarrow>
      \<exists>t. k = port_pre (v_uuid V) p @ ''/pfc/pfc_status/'' @ t"
    and "k \<in> set (qos_keys V) \<Longrightarrow> prefix (port_pre (v_uuid V) p @ ''/'') k \<Longrightarrow> wf_view V \<Longrightarrow>
      \<exists>t. k = port_pre (v_uuid V) p @ ''/pfc/trust_mode/'' @ t"
proof -
  have p: "CHR ''/'' \<notin> set p" "p \<noteq> ''list''"
    using num_str_no_sep(1) [OF assms(2)] assms(2) by (auto simp: num_str_def is_digit_def)
  have "\<not> prefix (port_pre (v_uuid V) p @ ''/'') (''/switches/list/'' @ v_uuid V)"
    using prefix_segment [of "v_uuid V" "''list''"] assms(1) by (auto simp: port_pre_def)
  then show "k \<in> set (fabric_keys V @ attr_keys a V t @ vlan_keys V @ [sw_pre V @ ''/switch_attributes/mq_port/'' @ q]) \<Longrightarrow>
      \<not> prefix (port_pre (v_uuid V) p @ ''/'') k"
    by (auto simp: fabric_keys_def attr_keys_def vlan_keys_def port_pre_def sw_pre_def)
  show "\<not> prefix (port_pre (v_uuid V) p @ ''/'') (sw_pre V @ ''/ports/list/'' @ i)"
    using below_port [of "''list''" p V i] p by simp
  show "k \<in> set (pfc_keys V) \<Longrightarrow> prefix (port_pre (v_uuid V) p @ ''/'') k \<Longrightarrow> wf_view V \<Longrightarrow>
      \<exists>t. k = port_pre (v_uuid V) p @ ''/pfc/pfc_status/'' @ t"
    using below_port [OF num_str_no_sep(1) p(1), of _ V]
    by (auto simp: pfc_keys_def wf_view_def list_all_iff port_pre_def sw_pre_def)
  show "k \<in> set (qos_keys V) \<Longrightarrow> prefix (port_pre (v_uuid V) p @ ''/'') k \<Longrightarrow> wf_view V \<Longrightarrow>
      \<exists>t. k = port_pre (v_uuid V) p @ ''/pfc/trust_mode/'' @ t"
    using below_port [OF num_str_no_sep(1) p(1), of _ V]
    by (auto simp: qos_keys_def wf_view_def list_all_iff port_pre_def sw_pre_def)
qed

definition port_entry_keys :: "string \<Rightarrow> string \<times> string \<times> string \<times> string \<Rightarrow> string set" where
  "port_entry_keys u = (\<lambda>(p, mode, acc, al).
     {port_pre u p @ ''/mode/'' @ mode, port_pre u p @ ''/network/allowed_vlans/'' @ al} \<union>
     (if acc = ''N/A'' then {} else {port_pre u p @ ''/network/access_vlan/'' @ acc}))"

lemma keys_below_port:
  assumes "wf_view V" "CHR ''/'' \<notin> set (v_uuid V)" "distinct (map fst (v_ports V))" "(p, r) \<in> set (v_ports V)"
    and "k \<in> set (poll_keys a V t)" "prefix (port_pre (v_uuid V) p @ ''/'') k"
  shows "k \<in> port_entry_keys (v_uuid V) (p, r) \<or> prefix (port_pre (v_uuid V) p @ ''/pfc/'') k"
proof -
  have num: "num_str p" and p: "CHR ''/'' \<notin> set p"
    using assms(1,4) num_str_no_sep(1) by (auto simp: wf_view_def list_all_iff)
  have "k \<in> port_entry_keys (v_uuid V) (p, r)" if mem: "k \<in> set (port_keys V)"
  proof -
    obtain i mode acc al where e: "(i, mode, acc, al) \<in> set (v_ports V)"
      and k: "k = sw_pre V @ ''/ports/list/'' @ i \<or> k \<in> port_entry_keys (v_uuid V) (i, mode, acc, al)"
      using mem unfolding port_keys_def port_entry_keys_def sw_pre_port
      by (auto simp del: append_Cons split: if_splits)
    then have "CHR ''/'' \<notin> set i"
      using assms(1) num_str_no_sep(1) by (fastforce simp: wf_view_def list_all_iff)
    then have ip: "k \<in> port_entry_keys (v_uuid V) (i, mode, acc, al) \<Longrightarrow> i = p"
      using below_port [OF _ p, of i V] assms(6) by (auto simp: port_entry_keys_def sw_pre_port split: if_splits)
    have "k \<noteq> sw_pre V @ ''/ports/list/'' @ i"
      using not_below_port(2) [OF assms(2) num, of i] assms(6) by auto
    with k ip have "k \<in> port_entry_keys (v_uuid V) (i, mode, acc, al)" "i = p" by auto
    moreover have "(mode, acc, al) = r"
      using eq_key_imp_eq_value [OF assms(3), of p] assms(4) e \<open>i = p\<close> by blast
    ultimately show ?thesis by simp
  qed
  then show ?thesis
    using assms(5,6) not_below_port [OF assms(2) num] assms(1)
    unfolding poll_keys_def by (auto simp del: append_Cons) (fastforce simp: prefix_def)+
qed

lemma entry_keys_polled:
  assumes "(p, r) \<in> set (v_ports V)"
  shows "port_entry_keys (v_uuid V) (p, r) \<subseteq> set (poll_keys a V t)"
proof -
  have sub: "set (f x) \<subseteq> set (concat (map f xs))" if "x \<in> set xs" for f and x :: 'x and xs
    using that by auto
  obtain mode acc al where r: "r = (mode, acc, al)" by (cases r)
  have "port_entry_keys (v_uuid V) (p, r) \<subseteq> set (port_keys V)"
    unfolding port_keys_def using sub [OF assms]
    by (rule subset_trans [rotated]) (auto simp: r port_entry_keys_def sw_pre_port split: if_splits)
  then show ?thesis by (auto simp: poll_keys_def)
qed

text \<open>
  After a mode change and the poll that follows it, the keys of the port's mode and VLANs are
  those of the answer and no others.
\<close>

lemma fresh_port_keys:
  assumes "wf_view V" "CHR ''/'' \<notin> set (v_uuid V)" "distinct (map fst (v_ports V))" "(p, r) \<in> set (v_ports V)"
    and x: "x \<in> {''/mode/'', ''/network/access_vlan/'', ''/network/allowed_vlans/''}"
    and "M = put_all (m |` (- stale_port (v_uuid V) p m)) (poll_keys a V t)"
  shows "dom M \<inter> {k. prefix (port_pre (v_uuid V) p @ x) k} =
    port_entry_keys (v_uuid V) (p, r) \<inter> {k. prefix (port_pre (v_uuid V) p @ x) k}"
proof (rule set_eqI, rule iffI)
  fix k assume k: "k \<in> dom M \<inter> {k. prefix (port_pre (v_uuid V) p @ x) k}"
  then have stale: "k \<in> stale_port (v_uuid V) p m"
    using x by (auto simp: stale_port_def)
  with k assms(6) have "k \<in> set (poll_keys a V t)"
    by (auto simp: put_all_def restrict_map_def dom_def split: if_splits)
  moreover have "prefix (port_pre (v_uuid V) p @ ''/'') k"
    using k x by (auto simp: prefix_def)
  moreover have "\<not> prefix (port_pre (v_uuid V) p @ ''/pfc/'') k"
    using k x by (auto simp: prefix_def)
  ultimately show "k \<in> port_entry_keys (v_uuid V) (p, r) \<inter> {k. prefix (port_pre (v_uuid V) p @ x) k}"
    using keys_below_port [OF assms(1-4)] k by blast
next
  fix k assume "k \<in> port_entry_keys (v_uuid V) (p, r) \<inter> {k. prefix (port_pre (v_uuid V) p @ x) k}"
  moreover from this have "k \<in> set (poll_keys a V t)"
    using entry_keys_polled [OF assms(4), of a t] by blast
  ultimately show "k \<in> dom M \<inter> {k. prefix (port_pre (v_uuid V) p @ x) k}"
    using assms(6) by (simp add: put_all_def dom_def)
qed

context etcd_store
begin

lemma wp_port_view:
  assumes "cl_is kv up a (put_all (m |` (- stale_port (v_uuid V) p m)) (poll_keys a V t)) s c w"
    and "wf_view V" "CHR ''/'' \<notin> set (v_uuid V)" "distinct (map fst (v_ports V))"
    and "(p, mode, acc, al) \<in> set (v_ports V)"
    and "CHR ''/'' \<notin> set mode" and "acc \<noteq> ''N/A'' \<Longrightarrow> CHR ''/'' \<notin> set acc" and "CHR ''/'' \<notin> set al"
    and "allowed_entry al [] = Inr vs"
  shows "wp (port_backend_get E fab (v_uuid V) p) (\<lambda>r _. \<exists>pfc trust. r = Resp (port_document fab (v_uuid V) p
      \<lparr>p_mode = mode, p_pfc_status = pfc, p_trust_mode = trust,
       p_access_vlan = (if acc = ''N/A'' then '''' else acc), p_allowed_vlans = vs\<rparr>) SUCCESS) (\<lambda>_ _. False) w"
proof -
  let ?u = "v_uuid V"
  define M where "M = put_all (m |` (- stale_port ?u p m)) (poll_keys a V t)"
  note fresh = fresh_port_keys [OF assms(2-5) _ M_def]
  show ?thesis
    unfolding port_backend_get_def guard_error_def wp_tryP wp_bindP wp_retP_fun
  proof (rule wp_get_port [of "sa_db a" M _ _ _ mode acc al vs])
    show "db_is kv up (sa_db a) M w" using assms(1) by (simp add: cl_is_def M_def)
    show "dom M \<inter> {k. prefix (port_pre ?u p @ ''/mode/'') k} = {port_pre ?u p @ ''/mode/'' @ mode}"
      using fresh [of "''/mode/''"] by (auto simp: port_entry_keys_def)
    show "dom M \<inter> {k. prefix (port_pre ?u p @ ''/network/access_vlan/'') k} =
        (if acc = ''N/A'' then {} else {port_pre ?u p @ ''/network/access_vlan/'' @ acc})"
      using fresh [of "''/network/access_vlan/''"] by (auto simp: port_entry_keys_def)
    show "dom M \<inter> {k. prefix (port_pre ?u p @ ''/network/allowed_vlans/'') k} =
        {port_pre ?u p @ ''/network/allowed_vlans/'' @ al}"
      using fresh [of "''/network/allowed_vlans/''"] by (auto simp: port_entry_keys_def)
  qed (use assms in auto)
qed

end

text \<open>A collection lists exactly the members the database holds below its prefix.\<close>

lemma collection_members:
  assumes "distinct ks" and "set ks = dom m \<inter> {k. prefix (q @ ''/'') k}" and "\<forall>k \<in> dom m. prefix (q @ ''/'') k \<longrightarrow> CHR ''/'' \<notin> set (drop (length q + 1) k)"
  shows "distinct (map path_last ks) \<and> set (map path_last ks) = {i. q @ ''/'' @ i \<in> dom m \<and> CHR ''/'' \<notin> set i}"
proof -
  have k: "\<exists>i. k = q @ ''/'' @ i \<and> CHR ''/'' \<notin> set i \<and> path_last k = i" if mem: "k \<in> set ks" for k
  proof -
    obtain i where i: "k = q @ ''/'' @ i" using mem assms(2) by (auto simp: prefix_def)
    have "k \<in> dom m" and "prefix (q @ ''/'') k" using mem assms(2) by auto
    with assms(3) have "CHR ''/'' \<notin> set (drop (length q + 1) k)" by blast
    then have "CHR ''/'' \<notin> set i" by (simp add: i)
    with i path_last_append [of i q] show ?thesis by auto
  qed
  have "inj_on path_last (set ks)"
  proof (rule inj_onI)
    fix x y
    assume "x \<in> set ks" "y \<in> set ks" "path_last x = path_last y"
    with k [of x] k [of y] show "x = y" by auto
  qed
  moreover have "set (map path_last ks) = {i. q @ ''/'' @ i \<in> dom m \<and> CHR ''/'' \<notin> set i}"
  proof (rule set_eqI)
    fix i
    show "i \<in> set (map path_last ks) \<longleftrightarrow> i \<in> {i. q @ ''/'' @ i \<in> dom m \<and> CHR ''/'' \<notin> set i}"
    proof
      assume "i \<in> set (map path_last ks)"
      then obtain x where "x \<in> set ks" "i = path_last x" by auto
      with k [of x] assms(2) show "i \<in> {i. q @ ''/'' @ i \<in> dom m \<and> CHR ''/'' \<notin> set i}" by auto
    next
      assume i: "i \<in> {i. q @ ''/'' @ i \<in> dom m \<and> CHR ''/'' \<notin> set i}"
      then have "q @ ''/'' @ i \<in> set ks" using assms(2) by (auto simp: prefix_def)
      moreover have "path_last (q @ ''/'' @ i) = i" using i path_last_append [of i q] by auto
      ultimately show "i \<in> set (map path_last ks)" by force
    qed
  qed
  ultimately show ?thesis using assms(1) by (simp add: distinct_map)
qed

context etcd_store
begin

lemma wp_port_collection:
  assumes "db_is kv up l m w"
    and "\<forall>k \<in> dom m. prefix ((''/switches/'' @ sw_id @ ''/ports/list'') @ ''/'') k \<longrightarrow>
      CHR ''/'' \<notin> set (drop (length (''/switches/'' @ sw_id @ ''/ports/list'') + 1) k)"
    and "\<And>ids w'. distinct ids \<Longrightarrow> set ids = {i. (''/switches/'' @ sw_id @ ''/ports/list'') @ ''/'' @ i \<in> dom m \<and> CHR ''/'' \<notin> set i} \<Longrightarrow>
      Q (Resp (JObj ([(''@odata.id'', JStr (ports_path fab_id sw_id)),
            (''@odata.type'', JStr ''#PortCollection.PortCollection''),
            (''Description'', JStr ''Collection of Ports''), (''Name'', JStr ''Port Collection'')] @
          members_of (ports_path fab_id sw_id) ids)) SUCCESS) w'"
  shows "wp (port_collection_get E fab_id sw_id) Q X w"
proof -
  let ?q = "''/switches/'' @ sw_id @ ''/ports/list''"
  have q: "''/switches/'' @ sw_id @ ''/ports/list/'' = ?q @ ''/''" by simp
  show ?thesis
    unfolding port_collection_get_def guard_error_def wp_tryP is_valid_fabric_def is_valid_switch_def simp_thms
      if_True get_ports_for_switch_def q wp_bindP wp_retP_fun
    by (rule wp_last_parts [OF assms(1)], rule assms(3))
      (use collection_members [OF _ _ assms(2)] in blast)+
qed

text \<open>A switch without attributes: the first missing field raises, and the error path raises again.\<close>

lemma wp_switch_missing:
  assumes "db_is kv up l m w" and "\<And>k. k \<in> dom m \<Longrightarrow> \<not> prefix (''/switches/'' @ sw_id @ ''/switch_attributes/'') k"
    and "\<And>w'. X TypeError w'"
  shows "wp (switch_backend_get E fab_id sw_id) Q X w"
proof -
  have "wp (get_switch E fab_id sw_id) (\<lambda>sw _. map_of sw ''serial_number'' = None) (\<lambda>_ _. True) w"
    unfolding get_switch_def wp_bindP wp_retP_fun
  proof (rule wp_query [OF assms(1)])
    fix d and w1 :: "('db, 'a) dworld_scheme"
    assume w1: "db_is kv up l m w1" and d: "map_of d = m |` {k. prefix (''/switches/'' @ sw_id @ ''/switch_attributes/'') k}"
    have "set (dict_keys d) = {}" using keys_of_restrict [OF d] assms(2) by auto
    then have "dict_keys d = []" by simp
    then show "wp (liftP (foldE switch_entry (dict_keys d) [(''prio_enabled_list'', JList []), (''prio_disabled_list'', JList [])]))
       (\<lambda>ret. wp (last_parts E (''/switches/'' @ sw_id @ ''/ports/list''))
         (\<lambda>ports. wp (last_parts E (''/switches/'' @ sw_id @ ''/VLANs/list''))
           (\<lambda>vlans w2. map_of (dict_set ''vlans'' (JList (map JStr vlans)) (dict_set ''ports'' (JList (map JStr ports)) ret))
              ''serial_number'' = None) (\<lambda>_ _. True)) (\<lambda>_ _. True)) (\<lambda>_ _. True) w1"
      by (simp add: wp_simps)
  qed
  then have "wp (get_switch E fab_id sw_id)
    (\<lambda>sw w'. \<forall>f. wp (bindP (liftP (dict_get sw ''serial_number'')) f) Q (\<lambda>e. X TypeError) w') (\<lambda>e. X TypeError) w"
    by (rule wp_mono) (auto simp: dict_get_def bindP_liftP_Inl wp_simps assms(3))
  then show ?thesis
    unfolding switch_backend_get_def guard_error_def get_server_error_response_unbound_def wp_tryP wp_bindP [of "get_switch _ _ _"]
      wp_raiseP
    by (rule wp_mono) (auto simp: wp_simps)
qed

end

end
