(* ===== verification/RedfishServer.thy ===== *)
theory RedfishServer
  imports SwitchController
begin

text \<open>
  \<^verbatim>\<open>src/ufm/fabricmanager/systems/switch/redfish_server.py\<close>: the thread that takes requests from
  a ZeroMQ reply socket, hands them to the controller and sends the answers back.

  The socket is a parameter \<open>Z\<close>.  What the code relies on is the locale \<open>rep_socket\<close>: the
  documented behaviour of a \<^verbatim>\<open>zmq.REP\<close> socket, which alternates strictly between receiving a
  request and sending its answer.  The state of the thread is the pair of the socket and the
  world the controller works on; one pass of the loop is \<open>rf_iteration\<close>.  The loop runs until
  the event is set, so its behaviour is stated for every number of passes.

  Lemmas: the answers sent are those of the controller, in order, up to the first request for
  which it raises; after that one the server never answers again.
\<close>

record 'z zmq_rep =
  z_recv :: "('z, json) py"
  z_send :: "json \<Rightarrow> ('z, unit) py"

text \<open>One pass of the \<^verbatim>\<open>while\<close> loop; every exception is swallowed.\<close>

definition rf_iteration ::
  "'z zmq_rep \<Rightarrow> (json \<Rightarrow> ('w, json) py) \<Rightarrow> 'z \<times> 'w \<Rightarrow> 'z \<times> 'w" where
  "rf_iteration Z process = (\<lambda>(z, w).
     (case z_recv Z z of
        (Inl e, z') \<Rightarrow> (z', w)
      | (Inr request, z') \<Rightarrow>
          (case process request w of
             (Inl e, w') \<Rightarrow> (z', w')
           | (Inr response, w') \<Rightarrow> (snd (z_send Z response z'), w'))))"

text \<open>\<open>run\<close> with an event that becomes set after \<open>n\<close> passes.\<close>

fun rf_run :: "'z zmq_rep \<Rightarrow> (json \<Rightarrow> ('w, json) py) \<Rightarrow> nat \<Rightarrow> 'z \<times> 'w \<Rightarrow> 'z \<times> 'w" where
  "rf_run Z process 0 zw = zw"
| "rf_run Z process (Suc n) zw = rf_run Z process n (rf_iteration Z process zw)"

text \<open>The answers the controller gives to a list of requests, up to the first raise.\<close>

fun answers_of :: "(json \<Rightarrow> ('w, json) py) \<Rightarrow> json list \<Rightarrow> 'w \<Rightarrow> json list" where
  "answers_of process [] w = []"
| "answers_of process (q # qs) w =
     (case process q w of (Inr r, w') \<Rightarrow> r # answers_of process qs w' | (Inl e, w') \<Rightarrow> [])"

section \<open>The reply socket\<close>

locale rep_socket =
  fixes Z :: "'z zmq_rep" and awaiting :: "'z \<Rightarrow> bool" and queue :: "'z \<Rightarrow> json list" and sent :: "'z \<Rightarrow> json list"
  assumes recv_awaiting: "awaiting z \<Longrightarrow> \<exists>e z'. z_recv Z z = (Inl e, z') \<and> awaiting z' \<and> queue z' = queue z \<and> sent z' = sent z"
    and recv_empty: "\<not> awaiting z \<Longrightarrow> queue z = [] \<Longrightarrow>
      \<exists>e z'. z_recv Z z = (Inl e, z') \<and> \<not> awaiting z' \<and> queue z' = [] \<and> sent z' = sent z"
    and recv_request: "\<not> awaiting z \<Longrightarrow> queue z = q # qs \<Longrightarrow>
      \<exists>z'. z_recv Z z = (Inr q, z') \<and> awaiting z' \<and> queue z' = qs \<and> sent z' = sent z"
    and send_answer: "awaiting z \<Longrightarrow>
      \<exists>z'. z_send Z r z = (Inr (), z') \<and> \<not> awaiting z' \<and> queue z' = queue z \<and> sent z' = sent z @ [r]"
begin

lemma step_awaiting:
  "awaiting z \<Longrightarrow> \<exists>z'. rf_iteration Z process (z, w) = (z', w) \<and> awaiting z' \<and> queue z' = queue z \<and> sent z' = sent z"
  using recv_awaiting [of z] by (auto simp: rf_iteration_def)

lemma step_request:
  assumes "\<not> awaiting z" "queue z = q # qs" "process q w = (Inr r, w')"
  shows "\<exists>z'. rf_iteration Z process (z, w) = (z', w') \<and> \<not> awaiting z' \<and> queue z' = qs \<and> sent z' = sent z @ [r]"
proof -
  obtain z1 where 1: "z_recv Z z = (Inr q, z1)" "awaiting z1" "queue z1 = qs" "sent z1 = sent z"
    using recv_request [OF assms(1,2)] by blast
  obtain z2 where "z_send Z r z1 = (Inr (), z2)" "\<not> awaiting z2" "queue z2 = queue z1" "sent z2 = sent z1 @ [r]"
    using send_answer [OF 1(2)] by blast
  with 1 assms(3) show ?thesis by (simp add: rf_iteration_def)
qed

lemma step_raises:
  assumes "\<not> awaiting z" "queue z = q # qs" "process q w = (Inl e, w')"
  shows "\<exists>z'. rf_iteration Z process (z, w) = (z', w') \<and> awaiting z' \<and> queue z' = qs \<and> sent z' = sent z"
  using recv_request [OF assms(1,2)] assms(3) by (auto simp: rf_iteration_def)

text \<open>Once the socket awaits an answer that never comes, no pass changes anything.\<close>

lemma run_awaiting:
  "awaiting z \<Longrightarrow> \<exists>z'. rf_run Z process n (z, w) = (z', w) \<and> awaiting z' \<and> queue z' = queue z \<and> sent z' = sent z"
proof (induction n arbitrary: z)
  case 0
  then show ?case by simp
next
  case (Suc n)
  obtain z1 where "rf_iteration Z process (z, w) = (z1, w)" "awaiting z1" "queue z1 = queue z" "sent z1 = sent z"
    using step_awaiting [OF Suc.prems, of process w] by blast
  with Suc.IH [of z1] show ?case by simp
qed

text \<open>A raise on the first request: nothing is ever answered.\<close>

lemma run_stuck:
  assumes "\<not> awaiting z" "queue z = q # qs" "process q w = (Inl e, w')"
  shows "sent (fst (rf_run Z process n (z, w))) = sent z"
proof (cases n)
  case 0
  then show ?thesis by simp
next
  case (Suc m)
  obtain z1 where "rf_iteration Z process (z, w) = (z1, w')" "awaiting z1" "sent z1 = sent z"
    using step_raises [of z q qs process w e w'] assms by auto
  with run_awaiting [of z1 process m w'] Suc show ?thesis by auto
qed

text \<open>
  After as many passes as there were requests, the answers sent are those the controller gave
  up to its first exception, in order.
\<close>

lemma run_answers:
  "\<not> awaiting z \<Longrightarrow> length (queue z) \<le> n \<Longrightarrow>
   sent (fst (rf_run Z process n (z, w))) = sent z @ answers_of process (queue z) w"
proof (induction n arbitrary: z w)
  case 0
  then show ?case by simp
next
  case (Suc n)
  show ?case
  proof (cases "queue z")
    case Nil
    obtain e z' where "z_recv Z z = (Inl e, z')" "\<not> awaiting z'" "queue z' = []" "sent z' = sent z"
      using recv_empty [OF Suc.prems(1) Nil] by blast
    then show ?thesis using Suc.IH [of z' w] Nil by (simp add: rf_iteration_def)
  next
    case (Cons q qs)
    obtain r w' where p: "process q w = (r, w')" by fastforce
    show ?thesis
    proof (cases r)
      case (Inl e)
      then show ?thesis using run_stuck [OF Suc.prems(1) Cons, of process w e w' "Suc n"] p Cons by simp
    next
      case (Inr a)
      obtain z1 where "rf_iteration Z process (z, w) = (z1, w')" "\<not> awaiting z1" "queue z1 = qs" "sent z1 = sent z @ [a]"
        using step_request [of z q qs process w a w'] Suc.prems(1) Cons p Inr by auto
      with Suc.IH [of z1 w'] Suc.prems(2) Cons p Inr show ?thesis by simp
    qed
  qed
qed

end

section \<open>An executable socket\<close>

record mem_rep =
  mr_awaiting :: bool
  mr_queue :: "json list"
  mr_sent :: "json list"

definition mem_zmq :: "mem_rep zmq_rep" where
  "mem_zmq =
     \<lparr>z_recv = (\<lambda>z. if mr_awaiting z then (Inl (ExternalError ''EFSM''), z)
         else case mr_queue z of [] \<Rightarrow> (Inl (ExternalError ''EAGAIN''), z)
         | q # qs \<Rightarrow> (Inr q, z\<lparr>mr_awaiting := True, mr_queue := qs\<rparr>)),
      z_send = (\<lambda>r z. if mr_awaiting z then (Inr (), z\<lparr>mr_awaiting := False, mr_sent := mr_sent z @ [r]\<rparr>)
         else (Inl (ExternalError ''EFSM''), z))\<rparr>"

interpretation rep: rep_socket mem_zmq mr_awaiting mr_queue mr_sent
  by unfold_locales (auto simp: mem_zmq_def)

end
