(* ===== verification/Events.thy ===== *)
theory Events
  imports Ufmdb
begin

text \<open>
  Events of the cluster: \<^verbatim>\<open>src/ufm/fabricmanager/common/events/\<close> (the table of events, and
  \<^verbatim>\<open>event_notification.py\<close>, which sends an event to the message broker and waits for its
  acknowledgement) and the broker itself, \<^verbatim>\<open>src/ufm/ufm_msg_broker/ufm_msg_broker.py\<close>.

  Parameters: the request socket of the sender (\<open>zmq_req\<close>), the two sockets of the broker
  (\<open>zmq_broker\<close>), \<open>show\<close> for the text \<^verbatim>\<open>str(e)\<close> of an exception and \<open>literal_eval\<close> for
  \<^verbatim>\<open>ast.literal_eval\<close> on the text of a message.

  Lemmas: how often an event is sent and when it counts as delivered; every answer of the broker
  follows a publication, in order, up to the first malformed message, which ends the broker.
\<close>

section \<open>The table of events\<close>

definition EVENT_KEY_PREFIX :: string where "EVENT_KEY_PREFIX = ''/events''"
definition EVENT_PROCESS_KEY_PREFIX :: string where "EVENT_PROCESS_KEY_PREFIX = ''/events_to_process''"

text \<open>Identifier, message, kind of change and category; no event of the table has a handler.\<close>

datatype event_def = EventDef (ed_id: string) (ed_msg: string) (ed_change: string) (ed_category: string)

definition events_1 :: "event_def dict" where
  "events_1 =
    [(''CM_NODE_UP'', EventDef ''01011000'' ''CM node {node} in cluster {cluster} is up'' ''config'' ''CM_NODE''),
     (''CM_NODE_DOWN'', EventDef ''01021001'' ''CM node {node} in cluster {cluster} is down'' ''config'' ''CM_NODE''),
     (''CM_NODE_ADDED'', EventDef ''01011002'' ''CM node {node} is added to cluster {cluster}'' ''config'' ''CM_NODE''),
     (''CM_NODE_REMOVED'', EventDef ''01011003'' ''CM node {node} is removed from cluster {cluster}'' ''config'' ''CM_NODE''),
     (''CM_NODE_REST_UP'', EventDef ''01011004'' ''REST API Server on CM node {node} in cluster {cluster} is up'' ''state'' ''CM_NODE_REST''),
     (''CM_NODE_REST_DOWN'', EventDef ''01021005'' ''REST API Server on CM node {node} in cluster {cluster} is down'' ''state'' ''CM_NODE_REST''),
     (''CM_NODE_MONITOR_UP'', EventDef ''01011006'' ''Monitor on CM node {node} in cluster {cluster} is up'' ''state'' ''CM_NODE_MONITOR''),
     (''CM_NODE_MONITOR_DOWN'', EventDef ''01021007'' ''Monitor on CM node {node} in cluster {cluster} is down'' ''state'' ''CM_NODE_MONITOR''),
     (''AGENT_UP'', EventDef ''02011000'' ''Agent on node {node} in cluster {cluster} is up'' ''state'' ''AGENT''),
     (''AGENT_DOWN'', EventDef ''02011001'' ''Agent on node {node} in cluster {cluster} is down'' ''state'' ''AGENT''),
     (''AGENT_STOPPED'', EventDef ''01021002'' ''Agent on node {node} in cluster {cluster} stopped gracefully'' ''state'' ''AGENT''),
     (''AGENT_RESTARTED'', EventDef ''02021002'' ''Agent on node {node} in cluster {cluster} stopped unexpectedly and restarted'' ''state'' ''AGENT''),
     (''TARGET_APPLICATION_UP'', EventDef ''03011000'' ''Target application on node {node} in cluster {cluster} is up'' ''config'' ''TARGET''),
     (''TARGET_APPLICATION_DOWN'', EventDef ''03011001'' ''Target application on node {node} in cluster {cluster} is down'' ''config'' ''TARGET''),
     (''TARGET_APPLICATION_STOPPED'', EventDef ''03011002'' ''Target application on node {node} in cluster {cluster} is stopped gracefully'' ''config'' ''TARGET''),
     (''TARGET_DISK'', EventDef ''03011002'' ''Target application on node {node} in cluster {cluster} is stopped gracefully'' ''config'' ''DISK''),
     (''TARGET_NIC'', EventDef ''03011002'' ''Target application on node {node} in cluster {cluster} is stopped gracefully'' ''config'' ''NIC''),
     (''TARGET_NODE_ACCESSIBLE'', EventDef ''03021003'' ''Target node {node} in cluster {cluster} is accessible'' ''config'' ''TARGET_NODE''),
     (''TARGET_NODE_UNREACHABLE'', EventDef ''03021004'' ''Target node {node} in cluster {cluster} is unreachable'' ''config'' ''TARGET_NODE''),
     (''TARGET_NODE_INTIALIZED'', EventDef ''03011005'' ''Target node {node} in cluster {cluster} is initialized'' ''config'' ''TARGET_NODE'')]"

definition events_2 :: "event_def dict" where
  "events_2 =
    [(''TARGET_NODE_REMOVED'', EventDef ''03011006'' ''Target node {node} in cluster {cluster} is removed from cluster'' ''config'' ''TARGET_NODE''),
     (''SUBSYSTEM_UP'', EventDef ''04011000'' ''Subsystem for target {nqn} on node {node} in cluster {cluster} is up'' ''config'' ''SUBSYSTEM''),
     (''SUBSYSTEM_DOWN'', EventDef ''04011001'' ''Subsystem for target {nqn} on node {node} in cluster {cluster}  is down'' ''config'' ''SUBSYSTEM''),
     (''SUBSYSTEM_CREATED'', EventDef ''04011002'' ''Subsystem for target {nqn} on node {node} in cluster {cluster} is created'' ''config'' ''SUBSYSTEM''),
     (''SUBSYSTEM_DELETED'', EventDef ''04011003'' ''Subsystem for target {nqn} on node {node} in cluster {cluster} is deleted'' ''config'' ''SUBSYSTEM''),
     (''NETWORK_UP'', EventDef ''06011000'' ''Network interface {net_interface} on node {node} in cluster {cluster} is up'' ''state'' ''NETWORK''),
     (''NETWORK_DOWN'', EventDef ''06021001'' ''Network interface {net_interface} on node {node} in cluster {cluster} is down'' ''state'' ''NETWORK''),
     (''DB_INSTANCE_DOWN'', EventDef ''08021000'' ''ETCD DB instance on node {node} in cluster {cluster} is inaccessible'' ''state'' ''ETCD''),
     (''DB_INSTANCE_UP'', EventDef ''08011001'' ''ETCD DB instance on node {node} in cluster {cluster} is up'' ''state'' ''ETCD''),
     (''DB_CLUSTER_HEALTHY'', EventDef ''08031002'' ''ETCD DB cluster {cluster} is healthy'' ''state'' ''ETCD''),
     (''DB_CLUSTER_DEGRADED'', EventDef ''08031003'' ''ETCD DB cluster {cluster} is degraded'' ''state'' ''ETCD''),
     (''DB_CLUSTER_FAILED'', EventDef ''08031004'' ''ETCD DB cluster {cluster} failed'' ''state'' ''ETCD''),
     (''STATS_DB_DOWN'', EventDef ''08031005'' ''Stats DB for cluster {cluster} is inaccessible'' ''state'' ''STATS_DB''),
     (''STATS_DB_UP'', EventDef ''08031006'' ''Stats DB for cluster {cluster} is up'' ''state'' ''STATS_DB''),
     (''GRAPHITE_DB_DOWN'', EventDef ''08031007'' ''Graphite DB for cluster {cluster} is inaccessible'' ''state'' ''GRAPHITE''),
     (''GRAPHITE_DB_UP'', EventDef ''08031008'' ''Graphite DB for cluster {cluster} is up'' ''state'' ''GRAPHITE''),
     (''SOFTWARE_UPGRADE_SUCCESS'', EventDef ''100110001'' ''Software upgrade to image {image} successful'' ''state'' ''UPGRADE''),
     (''SOFTWARE_UPGRADE_FAILED'', EventDef ''100310002'' ''Software upgrade to image {image} failed'' ''state'' ''UPGRADE''),
     (''SOFTWARE_DOWNGRADE_SUCCESS'', EventDef ''100110003'' ''Software downgrade to image {image} successful'' ''state'' ''UPGRADE''),
     (''SOFTWARE_DOWNGRADE_FAILED'', EventDef ''100310004'' ''Software downgrade to image {image} failed'' ''state'' ''UPGRADE'')]"

definition events :: "event_def dict" where "events = events_1 @ events_2"

definition components :: "string list" where
  "components = [''NONE'', ''CM_NODE'', ''AGENT'', ''TARGET'', ''SUBSYSTEM'', ''DATAPATH'', ''NETWORK'', ''DISK'', ''ETCDDB'', ''SERVICE'']"

section \<open>EventNotification\<close>

record 'q zmq_req =
  q_socket :: "('q, unit) py"
  q_connect :: "string \<Rightarrow> ('q, unit) py"
  q_send :: "string \<Rightarrow> ('q, unit) py"
  q_poll :: "int \<Rightarrow> ('q, bool) py"
  q_recv :: "('q, string) py"
  q_linger :: "('q, unit) py"
  q_close :: "('q, unit) py"

record ('db, 'q) nworld = "'db dworld" +
  w_q :: 'q

definition on_q :: "('q, 'a) py \<Rightarrow> (('db, 'q, 'r) nworld_scheme, 'a) py" where
  "on_q m w = (case m (w_q w) of (r, q) \<Rightarrow> (r, w\<lparr>w_q := q\<rparr>))"

record notifier =
  en_address :: string
  en_port :: string
  en_log :: logger

definition REQUEST_TIMEOUT :: int where "REQUEST_TIMEOUT = 2500"
definition REQUEST_RETRIES :: nat where "REQUEST_RETRIES = 3"

text \<open>
  \<^verbatim>\<open>connection\<close>: when the socket itself cannot be made, the \<^verbatim>\<open>return socket\<close> after the handler
  names a variable without a value.
\<close>

definition connection ::
  "'q zmq_req \<Rightarrow> (exn \<Rightarrow> string) \<Rightarrow> notifier \<Rightarrow> (('db, 'q, 'r) nworld_scheme, unit) py" where
  "connection Q shw n =
     bindP (tryP (thenP (on_q (q_socket Q)) (retP True)) (\<lambda>e. thenP (log_error (en_log n) (shw e) []) (retP False))) (\<lambda>made.
     if made then
       tryP (thenP (on_q (q_connect Q (en_address n @ '':'' @ en_port n)))
          (log_info (en_log n) (''Connected: '' @ en_address n @ '':'' @ en_port n) []))
         (\<lambda>e. log_error (en_log n) (shw e) [])
     else raiseP UnboundLocalError)"

text \<open>\<^verbatim>\<open>str((category, event))\<close>, and the text of a \<^verbatim>\<open>bytes\<close> value.\<close>

definition repr_pair :: "string \<Rightarrow> json \<Rightarrow> string" where
  "repr_pair c j = ''('' @ repr_str c @ '', '' @ json_repr j @ '')''"

definition repr_bytes :: "string \<Rightarrow> string" where
  "repr_bytes s =
     (let q = (if CHR 0x27 \<in> set s \<and> CHR 0x22 \<notin> set s then CHR 0x22 else CHR 0x27)
      in ''b'' @ [q] @ concat (map (\<lambda>c. if 127 \<le> (of_char c :: nat) then char_of (92 :: nat) # ''x'' @ hex_byte (of_char c)
           else repr_char q c) s) @ [q])"

text \<open>\<^verbatim>\<open>event.get("name", "")\<close> and the category of that name.\<close>

fun get_category :: "json \<Rightarrow> exn + string" where
  "get_category (JObj d) =
     (case map_of d ''name'' of
        None \<Rightarrow> Inr ''''
      | Some (JStr s) \<Rightarrow> Inr (case map_of events s of None \<Rightarrow> '''' | Some ed \<Rightarrow> ed_category ed)
      | Some (JList _) \<Rightarrow> Inl TypeError
      | Some (JObj _) \<Rightarrow> Inl TypeError
      | Some _ \<Rightarrow> Inr '''')"
| "get_category j = Inl AttributeError"

text \<open>No answer in time: the socket is closed and replaced; \<open>k\<close> tries are left.\<close>

definition reconnect where
  "reconnect Q shw n k =
     thenP (log_error (en_log n) ''No response from zeromq broker, retrying ...'' [])
     (thenP (on_q (q_linger Q))
     (thenP (on_q (q_close Q))
     (thenP (connection Q shw n)
       (whenP (k = 0) (log_error (en_log n) (''Failed to connect to ZeroMq broker. Looks like the server is down at the host ''
            @ en_address n @ '' ...'') [])))))"

text \<open>
  The retry loop of \<^verbatim>\<open>send_events\<close>; \<open>n\<close> is the number of tries left.
\<close>

fun send_tries ::
  "'q zmq_req \<Rightarrow> (exn \<Rightarrow> string) \<Rightarrow> notifier \<Rightarrow> string \<Rightarrow> json \<Rightarrow> nat \<Rightarrow> (('db, 'q, 'r) nworld_scheme, bool) py" where
  "send_tries Q shw n cat event 0 = retP False"
| "send_tries Q shw n cat event (Suc k) =
     thenP (on_q (q_send Q (repr_pair cat event)))
     (bindP (on_q (q_poll Q REQUEST_TIMEOUT)) (\<lambda>ready.
      if ready then
        bindP (on_q (q_recv Q)) (\<lambda>is_done.
        if is_done = ''RECEIVED'' then retP True
        else thenP (log_error (en_log n)
            (if is_done = ''FAILED'' then ''Delivery Failed for the Event:'' @ py_str event
             else ''Malformed response... '' @ repr_bytes is_done) []) (retP False))
      else
        thenP (reconnect Q shw n k) (send_tries Q shw n cat event k)))"

definition send_events ::
  "'q zmq_req \<Rightarrow> (exn \<Rightarrow> string) \<Rightarrow> notifier \<Rightarrow> string \<Rightarrow> json \<Rightarrow> (('db, 'q, 'r) nworld_scheme, bool) py" where
  "send_events Q shw n cat event =
     tryP (send_tries Q shw n cat event REQUEST_RETRIES)
       (\<lambda>e. thenP (log_error (en_log n) (shw e) []) (retP False))"

definition process_events ::
  "'q zmq_req \<Rightarrow> (exn \<Rightarrow> string) \<Rightarrow> notifier \<Rightarrow> json list \<Rightarrow> (('db, 'q, 'r) nworld_scheme, json list) py" where
  "process_events Q shw n evs =
     foldP evs [] (\<lambda>event delivered.
       bindP (liftP (get_category event)) (\<lambda>cat.
       bindP (send_events Q shw n cat event) (\<lambda>ok. retP (if ok then delivered @ [event] else delivered))))"

section \<open>The message broker\<close>

record 'b zmq_broker =
  b_recv :: "('b, string) py"
  b_publish :: "string \<Rightarrow> ('b, unit) py"
  b_reply :: "string \<Rightarrow> ('b, unit) py"

text \<open>
  One pass of the loop of \<^verbatim>\<open>broker_main\<close>; \<open>False\<close> leaves it.  \<open>literal_eval\<close> yields the pair of
  channel and event, or the exception for a text that is no such pair.
\<close>

definition broker_step ::
  "'b zmq_broker \<Rightarrow> (string \<Rightarrow> exn + json \<times> json) \<Rightarrow> ('b, bool) py" where
  "broker_step B literal_eval =
     tryP (bindP (b_recv B) (\<lambda>msg.
       bindP (liftP (literal_eval msg)) (\<lambda>(channel, event).
       thenP (b_publish B (py_str channel @ ''='' @ json_dumps event))
       (thenP (b_reply B ''RECEIVED'') (retP True)))))
     (\<lambda>_. retP False)"

fun broker_run :: "'b zmq_broker \<Rightarrow> (string \<Rightarrow> exn + json \<times> json) \<Rightarrow> nat \<Rightarrow> ('b, unit) py" where
  "broker_run B literal_eval 0 = retP ()"
| "broker_run B literal_eval (Suc n) =
     bindP (broker_step B literal_eval) (\<lambda>go. if go then broker_run B literal_eval n else retP ())"

section \<open>Delivery of one event\<close>

text \<open>
  What the sender relies on of its socket: a send adds at most its message to what went out, a
  receive adds what it returns to what came in, and nothing else changes either.
\<close>

locale req_socket =
  fixes Q :: "'q zmq_req" and sent :: "'q \<Rightarrow> string list" and received :: "'q \<Rightarrow> string list"
  assumes send_sent: "sent (snd (q_send Q m s)) = sent s \<or> sent (snd (q_send Q m s)) = sent s @ [m]"
    and send_received: "received (snd (q_send Q m s)) = received s"
    and recv_sent: "sent (snd (q_recv Q s)) = sent s"
    and recv_received: "received (snd (q_recv Q s)) = received s @ (case fst (q_recv Q s) of Inl e \<Rightarrow> [] | Inr x \<Rightarrow> [x])"
    and other_sent: "sent (snd (q_socket Q s)) = sent s" "sent (snd (q_connect Q a s)) = sent s"
      "sent (snd (q_poll Q t s)) = sent s" "sent (snd (q_linger Q s)) = sent s" "sent (snd (q_close Q s)) = sent s"
    and other_received: "received (snd (q_socket Q s)) = received s" "received (snd (q_connect Q a s)) = received s"
      "received (snd (q_poll Q t s)) = received s" "received (snd (q_linger Q s)) = received s"
      "received (snd (q_close Q s)) = received s"

text \<open>A statement that keeps both traces.\<close>

definition same_traffic ::
  "('q \<Rightarrow> string list) \<Rightarrow> ('q \<Rightarrow> string list) \<Rightarrow> ('db, 'q, 'r) nworld_scheme \<Rightarrow> ('db, 'q, 'r) nworld_scheme \<Rightarrow> bool" where
  "same_traffic sent received w w' \<longleftrightarrow> sent (w_q w') = sent (w_q w) \<and> received (w_q w') = received (w_q w)"

text \<open>At most \<open>t\<close> copies of the message \<open>m\<close> went out.\<close>

definition sent_upto ::
  "('q \<Rightarrow> string list) \<Rightarrow> nat \<Rightarrow> string \<Rightarrow> ('db, 'q, 'r) nworld_scheme \<Rightarrow> ('db, 'q, 'r) nworld_scheme \<Rightarrow> bool" where
  "sent_upto sent t m w w' \<longleftrightarrow> (\<exists>k \<le> t. sent (w_q w') = sent (w_q w) @ replicate k m)"

lemma sent_upto_trans:
  assumes "sent_upto sent j m u v" and "sent_upto sent k m v w"
  shows "sent_upto sent (j + k) m u w"
proof -
  obtain a b where "a \<le> j" "b \<le> k" "sent (w_q v) = sent (w_q u) @ replicate a m" "sent (w_q w) = sent (w_q v) @ replicate b m"
    using assms by (auto simp: sent_upto_def)
  then show ?thesis unfolding sent_upto_def by (intro exI [of _ "a + b"]) (simp add: replicate_add)
qed

interpretation tr: py_rel "same_traffic sent received" for sent received
  by unfold_locales (auto simp: same_traffic_def)

lemma sent_upto_mono: "sent_upto sent j m u w \<Longrightarrow> j \<le> k \<Longrightarrow> sent_upto sent k m u w"
  by (auto simp: sent_upto_def)

lemma sent_upto_same: "sent_upto sent j m u v \<Longrightarrow> same_traffic sent received v w \<Longrightarrow> sent_upto sent j m u w"
  by (simp add: sent_upto_def same_traffic_def)

lemma sent_upto_from: "same_traffic sent received u v \<Longrightarrow> sent_upto sent j m v w \<Longrightarrow> sent_upto sent j m u w"
  by (simp add: sent_upto_def same_traffic_def)

lemma log_step_q:
  fixes w w' :: "('db, 'q, 'r) nworld_scheme"
  assumes "log_step w w'"
  shows "w_q w' = w_q w"
  using log_step_more [OF assms] by (cases w; cases w') auto

context req_socket
begin

lemma keeps_log_traffic:
  fixes m :: "(('db, 'q, 'r) nworld_scheme, 'x) py"
  shows "keeps log_step m \<Longrightarrow> keeps (same_traffic sent received) m"
  by (erule keeps_mono) (simp add: same_traffic_def log_step_q)

lemma keeps_on_q:
  "(\<And>s. sent (snd (m s)) = sent s \<and> received (snd (m s)) = received s) \<Longrightarrow> keeps (same_traffic sent received) (on_q m)"
  by (auto simp: keeps_def on_q_def same_traffic_def split: prod.splits) (metis snd_conv)+

lemma keeps_connection: "keeps (same_traffic sent received) (connection Q shw n)"
  unfolding connection_def
  by (intro tr.keeps_rules keeps_on_q keeps_log [THEN keeps_log_traffic])
    (auto simp: other_sent other_received intro!: tr.keeps_rules keeps_on_q keeps_log [THEN keeps_log_traffic])

lemma wp_keep:
  fixes m :: "(('db, 'q, 'r) nworld_scheme, 'x) py"
  assumes "keeps (same_traffic sent received) m"
    and "\<And>x w'. same_traffic sent received w w' \<Longrightarrow> P x w'" and "\<And>e w'. same_traffic sent received w w' \<Longrightarrow> X e w'"
  shows "wp m P X w"
  by (rule wp_mono [OF keeps_wp [OF assms(1)]]) (use assms in auto)

lemma wp_send:
  assumes "\<And>x w' j. j \<le> 1 \<Longrightarrow> sent (w_q w') = sent (w_q w) @ replicate j m \<Longrightarrow> received (w_q w') = received (w_q w) \<Longrightarrow> P x w'"
    and "\<And>e w' j. j \<le> 1 \<Longrightarrow> sent (w_q w') = sent (w_q w) @ replicate j m \<Longrightarrow> received (w_q w') = received (w_q w) \<Longrightarrow> X e w'"
  shows "wp (on_q (q_send Q m)) P X (w :: ('db, 'q, 'r) nworld_scheme)"
proof -
  obtain j :: nat where j: "j \<le> 1" "sent (snd (q_send Q m (w_q w))) = sent (w_q w) @ replicate j m"
  proof (cases "sent (snd (q_send Q m (w_q w))) = sent (w_q w)")
    case True
    then show ?thesis by (intro that [of 0]) auto
  next
    case False
    then show ?thesis using send_sent [of m "w_q w"] by (intro that [of 1]) auto
  qed
  obtain r s' where r: "q_send Q m (w_q w) = (r, s')" by fastforce
  with j send_received [of m "w_q w"] assms(1) [of j "w\<lparr>w_q := s'\<rparr>"] assms(2) [of j "w\<lparr>w_q := s'\<rparr>"]
  show ?thesis by (cases r) (auto simp: wp_def on_q_def)
qed

lemma wp_recv:
  assumes "\<And>x w'. sent (w_q w') = sent (w_q w) \<Longrightarrow> received (w_q w') = received (w_q w) @ [x] \<Longrightarrow> P x w'"
    and "\<And>e w'. sent (w_q w') = sent (w_q w) \<Longrightarrow> X e w'"
  shows "wp (on_q (q_recv Q)) P X (w :: ('db, 'q, 'r) nworld_scheme)"
proof -
  obtain r s' where r: "q_recv Q (w_q w) = (r, s')" by fastforce
  with recv_sent [of "w_q w"] recv_received [of "w_q w"] assms(1) [of "w\<lparr>w_q := s'\<rparr>"] assms(2) [of "w\<lparr>w_q := s'\<rparr>"]
  show ?thesis by (cases r) (auto simp: wp_def on_q_def)
qed

text \<open>
  At most \<open>t\<close> copies of the message go out, and the event counts as delivered only when the
  broker's acknowledgement was received.
\<close>

lemma keeps_reconnect: "keeps (same_traffic sent received) (reconnect Q shw n k)"
  unfolding reconnect_def
  by (intro tr.keeps_rules keeps_on_q keeps_connection keeps_log [THEN keeps_log_traffic])
    (simp_all add: other_sent other_received)

lemma wp_answer:
  assumes "\<And>w'. sent_upto sent 0 m w w' \<Longrightarrow> received (w_q w') = received (w_q w) @ [''RECEIVED''] \<Longrightarrow> P True w'"
    and "\<And>w'. sent_upto sent 0 m w w' \<Longrightarrow> P False w'" and "\<And>e w'. sent_upto sent 0 m w w' \<Longrightarrow> X e w'"
  shows "wp (bindP (on_q (q_recv Q)) (\<lambda>is_done. if is_done = ''RECEIVED'' then retP True
    else thenP (log_error l (f is_done) []) (retP False))) P X (w :: ('db, 'q, 'r) nworld_scheme)"
  unfolding wp_bindP
proof (rule wp_recv)
  fix x and w2 :: "('db, 'q, 'r) nworld_scheme"
  assume w2: "sent (w_q w2) = sent (w_q w)" "received (w_q w2) = received (w_q w) @ [x]"
  have "wp (thenP (log_error l (f x) []) (retP False)) P X w2"
    unfolding wp_thenP wp_retP_fun
    by (rule wp_keep [OF keeps_log(5) [THEN keeps_log_traffic]])
      (auto simp: sent_upto_def same_traffic_def w2 intro: assms)
  then show "wp (if x = ''RECEIVED'' then retP True else thenP (log_error l (f x) []) (retP False)) P X w2"
    using w2 assms(1) [of w2] by (simp add: wp_retP sent_upto_def)
qed (auto simp: sent_upto_def intro: assms)

lemma wp_send_tries:
  fixes w :: "('db, 'q, 'r) nworld_scheme"
  shows "wp (send_tries Q shw n cat ev t)
    (\<lambda>ok w'. sent_upto sent t (repr_pair cat ev) w w' \<and> (ok \<longrightarrow> received (w_q w') = received (w_q w) @ [''RECEIVED'']))
    (\<lambda>_ w'. sent_upto sent t (repr_pair cat ev) w w') w"
proof (induction t arbitrary: w)
  case 0
  then show ?case by (simp add: wp_retP sent_upto_def)
next
  case (Suc t)
  let ?m = "repr_pair cat ev"
  let ?X = "\<lambda>_ w'. sent_upto sent (Suc t) ?m w w'"
  let ?P = "\<lambda>ok w'. sent_upto sent (Suc t) ?m w w' \<and> (ok \<longrightarrow> received (w_q w') = received (w_q w) @ [''RECEIVED''])"
  show ?case
    unfolding send_tries.simps wp_thenP wp_bindP [of "on_q (q_poll Q REQUEST_TIMEOUT)"]
  proof (rule wp_send)
    fix w1 :: "('db, 'q, 'r) nworld_scheme" and j :: nat
    assume "j \<le> 1" "sent (w_q w1) = sent (w_q w) @ replicate j ?m" and r1: "received (w_q w1) = received (w_q w)"
    then have w1: "sent_upto sent 1 ?m w w1" by (auto simp: sent_upto_def)
    show "wp (on_q (q_poll Q REQUEST_TIMEOUT)) (\<lambda>ready. wp (if ready then bindP (on_q (q_recv Q)) (\<lambda>is_done. if is_done = ''RECEIVED'' then retP True
        else thenP (log_error (en_log n) (if is_done = ''FAILED'' then ''Delivery Failed for the Event:'' @ py_str ev
             else ''Malformed response... '' @ repr_bytes is_done) []) (retP False))
      else thenP (reconnect Q shw n t) (send_tries Q shw n cat ev t)) ?P ?X) ?X w1"
    proof (rule wp_keep [OF keeps_on_q])
      fix ready and w2 :: "('db, 'q, 'r) nworld_scheme"
      assume same: "same_traffic sent received w1 w2"
      note w2 = sent_upto_same [OF w1 same]
      have r2: "received (w_q w2) = received (w_q w)" using same r1 by (simp add: same_traffic_def)
      have up: "sent_upto sent (Suc t) ?m w w'" if "sent_upto sent k ?m w2 w'" "k \<le> t" for k w'
        by (rule sent_upto_mono [OF sent_upto_trans [OF w2 that(1)]]) (use that(2) in simp)
      have "wp (thenP (reconnect Q shw n t) (send_tries Q shw n cat ev t)) ?P ?X w2"
        unfolding wp_thenP
      proof (rule wp_keep [OF keeps_reconnect])
        fix w3 :: "('db, 'q, 'r) nworld_scheme"
        assume w3: "same_traffic sent received w2 w3"
        then have r3: "received (w_q w3) = received (w_q w)" using r2 by (simp add: same_traffic_def)
        have up3: "sent_upto sent (Suc t) ?m w w'" if "sent_upto sent t ?m w3 w'" for w'
          by (rule up [OF sent_upto_from [OF w3 that]]) simp
        show "wp (send_tries Q shw n cat ev t) ?P ?X w3"
          by (rule wp_mono [OF Suc.IH]) (simp_all add: up3 r3)
      next
        fix e and w3 :: "('db, 'q, 'r) nworld_scheme"
        assume "same_traffic sent received w2 w3"
        from sent_upto_mono [OF sent_upto_same [OF w2 this], of "Suc t"] show "?X e w3" by simp
      qed
      moreover have "wp (bindP (on_q (q_recv Q)) (\<lambda>is_done. if is_done = ''RECEIVED'' then retP True
          else thenP (log_error (en_log n) (f is_done) []) (retP False))) ?P ?X w2" for f
        by (rule wp_answer [where m = ?m]) (use r2 up [of 0] in auto)
      ultimately show "wp (if ready then bindP (on_q (q_recv Q)) (\<lambda>is_done. if is_done = ''RECEIVED'' then retP True
        else thenP (log_error (en_log n) (if is_done = ''FAILED'' then ''Delivery Failed for the Event:'' @ py_str ev
             else ''Malformed response... '' @ repr_bytes is_done) []) (retP False))
        else thenP (reconnect Q shw n t) (send_tries Q shw n cat ev t)) ?P ?X w2" by simp
    qed (auto simp: other_sent other_received intro: sent_upto_mono [OF sent_upto_same [OF w1]])
  qed (auto simp: sent_upto_def)
qed

lemma wp_send_events:
  fixes w :: "('db, 'q, 'r) nworld_scheme"
  shows "wp (send_events Q shw n cat ev)
    (\<lambda>ok w'. sent_upto sent REQUEST_RETRIES (repr_pair cat ev) w w' \<and>
      (ok \<longrightarrow> received (w_q w') = received (w_q w) @ [''RECEIVED'']))
    (\<lambda>_ w'. sent_upto sent REQUEST_RETRIES (repr_pair cat ev) w w') w"
  unfolding send_events_def wp_tryP wp_thenP wp_retP_fun
proof (rule wp_mono [OF wp_send_tries])
  fix e and w1 :: "('db, 'q, 'r) nworld_scheme"
  assume "sent_upto sent REQUEST_RETRIES (repr_pair cat ev) w w1"
  then show "wp (log_error (en_log n) (shw e) []) (\<lambda>_ w'. sent_upto sent REQUEST_RETRIES (repr_pair cat ev) w w' \<and>
      (False \<longrightarrow> received (w_q w') = received (w_q w) @ [''RECEIVED'']))
      (\<lambda>_ w'. sent_upto sent REQUEST_RETRIES (repr_pair cat ev) w w') w1"
    by (intro wp_keep [OF keeps_log(5) [THEN keeps_log_traffic]]) (auto intro: sent_upto_same)
qed

end

text \<open>An executable socket: \<open>rq_answers\<close> holds the broker's answer to each coming send, if it answers.\<close>

record mem_req =
  rq_answers :: "string option list"
  rq_sent :: "string list"
  rq_received :: "string list"

definition mem_req :: "mem_req zmq_req" where
  "mem_req =
     \<lparr>q_socket = retP (), q_connect = (\<lambda>a. retP ()),
      q_send = (\<lambda>m. modifyP (\<lambda>s. s\<lparr>rq_sent := rq_sent s @ [m]\<rparr>)),
      q_poll = (\<lambda>t s. case rq_answers s of Some r # as \<Rightarrow> (Inr True, s) | a # as \<Rightarrow> (Inr False, s\<lparr>rq_answers := as\<rparr>)
         | [] \<Rightarrow> (Inr False, s)),
      q_recv = (\<lambda>s. case rq_answers s of Some r # as \<Rightarrow> (Inr r, s\<lparr>rq_answers := as, rq_received := rq_received s @ [r]\<rparr>)
         | _ \<Rightarrow> (Inl (ExternalError ''EAGAIN''), s)),
      q_linger = retP (), q_close = retP ()\<rparr>"

interpretation rq: req_socket mem_req rq_sent rq_received
  by unfold_locales
    (auto simp: mem_req_def retP_def modifyP_def split: list.splits option.splits)

section \<open>What the sender leaves alone\<close>

text \<open>A relation between worlds that log messages and the socket respect.\<close>

locale q_frame = py_rel R for R :: "('db, 'q, 'r) nworld_scheme \<Rightarrow> ('db, 'q, 'r) nworld_scheme \<Rightarrow> bool" +
  assumes log_rel: "log_step w w' \<Longrightarrow> R w w'" and q_rel: "R w (w\<lparr>w_q := s\<rparr>)"
begin

lemma keeps_logs: "keeps log_step m \<Longrightarrow> keeps R m"
  by (erule keeps_mono) (rule log_rel)

lemma keeps_socket: "keeps R (on_q m)"
  by (auto simp: keeps_def on_q_def q_rel split: prod.splits)

lemma keeps_connect: "keeps R (connection Q shw n)"
  unfolding connection_def by (intro keeps_rules keeps_socket keeps_log [THEN keeps_logs])

lemma keeps_tries: "keeps R (send_tries Q shw n cat ev t)"
proof (induction t)
  case (Suc t)
  then show ?case
    unfolding send_tries.simps reconnect_def
    by (intro keeps_rules keeps_socket keeps_connect keeps_log [THEN keeps_logs])
qed (simp add: keeps_pure)

lemma keeps_process_events: "keeps R (process_events Q shw n evs)"
  unfolding process_events_def send_events_def
  by (intro keeps_rules keeps_tries keeps_log [THEN keeps_logs])

end

section \<open>What the broker publishes\<close>

locale broker_sockets =
  fixes B :: "'b zmq_broker" and queue :: "'b \<Rightarrow> string list" and published :: "'b \<Rightarrow> string list" and replied :: "'b \<Rightarrow> string list"
  assumes recv_msg: "queue b = m # ms \<Longrightarrow>
      \<exists>b'. b_recv B b = (Inr m, b') \<and> queue b' = ms \<and> published b' = published b \<and> replied b' = replied b"
    and publish_msg: "\<exists>b'. b_publish B m b = (Inr (), b') \<and> queue b' = queue b \<and> published b' = published b @ [m] \<and> replied b' = replied b"
    and reply_msg: "\<exists>b'. b_reply B m b = (Inr (), b') \<and> queue b' = queue b \<and> published b' = published b \<and> replied b' = replied b @ [m]"
begin

lemma step_good:
  assumes "queue b = m # ms" and "literal_eval m = Inr (c, e)"
  shows "\<exists>b'. broker_step B literal_eval b = (Inr True, b') \<and> queue b' = ms \<and>
    published b' = published b @ [py_str c @ ''='' @ json_dumps e] \<and> replied b' = replied b @ [''RECEIVED'']"
proof -
  obtain b1 where 1: "b_recv B b = (Inr m, b1)" "queue b1 = ms" "published b1 = published b" "replied b1 = replied b"
    using recv_msg [OF assms(1)] by blast
  obtain b2 where 2: "b_publish B (py_str c @ ''='' @ json_dumps e) b1 = (Inr (), b2)" "queue b2 = ms"
    "published b2 = published b @ [py_str c @ ''='' @ json_dumps e]" "replied b2 = replied b"
    using publish_msg [of "py_str c @ ''='' @ json_dumps e" b1] 1 by auto
  obtain b3 where "b_reply B ''RECEIVED'' b2 = (Inr (), b3)" "queue b3 = ms" "published b3 = published b2" "replied b3 = replied b @ [''RECEIVED'']"
    using reply_msg [of "''RECEIVED''" b2] 2 by auto
  with 1 2 assms(2) show ?thesis
    by (simp add: broker_step_def tryP_def bindP_def thenP_def liftP_def retP_def)
qed

lemma step_bad:
  assumes "queue b = m # ms" and "literal_eval m = Inl x"
  shows "\<exists>b'. broker_step B literal_eval b = (Inr False, b') \<and> queue b' = ms \<and> published b' = published b \<and> replied b' = replied b"
  using recv_msg [OF assms(1)] assms(2)
  by (auto simp: broker_step_def tryP_def bindP_def liftP_def retP_def)

end

fun well_formed :: "(string \<Rightarrow> exn + json \<times> json) \<Rightarrow> string list \<Rightarrow> (json \<times> json) list" where
  "well_formed literal_eval [] = []"
| "well_formed literal_eval (m # ms) =
     (case literal_eval m of Inl e \<Rightarrow> [] | Inr p \<Rightarrow> p # well_formed literal_eval ms)"

context broker_sockets
begin

lemma run_publishes:
  "\<exists>b'. broker_run B literal_eval (length (queue b)) b = (Inr (), b') \<and>
    published b' = published b @ map (\<lambda>(c, e). py_str c @ ''='' @ json_dumps e) (well_formed literal_eval (queue b)) \<and>
    replied b' = replied b @ replicate (length (well_formed literal_eval (queue b))) ''RECEIVED''"
proof (induction "queue b" arbitrary: b)
  case Nil
  then show ?case by (simp add: retP_def)
next
  case (Cons m ms)
  show ?case
  proof (cases "literal_eval m")
    case (Inl x)
    then obtain b' where "broker_step B literal_eval b = (Inr False, b')" "published b' = published b" "replied b' = replied b"
      using step_bad [OF Cons.hyps(2) [symmetric]] by blast
    then show ?thesis using Inl by (simp add: Cons.hyps(2) [symmetric] bindP_def retP_def)
  next
    case (Inr p)
    obtain c e where p: "p = (c, e)" by (cases p)
    obtain b1 where b1: "broker_step B literal_eval b = (Inr True, b1)" "queue b1 = ms"
      "published b1 = published b @ [py_str c @ ''='' @ json_dumps e]" "replied b1 = replied b @ [''RECEIVED'']"
      using step_good [OF Cons.hyps(2) [symmetric]] Inr p by blast
    from Cons.hyps(1) [of b1] b1 show ?thesis
      using Inr p by (auto simp: Cons.hyps(2) [symmetric] bindP_def)
  qed
qed

end

record mem_broker =
  mb_queue :: "string list"
  mb_published :: "string list"
  mb_replied :: "string list"

definition mem_broker :: "mem_broker zmq_broker" where
  "mem_broker =
     \<lparr>b_recv = (\<lambda>b. case mb_queue b of [] \<Rightarrow> (Inl (ExternalError ''ETERM''), b) | m # ms \<Rightarrow> (Inr m, b\<lparr>mb_queue := ms\<rparr>)),
      b_publish = (\<lambda>m. modifyP (\<lambda>b. b\<lparr>mb_published := mb_published b @ [m]\<rparr>)),
      b_reply = (\<lambda>m. modifyP (\<lambda>b. b\<lparr>mb_replied := mb_replied b @ [m]\<rparr>))\<rparr>"

interpretation mb: broker_sockets mem_broker mb_queue mb_published mb_replied
  by unfold_locales (auto simp: mem_broker_def modifyP_def)

end
