(* ===== verification/NodeMonitor.thy ===== *)
theory NodeMonitor
  imports Events
begin

text \<open>
  The monitor of the storage nodes, \<^verbatim>\<open>src/ufm/fabricmanager/systems/nkv/\<close>: \<^verbatim>\<open>node_util.py\<close> turns a
  changed database key into an event, \<^verbatim>\<open>nkv_monitor.py\<close> reacts to the changes the database
  reports and stores the events, and \<^verbatim>\<open>node_event_processor.py\<close> takes them from a queue, sends
  them to the broker and marks them as processed.

  Keys and values of a watched change are \<^verbatim>\<open>bytes\<close>; the model identifies a \<^verbatim>\<open>bytes\<close> value with
  its decoded text, except where the code compares the two types (\<open>pytext\<close>).  Parameters:
  the database \<open>E\<close>, \<open>exc\<close> for the text the code builds from an exception, \<open>uuid1\<close> for fresh
  identifiers, \<open>systemctl\<close> for the service manager, \<open>literal_eval\<close> for \<^verbatim>\<open>ast.literal_eval\<close>, and
  \<open>notify\<close> for the notifier, which the root theory instantiates with \<^verbatim>\<open>process_events\<close>.

  Lemmas: which event a change gives; that an event stays in the database until it is
  acknowledged, and what the acknowledgement changes.
\<close>

section \<open>node\_util\<close>

record nenv =
  ne_db :: logger
  ne_log :: logger
  ne_host :: string

definition py_nth :: "'a list \<Rightarrow> nat \<Rightarrow> exn + 'a" where
  "py_nth xs i = (if i < length xs then Inr (xs ! i) else Inl IndexError)"

definition get_clustername :: "'db etcd3 \<Rightarrow> nenv \<Rightarrow> (('db, 'r) dworld_scheme, json) py" where
  "get_clustername E M =
     bindP (Ufmdb_get_with_prefix E (ne_db M) ''/cluster/'' False None None) (\<lambda>info.
     retP (case info of None \<Rightarrow> JNull
       | Some j \<Rightarrow> (case bindE (py_key j ''cluster'') (\<lambda>c. py_key c ''name'') of Inl e \<Rightarrow> JNull | Inr n \<Rightarrow> n)))"

text \<open>\<open>value, _ = db.get(key)\<close>: a call that failed returns \<open>None\<close>, which cannot be unpacked.\<close>

definition db_value :: "'db etcd3 \<Rightarrow> nenv \<Rightarrow> string \<Rightarrow> (('db, 'r) dworld_scheme, string option) py" where
  "db_value E M k =
     bindP (Ufmdb_get E (ne_db M) k) (\<lambda>r. case r of None \<Rightarrow> raiseP TypeError | Some v \<Rightarrow> retP v)"

definition get_network_ipv4_address ::
  "'db etcd3 \<Rightarrow> nenv \<Rightarrow> string \<Rightarrow> string \<Rightarrow> string \<Rightarrow> (('db, 'r) dworld_scheme, string option) py" where
  "get_network_ipv4_address E M node_uuid mac iface =
     bindP (tryP (db_value E M (''/object_storage/servers/'' @ node_uuid @ ''/server_attributes/network/interfaces/'' @ mac @
         ''/Interfaces/'' @ iface @ ''/IPv4'')) (\<lambda>_. retP None)) (\<lambda>v.
     retP (case v of None \<Rightarrow> None | Some a \<Rightarrow> if a = [] then None else Some a))"

definition read_node_name_from_db ::
  "'db etcd3 \<Rightarrow> nenv \<Rightarrow> string \<Rightarrow> (('db, 'r) dworld_scheme, json) py" where
  "read_node_name_from_db E M node_uuid =
     tryP (bindP (db_value E M (''/object_storage/servers/'' @ node_uuid @ ''/server_attributes/identity/Hostname'')) (\<lambda>v.
       case v of None \<Rightarrow> raiseP AttributeError | Some n \<Rightarrow> retP (JStr n))) (\<lambda>_. retP JNull)"

text \<open>The module's map of node names, which nothing fills.\<close>

definition g_node_uuid_map :: "json dict" where "g_node_uuid_map = []"

definition read_node_name_from_map :: "string \<Rightarrow> json" where
  "read_node_name_from_map node_uuid = (case map_of g_node_uuid_map node_uuid of None \<Rightarrow> JNull | Some n \<Rightarrow> n)"

fun keys_has :: "string \<Rightarrow> json \<Rightarrow> exn + bool" where
  "keys_has k (JObj d) = Inr (dict_has k d)"
| "keys_has k j = Inl AttributeError"

definition sub_key :: "string \<Rightarrow> json \<Rightarrow> (json \<Rightarrow> exn + json) \<Rightarrow> exn + json" where
  "sub_key k j f = bindE (keys_has k j) (\<lambda>b. if \<not> b then Inr JNull else bindE (py_key j k) f)"

definition read_node_name_from_variable :: "string \<Rightarrow> json \<Rightarrow> exn + json" where
  "read_node_name_from_variable node_uuid servers =
     (if \<not> py_truth servers then Inr JNull
      else bindE (py_in node_uuid servers) (\<lambda>b. if \<not> b then Inr JNull else
        bindE (py_key servers node_uuid) (\<lambda>s.
        sub_key ''server_attributes'' s (\<lambda>a. sub_key ''identity'' a (\<lambda>i. sub_key ''Hostname'' i Inr)))))"

definition get_node_name_from_uuid ::
  "'db etcd3 \<Rightarrow> nenv \<Rightarrow> json \<Rightarrow> string \<Rightarrow> (('db, 'r) dworld_scheme, json) py" where
  "get_node_name_from_uuid E M servers node_uuid =
     (let n1 = read_node_name_from_map node_uuid in
      if py_truth n1 then retP n1
      else bindP (liftP (read_node_name_from_variable node_uuid servers)) (\<lambda>n2.
        if py_truth n2 then retP n2 else read_node_name_from_db E M node_uuid))"

subsection \<open>format\_event\<close>

text \<open>The event and whether the change was handled; \<open>val\<close> is empty for a deleted key.\<close>

type_synonym event = "json dict"

definition node_args :: "json \<Rightarrow> json \<Rightarrow> json" where
  "node_args node cl = JObj [(''node'', node), (''cluster'', cl)]"

definition format_cluster :: "json \<Rightarrow> string list \<Rightarrow> string \<Rightarrow> exn + bool \<times> event" where
  "format_cluster cl ks val =
     (if suffix ''status'' (last ks) then
        bindE (py_nth ks 2) (\<lambda>n. Inr (True, [(''node'', JStr n), (''args'', node_args (JStr n) cl),
          (''name'', JStr (if val \<noteq> [] \<and> val = ''down'' then ''CM_NODE_DOWN'' else ''CM_NODE_UP''))]))
      else if suffix ''time_created'' (last ks) then
        bindE (py_nth ks 2) (\<lambda>n. Inr (True, [(''node'', JStr n), (''args'', node_args (JStr n) cl),
          (''name'', JStr (if val = [] then ''CM_NODE_REMOVED'' else ''CM_NODE_ADDED''))]))
      else Inr (True, []))"

definition format_subsystem :: "json \<Rightarrow> string list \<Rightarrow> string \<Rightarrow> json \<Rightarrow> exn + bool \<times> event" where
  "format_subsystem cl ks val node =
     (let start = (\<lambda>nqn. [(''args'', JObj [(''nqn'', JStr nqn), (''node'', node), (''cluster'', cl)]), (''node'', node)]) in
      if suffix ''status'' (last ks) then
        bindE (py_nth ks 7) (\<lambda>nqn. Inr (True, start nqn @
          (if val = [] \<or> val = ''down'' then [(''name'', JStr ''SUBSYSTEM_DOWN'')]
           else if val = ''up'' then [(''name'', JStr ''SUBSYSTEM_UP'')] else [])))
      else if suffix ''time_created'' (last ks) then
        bindE (py_nth ks 7) (\<lambda>nqn. Inr (True, start nqn @
          [(''name'', JStr (if val = [] then ''SUBSYSTEM_DELETED'' else ''SUBSYSTEM_CREATED''))]))
      else Inr (True, []))"

definition format_agent :: "json \<Rightarrow> string \<Rightarrow> json \<Rightarrow> bool \<times> event" where
  "format_agent cl val node =
     (True, [(''node'', node), (''args'', node_args node cl)] @
        (if val = [] \<or> val = ''down'' then [(''name'', JStr ''AGENT_DOWN'')]
         else if val = ''up'' then [(''name'', JStr ''AGENT_UP'')] else []))"

definition format_server :: "json \<Rightarrow> string \<Rightarrow> json \<Rightarrow> bool \<times> event" where
  "format_server cl val node =
     (True, [(''node'', node), (''args'', node_args node cl),
        (''name'', JStr (if val = [] \<or> val = ''down'' then ''TARGET_NODE_UNREACHABLE'' else ''TARGET_NODE_ACCESSIBLE''))])"

definition format_network ::
  "'db etcd3 \<Rightarrow> nenv \<Rightarrow> json \<Rightarrow> string list \<Rightarrow> string \<Rightarrow> json \<Rightarrow> (('db, 'r) dworld_scheme, bool \<times> event) py" where
  "format_network E M cl ks val node =
     (if ''Interfaces'' \<notin> set ks then retP (False, [])
      else bindP (liftP (py_nth ks 7)) (\<lambda>mac.
        bindP (liftP (py_nth ks 3)) (\<lambda>uuid.
        bindP (liftP (py_nth ks 9)) (\<lambda>iface.
        bindP (get_network_ipv4_address E M uuid mac iface) (\<lambda>ip.
        let state = (if ip \<noteq> None \<and> val = ''up'' then ''NETWORK_UP'' else ''NETWORK_DOWN'');
            addr = (case ip of None \<Rightarrow> ''0.0.0.0'' | Some a \<Rightarrow> a) in
        thenP (whenP (ip \<noteq> None \<and> val \<noteq> [])
            (log_info (ne_log M) (''Network state has changed. '' @ addr @ '' state='' @ state) []))
          (retP (True, [(''node'', node),
             (''args'', JObj [(''net_interface'', JStr mac), (''node'', node), (''address'', JStr addr), (''cluster'', cl)]),
             (''name'', JStr state)])))))))"

text \<open>\<open>node_name = get_node_name_from_uuid(...); if not node_name: return False\<close>\<close>

definition named ::
  "'db etcd3 \<Rightarrow> nenv \<Rightarrow> json \<Rightarrow> string list \<Rightarrow> (json \<Rightarrow> (('db, 'r) dworld_scheme, bool \<times> event) py) \<Rightarrow>
   (('db, 'r) dworld_scheme, bool \<times> event) py" where
  "named E M servers ks f =
     bindP (liftP (py_nth ks 3)) (\<lambda>uuid.
     bindP (get_node_name_from_uuid E M servers uuid) (\<lambda>node.
     if py_truth node then f node else retP (False, [])))"

definition format_event ::
  "'db etcd3 \<Rightarrow> nenv \<Rightarrow> json \<Rightarrow> json \<Rightarrow> string \<Rightarrow> string \<Rightarrow> (('db, 'r) dworld_scheme, bool \<times> event) py" where
  "format_event E M cl servers key val =
     (let ks = py_split (CHR ''/'') key in
      if ''cluster'' \<in> set ks then liftP (format_cluster cl ks val)
      else if ''subsystems'' \<in> set ks then named E M servers ks (\<lambda>node. liftP (format_subsystem cl ks val node))
      else if ''agent'' \<in> set ks then
        (if suffix ''status'' (last ks) then named E M servers ks (\<lambda>node. retP (format_agent cl val node)) else retP (True, []))
      else if ''network'' \<in> set ks then
        (if suffix ''Status'' (last ks) then named E M servers ks (format_network E M cl ks val) else retP (True, []))
      else if ''servers'' \<in> set ks then
        (if suffix ''node_status'' (last ks) then named E M servers ks (\<lambda>node. retP (format_server cl val node)) else retP (True, []))
      else retP (''locks'' \<in> set ks, []))"

definition start_stop_service ::
  "(string \<Rightarrow> (('db, 'r) dworld_scheme, string \<times> string) py) \<Rightarrow> nenv \<Rightarrow> string \<Rightarrow> string \<Rightarrow> (('db, 'r) dworld_scheme, unit) py" where
  "start_stop_service systemctl M service_name act =
     (let cmd = ''systemctl '' @ act @ '' '' @ service_name in
      bindP (systemctl cmd) (\<lambda>(out, err).
      thenP (whenP (out \<noteq> []) (log_info (ne_log M) ''cmd %s output %s'' [JStr cmd, JStr (repr_bytes out)]))
        (whenP (err \<noteq> []) (log_info (ne_log M) ''cmd %s error %s'' [JStr cmd, JStr (repr_bytes err)]))))"

section \<open>nkv\_monitor\<close>

definition save_event ::
  "'db etcd3 \<Rightarrow> nenv \<Rightarrow> (exn \<Rightarrow> string) \<Rightarrow> string \<Rightarrow> event \<Rightarrow> (('db, 'r) dworld_scheme, unit) py" where
  "save_event E M exc uuid1 ev =
     (if \<not> dict_has ''name'' ev \<or> \<not> dict_has ''timestamp'' ev \<or> \<not> dict_has ''node'' ev
      then log_info (ne_log M) (''Skip event '' @ py_str (JObj ev)) []
      else bindP (liftP (dict_get ev ''timestamp'')) (\<lambda>ts.
        tryP (thenP (Ufmdb_put E (ne_db M) (py_join ''/'' [EVENT_PROCESS_KEY_PREFIX, py_str ts, uuid1]) (json_dumps (JObj ev)) []) (retP ()))
          (\<lambda>e. thenP (log_error (ne_log M) (''Failed to save data to db: '' @ py_str (JObj ev)) [])
            (log_error (ne_log M) (exc e) []))))"

fun save_events_to_db ::
  "'db etcd3 \<Rightarrow> nenv \<Rightarrow> (exn \<Rightarrow> string) \<Rightarrow> (nat \<Rightarrow> string) \<Rightarrow> event list \<Rightarrow> (('db, 'r) dworld_scheme, unit) py" where
  "save_events_to_db E M exc uuid1 [] = retP ()"
| "save_events_to_db E M exc uuid1 (ev # evs) =
     thenP (save_event E M exc (uuid1 0) ev) (save_events_to_db E M exc (\<lambda>i. uuid1 (Suc i)) evs)"

text \<open>A value of type \<^verbatim>\<open>str\<close> is never equal to one of type \<^verbatim>\<open>bytes\<close>.\<close>

datatype pytext = Str string | Bytes string

record watch_event =
  we_key :: string
  we_value :: string
  we_prev :: string

record ('db, 'q) mworld = "('db, 'q) nworld" +
  w_queue :: "string dict"

definition add_event_to_worker_queue :: "string \<Rightarrow> string \<Rightarrow> (('db, 'q, 'r) mworld_scheme, unit) py" where
  "add_event_to_worker_queue k v = modifyP (\<lambda>w. w\<lparr>w_queue := dict_set k v (w_queue w)\<rparr>)"

definition remove_event_from_worker_queue :: "string \<Rightarrow> (('db, 'q, 'r) mworld_scheme, unit) py" where
  "remove_event_from_worker_queue k = modifyP (\<lambda>w. w\<lparr>w_queue := filter (\<lambda>p. fst p \<noteq> k) (w_queue w)\<rparr>)"

definition keepalived where
  "keepalived systemctl M we =
     (if Bytes (we_key we) = Str (''/cluster/'' @ ne_host M @ ''/status'') then
        (if we_value we = [] then start_stop_service systemctl M ''keepalived'' ''stop''
         else if we_prev we \<noteq> we_value we then
           start_stop_service systemctl M ''keepalived'' (if Bytes (we_value we) = Str ''up'' then ''start'' else ''stop'')
         else retP ())
      else retP ())"

definition report_change ::
  "'db etcd3 \<Rightarrow> nenv \<Rightarrow> (exn \<Rightarrow> string) \<Rightarrow> (nat \<Rightarrow> string) \<Rightarrow> json \<Rightarrow> watch_event \<Rightarrow> (('db, 'r) dworld_scheme, unit) py" where
  "report_change E M exc uuid1 servers we =
     bindP (get_clustername E M) (\<lambda>cl.
     if \<not> py_truth cl then log_error (ne_log M) ''Could not find cluster name in DB'' []
     else bindP (format_event E M cl servers (we_key we) (we_value we)) (\<lambda>(status, ev).
       if \<not> status \<or> ev = [] then retP ()
       else bindP time_time (\<lambda>t.
         save_events_to_db E M exc uuid1 [ev @ [(''timestamp'', JStr (int_str (time_secs t)))]])))"

definition process_event ::
  "'db etcd3 \<Rightarrow> nenv \<Rightarrow> (exn \<Rightarrow> string) \<Rightarrow> (nat \<Rightarrow> string) \<Rightarrow>
   (string \<Rightarrow> (('db, 'q, 'r) mworld_scheme, string \<times> string) py) \<Rightarrow> bool \<Rightarrow> json \<Rightarrow> watch_event \<Rightarrow>
   (('db, 'q, 'r) mworld_scheme, unit) py" where
  "process_event E M exc uuid1 systemctl has_queue servers we =
     (if \<not> has_queue then log_error (ne_log M) ''Processed event is called with invalid event_q object'' []
      else thenP (keepalived systemctl M we)
       (if prefix EVENT_PROCESS_KEY_PREFIX (we_key we) then
          whenP (we_value we \<noteq> []) (add_event_to_worker_queue (we_key we) (we_value we))
        else if prefix EVENT_KEY_PREFIX (we_key we) then retP ()
        else if we_value we \<noteq> [] \<and> we_prev we = we_value we then retP ()
        else report_change E M exc uuid1 servers we))"

text \<open>
  \<^verbatim>\<open>key_watcher_cb\<close>: the servers it passes on are the variable of its own module, which only
  \<^verbatim>\<open>node_health.py\<close> means to set, in a module of its own; it stays \<^verbatim>\<open>None\<close>.
\<close>

definition key_watcher_cb where
  "key_watcher_cb E M exc uuid1 systemctl has_queue evs =
     thenP (whenP (\<not> has_queue) (log_error (ne_log M) ''======> Error <========='' []))
       (forP evs (process_event E M exc uuid1 systemctl has_queue JNull))"

definition get_host_ip :: "'db etcd3 \<Rightarrow> nenv \<Rightarrow> (exn \<Rightarrow> string) \<Rightarrow> (('db, 'r) dworld_scheme, json) py" where
  "get_host_ip E M exc =
     tryP (bindP (Ufmdb_get_with_prefix E (ne_db M) ''/cluster/'' False None None) (\<lambda>info.
       case info of None \<Rightarrow> retP JNull
       | Some j \<Rightarrow> if \<not> py_truth j then retP JNull
           else liftP (bindE (py_key j ''cluster'') (\<lambda>c. bindE (py_key c (ne_host M)) (\<lambda>h. py_key h ''ip_address'')))))
       (\<lambda>e. thenP (log_error (ne_log M) (''Failed to read IP address from db ('' @ exc e @ '')'') []) (retP JNull))"

section \<open>Event\_Processor\<close>

definition load_queue :: "'db etcd3 \<Rightarrow> nenv \<Rightarrow> (('db, 'q, 'r) mworld_scheme, unit) py" where
  "load_queue E M =
     thenP (log_debug (ne_log M) ''Initialize worker queue'' [])
     (bindP (tryP (bindP (Ufmdb_get_with_prefix E (ne_db M) EVENT_PROCESS_KEY_PREFIX True None None) (\<lambda>r. retP (Some r)))
         (\<lambda>e. thenP (log_exception (ne_log M) e) (retP None))) (\<lambda>res.
      case res of
        None \<Rightarrow> retP ()
      | Some (Some (JObj (p # d))) \<Rightarrow> forP (p # d) (\<lambda>(k, v). add_event_to_worker_queue k (py_str v))
      | Some _ \<Rightarrow> log_info (ne_log M) ''==> No events saved in DB to process'' []))"

text \<open>
  \<^verbatim>\<open>run_global_handlers\<close>: there is no global handler and no event of the table has one of its
  own, so what is left is the lookup of the event.
\<close>

definition run_global_handlers ::
  "nenv \<Rightarrow> (exn \<Rightarrow> string) \<Rightarrow> json \<Rightarrow> (('db, 'q, 'r) mworld_scheme, unit) py" where
  "run_global_handlers M exc event_info =
     tryP (bindP (liftP (bindE (py_key event_info ''name'') (\<lambda>n. case n of
         JStr s \<Rightarrow> dict_get events s | JList _ \<Rightarrow> Inl TypeError | JObj _ \<Rightarrow> Inl TypeError | _ \<Rightarrow> Inl (KeyError (py_str n)))))
         (\<lambda>_. retP ()))
       (\<lambda>e. log_error (ne_log M) (exc e) [])"

text \<open>\<open>True\<close> means the event is not done.\<close>

definition validate_event ::
  "nenv \<Rightarrow> (exn \<Rightarrow> string) \<Rightarrow> (json list \<Rightarrow> (('db, 'q, 'r) mworld_scheme, json list) py) option \<Rightarrow>
   json \<Rightarrow> string \<Rightarrow> string \<Rightarrow> (('db, 'q, 'r) mworld_scheme, bool) py" where
  "validate_event M exc notify event_info k v =
     tryP (case notify of
         None \<Rightarrow> retP False
       | Some f \<Rightarrow> bindP (f [event_info]) (\<lambda>ret.
           if ret = [event_info] then retP False
           else thenP (log_error (ne_log M)
               (if ret = [] then ''Failed to process event: '' @ v
                else ''Failed to process: '' @ v @ '' with '' @ py_str (JList ret)) [])
             (thenP (add_event_to_worker_queue k v) (retP True))))
       (\<lambda>e. thenP (log_error (ne_log M) (exc e) []) (retP True))"

definition mark_processed ::
  "'db etcd3 \<Rightarrow> nenv \<Rightarrow> (exn \<Rightarrow> string) \<Rightarrow> string \<Rightarrow> string \<Rightarrow> (('db, 'q, 'r) mworld_scheme, unit) py" where
  "mark_processed E M exc k v =
     tryP (thenP (Ufmdb_put E (ne_db M) (py_replace EVENT_PROCESS_KEY_PREFIX EVENT_KEY_PREFIX k) v [])
         (thenP (Ufmdb_delete E (ne_db M) k []) (retP ())))
       (\<lambda>e. thenP (log_error (ne_log M) (''Failed to mark event being processed: '' @ k) [])
         (log_error (ne_log M) (exc e) []))"

text \<open>One pass of the loop; \<^verbatim>\<open>popitem\<close> takes the entry that was added last.\<close>

definition processor_pass ::
  "'db etcd3 \<Rightarrow> nenv \<Rightarrow> (exn \<Rightarrow> string) \<Rightarrow> (string \<Rightarrow> exn + json) \<Rightarrow>
   (json list \<Rightarrow> (('db, 'q, 'r) mworld_scheme, json list) py) option \<Rightarrow> (('db, 'q, 'r) mworld_scheme, unit) py" where
  "processor_pass E M exc literal_eval notify =
     bindP (readP w_queue) (\<lambda>q.
     if q = [] then retP ()
     else let (k, v) = last q in
       thenP (modifyP (\<lambda>w. w\<lparr>w_queue := butlast q\<rparr>))
       (case literal_eval v of
          Inl e \<Rightarrow> thenP (log_error (ne_log M) (''Failed to convert event to dict: key='' @ v) []) (log_error (ne_log M) (exc e) [])
        | Inr event_info \<Rightarrow>
            bindP (validate_event M exc notify event_info k v) (\<lambda>pending.
            if pending then retP ()
            else thenP (run_global_handlers M exc event_info) (mark_processed E M exc k v))))"

section \<open>Events in the database\<close>

text \<open>Frames: statements that leave the database as it is, and statements that leave the socket as it is.\<close>

definition same_wdb :: "('db, 'r) dworld_scheme \<Rightarrow> ('db, 'r) dworld_scheme \<Rightarrow> bool" where
  "same_wdb w w' \<longleftrightarrow> w_db w' = w_db w \<and> log_detail_mask (lw_log w') = log_detail_mask (lw_log w)"

definition same_wq :: "('db, 'q, 'r) nworld_scheme \<Rightarrow> ('db, 'q, 'r) nworld_scheme \<Rightarrow> bool" where
  "same_wq w w' \<longleftrightarrow> w_q w' = w_q w"

interpretation sd: py_rel same_wdb
  by unfold_locales (auto simp: same_wdb_def)

interpretation sq: py_rel same_wq
  by unfold_locales (auto simp: same_wq_def)

lemma keeps_log_wdb:
  fixes m :: "(('db, 'r) dworld_scheme, 'a) py"
  shows "keeps log_step m \<Longrightarrow> keeps same_wdb m"
  by (erule keeps_mono) (simp add: same_wdb_def log_step_db, simp add: log_step_def same_masks_def)

lemma keeps_log_wq:
  fixes m :: "(('db, 'q, 'r) nworld_scheme, 'a) py"
  shows "keeps log_step m \<Longrightarrow> keeps same_wq m"
  by (erule keeps_mono) (simp add: same_wq_def log_step_q)

lemma db_is_same_wdb: "db_is kv up l m w \<Longrightarrow> same_wdb w w' \<Longrightarrow> db_is kv up l m w'"
  by (auto simp: db_is_def quiet_def same_wdb_def)

lemmas logs_wdb = keeps_log [THEN keeps_log_wdb] and logs_wq = keeps_log [THEN keeps_log_wq]

lemma keeps_on_q_wdb: "keeps same_wdb (on_q m)"
  by (auto simp: keeps_def same_wdb_def on_q_def split: prod.splits)

lemma keeps_on_db_wq: "keeps same_wq (on_db m)"
  by (auto simp: keeps_def same_wq_def on_db_def split: prod.splits)

lemma keeps_modify_queue:
  "keeps same_wdb (modifyP (\<lambda>w. w\<lparr>w_queue := f w\<rparr>))" "keeps same_wq (modifyP (\<lambda>w. w\<lparr>w_queue := f w\<rparr>))"
  by (intro sd.keeps_modify sq.keeps_modify; simp add: same_wdb_def same_wq_def)+

lemma keeps_db_wq:
  "keeps same_wq (Ufmdb_put E l k v kw)" "keeps same_wq (Ufmdb_delete E l k kw)"
  unfolding Ufmdb_put_def Ufmdb_delete_def log_error_guard_def
  by (intro sq.keeps_rules logs_wq keeps_on_db_wq)+

lemma keeps_mark_wq: "keeps same_wq (mark_processed E M exc k v)" "keeps same_wq (run_global_handlers M exc info)"
  unfolding mark_processed_def run_global_handlers_def
  by (intro sq.keeps_rules logs_wq keeps_db_wq)+

lemma keeps_handlers_wdb: "keeps same_wdb (run_global_handlers M exc info)"
  unfolding run_global_handlers_def by (intro sd.keeps_rules logs_wdb)

interpretation qd: q_frame same_wdb
  by unfold_locales (auto simp: same_wdb_def log_step_db, simp add: log_step_def same_masks_def)

definition same_queue :: "('db, 'q, 'r) mworld_scheme \<Rightarrow> ('db, 'q, 'r) mworld_scheme \<Rightarrow> bool" where
  "same_queue w w' \<longleftrightarrow> w_queue w' = w_queue w"

lemma log_step_queue:
  fixes w w' :: "('db, 'q, 'r) mworld_scheme"
  assumes "log_step w w'"
  shows "w_queue w' = w_queue w"
  using log_step_more [OF assms] by (cases w; cases w') auto

interpretation qq: q_frame same_queue
  by unfold_locales (auto simp: same_queue_def log_step_queue)

lemma db_step_queue:
  fixes w w' :: "('db, 'q, 'r) mworld_scheme"
  assumes "db_step w w'"
  shows "w_queue w' = w_queue w"
  using db_step_more [OF assms] by (cases w; cases w') auto

text \<open>Without an acknowledgement the database stays as it is.\<close>

lemma validate_pending:
  assumes "notify = Some f" and "keeps same_wdb (f [info])"
  shows "wp (validate_event M exc notify info k v)
    (\<lambda>pending w'. same_wdb w w' \<and> (pending \<or> (\<exists>w1. f [info] w = (Inr [info], w1) \<and> w' = w1))) (\<lambda>_ w'. same_wdb w w') w"
proof -
  let ?after = "\<lambda>ret. if ret = [info] then retP False else thenP (log_error (ne_log M)
      (if ret = [] then ''Failed to process event: '' @ v else ''Failed to process: '' @ v @ '' with '' @ py_str (JList ret)) [])
      (thenP (add_event_to_worker_queue k v) (retP True))"
  obtain r w1 where f: "f [info] w = (r, w1)" by fastforce
  have w1: "same_wdb w w1" using keepsD [OF assms(2) f] .
  have fail: "wp (thenP (log_error (ne_log M) (exc e) []) (retP True)) (\<lambda>p w'. same_wdb w w' \<and> p) (\<lambda>_ w'. same_wdb w w') w2"
    if "same_wdb w w2" for e w2
    unfolding wp_thenP wp_retP_fun
    by (rule wp_mono [OF keeps_wp [OF logs_wdb(5)]]) (use that in \<open>auto simp: same_wdb_def\<close>)
  show ?thesis
  proof (cases "r = Inr [info]")
    case True
    then show ?thesis using f w1 assms(1)
      by (simp add: validate_event_def wp_def tryP_def bindP_def retP_def)
  next
    case False
    have keep: "keeps same_wdb (bindP (f [info]) ?after)"
      unfolding add_event_to_worker_queue_def
      by (intro sd.keeps_rules assms(2) logs_wdb keeps_modify_queue)
    obtain out w2 where run: "bindP (f [info]) ?after w = (out, w2)" by fastforce
    have "p" if "out = Inr p" for p
      using run f False that by (auto simp: bindP_def thenP_def retP_def split: sum.splits prod.splits if_splits)
    with keepsD [OF keep run] run
    have "wp (bindP (f [info]) ?after) (\<lambda>p w'. same_wdb w w' \<and> p) (\<lambda>_ w'. same_wdb w w') w"
      by (cases out) (simp_all add: wp_run wp_run_exn)
    then have "wp (validate_event M exc notify info k v) (\<lambda>p w'. same_wdb w w' \<and> p) (\<lambda>_ w'. same_wdb w w') w"
      unfolding validate_event_def assms(1) option.case wp_tryP
      by (rule wp_mono) (auto intro: fail)
    then show ?thesis by (rule wp_mono) auto
  qed
qed

text \<open>A pass that changes the database has its event acknowledged, and uses the socket no further.\<close>

lemma pass_acknowledged:
  assumes "\<And>info. keeps same_wdb (f [info])" and "w0 = w\<lparr>w_queue := butlast (w_queue w)\<rparr>"
    and "processor_pass E M exc literal_eval (Some f) w = (r, w')" and "w_db w' \<noteq> w_db w"
  shows "\<exists>info w1. f [info] w0 = (Inr [info], w1) \<and> w_q w' = w_q w1"
proof -
  have ne: "w_queue w \<noteq> []"
    using assms(3,4) by (auto simp: processor_pass_def bindP_def readP_def retP_def split: if_splits)
  obtain k v where kv: "last (w_queue w) = (k, v)" by fastforce
  have db0: "w_db w0 = w_db w" by (simp add: assms(2))
  define rest where "rest = (case literal_eval v of
      Inl e \<Rightarrow> thenP (log_error (ne_log M) (''Failed to convert event to dict: key='' @ v) []) (log_error (ne_log M) (exc e) [])
    | Inr info \<Rightarrow> bindP (validate_event M exc (Some f) info k v) (\<lambda>pending. if pending then retP ()
        else thenP (run_global_handlers M exc info) (mark_processed E M exc k v)))"
  have run: "rest w0 = (r, w')"
    using assms(2,3) ne kv by (simp add: processor_pass_def rest_def bindP_def readP_def thenP_def modifyP_def)
  show ?thesis
  proof (cases "literal_eval v")
    case (Inl e)
    have "keeps same_wdb rest" unfolding rest_def Inl by (simp, intro sd.keeps_rules logs_wdb)
    from keepsD [OF this run] assms(4) db0 show ?thesis by (simp add: same_wdb_def)
  next
    case (Inr info)
    obtain p w1 where val: "validate_event M exc (Some f) info k v w0 = (p, w1)" by fastforce
    have post: "case p of Inl e \<Rightarrow> same_wdb w0 w1
      | Inr pending \<Rightarrow> same_wdb w0 w1 \<and> (pending \<or> (\<exists>w2. f [info] w0 = (Inr [info], w2) \<and> w1 = w2))"
      using validate_pending [of "Some f" f info M exc k v w0, OF refl assms(1)] val by (simp add: wp_def split: sum.splits)
    have "p = Inr False"
    proof (rule ccontr)
      assume "p \<noteq> Inr False"
      then have "w' = w1" using run val Inr
        by (cases p) (auto simp: rest_def bindP_def retP_def split: if_splits)
      with post assms(4) db0 show False by (auto simp: same_wdb_def split: sum.splits)
    qed
    with post have f: "f [info] w0 = (Inr [info], w1)" by simp
    have "thenP (run_global_handlers M exc info) (mark_processed E M exc k v) w1 = (r, w')"
      using run val Inr \<open>p = Inr False\<close> by (simp add: rest_def bindP_def)
    from keepsD [OF sq.keeps_then [OF keeps_mark_wq(2,1)] this] have "w_q w' = w_q w1" by (simp add: same_wq_def)
    with f show ?thesis by blast
  qed
qed

context req_socket
begin

lemma process_one_acknowledged:
  assumes "process_events Q shw n [info] w = (Inr [info], w')"
  shows "received (w_q w') = received (w_q w) @ [''RECEIVED'']"
proof -
  obtain cat where cat: "get_category info = Inr cat"
    using assms by (cases "get_category info") (auto simp: process_events_def bindP_def liftP_def)
  obtain ok where "send_events Q shw n cat info w = (Inr ok, w')" "ok"
    using assms cat by (auto simp: process_events_def bindP_def liftP_def retP_def split: prod.splits sum.splits if_splits)
  with wp_send_events [of shw n cat info w] show ?thesis by (simp add: wp_def)
qed

lemma pass_received:
  assumes "processor_pass E M exc literal_eval (Some (process_events Q shw n)) w = (r, w')" and "w_db w' \<noteq> w_db w"
  shows "received (w_q w') = received (w_q w) @ [''RECEIVED'']"
proof -
  obtain info w1 where "process_events Q shw n [info] (w\<lparr>w_queue := butlast (w_queue w)\<rparr>) = (Inr [info], w1)" "w_q w' = w_q w1"
    using pass_acknowledged [OF qd.keeps_process_events refl assms] by blast
  with process_one_acknowledged [of shw n info] show ?thesis by fastforce
qed

end

text \<open>A pass over an acknowledged event that the table knows moves it to the processed events.\<close>

lemma handlers_known:
  assumes "py_key info ''name'' = Inr (JStr s)" and "s \<in> set (dict_keys events)"
  shows "run_global_handlers M exc info w = (Inr (), w)"
proof -
  obtain ed where "map_of events s = Some ed"
    using assms(2) by (cases "map_of events s") (auto simp: map_of_eq_None_iff dict_keys_def)
  with assms(1) show ?thesis
    by (simp add: run_global_handlers_def tryP_def bindP_def liftP_def retP_def dict_get_def)
qed

lemma wp_handlers_known:
  assumes "py_key info ''name'' = Inr (JStr s)" and "s \<in> set (dict_keys events)"
  shows "wp (run_global_handlers M exc info) Q X w = Q () w"
  by (rule wp_run) (rule handlers_known [OF assms])

context etcd_store
begin

lemma wp_mark_processed:
  assumes "db_is kv up (ne_db M) m w"
    and "\<And>w'. db_is kv up (ne_db M) ((m(py_replace EVENT_PROCESS_KEY_PREFIX EVENT_KEY_PREFIX k \<mapsto> v))(k := None)) w' \<Longrightarrow>
      db_step w w' \<Longrightarrow> P () w'"
  shows "wp (mark_processed E M exc k v) P X w"
  unfolding mark_processed_def wp_tryP wp_thenP wp_retP_fun
proof (rule wp_put [OF assms(1)])
  show "is_valid_params [''lease'', ''prev_kv''] []" by (simp add: is_valid_params_def dict_keys_def)
  fix w1 :: "('db, 'a, 'b) mworld_scheme"
  assume w1: "db_is kv up (ne_db M) (m(py_replace EVENT_PROCESS_KEY_PREFIX EVENT_KEY_PREFIX k \<mapsto> v)) w1" "db_step w w1"
  show "wp (Ufmdb_delete E (ne_db M) k []) (\<lambda>_. P ()) (\<lambda>e. wp (log_error (ne_log M) (''Failed to mark event being processed: '' @ k) [])
      (\<lambda>_. wp (log_error (ne_log M) (exc e) []) P X) X) w1"
    by (rule wp_delete [OF w1(1)], rule assms(2)) (auto intro: db_step_trans [OF w1(2)])
qed

end

section \<open>Which events a change gives\<close>

definition known_event :: "event \<Rightarrow> bool" where
  "known_event ev \<longleftrightarrow> (case map_of ev ''name'' of None \<Rightarrow> True | Some (JStr s) \<Rightarrow> s \<in> set (dict_keys events) | Some _ \<Rightarrow> False)"

definition monitor_events :: "string set" where
  "monitor_events = {''CM_NODE_DOWN'', ''CM_NODE_UP'', ''CM_NODE_REMOVED'', ''CM_NODE_ADDED'', ''SUBSYSTEM_DOWN'', ''SUBSYSTEM_UP'',
     ''SUBSYSTEM_DELETED'', ''SUBSYSTEM_CREATED'', ''AGENT_DOWN'', ''AGENT_UP'', ''TARGET_NODE_UNREACHABLE'', ''TARGET_NODE_ACCESSIBLE'',
     ''NETWORK_UP'', ''NETWORK_DOWN''}"

lemma monitor_events_known: "monitor_events \<subseteq> set (dict_keys events)"
  unfolding monitor_events_def by (simp add: events_def events_1_def events_2_def dict_keys_def)

lemma known_eventI: "map_of ev ''name'' = None \<or> (\<exists>s \<in> monitor_events. map_of ev ''name'' = Some (JStr s)) \<Longrightarrow> known_event ev"
  using monitor_events_known by (auto simp: known_event_def)

lemma format_cluster_known: "format_cluster cl ks val = Inr (st, ev) \<Longrightarrow> known_event ev"
  by (rule known_eventI)
    (auto simp: format_cluster_def bindE_Inr_iff monitor_events_def split: if_splits)

lemma format_subsystem_known: "format_subsystem cl ks val node = Inr (st, ev) \<Longrightarrow> known_event ev"
  by (rule known_eventI)
    (auto simp: format_subsystem_def Let_def bindE_Inr_iff monitor_events_def split: if_splits)

lemma format_pure_known:
  "known_event (snd (format_agent cl val node))" "known_event (snd (format_server cl val node))" "known_event []"
  by (rule known_eventI; auto simp: format_agent_def format_server_def monitor_events_def)+

lemma format_network_known: "yields (\<lambda>(st, ev). known_event ev) (format_network E M cl ks val node)"
  unfolding format_network_def Let_def
  by (intro yields_rules) (auto intro!: known_eventI simp: monitor_events_def)

lemma format_event_known: "yields (\<lambda>(st, ev). known_event ev) (format_event E M cl servers key val)"
proof -
  have named: "yields P (named E M servers ks f)" if "\<And>node. yields P (f node)" "P (False, [])" for P f ks
    unfolding named_def by (intro yields_rules that)
  show ?thesis
    unfolding format_event_def Let_def
    by (intro yields_if named yields_lift yields_ret format_network_known)
      (auto simp: format_pure_known case_prod_beta dest: format_cluster_known format_subsystem_known)
qed

section \<open>A change of a cluster node\<close>

definition status_event :: "string \<Rightarrow> string \<Rightarrow> string \<Rightarrow> event" where
  "status_event node cl val =
     [(''node'', JStr node), (''args'', node_args (JStr node) (JStr cl)),
      (''name'', JStr (if val = ''down'' then ''CM_NODE_DOWN'' else ''CM_NODE_UP''))]"

lemma format_status:
  assumes "CHR ''/'' \<notin> set node"
  shows "format_event E M (JStr cl) servers (''/cluster/'' @ node @ ''/status'') val = liftP (Inr (True, status_event node cl val))"
proof -
  have "py_split (CHR ''/'') (''/cluster/'' @ node @ ''/status'') = ['''', ''cluster'', node, ''status'']"
    using py_split_append_list [of "CHR ''/''" node "''status''"] py_split_no_sep [OF assms] by simp
  then show ?thesis
    by (auto simp: format_event_def format_cluster_def py_nth_def status_event_def)
qed

context etcd_store
begin

lemma wp_clustername:
  assumes "db_is kv up (ne_db M) m w" and "tree_keys {k \<in> dom m. prefix ''/cluster/'' k}" and "m ''/cluster/name'' = Some cl"
    and "\<And>w'. db_is kv up (ne_db M) m w' \<Longrightarrow> db_step w w' \<Longrightarrow> Q (JStr cl) w'"
  shows "wp (get_clustername E M) Q X w"
  unfolding get_clustername_def wp_bindP wp_retP_fun
proof (rule wp_get_with_prefix [OF assms(1,2) _ assms(3)])
  fix j w'
  assume w': "db_is kv up (ne_db M) m w'" "db_step w w'"
    and all: "\<And>k v. prefix ''/cluster/'' k \<Longrightarrow> m k = Some v \<Longrightarrow> json_get (key_path k) j = Some (JStr v)"
  have "json_get [''cluster'', ''name''] j = Some (JStr cl)"
    using all [OF _ assms(3)] by (simp add: key_path_def)
  then have "bindE (py_key j ''cluster'') (\<lambda>c. py_key c ''name'') = Inr (JStr cl)"
    by (cases j) (auto simp: dict_get_def split: option.splits elim!: json_get.elims)
  with assms(4) [OF w'] show "Q (case Some j of None \<Rightarrow> JNull
      | Some j \<Rightarrow> (case bindE (py_key j ''cluster'') (\<lambda>c. py_key c ''name'') of Inl e \<Rightarrow> JNull | Inr n \<Rightarrow> n)) w'"
    by simp
qed simp

lemma wp_save_event:
  assumes "db_is kv up (ne_db M) m w" and "map_of ev ''timestamp'' = Some (JStr ts)" and "dict_has ''name'' ev" and "dict_has ''node'' ev"
    and "\<And>w'. db_is kv up (ne_db M) (m(py_join ''/'' [EVENT_PROCESS_KEY_PREFIX, ts, u] \<mapsto> json_dumps (JObj ev))) w' \<Longrightarrow> P () w'"
  shows "wp (save_event E M exc u ev) P X w"
proof -
  have "wp (Ufmdb_put E (ne_db M) (py_join ''/'' [EVENT_PROCESS_KEY_PREFIX, ts, u]) (json_dumps (JObj ev)) []) (\<lambda>_. P ()) X' w" for X'
    by (rule wp_put [OF assms(1)]) (simp_all add: is_valid_params_def dict_keys_def assms(5))
  moreover have "dict_has ''timestamp'' ev" using assms(2) by (auto simp: dict_has_iff dest!: map_of_SomeD intro: rev_image_eqI)
  ultimately show ?thesis
    using assms(2-4) by (simp add: save_event_def dict_get_def wp_simps wp_retP_fun del: py_join.simps)
qed

text \<open>The value a change of \<^verbatim>\<open>/cluster/<node>/status\<close> adds to the events to process.\<close>

lemma wp_status_change:
  assumes "db_is kv up (ne_db M) m w" and "tree_keys {k \<in> dom m. prefix ''/cluster/'' k}" and "m ''/cluster/name'' = Some cl" and "cl \<noteq> []"
    and "we_key we = ''/cluster/'' @ node @ ''/status''" and "CHR ''/'' \<notin> set node"
    and "\<And>ts w'. ts = int_str (time_secs (lw_clock w (lw_tick w))) \<Longrightarrow>
       db_is kv up (ne_db M) (m(py_join ''/'' [EVENT_PROCESS_KEY_PREFIX, ts, uuid1 0] \<mapsto>
         json_dumps (JObj (status_event node cl (we_value we) @ [(''timestamp'', JStr ts)])))) w' \<Longrightarrow> P () w'"
  shows "wp (report_change E M exc uuid1 servers we) P X w"
  unfolding report_change_def wp_bindP [of "get_clustername E M"]
proof (rule wp_clustername [OF assms(1-3)])
  fix w1
  assume w1: "db_is kv up (ne_db M) m w1" "db_step w w1"
  define ts where "ts = int_str (time_secs (lw_clock w1 (lw_tick w1)))"
  let ?w2 = "w1\<lparr>lw_tick := Suc (lw_tick w1)\<rparr>" and ?ev = "status_event node cl (we_value we)"
  have w2: "db_is kv up (ne_db M) m ?w2" using w1(1) by (auto simp: db_is_def quiet_def)
  have ts: "ts = int_str (time_secs (lw_clock w (lw_tick w)))" using w1(2) by (simp add: ts_def db_step_def)
  have "wp (save_event E M exc (uuid1 0) (?ev @ [(''timestamp'', JStr ts)])) P X ?w2"
    by (rule wp_save_event [OF w2, of _ ts])
      (use assms(7) [OF ts] in \<open>simp_all add: dict_has_def status_event_def del: py_join.simps\<close>)
  then show "wp (if \<not> py_truth (JStr cl) then log_error (ne_log M) ''Could not find cluster name in DB'' []
     else bindP (format_event E M (JStr cl) servers (we_key we) (we_value we)) (\<lambda>(status, ev).
       if \<not> status \<or> ev = [] then retP ()
       else bindP time_time (\<lambda>t. save_events_to_db E M exc uuid1 [ev @ [(''timestamp'', JStr (int_str (time_secs t)))]]))) P X w1"
    using assms(4) unfolding assms(5) format_status [OF assms(6)]
    by (simp add: wp_simps wp_def [of time_time] time_time_def ts_def [symmetric] status_event_def wp_retP_fun split: if_splits)
qed

lemma wp_pass_moves:
  assumes "db_is kv up (ne_db M) m w" and "w_queue w = q @ [(k, v)]" and "literal_eval v = Inr info"
    and "py_key info ''name'' = Inr (JStr s)" and "s \<in> set (dict_keys events)"
    and "keeps same_wdb (f [info])" and "f [info] (w\<lparr>w_queue := q\<rparr>) = (Inr [info], w1)"
    and "\<And>w'. db_is kv up (ne_db M) ((m(py_replace EVENT_PROCESS_KEY_PREFIX EVENT_KEY_PREFIX k \<mapsto> v))(k := None)) w' \<Longrightarrow>
      db_step w1 w' \<Longrightarrow> P () w'"
  shows "wp (processor_pass E M exc literal_eval (Some f)) P X w"
proof -
  have "db_is kv up (ne_db M) m (w\<lparr>w_queue := q\<rparr>)" using assms(1) by (auto simp: db_is_def quiet_def)
  from db_is_same_wdb [OF this keepsD [OF assms(6,7)]] have w1: "db_is kv up (ne_db M) m w1" .
  have val: "validate_event M exc (Some f) info k v (w\<lparr>w_queue := q\<rparr>) = (Inr False, w1)"
    using assms(7) by (simp add: validate_event_def tryP_def bindP_def retP_def)
  have "wp (mark_processed E M exc k v) P X w1"
    by (rule wp_mark_processed [OF w1]) (rule assms(8))
  then show ?thesis
    using wp_run [of "validate_event M exc (Some f) info k v", OF val]
    by (simp add: processor_pass_def assms(2,3) wp_simps wp_handlers_known [OF assms(4,5)])
qed

end

end
