(* ===== verification/NodeHealth.thy ===== *)
theory NodeHealth
  imports NodeMonitor "HOL-Library.Word" "HOL-Library.List_Lexorder" "HOL-Library.Char_ord"
begin

text \<open>
  The health check of the storage nodes, \<^verbatim>\<open>src/ufm/fabricmanager/systems/nkv/node_health.py\<close>.

  Every pass reads the servers from the database, pings the network interfaces of those whose
  heartbeat is old, and collects the keys to write.  The dictionaries of the last known states
  are kept in a store of their own, because the code gives two names to one of them.
  Parameters: \<open>fping\<close> runs the command of that name, \<open>refresh\<close> renews a lease, \<open>exc\<close> is the text the
  code builds from an exception.  The documents the database gives hold only texts and
  dictionaries, so a value of another kind raises where the code would need a text.

  Lemmas: which keys a pass collects, that it leaves the database as it is, and what a node whose
  interfaces all answer counts as.
\<close>

unbundle bit_operations_syntax

section \<open>zlib.crc32 and json.dumps with sorted keys\<close>

definition crc_bit :: "32 word \<Rightarrow> 32 word" where
  "crc_bit c = (if bit c 0 then drop_bit 1 c XOR 0xEDB88320 else drop_bit 1 c)"

definition crc_byte :: "32 word \<Rightarrow> char \<Rightarrow> 32 word" where
  "crc_byte c ch = (crc_bit ^^ 8) (c XOR word_of_nat (of_char ch))"

definition crc32 :: "string \<Rightarrow> int" where
  "crc32 s = uint (NOT (foldl crc_byte (NOT 0) s))"

fun sort_json :: "json \<Rightarrow> json" and sort_items :: "json list \<Rightarrow> json list"
  and sort_fields :: "(string \<times> json) list \<Rightarrow> (string \<times> json) list" where
  "sort_json (JList xs) = JList (sort_items xs)"
| "sort_json (JObj d) = JObj (sort_key fst (sort_fields d))"
| "sort_json j = j"
| "sort_items [] = []"
| "sort_items (x # xs) = sort_json x # sort_items xs"
| "sort_fields [] = []"
| "sort_fields ((k, v) # d) = (k, sort_json v) # sort_fields d"

section \<open>check\_interfaces\<close>

text \<open>\<open>ipaddr_dict\<close>: the interface of each address.\<close>

fun add_addresses :: "json \<Rightarrow> json list \<Rightarrow> string dict \<Rightarrow> exn + string dict" where
  "add_addresses ifaces [] acc = Inr acc"
| "add_addresses ifaces (i # is) acc =
     bindE (as_str i) (\<lambda>k. bindE (py_key ifaces k) (\<lambda>n. bindE (py_in ''IPv4'' n) (\<lambda>has.
       if \<not> has then add_addresses ifaces is acc
       else bindE (bindE (py_key n ''IPv4'') as_str) (\<lambda>a. add_addresses ifaces is (dict_set a k acc)))))"

definition set_field :: "json \<Rightarrow> string \<Rightarrow> string \<Rightarrow> json \<Rightarrow> exn + json" where
  "set_field ifaces i f v =
     (case ifaces of
        JObj d \<Rightarrow> bindE (dict_get d i) (\<lambda>n. case n of
          JObj nd \<Rightarrow> Inr (JObj (dict_set i (JObj (dict_set f v nd)) d)) | _ \<Rightarrow> Inl TypeError)
      | _ \<Rightarrow> Inl TypeError)"

text \<open>The new state and checksum of an interface; the checksum is over the fields with the old checksum in them.\<close>

definition mark_nic :: "json \<Rightarrow> string \<Rightarrow> string \<Rightarrow> exn + json \<times> int" where
  "mark_nic ifaces i st =
     bindE (set_field ifaces i ''Status'' (JStr st)) (\<lambda>j1.
     bindE (py_key j1 i) (\<lambda>n. let crc = crc32 (json_dumps (sort_json n)) in
     bindE (set_field j1 i ''CRC'' (JInt crc)) (\<lambda>j2. Inr (j2, crc))))"

definition tgt_node_key :: "string \<Rightarrow> string" where
  "tgt_node_key uuid = ''/object_storage/servers/'' @ uuid @ ''/node_status''"

definition tgt_interface_key :: "string \<Rightarrow> string \<Rightarrow> string" where
  "tgt_interface_key uuid i = ''/object_storage/servers/'' @ uuid @ ''/server_attributes/network/interfaces/'' @ i @ ''/Status''"

definition tgt_interface_crc :: "string \<Rightarrow> string \<Rightarrow> string" where
  "tgt_interface_crc uuid i = ''/object_storage/servers/'' @ uuid @ ''/server_attributes/network/interfaces/'' @ i @ ''/CRC''"

definition nic_keys :: "string \<Rightarrow> string \<Rightarrow> string \<Rightarrow> int \<Rightarrow> string dict \<Rightarrow> string dict" where
  "nic_keys server i st crc kv =
     dict_set (tgt_interface_crc server i) (int_str crc) (dict_set (tgt_interface_key server i) st kv)"

text \<open>The lines of the output of \<^verbatim>\<open>fping\<close>; a line of an interface that answered has its round trip times.\<close>

fun nic_lines ::
  "logger \<Rightarrow> string \<Rightarrow> string dict \<Rightarrow> string list \<Rightarrow> json \<Rightarrow> string dict \<Rightarrow>
   ('r lworld_scheme, bool \<times> string dict) py" where
  "nic_lines l server ips [] ifaces kv = retP (False, kv)"
| "nic_lines l server ips (line # ls) ifaces kv =
     (if line = [] then nic_lines l server ips ls ifaces kv
      else bindP (liftP (dict_get ips (py_strip (hd (py_split (CHR '':'') line))))) (\<lambda>i.
        thenP (log_detail l ''Updting NIC status for iface: [%s]'' [JStr i])
        (if \<not> py_in_str ''min/avg/max'' line then
           thenP (log_detail l ''min/avg/max not detected in line: [%s]'' [JStr line])
           (bindP (liftP (bindE (py_key ifaces i) (\<lambda>n. py_key n ''Status''))) (\<lambda>st.
            if st \<noteq> JStr ''down'' then
              thenP (log_detail l ''iface status not previously down, changing to down'' [])
              (thenP (log_debug l ''interface: [%s], down'' [JStr i])
              (bindP (liftP (mark_nic ifaces i ''down'')) (\<lambda>(ifaces', crc).
               nic_lines l server ips ls ifaces' (nic_keys server i ''down'' crc kv))))
            else thenP (log_detail l ''NIC previously down, skipping'' []) (nic_lines l server ips ls ifaces kv)))
         else
           bindP (liftP (bindE (py_key ifaces i) (\<lambda>n. py_key n ''Status''))) (\<lambda>st.
           if st \<noteq> JStr ''up'' then
             thenP (log_detail l ''iface status not previously up, changing to up'' [])
             (bindP (liftP (mark_nic ifaces i ''up'')) (\<lambda>(ifaces', crc).
              retP (True, nic_keys server i ''up'' crc kv)))
           else thenP (log_detail l ''NIC not detected, and not previously up, skipping'' [])
             (nic_lines l server ips ls ifaces kv)))))"

definition check_interfaces ::
  "(string list \<Rightarrow> ('r lworld_scheme, string \<times> string) py) \<Rightarrow> logger \<Rightarrow> json \<Rightarrow> string dict \<Rightarrow> string \<Rightarrow>
   ('r lworld_scheme, bool \<times> string dict) py" where
  "check_interfaces fping l ifaces kv server =
     bindP (liftP (bindE (py_iter ifaces) (\<lambda>is. add_addresses ifaces is []))) (\<lambda>ips.
     if ips = [] then retP (False, kv)
     else let cmd = ''fping -q -c 3 '' @ py_join '' '' (dict_keys ips) in
       bindP (fping (py_words cmd)) (\<lambda>(out, err).
       thenP (log_debug l ''fping cmd %s out [%s] err [%s]'' [JStr cmd, JStr (repr_bytes out), JStr (repr_bytes err)])
         (if err = [] then retP (False, kv)
          else nic_lines l server ips (py_split (CHR 0x0A) err) ifaces kv)))"

section \<open>The loop\<close>

text \<open>
  \<open>hs_store\<close> holds the dictionaries from server name to last result, by address; \<open>hs_new\<close> is the
  address that \<^verbatim>\<open>new_ip_status\<close> names.
\<close>

record health =
  hs_store :: "nat \<Rightarrow> bool dict"
  hs_new :: nat
  hs_lease :: "int option"

text \<open>The comparison of the old and the new state of a node; \<open>old\<close> and \<open>new\<close> are addresses.\<close>

definition note_status :: "nat \<Rightarrow> nat \<Rightarrow> string \<Rightarrow> bool \<Rightarrow> (nat \<Rightarrow> bool dict) \<Rightarrow> bool \<times> (nat \<Rightarrow> bool dict)" where
  "note_status old new name status store =
     (let s1 = (if dict_has name (store old) then store else store(old := dict_set name status (store old)));
          s2 = s1(new := dict_set name status (s1 new))
      in (map_of (s2 old) name \<noteq> map_of (s2 new) name, s2))"

type_synonym health_acc = "(nat \<Rightarrow> bool dict) \<times> string dict \<times> string list"

definition check_server ::
  "(string list \<Rightarrow> ('r lworld_scheme, string \<times> string) py) \<Rightarrow> logger \<Rightarrow> int \<Rightarrow> json \<Rightarrow> nat \<Rightarrow> nat \<Rightarrow> json \<Rightarrow> json \<Rightarrow>
   health_acc \<Rightarrow> ('r lworld_scheme, health_acc) py" where
  "check_server fping l interval hb_list old new servers server_json acc =
     bindP (liftP (as_str server_json)) (\<lambda>server.
     let hb_time = (case py_key hb_list server of Inl e \<Rightarrow> JInt 0 | Inr t \<Rightarrow> t);
         attr = (\<lambda>f. bindE (py_key servers server) (\<lambda>s. bindE (py_key s ''server_attributes'') f)) in
     bindP time_time (\<lambda>t.
     bindP (liftP (py_int hb_time)) (\<lambda>hb.
     if time_secs t - hb < 4 * interval then retP acc
     else (case attr (\<lambda>a. bindE (py_key a ''identity'') (\<lambda>i. py_key i ''Hostname'')) of
       Inl e \<Rightarrow> thenP (log_warning l ''Failed to get hostname of server from DB'' []) (retP acc)
     | Inr server_name \<Rightarrow> (case attr (\<lambda>a. bindE (py_key a ''network'') (\<lambda>i. py_key i ''interfaces'')) of
         Inl e \<Rightarrow> thenP (log_error l ''Failed to get interfaces of server from DB'' []) (retP acc)
       | Inr ifaces \<Rightarrow> (case acc of (store, kv, leased) \<Rightarrow>
           bindP (check_interfaces fping l ifaces kv server) (\<lambda>(status, kv').
           bindP (liftP (as_str server_name)) (\<lambda>name.
           case note_status old new name status store of (changed, store') \<Rightarrow>
             if changed then
               let v = (if status then ''up'' else ''down'') in
               thenP (log_info l (''NIC on target '' @ server @ '' has changed to '' @ v) [])
                 (retP (store', dict_set (tgt_node_key server) v kv', leased @ [tgt_node_key server]))
             else retP (store', kv', leased)))))))))"

text \<open>\<open>g_servers_out\<close> without its entry \<^verbatim>\<open>list\<close>, and that entry, the heartbeats.\<close>

definition split_servers :: "json \<Rightarrow> exn + json \<times> json" where
  "split_servers out =
     bindE (py_key out ''object_storage'') (\<lambda>o1. bindE (py_key o1 ''servers'') (\<lambda>servers.
     bindE (py_in ''list'' servers) (\<lambda>has.
     if \<not> has then Inr (JList [], servers)
     else (case servers of
         JObj d \<Rightarrow> bindE (dict_get d ''list'') (\<lambda>hb. Inr (hb, JObj (filter (\<lambda>p. fst p \<noteq> ''list'') d)))
       | _ \<Rightarrow> Inl AttributeError))))"

definition save_status ::
  "(int \<Rightarrow> ('db, unit) py) \<Rightarrow> nenv \<Rightarrow> (exn \<Rightarrow> string) \<Rightarrow> int option \<Rightarrow> string dict \<Rightarrow> string list \<Rightarrow> (('db, 'r) dworld_scheme, unit) py" where
  "save_status refresh M exc lease kv leased =
     tryP (whenP (kv \<noteq> [])
         (thenP (log_debug (ne_log M) (''KVs updated to ETCD DB '' @ py_str (JObj (map (\<lambda>(k, v). (k, JStr v)) kv))) [])
         (thenP (case lease of None \<Rightarrow> raiseP AttributeError | Some i \<Rightarrow> on_db (refresh i))
         (thenP (Ufmdb_put_multiple (ne_db M) kv leased lease) (retP ())))))
       (\<lambda>e. thenP (log_exception (ne_log M) e) (log_error (ne_log M) (exc e) []))"

text \<open>The servers of one pass; \<open>old_ip_status = new_ip_status\<close> copies the address.\<close>

definition check_servers where
  "check_servers fping l interval hb_list servers hs =
     bindP (liftP (py_iter servers)) (\<lambda>ss.
     foldP ss (hs_store hs, [], []) (check_server fping l interval hb_list (hs_new hs) (hs_new hs) servers))"

definition health_pass ::
  "'db etcd3 \<Rightarrow> (string list \<Rightarrow> (('db, 'r) dworld_scheme, string \<times> string) py) \<Rightarrow> (int \<Rightarrow> ('db, unit) py) \<Rightarrow> nenv \<Rightarrow>
   (exn \<Rightarrow> string) \<Rightarrow> int \<Rightarrow> health \<Rightarrow> (('db, 'r) dworld_scheme, health) py" where
  "health_pass E fping refresh M exc interval hs =
     bindP (tryP (bindP (Ufmdb_get_with_prefix E (ne_db M) ''/object_storage/servers'' False None None) (\<lambda>r. retP (Some r)))
       (\<lambda>e. thenP (log_error (ne_log M) ''Failed to connect to db'' []) (thenP (log_error (ne_log M) (exc e) []) (retP None)))) (\<lambda>res.
     case res of
       None \<Rightarrow> retP hs
     | Some out \<Rightarrow>
         (case out of None \<Rightarrow> thenP (log_info (ne_log M) ''===> No server found'' []) (retP hs)
          | Some j \<Rightarrow>
            if \<not> py_truth j then thenP (log_info (ne_log M) ''===> No server found'' []) (retP hs)
            else (case split_servers j of
                Inl e \<Rightarrow> thenP (log_warning (ne_log M) ''Failed to get list of servers'' [])
                  (thenP (log_error (ne_log M) (exc e) []) (retP hs))
              | Inr (hb_list, servers) \<Rightarrow>
                  if \<not> py_truth servers then retP hs
                  else bindP (check_servers fping (ne_log M) interval hb_list servers hs) (\<lambda>(store, kv, leased).
                    thenP (save_status refresh M exc (hs_lease hs) kv leased) (retP (hs\<lparr>hs_store := store\<rparr>))))))"

fun health_loop where
  "health_loop E fping refresh M exc interval 0 hs = retP hs"
| "health_loop E fping refresh M exc interval (Suc n) hs =
     bindP (health_pass E fping refresh M exc interval hs) (health_loop E fping refresh M exc interval n)"

definition health_run ::
  "'db etcd3 \<Rightarrow> (string list \<Rightarrow> (('db, 'r) dworld_scheme, string \<times> string) py) \<Rightarrow> (int \<Rightarrow> ('db, unit) py) \<Rightarrow> nenv \<Rightarrow>
   (exn \<Rightarrow> string) \<Rightarrow> int \<Rightarrow> nat \<Rightarrow> (('db, 'r) dworld_scheme, health) py" where
  "health_run E fping refresh M exc interval n =
     thenP (log_info (ne_log M) ''Start Node_Health'' [])
     (bindP (tryP (Ufmdb_lease E (ne_db M) (4 * interval) None)
         (\<lambda>e. thenP (log_error (ne_log M) ''Error in creating lease for target nodes status'' [])
           (thenP (log_error (ne_log M) (exc e) []) (retP None)))) (\<lambda>lease.
      health_loop E fping refresh M exc interval n \<lparr>hs_store = (\<lambda>_. []), hs_new = 0, hs_lease = lease\<rparr>))"

section \<open>What a pass collects\<close>

text \<open>The two names are one dictionary, so no node ever counts as changed.\<close>

lemma note_status_same: "fst (note_status a a name status store) = False"
  by (simp add: note_status_def Let_def)

definition nic_key :: "string \<Rightarrow> bool" where
  "nic_key k \<longleftrightarrow> (\<exists>u i. k = tgt_interface_key u i \<or> k = tgt_interface_crc u i)"

definition nic_only :: "string dict \<Rightarrow> bool" where
  "nic_only kv \<longleftrightarrow> (\<forall>k \<in> fst ` set kv. nic_key k)"

lemma nic_only_keys: "nic_only kv \<Longrightarrow> nic_only (nic_keys server i st crc kv)"
  by (auto simp: nic_only_def nic_keys_def keys_dict_set nic_key_def)

lemma yields_nic_lines: "nic_only kv \<Longrightarrow> yields (\<lambda>(b, kv'). nic_only kv') (nic_lines l server ips ls ifaces kv)"
proof (induction ls arbitrary: ifaces kv)
  case (Cons line ls)
  show ?case
    unfolding nic_lines.simps split_def
    by (intro yields_rules Cons.IH [unfolded split_def] nic_only_keys Cons.prems) (simp add: nic_only_keys Cons.prems)
qed (simp add: yields_ret)

lemma yields_check_interfaces: "nic_only kv \<Longrightarrow> yields (\<lambda>(b, kv'). nic_only kv') (check_interfaces fping l ifaces kv server)"
  unfolding check_interfaces_def Let_def split_def
  by (intro yields_rules yields_nic_lines [unfolded split_def]) simp_all

definition acc_ok :: "health_acc \<Rightarrow> bool" where
  "acc_ok = (\<lambda>(store, kv, leased). nic_only kv \<and> leased = [])"

lemma yields_check_server:
  assumes "acc_ok acc"
  shows "yields acc_ok (check_server fping l interval hb a a servers server acc)"
proof -
  obtain store kv leased where acc: "acc = (store, kv, leased)" by (cases acc)
  have "yields acc_ok (bindP (check_interfaces fping l ifaces kv s) (\<lambda>(status, kv').
           bindP (liftP (as_str server_name)) (\<lambda>name.
           case note_status a a name status store of (changed, store') \<Rightarrow>
             if changed then
               let v = (if status then ''up'' else ''down'') in
               thenP (log_info l (''NIC on target '' @ s @ '' has changed to '' @ v) [])
                 (retP (store', dict_set (tgt_node_key s) v kv', leased @ [tgt_node_key s]))
             else retP (store', kv', leased))))" for ifaces s server_name
  proof (rule yields_bind_with [OF yields_check_interfaces])
    show "nic_only kv" using assms acc by (simp add: acc_ok_def)
    fix x :: "bool \<times> string dict"
    assume "case x of (b, kv') \<Rightarrow> nic_only kv'"
    then show "yields acc_ok (case x of (status, kv') \<Rightarrow> bindP (liftP (as_str server_name)) (\<lambda>name.
           case note_status a a name status store of (changed, store') \<Rightarrow>
             if changed then
               let v = (if status then ''up'' else ''down'') in
               thenP (log_info l (''NIC on target '' @ s @ '' has changed to '' @ v) [])
                 (retP (store', dict_set (tgt_node_key s) v kv', leased @ [tgt_node_key s]))
             else retP (store', kv', leased)))"
      using assms acc note_status_same [of a]
      by (auto simp: acc_ok_def split: prod.splits intro!: yields_bind yields_ret) (metis fst_conv)+
  qed
  then show ?thesis
    using assms unfolding check_server_def acc Let_def
    by (auto intro!: yields_bind yields_then yields_ret split: sum.splits)
qed

lemma yields_check_servers: "yields acc_ok (check_servers fping l interval hb servers hs)"
  unfolding check_servers_def
  by (intro yields_bind yields_fold yields_check_server) (simp_all add: acc_ok_def nic_only_def)

text \<open>Interfaces that answer and were up before leave no trace: the node counts as one that does not answer.\<close>

definition answers_up :: "string dict \<Rightarrow> json \<Rightarrow> string \<Rightarrow> bool" where
  "answers_up ips ifaces line \<longleftrightarrow> py_in_str ''min/avg/max'' line \<and>
     (\<exists>i. map_of ips (py_strip (hd (py_split (CHR '':'') line))) = Some i \<and>
        bindE (py_key ifaces i) (\<lambda>n. py_key n ''Status'') = Inr (JStr ''up''))"

lemma nic_lines_up:
  assumes "\<forall>line \<in> set ls. line = [] \<or> answers_up ips ifaces line"
  shows "yields (\<lambda>r. r = (False, kv)) (nic_lines l server ips ls ifaces kv)"
  using assms
proof (induction ls)
  case (Cons line ls)
  show ?case
    using Cons.IH Cons.prems by (auto simp: answers_up_def dict_get_def bindP_liftP intro!: yields_then)
qed (simp add: yields_ret)

lemma yields_check_up:
  assumes "bindE (py_iter ifaces) (\<lambda>is. add_addresses ifaces is []) = Inr ips"
    and "\<And>c v out err v'. fping c v = (Inr (out, err), v') \<Longrightarrow>
      \<forall>line \<in> set (py_split (CHR 0x0A) err). line = [] \<or> answers_up ips ifaces line"
  shows "yields (\<lambda>r. r = (False, kv)) (check_interfaces fping l ifaces kv server)"
  unfolding check_interfaces_def assms(1) bindP_liftP Let_def
proof (intro yields_if yields_ret refl yields_bind_with [OF yields_ran])
  fix x :: "string \<times> string"
  let ?c = "py_words (''fping -q -c 3 '' @ py_join '' '' (dict_keys ips))"
  assume "\<exists>w w'. fping ?c w = (Inr x, w')"
  then have "\<forall>line \<in> set (py_split (CHR 0x0A) (snd x)). line = [] \<or> answers_up ips ifaces line"
    using assms(2) [of ?c _ "fst x" "snd x"] by auto
  then show "yields (\<lambda>r. r = (False, kv)) (case x of (out, err) \<Rightarrow>
      thenP (log_debug l ''fping cmd %s out [%s] err [%s]''
        [JStr (''fping -q -c 3 '' @ py_join '' '' (dict_keys ips)), JStr (repr_bytes out), JStr (repr_bytes err)])
      (if err = [] then retP (False, kv) else nic_lines l server ips (py_split (CHR 0x0A) err) ifaces kv))"
    unfolding split_def by (intro yields_then yields_if yields_ret refl nic_lines_up)
qed

section \<open>The database stays as it is\<close>

context etcd_frame
begin

lemma keeps_get_with_prefix: "keeps (same_keys kv P) (Ufmdb_get_with_prefix E l p raw so st)"
  unfolding Ufmdb_get_with_prefix_def
  by (intro keeps_guard fr.keeps_rules keeps_on_db) (simp add: etcd_get_prefix_def snd_bind_ret snd_ret get_prefix_kv)

lemma keeps_nic_lines: "keeps (same_keys kv P) (nic_lines l server ips ls ifaces d :: (('db, 'r) dworld_scheme, bool \<times> string dict) py)"
proof (induction ls arbitrary: ifaces d)
  case (Cons line ls)
  show ?case
    unfolding nic_lines.simps split_def
    by (intro fr.keeps_rules keeps_log_calls Cons.IH)
qed (simp add: fr.keeps_pure)

lemma keeps_check_server:
  fixes fping :: "string list \<Rightarrow> (('db, 'r) dworld_scheme, string \<times> string) py"
  assumes "\<And>c. keeps (same_keys kv P) (fping c)"
  shows "keeps (same_keys kv P) (check_server fping l interval hb old new servers server acc)"
  unfolding check_server_def check_interfaces_def Let_def split_def
  by (intro fr.keeps_rules keeps_log_calls keeps_nic_lines assms keeps_time [THEN keeps_log_same_keys])
    (auto split: sum.split intro!: fr.keeps_rules keeps_log_calls keeps_nic_lines assms)

lemma keeps_save_status:
  assumes "\<And>i d. kv (snd (refresh i d)) = kv d"
  shows "keeps (same_keys kv P) (save_status refresh M exc lease d leased)"
  unfolding save_status_def Ufmdb_put_multiple_def
  by (intro fr.keeps_rules keeps_log_calls keeps_guard keeps_on_db) (simp add: assms)

lemma keeps_health_pass:
  fixes fping :: "string list \<Rightarrow> (('db, 'r) dworld_scheme, string \<times> string) py"
  assumes "\<And>c. keeps (same_keys kv P) (fping c)" and "\<And>i d. kv (snd (refresh i d)) = kv d"
  shows "keeps (same_keys kv P) (health_pass E fping refresh M exc interval hs)"
proof -
  have "keeps (same_keys kv P) (bindP (check_servers fping l interval hb servers hs) (\<lambda>(store, d, leased).
      thenP (save_status refresh M exc (hs_lease hs) d leased) (retP (hs\<lparr>hs_store := store\<rparr>))))" for l hb servers
    unfolding check_servers_def split_def
    by (intro fr.keeps_rules keeps_check_server keeps_save_status assms)
  then show ?thesis
    unfolding health_pass_def
    by (intro fr.keeps_rules keeps_log_calls keeps_get_with_prefix)
      (auto split: sum.split intro!: fr.keeps_rules keeps_log_calls)
qed

lemma keeps_health_run:
  fixes fping :: "string list \<Rightarrow> (('db, 'r) dworld_scheme, string \<times> string) py"
  assumes "\<And>c. keeps (same_keys kv P) (fping c)" and "\<And>i d. kv (snd (refresh i d)) = kv d"
  shows "keeps (same_keys kv P) (health_run E fping refresh M exc interval n)"
proof -
  have "keeps (same_keys kv P) (health_loop E fping refresh M exc interval n hs)" for hs
    by (induction n arbitrary: hs) (auto intro!: fr.keeps_rules keeps_health_pass assms)
  then show ?thesis
    unfolding health_run_def by (intro fr.keeps_rules keeps_log_calls keeps_reads)
qed

end

end
