(* ===== verification/RedfishRest.thy ===== *)
theory RedfishRest
  imports RedfishBackend RedfishServer
begin

text \<open>
  The REST resources for fabrics, switches, ports and VLANs,
  \<^verbatim>\<open>src/ufm/fabricmanager/rest_api/redfish/{Fabric_api,Switch,Port,VLAN,util}.py\<close> with their
  templates.  Every resource exists twice: over the database, and over a dictionary
  \<^verbatim>\<open>members\<close> of the module that \<^verbatim>\<open>backend/populate.py\<close> fills (the ``emulation'').

  Parameters: the JSON body of the request with the outcome of \<^verbatim>\<open>request.get_json\<close>, the fresh
  \<^verbatim>\<open>uuid4\<close> text, and \<open>exchange\<close>, one round trip on a ZeroMQ request socket to a port.
\<close>

section \<open>Reading resources\<close>

definition FabricAPI_get where "FabricAPI_get E fab_id = guard_error (fabric_backend_get E fab_id)"
definition FabricCollectionAPI_get where "FabricCollectionAPI_get E = guard_error (fabric_collection_get E)"
definition SwitchAPI_get where "SwitchAPI_get E fab_id sw_id = guard_error (switch_backend_get E fab_id sw_id)"
definition SwitchCollectionAPI_get where
  "SwitchCollectionAPI_get E fab_id = guard_error (switch_collection_get E fab_id)"
definition PortAPI_get where
  "PortAPI_get E fab_id sw_id port_id = guard_error (port_backend_get E fab_id sw_id port_id)"
definition PortCollectionAPI_get where
  "PortCollectionAPI_get E fab_id sw_id = guard_error (port_collection_get E fab_id sw_id)"
definition VlanAPI_get where
  "VlanAPI_get E fab_id sw_id vlan_id = guard_error (vlan_backend_get E fab_id sw_id vlan_id)"
definition VlanCollectionAPI_get where
  "VlanCollectionAPI_get E fab_id sw_id = guard_error (vlan_collection_get E fab_id sw_id)"

section \<open>Posting actions\<close>

text \<open>
  \<^verbatim>\<open>post_to_switch\<close>: the port comes from the database, \<^verbatim>\<open>str(None)\<close> when there is none; any
  exception gives the failed answer.  \<open>None\<close> is a payload that \<^verbatim>\<open>json.dumps\<close> refuses.
\<close>

definition post_to_switch ::
  "'db etcd3 \<Rightarrow> (string \<Rightarrow> json \<Rightarrow> (('db, 'r) dworld_scheme, json) py) \<Rightarrow> string \<Rightarrow> json option \<Rightarrow>
   (('db, 'r) dworld_scheme, json) py" where
  "post_to_switch E exchange sw_uuid payload =
     tryP (bindP (get_mq_port E sw_uuid) (\<lambda>mq_port.
        case payload of None \<Rightarrow> raiseP TypeError
        | Some j \<Rightarrow> exchange (''tcp://localhost:'' @ (case mq_port of None \<Rightarrow> ''None'' | Some p \<Rightarrow> p)) j))
       (\<lambda>_. retP (JObj [(''Status'', JStr ''failed'')]))"

text \<open>
  \<open>data.update(payload)\<close> for a decoded body.  A list works when its elements are pairs; a pair
  with a key that is no text (\<open>None\<close> here) leaves a dictionary that \<^verbatim>\<open>json.dumps\<close> cannot sort.
\<close>

fun pair_of :: "json \<Rightarrow> exn + (string \<times> json) option" where
  "pair_of (JList [k, v]) =
     (case k of JStr s \<Rightarrow> Inr (Some (s, v)) | JList _ \<Rightarrow> Inl TypeError | JObj _ \<Rightarrow> Inl TypeError | _ \<Rightarrow> Inr None)"
| "pair_of (JStr [a, b]) = Inr (Some ([a], JStr [b]))"
| "pair_of (JObj [(k1, v1), (k2, v2)]) = Inr (Some (k1, JStr k2))"
| "pair_of (JList xs) = Inl ValueError"
| "pair_of (JStr s) = Inl ValueError"
| "pair_of (JObj d) = Inl ValueError"
| "pair_of j = Inl TypeError"

fun update_data :: "json dict \<Rightarrow> json \<Rightarrow> exn + json option" where
  "update_data d (JObj u) = Inr (Some (JObj (dict_update d u)))"
| "update_data d (JList xs) =
     bindE (mapE pair_of xs) (\<lambda>ps.
       if list_all (\<lambda>p. p \<noteq> None) ps then Inr (Some (JObj (dict_update d (map the ps)))) else Inr None)"
| "update_data d (JStr s) = (if s = [] then Inr (Some (JObj d)) else Inl ValueError)"
| "update_data d j = Inl TypeError"

definition action_data :: "string \<Rightarrow> string \<Rightarrow> (string \<times> json) \<Rightarrow> json dict" where
  "action_data act_str uuid4 extra = [(''cmd'', JStr act_str), (''request_id'', JStr uuid4), extra]"

definition post_action where
  "post_action E exchange sw_id data body =
     guard_error (bindP (liftP (bindE body (update_data data))) (post_to_switch E exchange sw_id))"

definition PortActionAPI_post where
  "PortActionAPI_post E exchange uuid4 body fab_id sw_id port_id act_str =
     post_action E exchange sw_id (action_data act_str uuid4 (''port_id'', JStr port_id)) body"

definition VlanActionAPI_post where
  "VlanActionAPI_post E exchange uuid4 body fab_id sw_id vlan_id act_str =
     post_action E exchange sw_id (action_data act_str uuid4 (''VLANId'', JStr vlan_id)) body"

definition SwitchActionAPI_post where
  "SwitchActionAPI_post E exchange uuid4 body fab_id sw_id act_str =
     post_action E exchange sw_id (action_data act_str uuid4 (''sw_id'', JStr sw_id)) body"

definition VlanCollectionActionAPI_post where
  "VlanCollectionActionAPI_post E exchange uuid4 body fab_id sw_id act_str =
     guard_error (bindP (liftP (bindE body (\<lambda>payload. py_key payload ''VLANId''))) (\<lambda>v.
       post_to_switch E exchange sw_id (Some (JObj (action_data act_str uuid4 (''VLANId'', v))))))"

section \<open>Emulated resources\<close>

text \<open>Values of the template fields; a missing one raises KeyError as \<^verbatim>\<open>str.format\<close> does.\<close>

type_synonym wildcards = "string dict"

definition get_port_instance :: "wildcards \<Rightarrow> exn + json" where
  "get_port_instance ws =
     bindE (dict_get ws ''rest_base'') (\<lambda>rb. bindE (dict_get ws ''fab_id'') (\<lambda>f.
     bindE (dict_get ws ''switch_id'') (\<lambda>s. bindE (dict_get ws ''port_id'') (\<lambda>p.
     Inr (JObj [(''@odata.context'', JStr (rb @ ''$metadata#Port.Port'')),
       (''@odata.id'', JStr (rb @ ''/Fabrics/'' @ f @ ''/Switches/'' @ s @ ''/Ports/'' @ p)),
       (''@odata.type'', JStr ''#Port.v1_2_1.Port''), (''Description'', JStr ''Port information''),
       (''Name'', JStr ''Switch Port Information''), (''Id'', JStr p)])))))"

definition get_vlan_instance :: "wildcards \<Rightarrow> exn + json" where
  "get_vlan_instance ws =
     bindE (dict_get ws ''rest_base'') (\<lambda>rb. bindE (dict_get ws ''fab_id'') (\<lambda>f.
     bindE (dict_get ws ''switch_id'') (\<lambda>s. bindE (dict_get ws ''vlan_id'') (\<lambda>v.
     Inr (JObj [(''@odata.context'', JStr (rb @ ''$metadata#VLAN.VLAN'')),
       (''@odata.id'', JStr (rb @ ''/Fabrics/'' @ f @ ''/Swtiches/'' @ s @ ''/VLANs/'' @ v)),
       (''@odata.type'', JStr ''#VLAN.v1_1_5.VLAN''), (''Description'', JStr ''VLAN information''),
       (''Name'', JStr ''Switch VLAN Information''), (''Id'', JStr v)])))))"

definition get_switch_instance :: "wildcards \<Rightarrow> exn + json" where
  "get_switch_instance ws =
     bindE (dict_get ws ''rest_base'') (\<lambda>rb. bindE (dict_get ws ''fab_id'') (\<lambda>f.
     bindE (dict_get ws ''switch_id'') (\<lambda>s.
     let path = rb @ ''Fabrics/'' @ f @ ''/Switches/'' @ s in
     Inr (JObj [(''@odata.context'', JStr (rb @ ''$metadata#Switch.Switch'')), (''@odata.id'', JStr path),
       (''@odata.type'', JStr ''#Switch.v1_3_1.Switch''), (''Id'', JStr s),
       (''Description'', JStr ''Ethernet Switch information''), (''Name'', JStr ''Switch''),
       (''SerialNumber'', JStr ''MT1935J01956''), (''UUID'', JStr ''f1ec15f8-c832-11e9-8000-b8599f784980''),
       (''Model'', JStr ''x86onie''), (''Ports'', odata (path @ ''/Ports'')), (''VLANs'', odata (path @ ''/VLANs''))]))))"

definition get_Fabric_instance :: "wildcards \<Rightarrow> exn + json" where
  "get_Fabric_instance ws =
     bindE (dict_get ws ''rest_base'') (\<lambda>rb. bindE (dict_get ws ''fab_id'') (\<lambda>f.
     Inr (JObj [(''@odata.context'', JStr (rb @ ''$metadata#Fabirc.Fabric'')),
       (''@odata.id'', JStr (rb @ ''Fabrics/'' @ f)), (''@odata.type'', JStr ''#Fabric.v1_1_1.Fabric''),
       (''Description'', JStr ''Fabric Collection''), (''Id'', JStr f),
       (''Status'', JObj [(''State'', JStr ''Enabled''), (''Health'', JStr ''OK'')]),
       (''Switches'', odata (rb @ ''Fabrics/'' @ f @ ''/Switches'')), (''Name'', JStr ''Fabric'')])))"

text \<open>\<open>if k not in d: d[k] = {}\<close>, then the value.\<close>

definition sub_dict :: "string \<Rightarrow> 'v dict dict \<Rightarrow> 'v dict" where
  "sub_dict k d = (case map_of d k of None \<Rightarrow> [] | Some x \<Rightarrow> x)"

text \<open>
  The two-level and three-level \<^verbatim>\<open>members\<close> of the modules.  The intermediate dictionaries
  stay even when the template raises.
\<close>

definition create3 ::
  "(wildcards \<Rightarrow> exn + json) \<Rightarrow> string \<Rightarrow> wildcards \<Rightarrow> (json dict dict dict, unit) py" where
  "create3 instance_of id_key ws =
     bindP (liftP (dict_get ws ''fab_id'')) (\<lambda>f.
     bindP (liftP (dict_get ws ''switch_id'')) (\<lambda>s.
     bindP (liftP (dict_get ws id_key)) (\<lambda>i.
     thenP (modifyP (\<lambda>ms. dict_set f (dict_set s (sub_dict s (sub_dict f ms)) (sub_dict f ms)) ms))
     (bindP (liftP (instance_of ws)) (\<lambda>inst.
     modifyP (\<lambda>ms. dict_set f (dict_set s (dict_set i inst (sub_dict s (sub_dict f ms))) (sub_dict f ms)) ms))))))"

definition CreatePortEmulation where "CreatePortEmulation = create3 get_port_instance ''port_id''"
definition CreateVlanEmulation where "CreateVlanEmulation = create3 get_vlan_instance ''vlan_id''"

definition CreateSwitchEmulation :: "wildcards \<Rightarrow> (json dict dict, unit) py" where
  "CreateSwitchEmulation ws =
     bindP (liftP (dict_get ws ''fab_id'')) (\<lambda>f.
     bindP (liftP (dict_get ws ''switch_id'')) (\<lambda>s.
     thenP (modifyP (\<lambda>ms. dict_set f (sub_dict f ms) ms))
     (bindP (liftP (get_switch_instance ws)) (\<lambda>inst.
     modifyP (\<lambda>ms. dict_set f (dict_set s inst (sub_dict f ms)) ms)))))"

definition CreateFabricEmulation_put :: "wildcards \<Rightarrow> string \<Rightarrow> (json dict, response) py" where
  "CreateFabricEmulation_put ws ident = guard_error
     (bindP (liftP (get_Fabric_instance (dict_set ''fab_id'' ident ws))) (\<lambda>cfg.
      thenP (modifyP (dict_set ident cfg)) (retP (Resp cfg SUCCESS))))"

definition not_found :: response where
  "not_found = Resp (JStr ''Client Error: Not Found'') NOT_FOUND"

definition emulation3_get :: "string \<Rightarrow> string \<Rightarrow> string \<Rightarrow> json dict dict dict \<Rightarrow> response" where
  "emulation3_get ident1 ident2 ident3 ms =
     (case map_of ms ident1 of None \<Rightarrow> not_found | Some d1 \<Rightarrow>
      (case map_of d1 ident2 of None \<Rightarrow> not_found | Some d2 \<Rightarrow>
       (case map_of d2 ident3 of None \<Rightarrow> not_found | Some j \<Rightarrow> Resp j SUCCESS)))"

definition PortEmulationAPI_get where "PortEmulationAPI_get = emulation3_get"
definition VlanEmulationAPI_get where "VlanEmulationAPI_get = emulation3_get"

definition SwitchEmulationAPI_get :: "string \<Rightarrow> string \<Rightarrow> json dict dict \<Rightarrow> response" where
  "SwitchEmulationAPI_get ident1 ident2 ms =
     (case map_of ms ident1 of None \<Rightarrow> not_found | Some d1 \<Rightarrow>
      (case map_of d1 ident2 of None \<Rightarrow> not_found | Some j \<Rightarrow> Resp j SUCCESS))"

definition FabricEmulationAPI_get :: "string \<Rightarrow> json dict \<Rightarrow> response" where
  "FabricEmulationAPI_get ident ms =
     (case map_of ms ident of None \<Rightarrow> Status NOT_FOUND | Some j \<Rightarrow> Resp j SUCCESS)"

text \<open>\<open>[{'@odata.id': x['@odata.id']} for x in d.values()]\<close>\<close>

definition member_links :: "json dict \<Rightarrow> exn + json list" where
  "member_links d = mapE (\<lambda>(k, j). bindE (py_key j ''@odata.id'') (\<lambda>i. Inr (JObj [(''@odata.id'', i)]))) d"

definition collection_document ::
  "string \<Rightarrow> string \<Rightarrow> string \<Rightarrow> string \<Rightarrow> string \<Rightarrow> json list \<Rightarrow> json" where
  "collection_document context path ty descr name links =
     JObj [(''@odata.context'', JStr context), (''@odata.id'', JStr path), (''@odata.type'', JStr ty),
       (''Description'', JStr descr), (''Name'', JStr name), (''Members'', JList links),
       (''Members@odata.count'', JInt (int (length links)))]"

definition PortCollectionEmulationAPI_get ::
  "string \<Rightarrow> string \<Rightarrow> string \<Rightarrow> string \<Rightarrow> (json dict dict dict, response) py" where
  "PortCollectionEmulationAPI_get rest_base suff ident1 ident2 = guard_error
     (bindP (readP id) (\<lambda>ms.
      case map_of ms ident1 of None \<Rightarrow> retP (Status NOT_FOUND) | Some d1 \<Rightarrow>
      (case map_of d1 ident2 of None \<Rightarrow> retP (Status NOT_FOUND) | Some d2 \<Rightarrow>
       bindP (liftP (member_links d2)) (\<lambda>links.
       retP (Resp (collection_document (rest_base @ ''$metadata#PortCollection.PortCollection'')
         (rest_base @ suff @ ''/'' @ ident1 @ ''/Switches/'' @ ident2 @ ''/Ports'')
         ''#PortCollection.PortCollection'' ''Collection of Ports'' ''Ports Collection'' links) SUCCESS)))))"

definition VlanCollectionEmulationAPI_get ::
  "string \<Rightarrow> string \<Rightarrow> string \<Rightarrow> string \<Rightarrow> (json dict dict dict, response) py" where
  "VlanCollectionEmulationAPI_get rest_base suff ident1 ident2 = guard_error
     (bindP (readP id) (\<lambda>ms.
      case map_of ms ident1 of None \<Rightarrow> retP (Status NOT_FOUND) | Some d1 \<Rightarrow>
      (case map_of d1 ident2 of None \<Rightarrow> retP (Status NOT_FOUND) | Some d2 \<Rightarrow>
       bindP (liftP (member_links d2)) (\<lambda>links.
       retP (Resp (collection_document (rest_base @ ''$metadata#VLANCollection.VLANCollection'')
         (rest_base @ suff @ ''/'' @ ident1 @ ''/Switches/'' @ ident2 @ ''/VLANs'')
         ''#VLANCollection.VLANCollection'' ''Collection of VLANs'' ''VLANs Collection'' links) SUCCESS)))))"

definition SwitchCollectionEmulationAPI_get ::
  "string \<Rightarrow> string \<Rightarrow> string \<Rightarrow> (json dict dict, response) py" where
  "SwitchCollectionEmulationAPI_get rest_base suff ident = guard_error
     (bindP (readP id) (\<lambda>ms.
      case map_of ms ident of None \<Rightarrow> retP (Status NOT_FOUND) | Some d1 \<Rightarrow>
       bindP (liftP (member_links d1)) (\<lambda>links.
       retP (Resp (collection_document (rest_base @ ''$metadata#SwitchCollection.SwitchCollection'')
         (rest_base @ suff @ ''/'' @ ident @ ''/Switches'')
         ''#SwitchCollection.SwitchCollection'' ''Collection of Switches'' ''Ethernet Switches Collection'' links)
         SUCCESS))))"

definition FabricCollectionEmulationAPI_get :: "string \<Rightarrow> (json dict, response) py" where
  "FabricCollectionEmulationAPI_get rb =
     bindP (readP id) (\<lambda>ms.
     bindP (liftP (member_links ms)) (\<lambda>links.
     retP (Resp (JObj [(''@odata.context'', JStr (rb @ ''$metadata#FabricCollection.FabricCollection'')),
         (''@odata.id'', JStr (rb @ ''Fabrics'')), (''@odata.type'', JStr ''#FabricCollection.FabricCollection''),
         (''Description'', JStr ''Collection of Fabrics''), (''Members@odata.count'', JInt (int (length ms))),
         (''Name'', JStr ''Fabric Collection''), (''Members'', JList links)]) SUCCESS)))"

end
