(* ===== verification/RedfishResponses.thy ===== *)
theory RedfishResponses
  imports Json
begin

text \<open>
  The documents of the Redfish tree, \<^verbatim>\<open>src/ufm/fabricmanager/common/ufmdb/redfish/redfish_responses.py\<close>:
  one dictionary per entry of \<^verbatim>\<open>redfish_responses\<close>, named after its number.  The code copies an entry
  and fills it; theory \<open>RedfishTree\<close> does.
\<close>

definition resp_1 :: "json dict" where
  "resp_1 =
     [(''@odata.context'', JStr ''/redfish/v1/$metadata#ServiceRoot.ServiceRoot''),
      (''@odata.type'', JStr ''#ServiceRoot.v1_0_0.ServiceRoot''), (''@odata.id'', JStr ''/redfish/v1''),
      (''Id'', JStr ''RootService''), (''Name'', JStr ''Root Service''),
      (''ProtocolFeaturesSupported'', JObj [(''ExpandQuery'', JObj [(''ExpandAll'', JBool False)]),
      (''SelectQuery'', JBool False)]), (''RedfishVersion'', JStr ''1.8.0''), (''UUID'', JStr ''None''),
      (''Vendor'', JStr ''Samsung''), (''JSONSchemas'', JObj [(''@odata.id'', JStr ''/redfish/v1/JSONSchemas'')]),
      (''Systems'', JObj [(''@odata.id'', JStr ''/redfish/v1/Systems'')]),
      (''Managers'', JObj [(''@odata.id'', JStr ''/redfish/v1/Managers'')]),
      (''Fabrics'', JObj [(''@odata.id'', JStr ''/redfish/v1/Fabrics'')])]"

definition resp_1_1 :: "json dict" where
  "resp_1_1 =
     [(''@odata.context'', JStr ''/redfish/v1/$metadata#ComputerSystemCollection.ComputerSystemCollection''),
      (''@odata.type'', JStr ''#ComputerSystemCollection.ComputerSystemCollection''), (''@odata.id'', JStr ''''),
      (''Description'', JStr ''Collection of Computer Systems''), (''Members'', JList []), (''Members@odata.count'', JInt 0),
      (''Name'', JStr ''System Collection'')]"

definition resp_1_2 :: "json dict" where
  "resp_1_2 =
     [(''@odata.id'', JStr ''/redfish/v1/JSONSchemas''),
      (''id'', JStr ''http://redfish.dmtf.org/schemas/v1/redfish-schema.v1_2_0''), (''type'', JStr ''object''),
      (''$schema'', JStr ''http://redfish.dmtf.org/schemas/v1/redfish-schema.v1_2_0''),
      (''title'', JStr ''Redfish Schema Extension''),
      (''description'', JStr ''The properties defined in this schema shall adhere to the requirements of the Redfish Specification and the semantics of the descriptions in this file.''),
      (''allOf'', JList [JObj [(''$ref'', JStr ''http://json-schema.org/draft-04/schema'')]]),
      (''definitions'', JObj [(''readonly'', JObj [(''type'', JStr ''boolean''),
      (''description'', JStr ''This property shall designate a property to be readonly when set to true.'')]),
      (''requiredOnCreate'', JObj [(''type'', JStr ''array''), (''items'', JObj [(''type'', JStr ''boolean'')]),
      (''description'', JStr ''This property is required to be specified in the body of a POST request to create the resource.'')]),
      (''longDescription'', JObj [(''type'', JStr ''string''),
      (''description'', JStr ''This attribute shall contain normative language relating to the Redfish Specification and documentation.'')]),
      (''copyright'', JObj [(''type'', JStr ''string''),
      (''description'', JStr ''This attribute shall contain the copyright notice for the schema.'')]),
      (''deprecated'', JObj [(''type'', JStr ''string''),
      (''description'', JStr ''The term shall be applied to a property in order to specify that the property is deprecated.  The value of the string should explain the deprecation, including new property or properties to be used. The property can be supported in new and existing implementations, but usage in new implementations is discouraged.  Deprecated properties are likely to be removed in a future major version of the schema.'')]),
      (''enumDescriptions'', JObj [(''type'', JStr ''object''),
      (''description'', JStr ''This attribute shall contain informative language related to the enumeration values of the property.'')]),
      (''enumLongDescriptions'', JObj [(''type'', JStr ''object''),
      (''description'', JStr ''This attribute shall contain normative language relating to the enumeration values of the property.'')]),
      (''enumDeprecated'', JObj [(''type'', JStr ''object''),
      (''description'', JStr ''The term shall be applied to a value in order to specify that the value is deprecated.  The value of the string should explain the deprecation, including new value to be used.  The value can be supported in new and existing implementations, but usage in new implementations is discouraged.  Deprecated values are likely to be removed in a future major version of the schema.'')]),
      (''units'', JObj [(''type'', JStr ''string''),
      (''description'', JStr ''This attribute shall contain the units of measure used by the value of the property.'')])]),
      (''properties'', JObj [(''readonly'', JObj [(''$ref'', JStr ''#/definitions/readonly'')]),
      (''longDescription'', JObj [(''$ref'', JStr ''#/definitions/longDescription'')]),
      (''copyright'', JObj [(''$ref'', JStr ''#/definitions/copyright'')]),
      (''enumDescriptions'', JObj [(''$ref'', JStr ''#/definitions/enumDescriptions'')]),
      (''enumLongDescriptions'', JObj [(''$ref'', JStr ''#/definitions/enumLongDescriptions'')]),
      (''units'', JObj [(''$ref'', JStr ''#/definitions/units'')])])]"

definition resp_1_3 :: "json dict" where
  "resp_1_3 =
     [(''@odata.context'', JStr ''/redfish/v1/$metadata#ManagerCollection.ManagerCollection''),
      (''@odata.type'', JStr ''#ManagerCollection.ManagerCollection''), (''@odata.id'', JStr ''/redfish/v1/Managers''),
      (''Name'', JStr ''Manager Collection''), (''Description'', JStr ''Collection of Managers''),
      (''Members'', JList [JObj [(''@odata.id'', JStr ''/redfish/v1/Managers/ufm'')]]), (''Members@odata.count'', JInt 1)]"

definition resp_1_1_1 :: "json dict" where
  "resp_1_1_1 =
     [(''@odata.context'', JStr ''/redfish/v1/$metadata#ComputerSystem.ComputerSystem''),
      (''@odata.type'', JStr ''#ComputerSystem.v1_9_0.ComputerSystem''), (''@odata.id'', JStr ''''),
      (''Description'', JStr ''System containing subsystem(s)''), (''Id'', JStr ''''),
      (''Identifiers'', JList [JObj [(''DurableName'', JStr ''''), (''DurableNameFormat'', JStr ''UUID'')]]),
      (''IPv4Addresses'', JList [JObj [(''Address'', JStr ''''), (''SubnetMask'', JStr ''''), (''AddressOrigin'', JStr ''''),
      (''Gateway'', JStr '''')]]), (''IPv6DefaultGateway'', JStr ''''), (''IPv6Addresses'', JList [JObj [(''Address'', JStr ''''),
      (''PrefixLength'', JInt 0), (''AddressOrigin'', JStr ''''), (''AddressState'', JStr '''')]]),
      (''Links'', JObj [(''SupplyingComputerSystems'', JList [])])]"

definition resp_1_1_2 :: "json dict" where
  "resp_1_1_2 =
     [(''@odata.context'', JStr ''/redfish/v1/$metadata#ComputerSystem.ComputerSystem''), (''@odata.id'', JStr ''''),
      (''@odata.type'', JStr ''#ComputerSystem.v1_9_0.ComputerSystem''),
      (''Description'', JStr ''System representing the drive resources''), (''Id'', JStr ''''),
      (''Identifiers'', JList [JObj [(''DurableName'', JStr ''''), (''DurableNameFormat'', JStr ''NQN'')]]),
      (''Status'', JObj [(''State'', JStr ''Enabled''), (''Health'', JStr ''OK'')]), (''Storage'', JObj []),
      (''EthernetInterfaces'', JObj []), (''Name'', JStr ''System''), (''oem'', JObj []),
      (''Links'', JObj [(''ConsumingComputerSystems'', JList [])])]"

definition resp_1_1_2_1 :: "json dict" where
  "resp_1_1_2_1 =
     [(''@odata.context'', JStr ''/redfish/v1/$metadata#StorageCollection.StorageCollection''),
      (''@odata.type'', JStr ''#StorageCollection.StorageCollection''), (''@odata.id'', JStr ''''),
      (''Description'', JStr ''Collection of Storage information''), (''Members'', JList []), (''Members@odata.count'', JInt 0),
      (''Name'', JStr ''Storage Collection''), (''oem'', JObj [])]"

definition resp_1_1_2_1_1 :: "json dict" where
  "resp_1_1_2_1_1 =
     [(''@odata.context'', JStr ''/redfish/v1/$metadata#Storage.Storage''), (''@odata.type'', JStr ''Storage.v1_8_0.Storage''),
      (''@odata.id'', JStr ''''), (''Id'', JStr ''''), (''Description'', JStr ''Storage information''), (''Drives'', JList []),
      (''Name'', JStr ''Storage''), (''oem'', JObj [])]"

definition resp_1_1_2_1_1_1 :: "json dict" where
  "resp_1_1_2_1_1_1 =
     [(''@odata.context'', JStr ''/redfish/v1/$metadata#DriveCollection.DriveCollection''), (''@odata.id'', JStr ''''),
      (''@odata.type'', JStr ''#DriveCollection.DriveCollection''), (''Description'', JStr ''Collection of drives''),
      (''Members'', JList []), (''Members@odata.count'', JInt 0), (''Name'', JStr ''Drive Collection'')]"

definition resp_1_1_2_1_1_1_1 :: "json dict" where
  "resp_1_1_2_1_1_1_1 =
     [(''@odata.context'', JStr ''/redfish/v1/$metadata#Drive.Drive''), (''@odata.type'', JStr ''Drive.v1_8_0.Drive''),
      (''@odata.id'', JStr ''''), (''Description'', JStr ''Drive Information''), (''Name'', JStr ''Storage Drive Information''),
      (''BlockSizeBytes'', JInt 512), (''CapacityBytes'', JInt 0), (''Id'', JStr ''''), (''Manufacturer'', JStr ''''),
      (''MediaType'', JStr ''''), (''Model'', JStr ''''), (''Protocol'', JStr ''''), (''Revision'', JStr ''''),
      (''SerialNumber'', JStr ''''), (''oem'', JObj [])]"

definition resp_1_1_2_2 :: "json dict" where
  "resp_1_1_2_2 =
     [(''@odata.context'', JStr ''/redfish/v1/$metadata#EthernetInterfaceCollection.EthernetInterfaceCollection''),
      (''@odata.type'', JStr ''#EthernetInterfaceCollection.EthernetInterfaceCollection''), (''@odata.id'', JStr ''''),
      (''Description'', JStr ''Collection of Ethernet Interfaces''), (''Members'', JList []), (''Members@odata.count'', JInt 0),
      (''Name'', JStr ''Ethernet interfaces Collection'')]"

definition resp_1_1_2_2_1 :: "json dict" where
  "resp_1_1_2_2_1 =
     [(''@odata.context'', JStr ''/redfish/v1/$metadata#EthernetInterface.EthernetInterface''),
      (''@odata.type'', JStr ''#EthernetInterface.v1_5_1.EthernetInterface''), (''@odata.id'', JStr ''''),
      (''Name'', JStr ''Ethernet Interface''), (''Description'', JStr ''Ethernet Interface information''), (''Id'', JStr ''''),
      (''LinkStatus'', JStr ''''), (''MACAddress'', JStr ''''), (''SpeedMbps'', JInt 0),
      (''IPv4Addresses'', JList [JObj [(''Address'', JStr ''''), (''SubnetMask'', JStr ''''), (''AddressOrigin'', JStr ''''),
      (''Gateway'', JStr ''''), (''oem'', JObj [(''Port'', JInt 0), (''SupportedProtocol'', JStr '''')])]]),
      (''IPv6DefaultGateway'', JStr ''''), (''IPv6Addresses'', JList [JObj [(''Address'', JStr ''''), (''PrefixLength'', JInt 0),
      (''AddressOrigin'', JStr ''''), (''AddressState'', JStr ''''), (''oem'', JObj [(''Port'', JInt 0),
      (''SupportedProtocol'', JStr '''')])]])]"

definition resp_1_3_1 :: "json dict" where
  "resp_1_3_1 =
     [(''@odata.context'', JStr ''/redfish/v1/$metadata#UFM.v1_0_0.UFM''), (''@odata.type'', JStr ''##UFM.v1_0_0.UFM''),
      (''@odata.id'', JStr ''/redfish/v1/Managers/ufm''), (''Id'', JStr ''UFM''), (''Name'', JStr ''UFM System Manager''),
      (''UUID'', JStr ''''), (''LogServices'', JObj [(''@odata.id'', JStr ''/redfish/v1/Managers/ufm/LogServices'')]),
      (''Actions'', JObj [(''#Ufm.Reset'', JObj [(''target'', JStr ''/redfish/v1/Managers/ufm/Actions/Ufm.Reset''),
      (''ResetType@Redfish.AllowableValues'', JList [JStr ''ForceOff'', JStr ''ForceRestart''])])])]"

definition resp_1_3_1_1 :: "json dict" where
  "resp_1_3_1_1 =
     [(''@odata.context'', JStr ''/redfish/v1/$metadata#LogServiceCollection.LogServiceCollection''),
      (''@odata.type'', JStr ''#LogServiceCollection.LogServiceCollection''),
      (''@odata.id'', JStr ''/redfish/v1/Managers/ufm/LogServices''), (''Name'', JStr ''Log Service Collection''),
      (''Description'', JStr ''Collection of Log Services for UFM Manager''),
      (''Members'', JList [JObj [(''@odata.id'', JStr ''/redfish/v1/Managers/ufm/LogServices/Log'')]]),
      (''Members@odata.count'', JInt 1)]"

definition resp_1_3_1_1_1 :: "json dict" where
  "resp_1_3_1_1_1 =
     [(''@odata.context'', JStr ''/redfish/v1/$metadata#LogServices.v1_1_0.LogServices''),
      (''@odata.type'', JStr ''#LogServices.v1_1_0.LogServices''),
      (''@odata.id'', JStr ''/redfish/v1/Managers/ufm/LogServices/Log''), (''Id'', JStr ''Log''),
      (''Name'', JStr ''UFM Log Services''), (''MaxNumberOfRecords'', JInt 1000), (''Oem'', JObj []),
      (''OverWritePolicy'', JStr ''WrapsWhenFull''),
      (''Actions'', JObj [(''#LogService.ClearLog'', JObj [(''target'', JStr ''/redfish/v1/Managers/ufm/LogServices/Log/Actions/LogService.ClearLog'')]),
      (''#LogService.Entries'', JObj [(''target'', JStr ''/redfish/v1/Managers/ufm/LogServices/Log/Actions/LogService.Entries'')]),
      (''#LogService.GetMask'', JObj [(''target'', JStr ''/redfish/v1/Managers/ufm/LogServices/Log/Actions/LogService.GetMask''),
      (''@Redfish.ActionInfo'', JStr ''/redfish/v1/Managers/ufm/LogServices/Log/GetMaskActionInfo'')]),
      (''#LogService.SetMask'', JObj [(''target'', JStr ''/redfish/v1/Managers/ufm/LogServices/Log/Actions/LogService.SetMask''),
      (''@Redfish.ActionInfo'', JStr ''/redfish/v1/Managers/ufm/LogServices/Log/SetMaskActionInfo'')]),
      (''#LogService.GetRegistry'', JObj [(''target'', JStr ''/redfish/v1/Managers/ufm/LogServices/Log/Actions/LogService.GetRegistry'')])])]"

definition resp_1_3_1_1_1_2 :: "json dict" where
  "resp_1_3_1_1_1_2 =
     [(''@odata.context'', JStr ''/redfish/v1/$metadata#ActionInfo.v1_1_0.ActionInfo''),
      (''@odata.type'', JStr ''#ActionInfo.v1_1_0.ActionInfo''),
      (''@odata.id'', JStr ''/redfish/v1/Managers/ufm/LogServices/Log/SetMaskActionInfo''), (''Id'', JStr ''SetMaskActionInfo''),
      (''Name'', JStr ''Set Mask Action Info''), (''Parameters'', JList [JObj [(''Name'', JStr ''ErrorMask''),
      (''Required'', JBool False), (''DataType'', JStr ''number''), (''MinimumValue'', JInt 0),
      (''MaximumValue'', JInt 4294967295)], JObj [(''Name'', JStr ''WarningMask''), (''Required'', JBool False),
      (''DataType'', JStr ''number''), (''MinimumValue'', JInt 0),
      (''MaximumValue'', JInt 4294967295)], JObj [(''Name'', JStr ''InfoMask''), (''Required'', JBool False),
      (''DataType'', JStr ''number''), (''MinimumValue'', JInt 0),
      (''MaximumValue'', JInt 4294967295)], JObj [(''Name'', JStr ''DebugMask''), (''Required'', JBool False),
      (''DataType'', JStr ''number''), (''MinimumValue'', JInt 0),
      (''MaximumValue'', JInt 4294967295)], JObj [(''Name'', JStr ''DetailMask''), (''Required'', JBool False),
      (''DataType'', JStr ''number''), (''MinimumValue'', JInt 0), (''MaximumValue'', JInt 4294967295)]])]"

definition resp_1_3_1_1_1_3 :: "json dict" where
  "resp_1_3_1_1_1_3 =
     [(''@odata.context'', JStr ''/redfish/v1/$metadata#ActionInfo.v1_1_0.ActionInfo''),
      (''@odata.type'', JStr ''#ActionInfo.v1_1_0.ActionInfo''),
      (''@odata.id'', JStr ''/redfish/v1/Managers/ufm/LogServices/Log/GetMaskActionInfo''), (''Id'', JStr ''GetMaskActionInfo''),
      (''Name'', JStr ''Get Mask Action Info''), (''Parameters'', JList [JObj [(''Name'', JStr ''MaskType''),
      (''Required'', JBool True), (''DataType'', JStr ''string''),
      (''AllowableValues'', JList [JStr ''All'', JStr ''ErrorMask'', JStr ''WarningMask'', JStr ''InfoMask'', JStr ''DebugMask'', JStr ''DetailMask''])]])]"

definition resp_1_4 :: "json dict" where
  "resp_1_4 =
     [(''@odata.context'', JStr ''/redfish/v1/$metadata#FabricCollection.FabricCollection''),
      (''@odata.type'', JStr ''#FabricCollection.FabricCollection''), (''@odata.id'', JStr ''/redfish/v1/Fabrics''),
      (''Name'', JStr ''Fabric Collection''), (''Description'', JStr ''Collection of Fabrics''), (''Members'', JList []),
      (''Members@odata.count'', JInt 0)]"

definition resp_1_4_1 :: "json dict" where
  "resp_1_4_1 =
     [(''@odata.context'', JStr ''/redfish/v1/$metadata#Fabric.v1_1_1.Fabric''),
      (''@odata.type'', JStr ''##Fabric.v1_1_1.Fabric''), (''@odata.id'', JStr ''''), (''Id'', JStr ''''),
      (''Name'', JStr ''Fabric''), (''Switches'', JObj [])]"

definition resp_1_4_1_1 :: "json dict" where
  "resp_1_4_1_1 =
     [(''@odata.context'', JStr ''/redfish/v1/$metadata#SwitchCollection.SwitchCollection''),
      (''@odata.type'', JStr ''#SwitchCollection.SwitchCollection''), (''@odata.id'', JStr ''''),
      (''Name'', JStr ''Switch Collection''), (''Description'', JStr ''Collection of Switch information''),
      (''Members'', JList []), (''Members@odata.count'', JInt 0)]"

definition resp_1_4_1_1_1 :: "json dict" where
  "resp_1_4_1_1_1 =
     [(''@odata.context'', JStr ''/redfish/v1/$metadata#Switch.Switch''), (''@odata.type'', JStr ''#Switch.v1_3_1.Switch''),
      (''@odata.id'', JStr ''''), (''Id'', JStr ''''), (''Name'', JStr ''Switch''), (''Description'', JStr ''Switch information''),
      (''Ports'', JObj []), (''VLANs'', JObj [])]"

definition resp_1_4_1_1_1_1 :: "json dict" where
  "resp_1_4_1_1_1_1 =
     [(''@odata.context'', JStr ''/redfish/v1/$metadata#PortCollection.PortCollection''),
      (''@odata.type'', JStr ''#PortCollection.PortCollection''), (''@odata.id'', JStr ''''), (''Name'', JStr ''Port Collection''),
      (''Description'', JStr ''Collection of Port information''), (''Memners'', JList []), (''Memners@odata.count'', JInt 0)]"

definition resp_1_4_1_1_1_1_1 :: "json dict" where
  "resp_1_4_1_1_1_1_1 =
     [(''@odata.context'', JStr ''/redfish/v1/$metadata#Port.Port''), (''@odata.type'', JStr ''#Port.v1_2_1.Port''),
      (''@odata.id'', JStr ''''), (''Id'', JStr ''''), (''Name'', JStr ''Port''), (''Description'', JStr ''Port information'')]"

definition resp_1_4_1_1_1_2 :: "json dict" where
  "resp_1_4_1_1_1_2 =
     [(''@odata.context'', JStr ''/redfish/v1/$metadata#VLANCollection.VLANCollection''),
      (''@odata.type'', JStr ''#VLANCollection.VLANCollection''), (''@odata.id'', JStr ''''), (''Name'', JStr ''VLAN Collection''),
      (''Description'', JStr ''Collection of VLAN information''), (''Memners'', JList []), (''Memners@odata.count'', JInt 0)]"

definition resp_1_4_1_1_1_2_1 :: "json dict" where
  "resp_1_4_1_1_1_2_1 =
     [(''@odata.context'', JStr ''/redfish/v1/$metadata#VLAN.VLAN''), (''@odata.type'', JStr ''#VLAN.v1_1_5.VLAN''),
      (''@odata.id'', JStr ''''), (''Id'', JStr ''''), (''Name'', JStr ''VLAN''), (''Description'', JStr ''VLAN information'')]"

end
