(* ===== verification/RedfishTree.thy ===== *)
theory RedfishTree
  imports RedfishResponses LogActions NodeMonitor
begin

text \<open>
  The Redfish tree of the storage systems, \<^verbatim>\<open>src/ufm/fabricmanager/common/ufmdb/redfish/\<close>:
  \<^verbatim>\<open>redfish_resource.py\<close> (the objects read from the database) and \<^verbatim>\<open>redfish_ufmdb.py\<close> (the
  class \<^verbatim>\<open>RedfishUfmdb\<close>, which reads them, builds one document per URL and answers requests).

  The objects are records.  The code appends an object to its list before it fills it; a pass that
  raises leaves such objects behind, but every later pass starts with empty lists and no request
  reads them, so the model adds an object when it is complete.  Documents that the code puts into the
  tree first and changes afterwards are put in with their final content.

  Parameters (record \<open>rfenv\<close>): the loggers, the identifier of the root, \<open>re_percent\<close> for the floating point
  value \<^verbatim>\<open>(1.0 - u / c) * 100\<close>, and \<open>re_later\<close>, \<open>re_left\<close> for the comparison and the difference of the
  floating point times.

  Lemmas: a request is always answered; when the tree stays empty.
\<close>

section \<open>redfish\_resource\<close>

record interface =
  if_mac :: string
  if_name :: string
  if_port :: int
  if_speed :: int
  if_type :: string
  if_status :: string
  ip4_intf :: "string list"
  ip6_intf :: "string list"

record drive =
  dv_uuid :: string
  dv_block_size :: int
  dv_capacity :: int
  dv_utilization :: int
  dv_percent_avail :: json
  dv_manufacturer :: string
  dv_type :: string
  dv_model :: string
  dv_protocol :: string
  dv_revision :: string
  dv_sn :: string

record storage =
  st_uuid :: string
  st_capacity :: int
  st_utilization :: int
  st_percent_avail :: json
  st_drives :: "drive list"

record subsystem =
  ss_name :: string
  ss_uuid :: string
  ss_nqn :: string
  ss_numa_aligned :: bool
  ss_capacity :: int
  ss_utilization :: int
  ss_percent_avail :: json
  ss_storage :: "storage list"
  ss_interfaces :: "interface list"
  ss_servername :: string
  ss_nsid :: int

record rsystem =
  sy_uuid :: string
  sy_subsystems :: "subsystem list"

record port =
  pt_id :: string
  pt_status :: string

record switch =
  sc_id :: string
  sc_UUID :: string
  sc_ports :: "port list"
  sc_vlans :: "string list"

record fabric =
  fb_id :: string
  fb_switches :: "switch list"

definition interface_new :: interface where
  "interface_new = \<lparr>if_mac = [], if_name = [], if_port = 0, if_speed = 0, if_type = [], if_status = [], ip4_intf = [], ip6_intf = []\<rparr>"

definition drive_new :: drive where
  "drive_new = \<lparr>dv_uuid = [], dv_block_size = 512, dv_capacity = 0, dv_utilization = 0, dv_percent_avail = JInt 0,
     dv_manufacturer = [], dv_type = [], dv_model = [], dv_protocol = [], dv_revision = [], dv_sn = []\<rparr>"

definition storage_new :: storage where
  "storage_new = \<lparr>st_uuid = [], st_capacity = 0, st_utilization = 0, st_percent_avail = JInt 0, st_drives = []\<rparr>"

definition subsystem_new :: "string \<Rightarrow> subsystem" where
  "subsystem_new u = \<lparr>ss_name = [], ss_uuid = u, ss_nqn = [], ss_numa_aligned = False, ss_capacity = 0, ss_utilization = 0,
     ss_percent_avail = JInt 0, ss_storage = [], ss_interfaces = [], ss_servername = [], ss_nsid = 0\<rparr>"

section \<open>RedfishUfmdb: reading the database\<close>

record rfenv =
  re_db :: logger
  re_log :: logger
  re_root_uuid :: string
  re_auto_update :: bool
  re_percent :: "int \<Rightarrow> int \<Rightarrow> json"
  re_later :: "pytime \<Rightarrow> pytime option \<Rightarrow> bool"
  re_left :: "pytime option \<Rightarrow> pytime \<Rightarrow> int"

record 'db rworld = "'db dworld" +
  rf_tree :: "json dict"
  rf_systems :: "rsystem list"
  rf_fabrics :: "fabric list"
  rf_expiration :: "pytime option"

definition rf_query :: "'db etcd3 \<Rightarrow> rfenv \<Rightarrow> string \<Rightarrow> (('db, 'r) dworld_scheme, string dict) py" where
  "rf_query E R q =
     bindP (Ufmdb_get_prefix E (re_db R) q []) (\<lambda>r1.
     bindP (case r1 of
         None \<Rightarrow> thenP (log_error (re_log R) ''get_prefix(\"%s\") failed.  Retrying...'' [JStr q]) (Ufmdb_get_prefix E (re_db R) q [])
       | Some it \<Rightarrow> retP (Some it)) (\<lambda>r2.
     case r2 of
       None \<Rightarrow> thenP (log_error (re_log R) ''get_prefix(\"%s\") retry failed. Exiting.'' [JStr q]) (retP [])
     | Some it \<Rightarrow> liftP (iter_dict it [])))"

definition server_path :: "string \<Rightarrow> string" where
  "server_path u = ''/object_storage/servers/'' @ u"

definition subsystems_path :: "string \<Rightarrow> string" where
  "subsystems_path u = server_path u @ ''/kv_attributes/config/subsystems/''"

definition link_status :: "string dict \<Rightarrow> string \<Rightarrow> string" where
  "link_status d st0 =
     foldl (\<lambda>st (k, v). if py_in_str ''Status'' k then
         (if v = ''up'' then ''LinkUp'' else if v = ''down'' then ''LinkDown'' else ''NoLink'') else st) st0 d"

definition numa_flag :: "string dict \<Rightarrow> bool \<Rightarrow> exn + bool" where
  "numa_flag d b0 =
     foldE (\<lambda>(k, v) b. if py_in_str ''numa_aligned'' k then bindE (py_int_str v) (\<lambda>i. Inr (i = 1)) else Inr b) d b0"

text \<open>One key of a transport address; the tests are independent of each other.\<close>

definition interface_field :: "string \<Rightarrow> string \<times> string \<Rightarrow> interface \<Rightarrow> exn + interface" where
  "interface_field traddr = (\<lambda>(k, v) i0.
     let i1 = (if py_in_str ''adrfam'' k then
           (if v = ''IPv4'' then i0\<lparr>ip4_intf := ip4_intf i0 @ [traddr]\<rparr>
            else if v = ''IPv6'' then i0\<lparr>ip6_intf := ip6_intf i0 @ [traddr]\<rparr> else i0)
         else i0) in
     bindE (if py_in_str ''trsvcid'' k then bindE (py_int_str v) (\<lambda>p. Inr (i1\<lparr>if_port := p\<rparr>)) else Inr i1) (\<lambda>i2.
     let i3 = (if py_in_str ''trtype'' k then i2\<lparr>if_type := v\<rparr> else i2) in
     if py_in_str ''interface_speed'' k then bindE (py_int_str v) (\<lambda>s. Inr (i3\<lparr>if_speed := s\<rparr>)) else Inr i3))"

definition read_interface ::
  "'db etcd3 \<Rightarrow> rfenv \<Rightarrow> string \<Rightarrow> string \<times> string \<Rightarrow> subsystem \<Rightarrow> (('db, 'r) dworld_scheme, subsystem) py" where
  "read_interface E R sys_uuid = (\<lambda>(transport_key, traddr) ss.
     if \<not> py_in_str ''traddr'' transport_key then retP ss
     else bindP (liftP (py_nth (py_split (CHR ''/'') transport_key) 9)) (\<lambda>mac.
       bindP (rf_query E R (server_path sys_uuid @ ''/server_attributes/network/interfaces/'' @ mac @ ''/Status'')) (\<lambda>st.
       bindP (rf_query E R (subsystems_path sys_uuid @ ss_nqn ss)) (\<lambda>sub_attrs.
       bindP (liftP (numa_flag sub_attrs (ss_numa_aligned ss))) (\<lambda>numa.
       bindP (rf_query E R (subsystems_path sys_uuid @ ss_nqn ss @ ''/transport_addresses/'' @ mac)) (\<lambda>tran_mac.
       bindP (liftP (foldE (interface_field traddr) tran_mac
           (interface_new\<lparr>if_mac := mac, if_name := mac, if_status := link_status st []\<rparr>))) (\<lambda>intr.
       retP (ss\<lparr>ss_numa_aligned := numa, ss_interfaces := ss_interfaces ss @ [intr]\<rparr>))))))))"

definition read_subsystem ::
  "'db etcd3 \<Rightarrow> rfenv \<Rightarrow> string \<Rightarrow> string dict \<Rightarrow> string \<times> string \<Rightarrow> subsystem list \<Rightarrow> (('db, 'r) dworld_scheme, subsystem list) py" where
  "read_subsystem E R sys_uuid target_dict = (\<lambda>(ss_key, name) acc.
     if \<not> py_in_str ''UUID'' ss_key then retP acc
     else bindP (liftP (py_nth (py_split (CHR ''/'') ss_key) 7)) (\<lambda>nqn.
       let ss = (subsystem_new (sys_uuid @ ''.'' @ name))\<lparr>ss_nqn := nqn, ss_name := name,
             ss_servername := (case map_of target_dict (server_path sys_uuid @ ''/server_attributes/identity/Hostname'') of
                None \<Rightarrow> [] | Some n \<Rightarrow> n), ss_nsid := 1\<rparr> in
       bindP (rf_query E R (subsystems_path sys_uuid @ nqn @ ''/transport_addresses/'')) (\<lambda>transports.
       bindP (foldP transports ss (read_interface E R sys_uuid)) (\<lambda>ss'. retP (acc @ [ss'])))))"

text \<open>One key of a drive; the first test that holds decides.\<close>

definition drive_field :: "string \<Rightarrow> string \<times> string \<Rightarrow> drive \<Rightarrow> exn + drive" where
  "drive_field sn = (\<lambda>(k, v) d0.
     let d = d0\<lparr>dv_uuid := sn, dv_sn := sn, dv_protocol := ''NVMeOverFabrics'', dv_manufacturer := ''Samsung'', dv_type := ''SSD''\<rparr> in
     if py_in_str ''LogiocalBlockSize'' k then bindE (py_int_str v) (\<lambda>i. Inr (d\<lparr>dv_block_size := i\<rparr>))
     else if py_in_str ''Model'' k then
       (let m = py_split (CHR '' '') v in Inr (d\<lparr>dv_model := (if length m > 1 then m ! 1 else m ! 0)\<rparr>))
     else if py_in_str ''FirmwareRevision'' k then Inr (d\<lparr>dv_revision := v\<rparr>)
     else if py_in_str ''DiskCapacityInBytes'' k then bindE (py_int_str v) (\<lambda>i. Inr (d\<lparr>dv_capacity := i\<rparr>))
     else if py_in_str ''DiskUtilizationInBytes'' k then bindE (py_int_str v) (\<lambda>i. Inr (d\<lparr>dv_utilization := i\<rparr>))
     else if py_in_str ''DiskUtilizationPercentage'' k then Inr (d\<lparr>dv_percent_avail := JStr v\<rparr>)
     else Inr d)"

definition devices_path :: "string \<Rightarrow> string" where
  "devices_path u = server_path u @ ''/server_attributes/storage/nvme/devices/''"

definition read_drive ::
  "'db etcd3 \<Rightarrow> rfenv \<Rightarrow> string \<Rightarrow> string \<times> string \<Rightarrow> storage \<Rightarrow> (('db, 'r) dworld_scheme, storage) py" where
  "read_drive E R sys_uuid = (\<lambda>(device_key, sn) st.
     if \<not> py_in_str ''Serial'' device_key then retP st
     else bindP (rf_query E R (devices_path sys_uuid @ sn)) (\<lambda>info.
       bindP (liftP (foldE (drive_field sn) info drive_new)) (\<lambda>drv.
       retP (st\<lparr>st_drives := st_drives st @ [drv], st_capacity := st_capacity st + dv_capacity drv,
         st_utilization := st_utilization st + dv_utilization drv\<rparr>))))"

definition percent_avail :: "rfenv \<Rightarrow> int \<Rightarrow> int \<Rightarrow> exn + json" where
  "percent_avail R utilization capacity = (if capacity = 0 then Inl ZeroDivisionError else Inr (re_percent R utilization capacity))"

definition storage_uuid :: "string dict \<Rightarrow> string" where
  "storage_uuid attrs = foldl (\<lambda>u (k, v). if py_in_str ''Hostname'' k then hd (py_split (CHR ''.'') v) else u) [] attrs"

definition read_storage :: "'db etcd3 \<Rightarrow> rfenv \<Rightarrow> string \<Rightarrow> (('db, 'r) dworld_scheme, storage) py" where
  "read_storage E R sys_uuid =
     bindP (rf_query E R (server_path sys_uuid @ ''/server_attributes/identity/Hostname'')) (\<lambda>attrs.
     bindP (rf_query E R (devices_path sys_uuid)) (\<lambda>devices.
     bindP (foldP devices (storage_new\<lparr>st_uuid := storage_uuid attrs\<rparr>) (read_drive E R sys_uuid)) (\<lambda>st.
     bindP (liftP (percent_avail R (st_utilization st) (st_capacity st))) (\<lambda>p.
     retP (st\<lparr>st_percent_avail := p\<rparr>)))))"

definition attach_storage :: "storage \<Rightarrow> subsystem \<Rightarrow> subsystem" where
  "attach_storage st ss =
     (if py_in_str (py_lower (st_uuid st)) (py_lower (ss_nqn ss)) then
        ss\<lparr>ss_storage := ss_storage ss @ [st], ss_capacity := ss_capacity ss + st_capacity st,
           ss_utilization := ss_utilization ss + st_utilization st\<rparr>
      else ss)"

definition read_system :: "'db etcd3 \<Rightarrow> rfenv \<Rightarrow> string \<Rightarrow> (('db, 'r) dworld_scheme, rsystem) py" where
  "read_system E R key =
     bindP (liftP (py_nth (py_split (CHR ''/'') key) 4)) (\<lambda>sys_uuid.
     bindP (rf_query E R (subsystems_path sys_uuid)) (\<lambda>subsystems.
     bindP (rf_query E R (server_path sys_uuid @ ''/server_attributes/identity/Hostname'')) (\<lambda>target_dict.
     bindP (foldP subsystems [] (read_subsystem E R sys_uuid target_dict)) (\<lambda>sss.
     bindP (read_storage E R sys_uuid) (\<lambda>st.
     retP \<lparr>sy_uuid = sys_uuid, sy_subsystems = map (attach_storage st) sss\<rparr>)))))"

text \<open>The loop after the loop over the systems sees only the last one.\<close>

definition subsystem_percent :: "rfenv \<Rightarrow> subsystem \<Rightarrow> exn + subsystem" where
  "subsystem_percent R ss =
     (if ss_storage ss = [] then Inr ss
      else bindE (bindE (percent_avail R (ss_utilization ss) (ss_capacity ss)) py_int) (\<lambda>p. Inr (ss\<lparr>ss_percent_avail := JInt p\<rparr>)))"

definition finish_last :: "rfenv \<Rightarrow> rsystem list \<Rightarrow> exn + rsystem list" where
  "finish_last R syss =
     bindE (mapE (subsystem_percent R) (sy_subsystems (last syss))) (\<lambda>sss.
     Inr (butlast syss @ [(last syss)\<lparr>sy_subsystems := sss\<rparr>]))"

definition process_systems :: "'db etcd3 \<Rightarrow> rfenv \<Rightarrow> (('db, 'r) rworld_scheme, unit) py" where
  "process_systems E R =
     thenP (log_detail (re_log R) ''_process_database_for_systems: requested.'' [])
     (bindP (rf_query E R ''/object_storage/servers/list'') (\<lambda>systems.
      if systems = [] then log_detail (re_log R) ''_process_database_for_systems: done.'' []
      else bindP (foldP (dict_keys systems) [] (\<lambda>k acc. bindP (read_system E R k) (\<lambda>s. retP (acc @ [s])))) (\<lambda>syss.
        bindP (liftP (finish_last R syss)) (\<lambda>syss'.
        thenP (modifyP (\<lambda>w. w\<lparr>rf_systems := syss'\<rparr>)) (log_detail (re_log R) ''_process_database: done.'' [])))))"

text \<open>The ports and VLANs are looked up in the characters of a text, not in the database.\<close>

definition read_ports :: "'db etcd3 \<Rightarrow> rfenv \<Rightarrow> string \<Rightarrow> (('db, 'r) dworld_scheme, port list) py" where
  "read_ports E R sw_uuid =
     foldP (''/switches/'' @ sw_uuid @ ''/ports/list'') [] (\<lambda>c acc.
       bindP (liftP (py_nth (py_split (CHR ''/'') [c]) 5)) (\<lambda>port_id.
       bindP (rf_query E R (''/switches/'' @ sw_uuid @ ''/ports/'' @ port_id @ ''/status'')) (\<lambda>attr.
       retP (acc @ [\<lparr>pt_id = port_id, pt_status = foldl (\<lambda>st (k, v). if py_in_str ''status'' k then v else st) [] attr\<rparr>]))))"

definition read_vlans :: "string \<Rightarrow> exn + string list" where
  "read_vlans sw_uuid = mapE (\<lambda>c. py_nth (py_split (CHR ''/'') [c]) 5) (''/switches/'' @ sw_uuid @ ''/VLANs/list'')"

definition read_switch :: "'db etcd3 \<Rightarrow> rfenv \<Rightarrow> string \<Rightarrow> switch list \<Rightarrow> (('db, 'r) dworld_scheme, switch list) py" where
  "read_switch E R key acc =
     bindP (liftP (py_nth (py_split (CHR ''/'') key) 3)) (\<lambda>sw_uuid.
     bindP (read_ports E R sw_uuid) (\<lambda>ports.
     bindP (liftP (read_vlans sw_uuid)) (\<lambda>vlans.
     retP (acc @ [\<lparr>sc_id = [], sc_UUID = sw_uuid, sc_ports = ports, sc_vlans = vlans\<rparr>]))))"

definition process_fabrics :: "'db etcd3 \<Rightarrow> rfenv \<Rightarrow> (('db, 'r) rworld_scheme, unit) py" where
  "process_fabrics E R =
     thenP (log_detail (re_log R) ''_process_database_for_fabrics: requested.'' [])
     (bindP (rf_query E R ''/switches/list'') (\<lambda>switches.
      if switches = [] then log_detail (re_log R) ''_process_database_for_fabrics: done.'' []
      else bindP (foldP (dict_keys switches) [] (read_switch E R)) (\<lambda>sws.
        thenP (modifyP (\<lambda>w. w\<lparr>rf_fabrics := rf_fabrics w @ [\<lparr>fb_id = ''NVMEoF'', fb_switches = sws\<rparr>]\<rparr>))
          (log_detail (re_log R) ''_process_database_for_fabrics: done.'' []))))"

section \<open>RedfishUfmdb: the documents\<close>

text \<open>Changes inside a copied document: a field, the first element of a list, a dictionary.\<close>

definition upd_key :: "string \<Rightarrow> (json \<Rightarrow> json) \<Rightarrow> json dict \<Rightarrow> json dict" where
  "upd_key k f d = (case map_of d k of None \<Rightarrow> d | Some j \<Rightarrow> dict_set k (f j) d)"

fun upd_first :: "(json dict \<Rightarrow> json dict) \<Rightarrow> json \<Rightarrow> json" where
  "upd_first f (JList (JObj d # xs)) = JList (JObj (f d) # xs)"
| "upd_first f j = j"

fun upd_obj :: "(json dict \<Rightarrow> json dict) \<Rightarrow> json \<Rightarrow> json" where
  "upd_obj f (JObj d) = JObj (f d)"
| "upd_obj f j = j"

fun append_to :: "json list \<Rightarrow> json \<Rightarrow> json" where
  "append_to xs (JList ys) = JList (ys @ xs)"
| "append_to xs j = j"

definition link :: "string \<Rightarrow> json" where
  "link p = JObj [(''@odata.id'', JStr p)]"

definition odata_id :: "json dict \<Rightarrow> string" where
  "odata_id d = (case map_of d ''@odata.id'' of Some (JStr p) \<Rightarrow> p | _ \<Rightarrow> [])"

definition with_members :: "string list \<Rightarrow> json dict \<Rightarrow> json dict" where
  "with_members ps d = dict_set ''Members@odata.count'' (JInt (int (length ps))) (upd_key ''Members'' (append_to (map link ps)) d)"

definition at_path :: "string \<Rightarrow> json dict \<Rightarrow> json dict" where
  "at_path p d = dict_set ''@odata.id'' (JStr p) d"

definition systems_path :: string where "systems_path = ''/redfish/v1/Systems''"

definition system_path :: "string \<Rightarrow> string" where
  "system_path u = ''/redfish/v1/Systems/'' @ u"

definition root_doc :: "string \<Rightarrow> json dict" where
  "root_doc u = dict_set ''UUID'' (JStr u) resp_1"

definition systems_doc :: "rsystem list \<Rightarrow> json dict" where
  "systems_doc syss =
     with_members (concat (map (\<lambda>s. system_path (sy_uuid s) # map (\<lambda>ss. system_path (ss_uuid ss)) (sy_subsystems s)) syss))
       (at_path systems_path resp_1_1)"

text \<open>
  The document of a system.  \<open>stale\<close> is the identifier of the subsystem that an earlier loop left in the
  variable \<^verbatim>\<open>subsys\<close>; the code links to it, once for each subsystem of the system.
\<close>

definition first_addr :: "(interface \<Rightarrow> string list) \<Rightarrow> rsystem \<Rightarrow> json dict \<Rightarrow> json dict" where
  "first_addr f s d =
     foldl (\<lambda>d i. case f i of [] \<Rightarrow> d | a # _ \<Rightarrow> dict_set ''Address'' (JStr a) d) d (concat (map ss_interfaces (sy_subsystems s)))"

definition system_doc :: "string \<Rightarrow> rsystem \<Rightarrow> json dict" where
  "system_doc stale s =
     upd_key ''Links'' (upd_obj (upd_key ''SupplyingComputerSystems''
         (append_to (map (\<lambda>_. link (system_path stale)) (sy_subsystems s)))))
     (upd_key ''IPv6Addresses'' (upd_first (first_addr ip6_intf s))
     (upd_key ''IPv4Addresses'' (upd_first (first_addr ip4_intf s))
     (upd_key ''Identifiers'' (upd_first (dict_set ''DurableName'' (JStr (sy_uuid s))))
     (dict_set ''Id'' (JStr (sy_uuid s)) (at_path (system_path (sy_uuid s)) resp_1_1_1)))))"

definition subsystem_doc :: "rsystem \<Rightarrow> subsystem \<Rightarrow> json dict" where
  "subsystem_doc s ss =
     (let p = system_path (ss_uuid ss);
          d1 = upd_key ''Identifiers'' (upd_first (dict_set ''DurableName'' (JStr (ss_nqn ss))))
                 (dict_set ''Id'' (JStr (ss_uuid ss)) (at_path p resp_1_1_2));
          d2 = (if ss_storage ss \<noteq> [] then dict_set ''Storage'' (link (p @ ''/Storage'')) d1 else d1);
          d3 = (if ss_interfaces ss \<noteq> [] then dict_set ''EthernetInterfaces'' (link (p @ ''/EthernetInterfaces'')) d2 else d2);
          d4 = dict_set ''oem'' (JObj [(''ServerName'', JStr (ss_servername ss)), (''NSID'', JInt (ss_nsid ss)),
                 (''NumaAligned'', JBool (ss_numa_aligned ss))]) d3
      in upd_key ''Links'' (upd_obj (upd_key ''ConsumingComputerSystems'' (append_to [link (system_path (sy_uuid s))]))) d4)"

definition capacity_oem :: "int \<Rightarrow> int \<Rightarrow> json \<Rightarrow> json" where
  "capacity_oem c u p = JObj [(''CapacityBytes'', JInt c), (''UtilizationBytes'', JInt u), (''PercentAvailable'', p)]"

definition storage_path :: "subsystem \<Rightarrow> string" where
  "storage_path ss = system_path (ss_uuid ss) @ ''/Storage''"

definition storages_doc :: "subsystem \<Rightarrow> json dict" where
  "storages_doc ss =
     dict_set ''oem'' (capacity_oem (ss_capacity ss) (ss_utilization ss) (ss_percent_avail ss))
       (with_members (map (\<lambda>st. storage_path ss @ ''/'' @ st_uuid st) (ss_storage ss)) (at_path (storage_path ss) resp_1_1_2_1))"

definition drives_path :: "subsystem \<Rightarrow> storage \<Rightarrow> string" where
  "drives_path ss st = storage_path ss @ ''/'' @ st_uuid st @ ''/Drives''"

definition storage_doc :: "subsystem \<Rightarrow> storage \<Rightarrow> json dict" where
  "storage_doc ss st =
     dict_set ''oem'' (capacity_oem (st_capacity st) (st_utilization st) (st_percent_avail st))
     (upd_key ''Drives'' (append_to (map (\<lambda>d. link (drives_path ss st @ ''/'' @ dv_uuid d)) (st_drives st)))
     (dict_set ''Id'' (JStr (st_uuid st)) (at_path (storage_path ss @ ''/'' @ st_uuid st) resp_1_1_2_1_1)))"

definition drives_doc :: "subsystem \<Rightarrow> storage \<Rightarrow> json dict" where
  "drives_doc ss st =
     with_members (map (\<lambda>d. drives_path ss st @ ''/'' @ dv_uuid d) (st_drives st))
       (dict_set ''Id'' (JStr (st_uuid st)) (at_path (drives_path ss st) resp_1_1_2_1_1_1))"

definition drive_doc :: "subsystem \<Rightarrow> storage \<Rightarrow> drive \<Rightarrow> json dict" where
  "drive_doc ss st d =
     dict_update (at_path (drives_path ss st @ ''/'' @ dv_uuid d) resp_1_1_2_1_1_1_1)
       [(''Id'', JStr (dv_uuid d)), (''BlockSizeBytes'', JInt (dv_block_size d)), (''CapacityBytes'', JInt (dv_capacity d)),
        (''Manufacturer'', JStr (dv_manufacturer d)), (''MediaType'', JStr (dv_type d)), (''Model'', JStr (dv_model d)),
        (''Protocol'', JStr (dv_protocol d)), (''Revision'', JStr (dv_revision d)), (''SerialNumber'', JStr (dv_sn d)),
        (''oem'', JObj [(''UtilizationBytes'', JInt (dv_utilization d)), (''PercentAvailable'', dv_percent_avail d)])]"

text \<open>After its loop over the storages the code goes on with the last one.\<close>

definition storage_docs :: "subsystem \<Rightarrow> json dict list" where
  "storage_docs ss =
     (if ss_storage ss = [] then []
      else let st = last (ss_storage ss) in
        [storages_doc ss, storage_doc ss st, drives_doc ss st] @ map (drive_doc ss st) (st_drives st))"

definition interfaces_path :: "subsystem \<Rightarrow> string" where
  "interfaces_path ss = system_path (ss_uuid ss) @ ''/EthernetInterfaces''"

definition port_oem :: "interface \<Rightarrow> json dict \<Rightarrow> json dict" where
  "port_oem i = upd_key ''oem'' (upd_obj (\<lambda>o1. dict_set ''SupportedProtocol'' (JStr (if_type i)) (dict_set ''Port'' (JInt (if_port i)) o1)))"

text \<open>The port of an IPv6 address is written into the entry of the IPv4 address.\<close>

definition interface_doc :: "subsystem \<Rightarrow> interface \<Rightarrow> json dict" where
  "interface_doc ss i =
     (let d0 = dict_update (at_path (interfaces_path ss @ ''/'' @ if_mac i) resp_1_1_2_2_1)
            [(''Id'', JStr (if_mac i)), (''SpeedMbps'', JInt (if_speed i)), (''MACAddress'', JStr (if_mac i)), (''LinkStatus'', JStr (if_status i))];
          d1 = (case ip4_intf i of [] \<Rightarrow> d0
             | a # _ \<Rightarrow> upd_key ''IPv4Addresses'' (upd_first (\<lambda>e. port_oem i (dict_set ''Address'' (JStr a) e))) d0)
      in (case ip6_intf i of [] \<Rightarrow> d1
             | a # _ \<Rightarrow> upd_key ''IPv4Addresses'' (upd_first (port_oem i))
                 (upd_key ''IPv6Addresses'' (upd_first (dict_set ''Address'' (JStr a))) d1)))"

definition interface_docs :: "subsystem \<Rightarrow> json dict list" where
  "interface_docs ss =
     (if ss_interfaces ss = [] then []
      else with_members (map (\<lambda>i. interfaces_path ss @ ''/'' @ if_mac i) (ss_interfaces ss)) (at_path (interfaces_path ss) resp_1_1_2_2)
        # map (interface_doc ss) (ss_interfaces ss))"

definition subsystem_docs :: "rsystem \<Rightarrow> subsystem \<Rightarrow> json dict list" where
  "subsystem_docs s ss = subsystem_doc s ss # storage_docs ss @ interface_docs ss"

definition last_subsystem :: "string \<Rightarrow> rsystem \<Rightarrow> string" where
  "last_subsystem stale s = (if sy_subsystems s = [] then stale else ss_uuid (last (sy_subsystems s)))"

fun system_docs :: "string \<Rightarrow> rsystem list \<Rightarrow> json dict list" where
  "system_docs stale [] = []"
| "system_docs stale (s # syss) =
     system_doc stale s # concat (map (subsystem_docs s) (sy_subsystems s)) @ system_docs (last_subsystem stale s) syss"

definition put_doc :: "json dict \<Rightarrow> json dict \<Rightarrow> json dict" where
  "put_doc tree d = dict_set (odata_id d) (JObj d) tree"

definition build_systems :: "nat \<Rightarrow> rsystem list \<Rightarrow> json dict list" where
  "build_systems records syss =
     [systems_doc syss, resp_1_2, resp_1_3, dict_set ''UUID'' (JStr (sy_uuid (last syss))) resp_1_3_1, resp_1_3_1_1,
      dict_set ''MaxNumberOfRecords'' (JInt (int records)) resp_1_3_1_1_1, resp_1_3_1_1_1_2, resp_1_3_1_1_1_3] @
     system_docs (foldl last_subsystem [] syss) syss"

subsection \<open>Fabrics\<close>

definition port_docs :: "string \<Rightarrow> switch \<Rightarrow> json dict list" where
  "port_docs p sw =
     (if sc_ports sw = [] then []
      else with_members (map (\<lambda>q. p @ ''/Ports/'' @ pt_id q) (sc_ports sw)) (at_path (p @ ''/Ports'') resp_1_4_1_1_1_1)
        # map (\<lambda>q. dict_set ''id'' (JStr (pt_id q)) (at_path (p @ ''/Ports/'' @ pt_id q) resp_1_4_1_1_1_1_1)) (sc_ports sw))"

definition vlan_docs :: "string \<Rightarrow> switch \<Rightarrow> json dict list" where
  "vlan_docs p sw =
     (if sc_vlans sw = [] then []
      else with_members (map (\<lambda>v. p @ ''/VLANs/'' @ v) (sc_vlans sw)) (at_path (p @ ''/VLANs'') resp_1_4_1_1_1_2)
        # map (\<lambda>v. dict_set ''id'' (JStr v) (at_path (p @ ''/VLANs/'' @ v) resp_1_4_1_1_1_2_1)) (sc_vlans sw))"

definition switch_docs :: "string \<Rightarrow> switch \<Rightarrow> json dict list" where
  "switch_docs base sw =
     (let p = base @ ''/'' @ sc_id sw;
          d0 = at_path p (dict_set ''id'' (JStr (sc_id sw)) resp_1_4_1_1_1);
          d1 = (if sc_ports sw \<noteq> [] then dict_set ''Ports'' (link (p @ ''/Ports'')) d0 else d0);
          d2 = (if sc_vlans sw \<noteq> [] then dict_set ''VLANs'' (link (p @ ''/VLANs'')) d1 else d1)
      in d2 # port_docs p sw @ vlan_docs p sw)"

definition fabric_docs :: "string \<Rightarrow> fabric \<Rightarrow> json dict list" where
  "fabric_docs base f =
     (let p = base @ ''/'' @ fb_id f;
          d0 = at_path p (dict_set ''id'' (JStr (fb_id f)) resp_1_4_1)
      in if fb_switches f = [] then [d0]
         else [dict_set ''Switches'' (link (p @ ''/Switches'')) d0, at_path (p @ ''/Switches'') resp_1_4_1_1] @
           concat (map (switch_docs (p @ ''/Switches'')) (fb_switches f)))"

definition build_fabrics :: "fabric list \<Rightarrow> json dict list" where
  "build_fabrics fs =
     with_members (map (\<lambda>f. ''/redfish/v1/Fabrics/'' @ fb_id f) fs) resp_1_4 #
     concat (map (fabric_docs (odata_id resp_1_4)) fs)"

section \<open>RedfishUfmdb: requests\<close>

definition redfish_actions :: "(string \<Rightarrow> ('r lworld_scheme, unit) py) \<Rightarrow> logger \<Rightarrow> (json \<Rightarrow> ('r lworld_scheme, json) py) dict" where
  "redfish_actions shell l =
     [(''/redfish/v1/Managers/ufm/Actions/Ufm.Reset'', ufm_reset_action shell l),
      (''/redfish/v1/Managers/ufm/LogServices/Log/Actions/LogService.ClearLog'', ufm_clearlog_action),
      (''/redfish/v1/Managers/ufm/LogServices/Log/Actions/LogService.Entries'', ufm_entries_action),
      (''/redfish/v1/Managers/ufm/LogServices/Log/Actions/LogService.GetMask'', ufm_getmask_action),
      (''/redfish/v1/Managers/ufm/LogServices/Log/Actions/LogService.SetMask'', ufm_setmask_action),
      (''/redfish/v1/Managers/ufm/LogServices/Log/Actions/LogService.GetRegistry'', ufm_getregistry_action)]"

definition tree_entries :: "('db, 'r) rworld_scheme \<Rightarrow> json list" where
  "tree_entries w = [JInt (int (length (rf_tree w)))]"

definition build_redfish_actions :: "rfenv \<Rightarrow> ('r lworld_scheme, unit) py" where
  "build_redfish_actions R =
     thenP (log_detail (re_log R) ''_build_redfish_actions: requested.'' [])
       (log_detail (re_log R) ''_build_redfish_actions: done.  entries=%d''
          [JInt 6])"

definition put_docs :: "json dict list \<Rightarrow> (('db, 'r) rworld_scheme, unit) py" where
  "put_docs ds = modifyP (\<lambda>w. w\<lparr>rf_tree := foldl put_doc (rf_tree w) ds\<rparr>)"

definition build_redfish_root :: "rfenv \<Rightarrow> (('db, 'r) rworld_scheme, unit) py" where
  "build_redfish_root R =
     thenP (log_detail (re_log R) ''_build_redfish_root: requested.'' [])
     (thenP (put_docs [root_doc (re_root_uuid R)])
     (bindP (readP tree_entries) (log_detail (re_log R) ''_build_redfish_root: done.  entries=%d'')))"

definition build_redfish_systems :: "rfenv \<Rightarrow> (('db, 'r) rworld_scheme, unit) py" where
  "build_redfish_systems R =
     thenP (log_detail (re_log R) ''_build_redfish_systems: requested.'' [])
     (bindP (readP (\<lambda>w. (rf_systems w, max_entries (lw_log w)))) (\<lambda>(syss, records).
      thenP (whenP (syss \<noteq> []) (put_docs (build_systems records syss)))
      (bindP (readP tree_entries) (log_detail (re_log R) ''_build_redfish_systems: done.  entries=%d''))))"

definition build_redfish_fabrics :: "rfenv \<Rightarrow> (('db, 'r) rworld_scheme, unit) py" where
  "build_redfish_fabrics R =
     thenP (log_detail (re_log R) ''_build_redfish_fabrics: requested.'' [])
     (bindP (readP rf_fabrics) (\<lambda>fs.
      if fs = [] then bindP (readP tree_entries) (log_detail (re_log R) ''_build_redfish_fabrics: done. entries=%d'')
      else put_docs (build_fabrics fs)))"

definition update_attempt :: "'db etcd3 \<Rightarrow> rfenv \<Rightarrow> pytime \<Rightarrow> (('db, 'r) rworld_scheme, unit) py" where
  "update_attempt E R now =
     bindP (readP rf_expiration) (\<lambda>x.
     if re_later R now x then
       thenP (log_detail (re_log R) ''Update data: requested.  Updating now ...'' [])
       (thenP (modifyP (\<lambda>w. w\<lparr>rf_expiration := Some now, rf_tree := [], rf_systems := [], rf_fabrics := []\<rparr>))
       (thenP (process_systems E R)
       (thenP (process_fabrics E R)
       (thenP (build_redfish_root R)
       (thenP (build_redfish_systems R) (build_redfish_fabrics R))))))
     else log_detail (re_log R) (''Update data: requested. Data expires in '' @ int_str (1 + re_left R x now) @ '' second(s)'') [])"

fun update_tries :: "'db etcd3 \<Rightarrow> rfenv \<Rightarrow> pytime \<Rightarrow> nat \<Rightarrow> (('db, 'r) rworld_scheme, unit) py" where
  "update_tries E R now 0 = retP ()"
| "update_tries E R now (Suc attempts) =
     tryP (update_attempt E R now)
       (\<lambda>e. if attempts = 0 then retP ()
         else thenP (log_exception (re_log R) e)
           (thenP (modifyP (\<lambda>w. w\<lparr>rf_expiration := None\<rparr>))
           (thenP (log_error (re_log R) ''Unable to update data.  Retrying...'' []) (update_tries E R now attempts))))"

definition rf_update :: "'db etcd3 \<Rightarrow> rfenv \<Rightarrow> (('db, 'r) rworld_scheme, unit) py" where
  "rf_update E R =
     thenP (log_detail (re_log R) ''Update actions: requested.  Updating now ...'' [])
     (thenP (build_redfish_actions R)
     (bindP time_time (\<lambda>now. update_tries E R now 2)))"

definition not_found_doc :: json where
  "not_found_doc = JObj [(''Status'', JInt 404), (''Message'', JStr ''Not Found'')]"

definition invalid_request :: "rfenv \<Rightarrow> string \<Rightarrow> json list \<Rightarrow> string \<Rightarrow> ('r lworld_scheme, json) py" where
  "invalid_request R msg as request =
     thenP (whenP (request \<noteq> ''/favicon.ico'') (log_error (re_log R) msg as)) (retP not_found_doc)"

definition rf_get :: "(string \<Rightarrow> (('db, 'r) rworld_scheme, unit) py) \<Rightarrow> 'db etcd3 \<Rightarrow> rfenv \<Rightarrow> string \<Rightarrow> json \<Rightarrow> (('db, 'r) rworld_scheme, json) py" where
  "rf_get shell E R request payload =
     thenP (log_detail (re_log R) (''GET: '' @ request) [])
     (tryP (thenP (whenP (re_auto_update R) (rf_update E R))
         (case map_of (redfish_actions shell (re_log R)) request of
            Some f \<Rightarrow> f payload
          | None \<Rightarrow> bindP (readP rf_tree) (\<lambda>tree. case map_of tree request of
              Some j \<Rightarrow> retP j
            | None \<Rightarrow> invalid_request R ''GET: Invalid Request. %s'' [JStr request] request)))
       (\<lambda>e. thenP (log_exception (re_log R) e) (invalid_request R ''GET: Invalid Request. %s'' [JStr request] request)))"

definition rf_post :: "(string \<Rightarrow> (('db, 'r) rworld_scheme, unit) py) \<Rightarrow> 'db etcd3 \<Rightarrow> rfenv \<Rightarrow> string \<Rightarrow> json \<Rightarrow> (('db, 'r) rworld_scheme, json) py" where
  "rf_post shell E R request payload =
     thenP (log_detail (re_log R) ''POST: %s'' [JStr request])
     (tryP (thenP (whenP (re_auto_update R) (rf_update E R))
         (case map_of (redfish_actions shell (re_log R)) request of
            Some f \<Rightarrow> f payload
          | None \<Rightarrow> invalid_request R ''GET: Invalid Request. %s'' [JStr request] request))
       (\<lambda>e. invalid_request R (''GET: Invalid Request. '' @ request) [] request))"

section \<open>When the tree stays empty\<close>

definition rf_good ::
  "('db \<Rightarrow> string \<rightharpoonup> string) \<Rightarrow> ('db \<Rightarrow> bool) \<Rightarrow> rfenv \<Rightarrow> (string \<rightharpoonup> string) \<Rightarrow> ('db, 'r) dworld_scheme \<Rightarrow> bool" where
  "rf_good kv up R m w \<longleftrightarrow> db_is kv up (re_db R) m w \<and> log_works w"

text \<open>What reading the database keeps: the database, a log that works, the tree and its time.\<close>

definition rf_rel ::
  "('db \<Rightarrow> string \<rightharpoonup> string) \<Rightarrow> ('db \<Rightarrow> bool) \<Rightarrow> rfenv \<Rightarrow> (string \<rightharpoonup> string) \<Rightarrow>
   ('db, 'r) rworld_scheme \<Rightarrow> ('db, 'r) rworld_scheme \<Rightarrow> bool" where
  "rf_rel kv up R m w w' \<longleftrightarrow> (rf_good kv up R m w \<longrightarrow> rf_good kv up R m w' \<and> rf_tree w' = rf_tree w)"

interpretation rr: py_rel "rf_rel kv up R m" for kv up R m
  by unfold_locales (auto simp: rf_rel_def)

lemma log_step_tree:
  fixes w w' :: "('db, 'r) rworld_scheme"
  assumes "log_step w w'"
  shows "rf_tree w' = rf_tree w"
  using log_step_more [OF assms] by (cases w; cases w') auto

lemma db_step_tree:
  fixes w w' :: "('db, 'r) rworld_scheme"
  assumes "db_step w w'"
  shows "rf_tree w' = rf_tree w"
  using db_step_more [OF assms] by (cases w; cases w') auto

lemma rf_good_log_step: "rf_good kv up R m w \<Longrightarrow> log_step w w' \<Longrightarrow> has_ring w' \<Longrightarrow> rf_good kv up R m w'"
  by (auto simp: rf_good_def db_is_def quiet_log_step log_step_db intro: log_works_step)

lemma log_works_db_step:
  assumes "log_works w" and "db_step w w'" and "quiet l w'"
  shows "log_works w'"
proof -
  have "has_ring w'" using assms(1,2) by (auto simp: log_works_def has_ring_def ring_def db_step_def log_core_def)
  moreover have "\<exists>i. as_index (log_detail_mask (lw_log w')) = Inr i"
    using assms(3) by (cases "as_index (log_detail_mask (lw_log w'))") (auto simp: quiet_def mask_hit_def)
  ultimately show ?thesis using assms(1,2) by (simp add: log_works_def db_step_def log_core_def)
qed

lemma rf_good_db_step:
  "rf_good kv up R m w \<Longrightarrow> db_is kv up (re_db R) m w' \<Longrightarrow> db_step w w' \<Longrightarrow> rf_good kv up R m w'"
  using log_works_db_step [of w w' "re_db R"] by (simp add: rf_good_def db_is_def)

lemma keeps_ring_error: "keeps ring_step (log_error l s as)"
  unfolding log_error_def log_filtered_def ulog_error_def
  by (intro rs.keeps_rules keeps_ring_add)

lemma keeps_rf_log:
  fixes m0 :: "(('db, 'r) rworld_scheme, 'a) py"
  assumes "keeps log_step m0" and "keeps ring_step m0"
  shows "keeps (rf_rel kv up R m) m0"
proof (unfold keeps_def, intro allI)
  fix w :: "('db, 'r) rworld_scheme"
  have "log_step w (snd (m0 w))" "ring_step w (snd (m0 w))" using assms by (simp_all add: keeps_def)
  then show "rf_rel kv up R m w (snd (m0 w))"
    using rf_good_log_step [of kv up R m w "snd (m0 w)"] log_step_tree [of w "snd (m0 w)"]
    by (auto simp: rf_rel_def ring_step_def rf_good_def log_works_def)
qed

lemma keeps_rf_logs: "keeps (rf_rel kv up R m) (log_detail l s as)" "keeps (rf_rel kv up R m) (log_error l s as)"
  by (intro keeps_rf_log keeps_log keeps_ring_detail keeps_ring_error)+

text \<open>A statement inside the frame whose normal exit is excluded.\<close>

lemma wp_raises_fold:
  fixes body :: "'a \<Rightarrow> 's \<Rightarrow> (('db, 'r) rworld_scheme, 's) py"
  assumes "x \<in> set xs" and "\<And>y s. keeps (rf_rel kv up R m) (body y s)"
    and "\<And>s w. rf_good kv up R m w \<Longrightarrow> wp (body x s) (\<lambda>_ _. False) (\<lambda>_ _. True) w" and "rf_good kv up R m w"
  shows "wp (foldP xs s body) (\<lambda>_ _. False) (\<lambda>_ _. True) w"
  using assms(1,4)
proof (induction xs arbitrary: s w)
  case (Cons y ys)
  show ?case
  proof (cases "y = x")
    case True
    have "wp (body x s) (\<lambda>s'. wp (foldP ys s' body) (\<lambda>_ _. False) (\<lambda>_ _. True)) (\<lambda>_ _. True) w"
      by (rule wp_mono [OF assms(3) [OF Cons.prems(2)]]) simp_all
    with True show ?thesis by (simp add: wp_bindP)
  next
    case False
    then have "x \<in> set ys" using Cons.prems(1) by simp
    have "wp (body y s) (\<lambda>s'. wp (foldP ys s' body) (\<lambda>_ _. False) (\<lambda>_ _. True)) (\<lambda>_ _. True) w"
      by (rule wp_mono [OF keeps_wp [OF assms(2) [of y s]]])
        (use Cons.IH [OF \<open>x \<in> set ys\<close>] Cons.prems(2) in \<open>auto simp: rf_rel_def\<close>)
    then show ?thesis by (simp add: wp_bindP)
  qed
qed simp

lemma wp_read_switch: "wp (read_switch E R key acc) (\<lambda>_ _. False) (\<lambda>_ _. True) w"
proof -
  have "wp (read_ports E R u) P (\<lambda>_ _. True) w" for u P
    by (simp add: read_ports_def py_nth_def wp_simps)
  then show ?thesis
    by (cases "py_nth (py_split (CHR ''/'') key) 3") (simp_all add: read_switch_def wp_simps)
qed

context etcd_store
begin

lemma wp_rf_query:
  assumes "rf_good kv up R m w"
    and "\<And>d w'. rf_good kv up R m w' \<Longrightarrow> rf_tree w' = rf_tree w \<Longrightarrow> map_of d = m |` {k. prefix q k} \<Longrightarrow> P d w'"
  shows "wp (rf_query E R q) P X (w :: ('db, 'r) rworld_scheme)"
  unfolding rf_query_def wp_bindP
proof (rule wp_get_prefix)
  show "db_is kv up (re_db R) m w" using assms(1) by (simp add: rf_good_def)
  fix items and w' :: "('db, 'r) rworld_scheme"
  assume a: "db_is kv up (re_db R) m w'" "db_step w w'" "distinct (map fst items)" "map_of items = m |` {k. prefix q k}"
  have "P items w'" by (intro assms(2) rf_good_db_step [OF assms(1) a(1,2)] db_step_tree a)
  with a(3) show "wp (case Some (items, None) of
         None \<Rightarrow> thenP (log_error (re_log R) ''get_prefix(\"%s\") failed.  Retrying...'' [JStr q]) (Ufmdb_get_prefix E (re_db R) q [])
       | Some it \<Rightarrow> retP (Some it)) (\<lambda>r2. wp (case r2 of
         None \<Rightarrow> thenP (log_error (re_log R) ''get_prefix(\"%s\") retry failed. Exiting.'' [JStr q]) (retP [])
       | Some it \<Rightarrow> liftP (iter_dict it [])) P X) X w'"
    by (simp add: wp_simps iter_dict_items)
qed

lemma keeps_rf_query: "keeps (rf_rel kv up R m) (rf_query E R q :: (('db, 'r) rworld_scheme, string dict) py)"
proof (unfold keeps_def, intro allI)
  fix w :: "('db, 'r) rworld_scheme"
  show "rf_rel kv up R m w (snd (rf_query E R q w))"
  proof (cases "rf_good kv up R m w")
    case True
    have "wp (rf_query E R q) (\<lambda>_ w'. rf_good kv up R m w' \<and> rf_tree w' = rf_tree w) (\<lambda>_ _. False) w"
      by (rule wp_rf_query [OF True]) simp
    then show ?thesis by (auto simp: rf_rel_def dest!: wpD)
  qed (simp add: rf_rel_def)
qed

lemmas rf_keeps = rr.keeps_rules keeps_rf_logs keeps_rf_query

lemma keeps_read_system: "keeps (rf_rel kv up R m) (read_system E R key :: (('db, 'r) rworld_scheme, rsystem) py)"
  unfolding read_system_def read_subsystem_def read_interface_def read_storage_def read_drive_def split_def Let_def
  by (intro rf_keeps)

lemma rf_good_update [simp]:
  "rf_good kv up R m (w\<lparr>rf_systems := x\<rparr>) = rf_good kv up R m w" "rf_good kv up R m (w\<lparr>rf_fabrics := y\<rparr>) = rf_good kv up R m w"
  "rf_good kv up R m (w\<lparr>rf_expiration := z\<rparr>) = rf_good kv up R m w" "rf_good kv up R m (w\<lparr>rf_tree := t\<rparr>) = rf_good kv up R m w"
  by (simp_all add: rf_good_def db_is_def quiet_def log_works_def has_ring_def)

lemma keeps_process:
  "keeps (rf_rel kv up R m) (process_systems E R)" "keeps (rf_rel kv up R m) (process_fabrics E R)"
  unfolding process_systems_def process_fabrics_def read_switch_def read_ports_def
  by (intro rf_keeps keeps_read_system rr.keeps_modify; simp add: rf_rel_def)+

lemma wp_detail:
  assumes "rf_good kv up R m w" and "CHR ''%'' \<notin> set s" and "\<And>w'. rf_good kv up R m w' \<Longrightarrow> rf_tree w' = rf_tree w \<Longrightarrow> Q () w'"
  shows "wp (log_detail l s []) Q X (w :: ('db, 'r) rworld_scheme)"
proof (rule wp_log_works [OF _ py_percent_plain [OF assms(2)]])
  show "log_works w" using assms(1) by (simp add: rf_good_def)
  fix w' :: "('db, 'r) rworld_scheme"
  assume "log_step w w'" "log_works w'"
  then show "Q () w'" using assms(1) by (intro assms(3) log_step_tree) (auto simp: log_works_def intro: rf_good_log_step)
qed

lemma wp_process_fabrics:
  assumes "rf_good kv up R m w" and "prefix ''/switches/list'' k" and "m k = Some v"
  shows "wp (process_fabrics E R) (\<lambda>_ _. False) (\<lambda>_ _. True) (w :: ('db, 'r) rworld_scheme)"
  unfolding process_fabrics_def wp_thenP wp_bindP [of "rf_query E R ''/switches/list''"]
proof (rule wp_detail [OF assms(1)], simp, rule wp_rf_query, assumption)
  fix d and w2 :: "('db, 'r) rworld_scheme"
  assume "map_of d = m |` {k. prefix ''/switches/list'' k}"
  then obtain key val d' where d: "d = (key, val) # d'"
    using assms(2,3) by (cases d) (auto simp: fun_eq_iff restrict_map_def split: if_splits)
  have "wp (read_switch E R key []) P (\<lambda>_ _. True) w2" for P
    by (rule wp_mono [OF wp_read_switch]) auto
  then show "wp (if d = [] then log_detail (re_log R) ''_process_database_for_fabrics: done.'' []
      else bindP (foldP (dict_keys d) [] (read_switch E R)) (\<lambda>sws.
        thenP (modifyP (\<lambda>w. w\<lparr>rf_fabrics := rf_fabrics w @ [\<lparr>fb_id = ''NVMEoF'', fb_switches = sws\<rparr>]\<rparr>))
          (log_detail (re_log R) ''_process_database_for_fabrics: done.'' []))) (\<lambda>_ _. False) (\<lambda>_ _. True) w2"
    by (simp add: d dict_keys_def wp_simps)
qed

text \<open>A server without drives: the sum of their capacities is zero, by which the code divides.\<close>

lemma fold_no_drives:
  assumes "\<And>k v. (k, v) \<in> set devices \<Longrightarrow> \<not> py_in_str ''Serial'' k"
  shows "foldP devices st (read_drive E R u) w = (Inr st, w)"
  using assms
proof (induction devices arbitrary: st)
  case (Cons d ds)
  obtain k v where d: "d = (k, v)" by (cases d)
  have "read_drive E R u d st w = (Inr st, w)" using Cons.prems d by (auto simp: read_drive_def retP_def)
  moreover have "foldP ds st (read_drive E R u) w = (Inr st, w)" by (rule Cons.IH) (use Cons.prems in auto)
  ultimately show ?case by (simp add: bindP_def)
qed (simp add: retP_def)

lemma wp_fold_no_drives:
  assumes "\<And>k v. (k, v) \<in> set devices \<Longrightarrow> \<not> py_in_str ''Serial'' k"
  shows "wp (foldP devices st (read_drive E R u)) Q X w = Q st w"
  by (rule wp_run) (rule fold_no_drives [OF assms])

lemma wp_read_storage:
  assumes "rf_good kv up R m w" and "\<And>k v. m k = Some v \<Longrightarrow> prefix (devices_path u) k \<Longrightarrow> \<not> py_in_str ''Serial'' k"
  shows "wp (read_storage E R u) (\<lambda>_ _. False) (\<lambda>_ _. True) (w :: ('db, 'r) rworld_scheme)"
  unfolding read_storage_def wp_bindP [of "rf_query E R (server_path u @ ''/server_attributes/identity/Hostname'')"]
    wp_bindP [of "rf_query E R (devices_path u)"]
proof (rule wp_rf_query [OF assms(1)], rule wp_rf_query, assumption)
  fix attrs d and w2 :: "('db, 'r) rworld_scheme"
  assume d: "map_of d = m |` {k. prefix (devices_path u) k}"
  have "\<not> py_in_str ''Serial'' k" if "(k, v) \<in> set d" for k v
  proof -
    have "k \<in> dom (map_of d)" using that by (cases "map_of d k") (auto simp: map_of_eq_None_iff intro: rev_image_eqI)
    then obtain v' where "m k = Some v'" "prefix (devices_path u) k" unfolding d by (auto simp: restrict_map_def split: if_splits)
    then show ?thesis by (rule assms(2))
  qed
  note none = wp_fold_no_drives [OF this]
  show "wp (bindP (foldP d (storage_new\<lparr>st_uuid := storage_uuid attrs\<rparr>) (read_drive E R u)) (\<lambda>st.
      bindP (liftP (percent_avail R (st_utilization st) (st_capacity st))) (\<lambda>p. retP (st\<lparr>st_percent_avail := p\<rparr>))))
      (\<lambda>_ _. False) (\<lambda>_ _. True) w2"
    by (simp add: none wp_simps percent_avail_def storage_new_def)
qed

lemma wp_read_system:
  assumes "rf_good kv up R m w" and "\<And>k v. m k = Some v \<Longrightarrow> prefix (devices_path u) k \<Longrightarrow> \<not> py_in_str ''Serial'' k"
    and "py_nth (py_split (CHR ''/'') key) 4 = Inr u"
  shows "wp (read_system E R key) (\<lambda>_ _. False) (\<lambda>_ _. True) (w :: ('db, 'r) rworld_scheme)"
  unfolding read_system_def wp_bindP assms(3) wp_liftP_Inr
proof (rule wp_rf_query [OF assms(1)], rule wp_rf_query, assumption)
  fix subsystems target and w2 :: "('db, 'r) rworld_scheme"
  assume good: "rf_good kv up R m w2"
  have keep: "keeps (rf_rel kv up R m) (foldP subsystems [] (read_subsystem E R u target) :: (('db, 'r) rworld_scheme, subsystem list) py)"
    unfolding read_subsystem_def read_interface_def split_def Let_def by (intro rf_keeps)
  show "wp (foldP subsystems [] (read_subsystem E R u target)) (\<lambda>sss. wp (read_storage E R u) (\<lambda>st.
      wp (retP \<lparr>sy_uuid = u, sy_subsystems = map (attach_storage st) sss\<rparr>) (\<lambda>_ _. False) (\<lambda>_ _. True)) (\<lambda>_ _. True)) (\<lambda>_ _. True) w2"
  proof (rule wp_mono [OF keeps_wp [OF keep]])
    fix sss and w3 :: "('db, 'r) rworld_scheme"
    assume "rf_rel kv up R m w2 w3"
    with good have "rf_good kv up R m w3" by (simp add: rf_rel_def)
    from wp_read_storage [OF this assms(2)] show "wp (read_storage E R u) (\<lambda>st.
        wp (retP \<lparr>sy_uuid = u, sy_subsystems = map (attach_storage st) sss\<rparr>) (\<lambda>_ _. False) (\<lambda>_ _. True)) (\<lambda>_ _. True) w3"
      by (simp add: wp_retP_fun)
  qed simp
qed

lemma wp_process_systems:
  assumes "rf_good kv up R m w" and "\<And>k v. m k = Some v \<Longrightarrow> prefix (devices_path u) k \<Longrightarrow> \<not> py_in_str ''Serial'' k"
    and "py_nth (py_split (CHR ''/'') key) 4 = Inr u" and "prefix ''/object_storage/servers/list'' key" and "m key = Some v"
  shows "wp (process_systems E R) (\<lambda>_ _. False) (\<lambda>_ _. True) (w :: ('db, 'r) rworld_scheme)"
  unfolding process_systems_def wp_thenP wp_bindP [of "rf_query E R ''/object_storage/servers/list''"]
proof (rule wp_detail [OF assms(1)], simp, rule wp_rf_query, assumption)
  fix d and w2 :: "('db, 'r) rworld_scheme"
  let ?body = "\<lambda>k acc. bindP (read_system E R k) (\<lambda>s. retP (acc @ [s]))"
  assume d: "map_of d = m |` {k. prefix ''/object_storage/servers/list'' k}" and good: "rf_good kv up R m w2"
  then have "map_of d key = Some v" using assms(4,5) by simp
  then have "key \<in> set (dict_keys d)" by (auto simp: dict_keys_def dest!: map_of_SomeD intro: rev_image_eqI)
  moreover have "wp (?body key acc) (\<lambda>_ _. False) (\<lambda>_ _. True) w3" if "rf_good kv up R m w3" for acc and w3 :: "('db, 'r) rworld_scheme"
    using wp_read_system [OF that assms(2,3)] by (simp add: wp_simps wp_retP_fun)
  ultimately have raise: "wp (foldP (dict_keys d) [] ?body) (\<lambda>_ _. False) (\<lambda>_ _. True) w2"
    using good by (intro wp_raises_fold [where kv = kv and up = up and R = R and m = m and x = key] rf_keeps keeps_read_system)
  have "wp (foldP (dict_keys d) [] ?body) P (\<lambda>_ _. True) w2" for P
    by (rule wp_mono [OF raise]) auto
  moreover have "d \<noteq> []" using \<open>key \<in> set (dict_keys d)\<close> by (auto simp: dict_keys_def)
  ultimately show "wp (if d = [] then log_detail (re_log R) ''_process_database_for_systems: done.'' []
      else bindP (foldP (dict_keys d) [] ?body) (\<lambda>syss.
        bindP (liftP (finish_last R syss)) (\<lambda>syss'.
        thenP (modifyP (\<lambda>w. w\<lparr>rf_systems := syss'\<rparr>)) (log_detail (re_log R) ''_process_database: done.'' []))))
      (\<lambda>_ _. False) (\<lambda>_ _. True) w2"
    by (simp add: wp_simps)
qed

text \<open>An update whose reading raises leaves the tree empty, and so every request but the actions is answered with 404.\<close>

definition reading_fails :: "rfenv \<Rightarrow> (string \<rightharpoonup> string) \<Rightarrow> 'r itself \<Rightarrow> bool" where
  "reading_fails R m r \<longleftrightarrow> (\<forall>w :: ('db, 'r) rworld_scheme. rf_good kv up R m w \<longrightarrow>
     wp (thenP (process_systems E R) (process_fabrics E R)) (\<lambda>_ _. False) (\<lambda>_ _. True) w)"

lemma fails_keeping:
  fixes w :: "('db, 'r) rworld_scheme"
  assumes "reading_fails R m TYPE('r)" and "rf_good kv up R m w"
  shows "wp (thenP (process_systems E R) (process_fabrics E R)) (\<lambda>_ _. False) (\<lambda>_ w'. rf_good kv up R m w' \<and> rf_tree w' = rf_tree w) w"
proof -
  have keep: "keeps (rf_rel kv up R m) (thenP (process_systems E R) (process_fabrics E R) :: (('db, 'r) rworld_scheme, unit) py)"
    by (intro rr.keeps_rules keeps_process)
  have "wp (thenP (process_systems E R) (process_fabrics E R)) (\<lambda>_ _. False) (\<lambda>_ _. True) w"
    using assms by (simp add: reading_fails_def)
  from wp_conj [THEN iffD2, OF conjI [OF this keeps_wp [OF keep]]] show ?thesis
    by (rule wp_mono) (use assms(2) in \<open>auto simp: rf_rel_def\<close>)
qed

lemma wp_update_attempt:
  fixes w :: "('db, 'r) rworld_scheme"
  assumes "reading_fails R m TYPE('r)" and "rf_good kv up R m w" and "re_later R now (rf_expiration w)"
  shows "wp (update_attempt E R now) (\<lambda>_ _. False) (\<lambda>_ w'. rf_good kv up R m w' \<and> rf_tree w' = []) w"
proof -
  show ?thesis
    unfolding update_attempt_def wp_bindP wp_readP if_P [OF assms(3)] wp_thenP [of "log_detail (re_log R) _ _"]
  proof (rule wp_detail [OF assms(2)], simp)
    fix w1 :: "('db, 'r) rworld_scheme"
    assume "rf_good kv up R m w1"
    let ?w = "w1\<lparr>rf_expiration := Some now, rf_tree := [], rf_systems := [], rf_fabrics := []\<rparr>"
    have "wp (thenP (process_systems E R) (process_fabrics E R)) (\<lambda>_ _. False) (\<lambda>_ w'. rf_good kv up R m w' \<and> rf_tree w' = []) ?w"
      using fails_keeping [OF assms(1), of ?w] \<open>rf_good kv up R m w1\<close> by simp
    then have "wp (thenP (process_systems E R) (process_fabrics E R)) P (\<lambda>_ w'. rf_good kv up R m w' \<and> rf_tree w' = []) ?w" for P
      by (rule wp_mono) auto
    then show "wp (thenP (modifyP (\<lambda>w. w\<lparr>rf_expiration := Some now, rf_tree := [], rf_systems := [], rf_fabrics := []\<rparr>))
       (thenP (process_systems E R) (thenP (process_fabrics E R) (thenP (build_redfish_root R)
       (thenP (build_redfish_systems R) (build_redfish_fabrics R)))))) (\<lambda>_ _. False) (\<lambda>_ w'. rf_good kv up R m w' \<and> rf_tree w' = []) w1"
      by (simp add: wp_thenP_fun wp_modifyP)
  qed
qed

lemma wp_update_tries:
  fixes w :: "('db, 'r) rworld_scheme"
  assumes "reading_fails R m TYPE('r)" and "rf_good kv up R m w" and "re_later R now (rf_expiration w)" and "re_later R now None"
  shows "wp (update_tries E R now (Suc n)) (\<lambda>_ w'. rf_good kv up R m w' \<and> rf_tree w' = []) (\<lambda>_ _. False) w"
  using assms(2,3)
proof (induction n arbitrary: w)
  case 0
  show ?case
    by (simp add: wp_tryP wp_retP_fun) (rule wp_mono [OF wp_update_attempt [OF assms(1) 0]], auto)
next
  case (Suc n)
  have "wp (log_exception (re_log R) e) (\<lambda>_. wp (thenP (modifyP (\<lambda>w. w\<lparr>rf_expiration := None\<rparr>))
      (thenP (log_error (re_log R) ''Unable to update data.  Retrying...'' []) (update_tries E R now (Suc n))))
      (\<lambda>_ w'. rf_good kv up R m w' \<and> rf_tree w' = []) (\<lambda>_ _. False)) (\<lambda>_ _. False) w1"
    if good: "rf_good kv up R m w1" for e and w1 :: "('db, 'r) rworld_scheme"
  proof (rule wp_log_exception_works)
    show "log_works w1" using good by (simp add: rf_good_def)
    fix w2 :: "('db, 'r) rworld_scheme"
    assume "log_step w1 w2" "log_works w2"
    then have w2: "rf_good kv up R m (w2\<lparr>rf_expiration := None\<rparr>)" using rf_good_log_step [OF good] by (simp add: log_works_def)
    show "wp (thenP (modifyP (\<lambda>w. w\<lparr>rf_expiration := None\<rparr>))
      (thenP (log_error (re_log R) ''Unable to update data.  Retrying...'' []) (update_tries E R now (Suc n))))
      (\<lambda>_ w'. rf_good kv up R m w' \<and> rf_tree w' = []) (\<lambda>_ _. False) w2"
      unfolding wp_thenP wp_modifyP
    proof (rule wp_log_works(2))
      show "log_works (w2\<lparr>rf_expiration := None\<rparr>)" using w2 by (simp add: rf_good_def)
      show "py_percent ''Unable to update data.  Retrying...'' [] = Inr ''Unable to update data.  Retrying...''"
        by (rule py_percent_plain) simp
      fix w3 :: "('db, 'r) rworld_scheme"
      assume "log_step (w2\<lparr>rf_expiration := None\<rparr>) w3" "log_works w3"
      then have "rf_good kv up R m w3" "rf_expiration w3 = None"
        using rf_good_log_step [OF w2] log_step_more [of "w2\<lparr>rf_expiration := None\<rparr>" w3]
        by (auto simp: log_works_def) (cases w2; cases w3; simp)
      then show "wp (update_tries E R now (Suc n)) (\<lambda>_ w'. rf_good kv up R m w' \<and> rf_tree w' = []) (\<lambda>_ _. False) w3"
        using Suc.IH assms(4) by simp
    qed
  qed
  then show ?case
    unfolding update_tries.simps(2) [of E R now "Suc n"] wp_tryP
    by (intro wp_mono [OF wp_update_attempt [OF assms(1) Suc.prems]]) (simp_all add: wp_thenP)
qed

lemma wp_rf_update:
  fixes w :: "('db, 'r) rworld_scheme"
  assumes "reading_fails R m TYPE('r)" and "rf_good kv up R m w" and "\<And>t. re_later R t (rf_expiration w)" and "\<And>t. re_later R t None"
  shows "wp (rf_update E R) (\<lambda>_ w'. rf_good kv up R m w' \<and> rf_tree w' = []) (\<lambda>_ _. False) w"
proof -
  let ?P = "\<lambda>w' :: ('db, 'r) rworld_scheme. rf_good kv up R m w' \<and> rf_expiration w' = rf_expiration w"
  have step: "?P w2" if "log_step w1 w2" "log_works w2" "?P w1" for w1 w2
    using rf_good_log_step [OF _ that(1), of kv up R m] log_step_more [OF that(1)] that(2,3)
    by (cases w1; cases w2) (auto simp: log_works_def)
  have time: "?P (w1\<lparr>lw_tick := t\<rparr>)" if "?P w1" for w1 t
    using that by (auto simp: rf_good_def db_is_def quiet_def log_works_def has_ring_def)
  have detail: "wp (log_detail (re_log R) s as) (\<lambda>_. Q) (\<lambda>_ _. False) w1"
    if "?P w1" "py_percent s as = Inr t" "\<And>w2. ?P w2 \<Longrightarrow> Q w2" for s as t Q w1
    by (rule wp_log_works [OF _ that(2)]) (use that step in \<open>auto simp: rf_good_def\<close>)
  have tries: "wp (bindP time_time (\<lambda>now. update_tries E R now 2)) (\<lambda>_ w'. rf_good kv up R m w' \<and> rf_tree w' = []) (\<lambda>_ _. False) w1"
    if "?P w1" for w1
  proof -
    have "wp (update_tries E R now (Suc 1)) (\<lambda>_ w'. rf_good kv up R m w' \<and> rf_tree w' = []) (\<lambda>_ _. False) (w1\<lparr>lw_tick := t\<rparr>)" for now t
      using time [OF that] by (intro wp_update_tries assms(1)) (simp_all add: assms(3,4))
    then show ?thesis by (simp add: wp_bindP wp_time_now numeral_2_eq_2 del: update_tries.simps)
  qed
  have act: "wp (build_redfish_actions R) (\<lambda>_. Q) (\<lambda>_ _. False) w1" if "?P w1" "\<And>w2. ?P w2 \<Longrightarrow> Q w2" for w1 Q
    unfolding build_redfish_actions_def wp_thenP
    by (rule detail [OF that(1) py_percent_plain], simp, rule detail)
      (use that(2) in \<open>simp_all add: int_str_def digit_char_def\<close>)
  show ?thesis
    unfolding rf_update_def wp_thenP
    by (rule detail [OF _ py_percent_plain]) (use assms(2) in \<open>auto intro!: act tries\<close>)
qed

lemma wp_rf_get_empty:
  fixes w :: "('db, 'r) rworld_scheme"
  assumes "reading_fails R m TYPE('r)" and "rf_good kv up R m w" and "\<And>t. re_later R t (rf_expiration w)" and "\<And>t. re_later R t None"
    and "re_auto_update R" and "map_of (redfish_actions shell (re_log R)) request = None" and "CHR ''%'' \<notin> set request"
  shows "wp (rf_get shell E R request payload) (\<lambda>r _. r = not_found_doc) (\<lambda>_ _. False) w"
  unfolding rf_get_def wp_thenP
proof (rule wp_log_works [OF _ py_percent_plain])
  show "log_works w" using assms(2) by (simp add: rf_good_def)
  show "CHR ''%'' \<notin> set (''GET: '' @ request)" using assms(7) by simp
  fix w1 :: "('db, 'r) rworld_scheme"
  assume w1: "log_step w w1" "log_works w1"
  have good: "rf_good kv up R m w1" using rf_good_log_step [OF assms(2) w1(1)] w1(2) by (simp add: log_works_def)
  have exp: "re_later R t (rf_expiration w1)" for t
    using assms(3) log_step_more [OF w1(1)] by (cases w; cases w1) auto
  have invalid: "wp (invalid_request R ''GET: Invalid Request. %s'' [JStr request] request) (\<lambda>r _. r = not_found_doc) (\<lambda>_ _. False) w2"
    if "log_works w2" for w2 :: "('db, 'r) rworld_scheme"
  proof -
    have "wp (log_error (re_log R) ''GET: Invalid Request. %s'' [JStr request]) (\<lambda>_ _. True) (\<lambda>_ _. False) w2"
      by (rule wp_log_works(2) [OF that, of _ _ "''GET: Invalid Request. '' @ request"]) simp_all
    then show ?thesis by (simp add: invalid_request_def wp_simps wp_retP_fun)
  qed
  have "wp (rf_update E R) (\<lambda>_ w2. wp (bindP (readP rf_tree) (\<lambda>tree. case map_of tree request of
      Some j \<Rightarrow> retP j | None \<Rightarrow> invalid_request R ''GET: Invalid Request. %s'' [JStr request] request))
      (\<lambda>r _. r = not_found_doc) X w2) X w1" if "X = (\<lambda>_ _. False)" for X
    unfolding that by (rule wp_mono [OF wp_rf_update [OF assms(1) good exp assms(4)]]) (auto simp: wp_simps rf_good_def invalid)
  then have run: "wp (thenP (whenP (re_auto_update R) (rf_update E R))
      (case map_of (redfish_actions shell (re_log R)) request of Some f \<Rightarrow> f payload
       | None \<Rightarrow> bindP (readP rf_tree) (\<lambda>tree. case map_of tree request of
           Some j \<Rightarrow> retP j | None \<Rightarrow> invalid_request R ''GET: Invalid Request. %s'' [JStr request] request)))
      (\<lambda>r _. r = not_found_doc) (\<lambda>_ _. False) w1"
    using assms(5,6) by (simp add: wp_thenP wp_whenP)
  show "wp (tryP (thenP (whenP (re_auto_update R) (rf_update E R))
         (case map_of (redfish_actions shell (re_log R)) request of Some f \<Rightarrow> f payload
          | None \<Rightarrow> bindP (readP rf_tree) (\<lambda>tree. case map_of tree request of
              Some j \<Rightarrow> retP j | None \<Rightarrow> invalid_request R ''GET: Invalid Request. %s'' [JStr request] request)))
       (\<lambda>e. thenP (log_exception (re_log R) e) (invalid_request R ''GET: Invalid Request. %s'' [JStr request] request)))
     (\<lambda>r _. r = not_found_doc) (\<lambda>_ _. False) w1"
    unfolding wp_tryP by (rule wp_mono [OF run]) simp_all
qed

lemma fabrics_fail: "prefix ''/switches/list'' k \<Longrightarrow> m k = Some v \<Longrightarrow> reading_fails R m TYPE('r)"
proof (unfold reading_fails_def wp_thenP, intro allI impI)
  fix w :: "('db, 'r) rworld_scheme"
  assume k: "prefix ''/switches/list'' k" "m k = Some v" and good: "rf_good kv up R m w"
  show "wp (process_systems E R) (\<lambda>_. wp (process_fabrics E R) (\<lambda>_ _. False) (\<lambda>_ _. True)) (\<lambda>_ _. True) w"
    by (rule wp_mono [OF keeps_wp [OF keeps_process(1) [of R m]]])
      (use good in \<open>auto simp: rf_rel_def intro!: wp_process_fabrics [where m = m, OF _ k]\<close>)
qed

lemma systems_fail:
  assumes "\<And>k v. m k = Some v \<Longrightarrow> prefix (devices_path u) k \<Longrightarrow> \<not> py_in_str ''Serial'' k"
    and "py_nth (py_split (CHR ''/'') key) 4 = Inr u" and "prefix ''/object_storage/servers/list'' key" and "m key = Some v"
  shows "reading_fails R m TYPE('r)"
  unfolding reading_fails_def wp_thenP
  by (intro allI impI, rule wp_mono [OF wp_process_systems [where m = m, OF _ assms]]) auto

end

section \<open>The links of the tree\<close>

lemma keys_put_docs: "fst ` set (foldl put_doc t ds) = fst ` set t \<union> odata_id ` set ds"
  by (induction ds arbitrary: t) (auto simp: put_doc_def keys_dict_set)

lemma map_of_upd_key: "map_of (upd_key k f d) k' = (if k' = k then map_option f (map_of d k) else map_of d k')"
  by (simp add: upd_key_def split: option.splits)

lemma odata_id_other:
  "k \<noteq> ''@odata.id'' \<Longrightarrow> odata_id (dict_set k v d) = odata_id d" "k \<noteq> ''@odata.id'' \<Longrightarrow> odata_id (upd_key k f d) = odata_id d"
  by (simp_all add: odata_id_def map_of_upd_key)

lemma odata_id_at_path: "odata_id (at_path p d) = p"
  by (simp add: odata_id_def at_path_def)

lemma odata_id_members: "odata_id (with_members ps d) = odata_id d"
  by (simp add: with_members_def odata_id_other)

lemmas doc_ids = odata_id_other odata_id_at_path odata_id_members

lemma doc_paths:
  "odata_id (systems_doc syss) = systems_path" "odata_id (system_doc stale s) = system_path (sy_uuid s)"
  "odata_id (subsystem_doc s ss) = system_path (ss_uuid ss)" "odata_id (storages_doc ss) = storage_path ss"
  "odata_id (storage_doc ss st) = storage_path ss @ ''/'' @ st_uuid st" "odata_id (drives_doc ss st) = drives_path ss st"
  "odata_id (drive_doc ss st d) = drives_path ss st @ ''/'' @ dv_uuid d"
  "odata_id (interface_doc ss i) = interfaces_path ss @ ''/'' @ if_mac i"
  by (simp_all add: systems_doc_def system_doc_def subsystem_doc_def storages_doc_def storage_doc_def drives_doc_def drive_doc_def
      interface_doc_def Let_def doc_ids split: list.split)

lemma system_in_docs: "s \<in> set syss \<Longrightarrow> \<exists>stale'. system_doc stale' s \<in> set (system_docs stale syss)"
  by (induction syss arbitrary: stale) auto

lemma subsystem_in_docs:
  "s \<in> set syss \<Longrightarrow> ss \<in> set (sy_subsystems s) \<Longrightarrow> set (subsystem_docs s ss) \<subseteq> set (system_docs stale syss)"
  by (induction syss arbitrary: stale) auto

definition system_members :: "rsystem list \<Rightarrow> string list" where
  "system_members syss = concat (map (\<lambda>s. system_path (sy_uuid s) # map (\<lambda>ss. system_path (ss_uuid ss)) (sy_subsystems s)) syss)"

lemma systems_doc_members:
  "map_of (systems_doc syss) ''Members'' = Some (JList (map link (system_members syss)))"
  "map_of (systems_doc syss) ''Members@odata.count'' = Some (JInt (int (length (system_members syss))))"
  by (simp_all add: systems_doc_def with_members_def map_of_upd_key at_path_def resp_1_1_def system_members_def)

lemma members_resolve:
  assumes "p \<in> set (system_members syss)"
  shows "p \<in> fst ` set (foldl put_doc t (build_systems n syss))"
proof -
  obtain s where s: "s \<in> set syss" "p = system_path (sy_uuid s) \<or> (\<exists>ss \<in> set (sy_subsystems s). p = system_path (ss_uuid ss))"
    using assms by (auto simp: system_members_def)
  let ?ds = "system_docs (foldl last_subsystem [] syss) syss"
  have "p \<in> odata_id ` set ?ds"
    using s(2)
  proof
    assume "p = system_path (sy_uuid s)"
    then show ?thesis using system_in_docs [OF s(1)] doc_paths(2) by (metis image_eqI)
  next
    assume "\<exists>ss \<in> set (sy_subsystems s). p = system_path (ss_uuid ss)"
    then obtain ss where ss: "ss \<in> set (sy_subsystems s)" "p = system_path (ss_uuid ss)" by blast
    then have "subsystem_doc s ss \<in> set ?ds" using subsystem_in_docs [OF s(1) ss(1)] by (auto simp: subsystem_docs_def)
    then show ?thesis using ss(2) doc_paths(3) by (metis image_eqI)
  qed
  then show ?thesis by (auto simp: keys_put_docs build_systems_def)
qed

lemma parts_resolve:
  assumes "s \<in> set syss" and "ss \<in> set (sy_subsystems s)" and "p \<in> odata_id ` (set (storage_docs ss) \<union> set (interface_docs ss))"
  shows "p \<in> fst ` set (foldl put_doc t (build_systems n syss))"
proof -
  have "set (storage_docs ss) \<union> set (interface_docs ss) \<subseteq> set (build_systems n syss)"
    using subsystem_in_docs [OF assms(1,2), of "foldl last_subsystem [] syss"] by (auto simp: build_systems_def subsystem_docs_def)
  from image_mono [OF this, of odata_id] assms(3) show ?thesis unfolding keys_put_docs by blast
qed

lemma storage_paths:
  assumes "ss_storage ss = [st]" and "d \<in> set (st_drives st)"
  shows "storage_path ss @ ''/'' @ st_uuid st \<in> odata_id ` set (storage_docs ss)" "drives_path ss st @ ''/'' @ dv_uuid d \<in> odata_id ` set (storage_docs ss)"
  using assms by (auto simp: storage_docs_def doc_paths image_image)

lemma interface_paths:
  assumes "i \<in> set (ss_interfaces ss)"
  shows "interfaces_path ss @ ''/'' @ if_mac i \<in> odata_id ` set (interface_docs ss)"
  using assms by (auto simp: interface_docs_def doc_paths image_image)

end
