(* ===== verification/SystemsRest.thy ===== *)
theory SystemsRest
  imports RedfishRest RedfishTree
begin

text \<open>
  The REST resources for systems, storage, drives and network interfaces,
  \<^verbatim>\<open>src/ufm/fabricmanager/rest_api/redfish/{System_api,Storage,Drive,EthernetInterface,ServiceRoot}.py\<close>
  with their templates, the backends
  \<^verbatim>\<open>common/ufmdb/redfish/redfish_{system,storage,drive,ethernet}_backend.py\<close> and
  \<^verbatim>\<open>ufmdb_redfish_resource.py\<close>, and \<^verbatim>\<open>backend/populate.py\<close>, which fills the emulated resources.

  A backend looks its system up under \<^verbatim>\<open>/Systems/\<close>; a system that is not there counts as a key-value
  system and is answered from the tree of \<^verbatim>\<open>RedfishUfmdb\<close>.  Each handler returns a document without a
  status, so that HTTP answers 200 in every case.

  Parameters: \<open>lit\<close> for \<^verbatim>\<open>ast.literal_eval\<close> on a stored text, the JSON body of a request with the
  outcome of \<^verbatim>\<open>request.get_json\<close>, and \<open>shell\<close> as for the actions on the log.
\<close>

section \<open>ufmdb\_redfish\_resource\<close>

definition SYSTEMS :: string where "SYSTEMS = ''Systems''"
definition STORAGE :: string where "STORAGE = ''Storage''"
definition DRIVES :: string where "DRIVES = ''Drives''"
definition ETH_INTERFACES :: string where "ETH_INTERFACES = ''EthernetInterfaces''"

text \<open>\<^verbatim>\<open>os.path.join\<close> of a path and further components.\<close>

definition path_join2 :: "string \<Rightarrow> string \<Rightarrow> string" where
  "path_join2 a b =
     (if prefix ''/'' b then b else if a = [] \<or> last a = CHR ''/'' then a @ b else a @ ''/'' @ b)"

definition path_join :: "string \<Rightarrow> string list \<Rightarrow> string" where
  "path_join a bs = foldl path_join2 a bs"

text \<open>\<^verbatim>\<open>None\<close> is no iterator, and an iterator that breaks raises inside the comprehension.\<close>

definition get_prefix_keys :: "'db etcd3 \<Rightarrow> string \<Rightarrow> (('db, 'r) dworld_scheme, string list) py" where
  "get_prefix_keys E p =
     with_client E (\<lambda>l. bindP (Ufmdb_get_prefix E l p []) (\<lambda>r. case r of
       None \<Rightarrow> raiseP TypeError
     | Some (items, None) \<Rightarrow> retP (map fst items)
     | Some (items, Some e) \<Rightarrow> raiseP e))"

definition resource_link :: "string \<Rightarrow> string \<Rightarrow> exn + json" where
  "resource_link resource key =
     bindE (py_nth (py_split (CHR ''/'') key) 2) (\<lambda>i. Inr (odata (path_join REST_BASE [resource, i])))"

definition get_resources_list :: "'db etcd3 \<Rightarrow> string \<Rightarrow> (('db, 'r) dworld_scheme, json list) py" where
  "get_resources_list E resource =
     bindP (get_prefix_keys E (''/'' @ resource)) (\<lambda>keys. liftP (mapE (resource_link resource) keys))"

text \<open>\<^verbatim>\<open>db.get\<close> returns a pair, or \<^verbatim>\<open>None\<close> after an exception; a missing key has the value \<^verbatim>\<open>None\<close>.\<close>

definition get_value :: "'db etcd3 \<Rightarrow> (string \<Rightarrow> exn + json) \<Rightarrow> string \<Rightarrow> (('db, 'r) dworld_scheme, json) py" where
  "get_value E parse key =
     with_client E (\<lambda>l. bindP (Ufmdb_get E l key) (\<lambda>r. case r of
       None \<Rightarrow> raiseP TypeError
     | Some None \<Rightarrow> retP (JObj [])
     | Some (Some v) \<Rightarrow> if v = [] then retP (JObj []) else liftP (parse v)))"

definition get_resource_value where "get_resource_value E lit key = get_value E lit key"
definition get_resp_from_db where "get_resp_from_db E loads key = get_value E loads key"

definition lookup_resource_in_db ::
  "'db etcd3 \<Rightarrow> (string \<Rightarrow> exn + json) \<Rightarrow> string \<Rightarrow> string \<Rightarrow> (('db, 'r) dworld_scheme, json \<times> json) py" where
  "lookup_resource_in_db E lit prefx i =
     bindP (get_resource_value E lit (path_join ''/'' [prefx, i])) (\<lambda>v.
       if py_truth v then bindP (liftP (py_key v ''type'')) (\<lambda>t. retP (t, v))
       else retP (JStr ''nkv'', JObj []))"

section \<open>The backends\<close>

text \<open>
  \<^verbatim>\<open>RedfishErrorResponse()\<close> is one object with its own logger; here its methods are called properly.
\<close>

definition err_log :: logger where "err_log = \<lparr>lg_module = ''RFDB'', lg_mask = UFM_REDFISH_DB\<rparr>"

definition status_doc :: "int \<Rightarrow> string \<Rightarrow> json" where
  "status_doc code msg = JObj [(''Status'', JInt code), (''Message'', JStr msg)]"

definition get_server_error_response :: "exn \<Rightarrow> ('r lworld_scheme, json) py" where
  "get_server_error_response e =
     thenP (log_exception err_log e) (retP (status_doc SERVER_ERROR ''Internal Server Error''))"

definition get_method_not_allowed_response :: "string \<Rightarrow> ('r lworld_scheme, json) py" where
  "get_method_not_allowed_response message =
     thenP (log_error err_log (''Method not supported for '' @ message) [])
       (retP (status_doc METHOD_NOT_ALLOWED ''Method Not Allowed''))"

definition NkvSystemBackend_del :: "logger \<Rightarrow> ('r lworld_scheme, unit) py" where
  "NkvSystemBackend_del l =
     thenP (tryP (log_detail l ''UfmdbSystemAPI stopped.'' []) (\<lambda>_. retP ())) log_del"

definition NkvSystemBackend_new :: "('r lworld_scheme, logger) py" where
  "NkvSystemBackend_new =
     bindP (log_new ''RFDB'' UFM_REDFISH_DB) (\<lambda>l.
       tryP (thenP (log_detail l ''UfmdbSystemAPI started.'' []) (retP l))
         (\<lambda>e. thenP (NkvSystemBackend_del l) (raiseP e)))"

text \<open>
  \<open>create_instance\<close> of the four backends: the same look-up of the system, then one object for the path.
\<close>

definition create_instance ::
  "'db etcd3 \<Rightarrow> (string \<Rightarrow> exn + json) \<Rightarrow> string \<Rightarrow> (('db, 'r) dworld_scheme, logger) py" where
  "create_instance E lit sys_id =
     bindP (lookup_resource_in_db E lit SYSTEMS sys_id) (\<lambda>(ty, _).
       if ty = JStr ''nkv'' then NkvSystemBackend_new else raiseP NotImplementedError)"

definition system_url :: "string \<Rightarrow> string" where
  "system_url i = path_join REST_BASE [SYSTEMS, i]"

definition storage_collection_url :: "string \<Rightarrow> string" where
  "storage_collection_url sys_id = path_join REST_BASE [SYSTEMS, sys_id, STORAGE]"

definition storage_url :: "string \<Rightarrow> string \<Rightarrow> string" where
  "storage_url sys_id st = path_join REST_BASE [SYSTEMS, sys_id, STORAGE, st]"

definition drive_collection_url :: "string \<Rightarrow> string \<Rightarrow> string" where
  "drive_collection_url sys_id st = path_join REST_BASE [SYSTEMS, sys_id, STORAGE, st, DRIVES]"

definition drive_url :: "string \<Rightarrow> string \<Rightarrow> string \<Rightarrow> string" where
  "drive_url sys_id st d = path_join REST_BASE [SYSTEMS, sys_id, STORAGE, st, DRIVES, d]"

definition ethernet_collection_url :: "string \<Rightarrow> string" where
  "ethernet_collection_url sys_id = path_join REST_BASE [SYSTEMS, sys_id, ETH_INTERFACES]"

definition ethernet_url :: "string \<Rightarrow> string \<Rightarrow> string" where
  "ethernet_url sys_id e = path_join REST_BASE [SYSTEMS, sys_id, ETH_INTERFACES, e]"

section \<open>The resources\<close>

text \<open>\<open>attemptP\<close>: the outcome as a value.  \<open>finallyP\<close>: what runs when the handler drops its local object.\<close>

definition attemptP :: "('w, 'a) py \<Rightarrow> ('w, exn + 'a) py" where
  "attemptP m w = (case m w of (r, w') \<Rightarrow> (Inr r, w'))"

definition finallyP :: "('w, 'a) py \<Rightarrow> ('w, unit) py \<Rightarrow> ('w, 'a) py" where
  "finallyP m d w = (case m w of (r, w') \<Rightarrow> (r, snd (d w')))"

definition with_backend ::
  "(('db, 'r) dworld_scheme, logger) py \<Rightarrow> (('db, 'r) dworld_scheme, json) py \<Rightarrow> (exn \<Rightarrow> (('db, 'r) dworld_scheme, json) py) \<Rightarrow>
   (('db, 'r) dworld_scheme, json) py" where
  "with_backend create body handler =
     bindP (attemptP create) (\<lambda>r. case r of
       Inl e \<Rightarrow> handler e
     | Inr l \<Rightarrow> finallyP (tryP body handler) (NkvSystemBackend_del l))"

definition resource_get where
  "resource_get shell E R lit sys_id url =
     with_backend (create_instance E lit sys_id) (rf_get shell E R url (JStr ''{}'')) get_server_error_response"

text \<open>A request whose body is no JSON raises before the backend is made.\<close>

definition post_handler :: "string \<Rightarrow> exn \<Rightarrow> ('r lworld_scheme, json) py" where
  "post_handler name e =
     (if e = NotImplementedError then get_method_not_allowed_response name else get_server_error_response e)"

definition resource_post where
  "resource_post shell E R lit body sys_id url name =
     (case body of
        Inl e \<Rightarrow> post_handler name e
      | Inr payload \<Rightarrow>
          with_backend (create_instance E lit sys_id) (rf_post shell E R url payload) (post_handler name))"

definition SystemAPI_get where
  "SystemAPI_get shell E R lit ident = resource_get shell E R lit ident (system_url ident)"

definition SystemAPI_post where
  "SystemAPI_post shell E R lit body ident = resource_post shell E R lit body ident (system_url ident) (''System: '' @ ident)"

definition StorageAPI_get where
  "StorageAPI_get shell E R lit sys_id st = resource_get shell E R lit sys_id (storage_url sys_id st)"

definition StorageAPI_post where
  "StorageAPI_post shell E R lit body sys_id st =
     resource_post shell E R lit body sys_id (storage_url sys_id st) (''Storage: '' @ st)"

definition StorageCollectionAPI_get where
  "StorageCollectionAPI_get shell E R lit sys_id = resource_get shell E R lit sys_id (storage_collection_url sys_id)"

definition DriveAPI_get where
  "DriveAPI_get shell E R lit sys_id st d = resource_get shell E R lit sys_id (drive_url sys_id st d)"

definition DriveAPI_post where
  "DriveAPI_post shell E R lit body sys_id st d =
     resource_post shell E R lit body sys_id (drive_url sys_id st d) (''Drive: '' @ d)"

definition DriveCollectionAPI_get where
  "DriveCollectionAPI_get shell E R lit sys_id st = resource_get shell E R lit sys_id (drive_collection_url sys_id st)"

definition EthernetInterfaceAPI_get where
  "EthernetInterfaceAPI_get shell E R lit sys_id e = resource_get shell E R lit sys_id (ethernet_url sys_id e)"

definition EthernetInterfaceAPI_post where
  "EthernetInterfaceAPI_post shell E R lit body sys_id e =
     resource_post shell E R lit body sys_id (ethernet_url sys_id e) (''EthernetInterface: '' @ e)"

definition EthernetInterfaceCollectionAPI_get where
  "EthernetInterfaceCollectionAPI_get shell E R lit sys_id = resource_get shell E R lit sys_id (ethernet_collection_url sys_id)"

text \<open>The collection of systems: those of the tree, then the keys below \<^verbatim>\<open>/Systems\<close>.\<close>

definition system_collection_base :: "json list \<Rightarrow> int \<Rightarrow> json" where
  "system_collection_base ms n =
     JObj [(''@odata.context'', JStr (REST_BASE @ ''$metadata#ComputerSystemCollection.ComputerSystemCollection'')),
       (''@odata.id'', JStr (REST_BASE @ ''Systems'')),
       (''@odata.type'', JStr ''#ComputerSystemCollection.ComputerSystemCollection''),
       (''Description'', JStr ''Collection of Computer Systems''), (''Members'', JList ms),
       (''Members@odata.count'', JInt n), (''Name'', JStr ''System Collection'')]"

text \<open>\<^verbatim>\<open>[] + x\<close> and \<^verbatim>\<open>0 + len(x)\<close>.\<close>

fun as_list :: "json \<Rightarrow> exn + json list" where
  "as_list (JList xs) = Inr xs"
| "as_list j = Inl TypeError"

definition tree_members :: "json \<Rightarrow> exn + json list" where
  "tree_members resp =
     bindE (py_in ''Members'' resp) (\<lambda>b. if b then bindE (py_key resp ''Members'') as_list else Inr [])"

definition system_collection_get ::
  "(string \<Rightarrow> (('db, 'r) rworld_scheme, unit) py) \<Rightarrow> 'db etcd3 \<Rightarrow> rfenv \<Rightarrow> (('db, 'r) rworld_scheme, json) py" where
  "system_collection_get shell E R =
     bindP NkvSystemBackend_new (\<lambda>l. finallyP
       (bindP (rf_get shell E R (path_join REST_BASE [SYSTEMS]) (JStr ''{}'')) (\<lambda>resp.
        bindP (liftP (tree_members resp)) (\<lambda>nkv.
        bindP (get_resources_list E SYSTEMS) (\<lambda>systems.
        retP (system_collection_base (nkv @ systems) (int (length nkv) + int (length systems)))))))
       (NkvSystemBackend_del l))"

definition SystemCollectionAPI_get ::
  "(string \<Rightarrow> (('db, 'r) rworld_scheme, unit) py) \<Rightarrow> 'db etcd3 \<Rightarrow> rfenv \<Rightarrow> string \<Rightarrow> (('db, 'r) rworld_scheme, json) py" where
  "SystemCollectionAPI_get shell E R collection =
     tryP (if collection = SYSTEMS then system_collection_get shell E R else raiseP NotImplementedError)
       get_server_error_response"

definition SystemCollectionAPI_post :: "('r lworld_scheme, json) py" where
  "SystemCollectionAPI_post = get_method_not_allowed_response ''Systems''"

definition ServiceRoot_get :: "string \<Rightarrow> string \<Rightarrow> response" where
  "ServiceRoot_get rest_base uuid =
     Resp (JObj ([(''@odata.context'', JStr (rest_base @ ''$metadata#ServiceRoot.ServiceRoot'')),
        (''@odata.type'', JStr ''#ServiceRoot.v1_0_0.ServiceRoot''), (''@odata.id'', JStr rest_base),
        (''Id'', JStr ''RootService''), (''Name'', JStr ''Root Service''),
        (''ProtocolFeaturesSupported'', JObj [(''ExpandQuery'', JObj [(''ExpandAll'', JBool False)]), (''SelectQuery'', JBool False)]),
        (''RedfishVersion'', JStr ''1.8.0''), (''UUID'', JStr uuid), (''Vendor'', JStr ''Samsung''),
        (''JSONSchemas'', odata (rest_base @ ''JSONSchemas'')), (''Systems'', odata (rest_base @ ''Systems''))] @
       (if has_fabrics then [(''Fabrics'', odata (rest_base @ ''Fabrics''))] else []))) SUCCESS"

text \<open>The older entry point for every path; it strips slashes at both ends.\<close>

definition strip_slashes :: "string \<Rightarrow> string" where
  "strip_slashes s = rev (dropWhile (\<lambda>c. c = CHR ''/'') (rev (dropWhile (\<lambda>c. c = CHR ''/'') s)))"

definition UfmdbSystemAPI_get where
  "UfmdbSystemAPI_get shell E R l path =
     tryP (bindP (rf_get shell E R (''/'' @ strip_slashes path) (JStr ''{}'')) (\<lambda>r.
         thenP (log_error l (replicate 40 (CHR ''='')) []) (retP r)))
       (\<lambda>e. thenP (log_exception l e) (retP (status_doc 500 ''Internal Server Error'')))"

definition UfmdbSystemAPI_post where
  "UfmdbSystemAPI_post shell E R l body path =
     tryP (bindP (liftP body) (\<lambda>payload. rf_post shell E R (''/'' @ strip_slashes path) payload))
       (\<lambda>e. thenP (log_exception l e) (retP (status_doc 500 ''Internal Server Error'')))"

section \<open>Emulated resources\<close>

text \<open>The numbers of a system are formatted into its template as texts.\<close>

definition get_System_instance :: "wildcards \<Rightarrow> exn + json" where
  "get_System_instance ws =
     bindE (dict_get ws ''rest_base'') (\<lambda>rb. bindE (dict_get ws ''sys_id'') (\<lambda>s.
     bindE (dict_get ws ''nqn_id'') (\<lambda>q. bindE (dict_get ws ''ns_id'') (\<lambda>n.
     Inr (JObj [(''@odata.context'', JStr (rb @ ''$metadata#ComputerSystem.ComputerSystem'')),
       (''@odata.id'', JStr (rb @ ''Systems/'' @ s)), (''@odata.type'', JStr ''#ComputerSystem.v1_9_0.ComputerSystem''),
       (''Description'', JStr ''System representing the drive resources''), (''Id'', JStr s),
       (''Identifiers'', JList [JObj [(''DurableName'', JStr q), (''DurableNameFormat'', JStr ''NQN'')]]),
       (''Status'', JObj [(''State'', JStr ''Enabled''), (''Health'', JStr ''OK'')]),
       (''Storage'', odata (rb @ ''Systems/'' @ s @ ''/Storage'')),
       (''EthernetInterfaces'', odata (rb @ ''Systems/'' @ s @ ''/EthernetInterfaces'')), (''Name'', JStr ''System''),
       (''oem'', JObj [(''ServerName'', JStr ''msl-ssg-mp03''), (''NSID'', JStr n), (''NumaAligned'', JBool False)]),
       (''Links'', JObj [(''ConsumingComputerSystems'', JList [odata (rb @ ''Systems/Targetuuid'' @ q)])])])))))"

definition storage_oem :: json where
  "storage_oem = JObj [(''CapacityBytes'', JInt 107541167505408), (''UtilizationBytes'', JInt 1075411675054),
     (''PercentAvailable'', JInt 99)]"

definition get_storage_instance :: "wildcards \<Rightarrow> string list \<Rightarrow> exn + json" where
  "get_storage_instance ws serial_numbers =
     bindE (dict_get ws ''rest_base'') (\<lambda>rb. bindE (dict_get ws ''sys_id'') (\<lambda>s. bindE (dict_get ws ''storage_id'') (\<lambda>st.
     let path = rb @ ''Systems/'' @ s @ ''/Storage/'' @ st in
     Inr (JObj [(''@odata.context'', JStr (rb @ ''$metadata#Storage.Storage'')), (''@odata.id'', JStr path),
       (''@odata.type'', JStr ''#Storage.v1_8_0.Storage''), (''Id'', JStr st), (''Description'', JStr ''Storage information''),
       (''Name'', JStr ''Storage''), (''Drives'', JList (map (\<lambda>sn. odata (path @ ''/Drives/'' @ sn)) serial_numbers)),
       (''oem'', storage_oem)]))))"

definition get_drive_instance :: "wildcards \<Rightarrow> exn + json" where
  "get_drive_instance ws =
     bindE (dict_get ws ''rest_base'') (\<lambda>rb. bindE (dict_get ws ''sys_id'') (\<lambda>s. bindE (dict_get ws ''storage_id'') (\<lambda>st.
     bindE (dict_get ws ''drive_id'') (\<lambda>d.
     Inr (JObj [(''@odata.context'', JStr (rb @ ''$metadata#Drive.Drive'')),
       (''@odata.id'', JStr (rb @ ''/Systems/'' @ s @ ''/Storage/'' @ st @ ''/Drives/'' @ d)),
       (''@odata.type'', JStr ''#Drive.v1_8_0.Drive''), (''Description'', JStr ''Drive information''),
       (''Name'', JStr ''Storage Drive Information''), (''Id'', JStr d), (''BlockSizeBytes'', JInt 512),
       (''CapacityBytes'', JInt 3840755982336), (''Manufacturer'', JStr ''Samsung''), (''MediaType'', JStr ''SSD''),
       (''Model'', JStr ''MZQLB3T8HALS-000AZ''), (''Protocol'', JStr ''NVMeOverFabrics''), (''Revision'', JStr ''ETA51KB3''),
       (''SerialNumber'', JStr d), (''oem'', JObj [(''UtilizationBytes'', JInt 38407559820), (''PercentAvailable'', JInt 99)])])))))"

definition get_ethernet_interface_instance :: "wildcards \<Rightarrow> exn + json" where
  "get_ethernet_interface_instance ws =
     bindE (dict_get ws ''rest_base'') (\<lambda>rb. bindE (dict_get ws ''sys_id'') (\<lambda>s. bindE (dict_get ws ''nic_id'') (\<lambda>n.
     Inr (JObj [(''@odata.context'', JStr (rb @ ''$metadata#EthernetInterface.EthernetInterface'')),
       (''@odata.id'', JStr (rb @ ''Systems/'' @ s @ ''/EthernetInterfaces/'' @ n)),
       (''@odata.type'', JStr ''#EthernetInterface.v1_5_1.EthernetInterface''), (''Id'', JStr n),
       (''Description'', JStr ''Ethernet Interface information''), (''Name'', JStr ''NIC''),
       (''MACAddress'', JStr ''ac:1f:6b:cf:1d:dc''), (''SpeedMbps'', JInt 100000), (''LinkStatus'', JStr ''LinkUp''),
       (''IPv4Addresses'', JList [JObj [(''Address'', JStr ''102.100.20.3''), (''SubnetMask'', JStr ''''), (''AddressOrigin'', JStr ''''),
          (''Gateway'', JStr ''''), (''oem'', JObj [(''Port'', JInt 1024), (''SupportedProtocol'', JStr ''TCP'')])]]),
       (''IPv6DefaultGateway'', JStr ''''),
       (''IPv6Addresses'', JList [JObj [(''Address'', JStr ''''), (''PrefixLength'', JInt 0), (''AddressOrigin'', JStr ''''),
          (''AddressState'', JStr ''''), (''oem'', JObj [(''Port'', JInt 0), (''SupportedProtocol'', JStr '''')])]])]))))"

text \<open>The dictionaries \<^verbatim>\<open>members\<close> of the four modules.\<close>

record emulation =
  em_systems :: "json dict"
  em_storage :: "json dict dict"
  em_nics :: "json dict dict"
  em_drives :: "json dict dict dict"

definition put2 :: "string \<Rightarrow> string \<Rightarrow> 'v \<Rightarrow> 'v dict dict \<Rightarrow> 'v dict dict" where
  "put2 a b v ms = dict_set a (dict_set b v (sub_dict a ms)) ms"

definition put3 :: "string \<Rightarrow> string \<Rightarrow> string \<Rightarrow> 'v \<Rightarrow> 'v dict dict dict \<Rightarrow> 'v dict dict dict" where
  "put3 a b c v ms = put2 a b (dict_set c v (sub_dict b (sub_dict a ms))) ms"

text \<open>The arguments are passed by name in every call, so all fields of the templates are there.\<close>

definition CreateDriveEmulation :: "string \<Rightarrow> string \<Rightarrow> string \<Rightarrow> string \<Rightarrow> (emulation, unit) py" where
  "CreateDriveEmulation rest_base sys_id storage_id drive_id =
     bindP (liftP (get_drive_instance [(''rest_base'', rest_base), (''sys_id'', sys_id), (''storage_id'', storage_id), (''drive_id'', drive_id)]))
       (\<lambda>d. modifyP (\<lambda>em. em\<lparr>em_drives := put3 sys_id storage_id drive_id d (em_drives em)\<rparr>))"

definition CreateStorageEmulation :: "string \<Rightarrow> string \<Rightarrow> string \<Rightarrow> string list \<Rightarrow> (emulation, unit) py" where
  "CreateStorageEmulation rest_base sys_id storage_id serial_numbers =
     bindP (liftP (get_storage_instance [(''rest_base'', rest_base), (''sys_id'', sys_id), (''storage_id'', storage_id)] serial_numbers))
       (\<lambda>d. modifyP (\<lambda>em. em\<lparr>em_storage := put2 sys_id storage_id d (em_storage em)\<rparr>))"

definition CreateEthernetInterfaceEmulation :: "string \<Rightarrow> string \<Rightarrow> string \<Rightarrow> (emulation, unit) py" where
  "CreateEthernetInterfaceEmulation rest_base sys_id nic_id =
     bindP (liftP (get_ethernet_interface_instance [(''rest_base'', rest_base), (''sys_id'', sys_id), (''nic_id'', nic_id)]))
       (\<lambda>d. modifyP (\<lambda>em. em\<lparr>em_nics := put2 sys_id nic_id d (em_nics em)\<rparr>))"

definition CreateSystemEmulation_put :: "wildcards \<Rightarrow> string \<Rightarrow> nat \<Rightarrow> nat \<Rightarrow> (emulation, response) py" where
  "CreateSystemEmulation_put ws ident nqn ns =
     tryP (bindP (liftP (get_System_instance
            (dict_update ws [(''sys_id'', ident), (''nqn_id'', nat_str nqn), (''ns_id'', nat_str ns)]))) (\<lambda>cfg.
         thenP (modifyP (\<lambda>em. em\<lparr>em_systems := dict_set ident cfg (em_systems em)\<rparr>)) (retP (Resp cfg SUCCESS))))
       (\<lambda>_. retP (Status SERVER_ERROR))"

definition SystemEmulationAPI_get :: "string \<Rightarrow> emulation \<Rightarrow> response" where
  "SystemEmulationAPI_get ident em = FabricEmulationAPI_get ident (em_systems em)"

definition StorageEmulationAPI_get :: "string \<Rightarrow> string \<Rightarrow> emulation \<Rightarrow> response" where
  "StorageEmulationAPI_get a b em = SwitchEmulationAPI_get a b (em_storage em)"

definition EthernetInterfaceEmulationAPI_get :: "string \<Rightarrow> string \<Rightarrow> emulation \<Rightarrow> response" where
  "EthernetInterfaceEmulationAPI_get a b em = SwitchEmulationAPI_get a b (em_nics em)"

definition DriveEmulationAPI_get :: "string \<Rightarrow> string \<Rightarrow> string \<Rightarrow> emulation \<Rightarrow> response" where
  "DriveEmulationAPI_get a b c em = emulation3_get a b c (em_drives em)"

text \<open>Here an exception gives a bare status.\<close>

definition guard_status :: "exn + response \<Rightarrow> response" where
  "guard_status r = (case r of Inl _ \<Rightarrow> Status SERVER_ERROR | Inr x \<Rightarrow> x)"

definition StorageCollectionEmulationAPI_get :: "string \<Rightarrow> string \<Rightarrow> string \<Rightarrow> emulation \<Rightarrow> response" where
  "StorageCollectionEmulationAPI_get rest_base suff ident em =
     (case map_of (em_storage em) ident of None \<Rightarrow> Status NOT_FOUND
      | Some d \<Rightarrow> guard_status (bindE (member_links d) (\<lambda>links.
          Inr (Resp (JObj [(''@odata.context'', JStr (rest_base @ ''$metadata#StorageCollection.StorageCollection'')),
            (''@odata.id'', JStr (rest_base @ suff @ ''/'' @ ident @ ''/Storage'')),
            (''@odata.type'', JStr ''#StorageCollection.StorageCollection''),
            (''Description'', JStr ''Collection of Storage information''), (''Name'', JStr ''Storage Collection''),
            (''Members'', JList links), (''Members@odata.count'', JInt (int (length links))), (''oem'', storage_oem)]) SUCCESS))))"

definition EthernetInterfaceCollectionEmulationAPI_get :: "string \<Rightarrow> string \<Rightarrow> string \<Rightarrow> emulation \<Rightarrow> response" where
  "EthernetInterfaceCollectionEmulationAPI_get rest_base suff ident em =
     (case map_of (em_nics em) ident of None \<Rightarrow> Status NOT_FOUND
      | Some d \<Rightarrow> guard_status (bindE (member_links d) (\<lambda>links.
          Inr (Resp (collection_document (rest_base @ ''$metadata#EthernetInterfaceCollection.EthernetInterfaceCollection'')
            (rest_base @ suff @ ''/'' @ ident @ ''/EthernetInterfaces'')
            ''#EthernetInterfaceCollection.EthernetInterfaceCollection'' ''Collection of Ethernet Interfaces''
            ''Ethernet interfaces Collection'' links) SUCCESS))))"

definition DriveCollectionEmulationAPI_get :: "string \<Rightarrow> string \<Rightarrow> string \<Rightarrow> string \<Rightarrow> emulation \<Rightarrow> response" where
  "DriveCollectionEmulationAPI_get rest_base suff ident1 ident2 em =
     (case map_of (em_drives em) ident1 of None \<Rightarrow> Status NOT_FOUND
      | Some d1 \<Rightarrow> (case map_of d1 ident2 of None \<Rightarrow> Status NOT_FOUND
      | Some d \<Rightarrow> guard_status (bindE (member_links d) (\<lambda>links.
          Inr (Resp (collection_document (rest_base @ ''$metadata#DriveCollection.DriveCollection'')
            (rest_base @ suff @ ''/'' @ ident1 @ ''/Storage/'' @ ident2 @ ''/Drives'')
            ''#DriveCollection.DriveCollection'' ''Collection of drives'' ''Drive Collection'' links) SUCCESS)))))"

definition SystemCollectionEmulationAPI_get :: "string \<Rightarrow> emulation \<Rightarrow> exn + response" where
  "SystemCollectionEmulationAPI_get rb em =
     bindE (member_links (em_systems em)) (\<lambda>links.
     Inr (Resp (JObj [(''@odata.context'', JStr (rb @ ''$metadata#ComputerSystemCollection.ComputerSystemCollection'')),
       (''@odata.id'', JStr (rb @ ''Systems'')), (''@odata.type'', JStr ''#ComputerSystemCollection.ComputerSystemCollection''),
       (''Description'', JStr ''Collection of Computer Systems''),
       (''Members@odata.count'', JInt (int (length (em_systems em)))), (''Name'', JStr ''System Collection''),
       (''Members'', JList links)]) SUCCESS))"

section \<open>populate\<close>

text \<open>
  \<^verbatim>\<open>text.format(n)\<close> with one argument: fields \<open>{}\<close> and \<open>{i}\<close>, and doubled braces.  \<open>auto\<close> counts the
  fields without a number and \<open>man\<close> records one with a number; Python refuses a text with both.
  Conversions and format specifications, which the configuration does not use, are not modelled.
\<close>

function (sequential) py_format1 :: "string \<Rightarrow> nat \<Rightarrow> bool \<Rightarrow> string \<Rightarrow> exn + string" where
  "py_format1 a auto man [] = Inr []"
| "py_format1 a auto man (c # s) =
     (if c = CHR ''{'' then
        (if prefix ''{'' s then bindE (py_format1 a auto man (tl s)) (\<lambda>r. Inr (c # r))
         else let f = takeWhile (\<lambda>x. x \<noteq> CHR ''}'') s; r = dropWhile (\<lambda>x. x \<noteq> CHR ''}'') s in
           if r = [] then Inl ValueError
           else if f = [] then
             (if man then Inl ValueError else if auto > 0 then Inl IndexError
              else bindE (py_format1 a (Suc auto) man (tl r)) (\<lambda>t. Inr (a @ t)))
           else if list_all is_digit f then
             (if auto > 0 then Inl ValueError else if digits_val f > 0 then Inl IndexError
              else bindE (py_format1 a auto True (tl r)) (\<lambda>t. Inr (a @ t)))
           else Inl (KeyError f))
      else if c = CHR ''}'' then
        (if prefix ''}'' s then bindE (py_format1 a auto man (tl s)) (\<lambda>r. Inr (c # r)) else Inl ValueError)
      else bindE (py_format1 a auto man s) (\<lambda>r. Inr (c # r)))"
  by pat_completeness auto
termination
  by (relation "measure (\<lambda>(_, _, _, s). length s)")
    (auto simp: less_Suc_eq_le intro: order_trans [OF diff_le_self] order_trans [OF _ length_dropWhile_le])

fun count_of :: "json \<Rightarrow> exn + nat" where
  "count_of (JObj d) =
     (case map_of d ''Count'' of None \<Rightarrow> Inr 1 | Some c \<Rightarrow> bindE (as_index c) (\<lambda>i. Inr (nat i)))"
| "count_of j = Inl AttributeError"

definition template_id :: "json \<Rightarrow> nat \<Rightarrow> exn + string" where
  "template_id t n =
     bindE (py_key t ''Id'') (\<lambda>i. case i of JStr s \<Rightarrow> py_format1 (nat_str n) 0 False s | _ \<Rightarrow> Inl AttributeError)"

text \<open>The numbers go on from one template to the next.\<close>

definition numbered :: "exn + json \<Rightarrow> 's \<Rightarrow> (json \<Rightarrow> string \<Rightarrow> nat \<Rightarrow> 's \<Rightarrow> ('w, 's) py) \<Rightarrow> ('w, 's) py" where
  "numbered templates s body =
     bindP (liftP (bindE templates py_iter)) (\<lambda>ts.
     bindP (foldP ts (0, s) (\<lambda>t (n, s).
       bindP (liftP (count_of t)) (\<lambda>c.
       foldP [0..<c] (n, s) (\<lambda>_ (n, s).
         bindP (liftP (template_id t (Suc n))) (\<lambda>i.
         bindP (body t i (Suc n) s) (\<lambda>s'. retP (Suc n, s'))))))) (\<lambda>(_, s). retP s))"

definition create_storage_resources :: "json \<Rightarrow> string \<Rightarrow> string \<Rightarrow> (emulation, string list) py" where
  "create_storage_resources storage_template system storage_id =
     numbered (py_key storage_template ''Drives'') [] (\<lambda>_ drive_id _ ids.
       thenP (CreateDriveEmulation ''/redfish/v1'' system storage_id drive_id) (retP (ids @ [drive_id])))"

definition create_system_resources :: "json \<Rightarrow> string \<Rightarrow> (emulation, unit) py" where
  "create_system_resources system_template system =
     thenP (numbered (py_key system_template ''Storage'') () (\<lambda>storage storage_id _ _.
         bindP (create_storage_resources storage system storage_id)
           (CreateStorageEmulation ''/redfish/v1/'' system storage_id)))
       (numbered (py_key system_template ''EthernetInterfaces'') () (\<lambda>_ nic_id _ _.
         CreateEthernetInterfaceEmulation ''/redfish/v1/'' system nic_id))"

definition populate_systems :: "json \<Rightarrow> (emulation, unit) py" where
  "populate_systems config =
     numbered (py_key config ''Systems'') () (\<lambda>t system n _.
       thenP (CreateSystemEmulation_put [(''rest_base'', ''/redfish/v1/'')] system n n) (create_system_resources t system))"

text \<open>
  The module imports \<^verbatim>\<open>CreateFabricEmulation\<close> and its siblings but calls \<^verbatim>\<open>CreateFabric\<close>,
  \<^verbatim>\<open>CreateSwitch\<close>, \<^verbatim>\<open>CreatePort\<close> and \<^verbatim>\<open>CreateVLAN\<close>, which nothing defines.
\<close>

definition create_switch_resources :: "json \<Rightarrow> string \<Rightarrow> string \<Rightarrow> (emulation, unit) py" where
  "create_switch_resources switch_template fabric switch =
     thenP (numbered (py_key switch_template ''Ports'') () (\<lambda>_ _ _ _. raiseP (NameError ''CreatePort'')))
       (numbered (py_key switch_template ''VLANs'') () (\<lambda>_ _ _ _. raiseP (NameError ''CreateVLAN'')))"

definition create_fabric_resources :: "json \<Rightarrow> string \<Rightarrow> (emulation, unit) py" where
  "create_fabric_resources fabric_template fabric =
     numbered (py_key fabric_template ''Switches'') () (\<lambda>t switch_id _ _.
       thenP (create_switch_resources t fabric switch_id) (raiseP (NameError ''CreateSwitch'')))"

definition populate :: "json \<Rightarrow> (emulation, unit) py" where
  "populate config =
     thenP (populate_systems config)
       (numbered (py_key config ''Fabrics'') () (\<lambda>t fabric _ _.
          thenP (raiseP (NameError ''CreateFabric'') :: (emulation, unit) py) (create_fabric_resources t fabric)))"

section \<open>A document of the tree is found through its resource\<close>

text \<open>
  \<open>settled\<close>: the database is up and holds \<open>m\<close>, the log works, and the tree \<open>t\<close> with its time is in place.
\<close>

definition settled ::
  "('db \<Rightarrow> string \<rightharpoonup> string) \<Rightarrow> ('db \<Rightarrow> bool) \<Rightarrow> rfenv \<Rightarrow> (string \<rightharpoonup> string) \<Rightarrow> json dict \<Rightarrow> pytime option \<Rightarrow>
   ('db, 'r) rworld_scheme \<Rightarrow> bool" where
  "settled kv up R m t x w \<longleftrightarrow> rf_good kv up R m w \<and> rf_tree w = t \<and> rf_expiration w = x"

lemma settled_log_step:
  fixes w w' :: "('db, 'r) rworld_scheme"
  assumes "settled kv up R m t x w" and "log_step w w'" and "log_works w'"
  shows "settled kv up R m t x w'"
  using assms(1) rf_good_log_step [OF _ assms(2), of kv up R m] log_step_more [OF assms(2)] assms(3)
  by (cases w; cases w') (auto simp: settled_def log_works_def)

lemma settled_db_step:
  fixes w w' :: "('db, 'r) rworld_scheme"
  assumes "settled kv up R m t x w" and "db_is kv up (re_db R) m w'" and "db_step w w'"
  shows "settled kv up R m t x w'"
  using assms(1) rf_good_db_step [OF _ assms(2,3)] db_step_more [OF assms(3)]
  by (cases w; cases w') (auto simp: settled_def)

lemma settled_open_close:
  "settled kv up R m t x (w\<lparr>lw_log := Ufmlog_open (lw_log w)\<rparr>) = settled kv up R m t x w"
  "settled kv up R m t x (w\<lparr>lw_log := Ufmlog_close (lw_log w)\<rparr>) = settled kv up R m t x w"
  "settled kv up R m t x (w\<lparr>lw_tick := n\<rparr>) = settled kv up R m t x w"
  by (auto simp: settled_def rf_good_def db_is_def quiet_def log_works_def has_ring_def ring_def Ufmlog_open_def Ufmlog_close_def)

lemma wp_settled_log:
  fixes w :: "('db, 'r) rworld_scheme"
  assumes "settled kv up R m t x w" and "py_percent s as = Inr u" and "\<And>w'. settled kv up R m t x w' \<Longrightarrow> Q () w'"
  shows "wp (log_detail l s as) Q X w" "wp (log_error l s as) Q X w"
proof -
  have works: "log_works w" using assms(1) by (simp add: settled_def rf_good_def)
  have "Q () w'" if "log_step w w'" "log_works w'" for w'
    by (intro assms(3) settled_log_step [OF assms(1)] that)
  with wp_log_works [OF works assms(2)] show "wp (log_detail l s as) Q X w" "wp (log_error l s as) Q X w" by blast+
qed

lemma wp_settled_backend:
  fixes w :: "('db, 'r) rworld_scheme"
  assumes "settled kv up R m t x w" and "\<And>l w'. settled kv up R m t x w' \<Longrightarrow> Q l w'"
  shows "wp NkvSystemBackend_new Q X w"
  unfolding NkvSystemBackend_new_def log_new_def Let_def wp_bindP wp_thenP wp_tryP wp_modifyP
proof (rule wp_settled_log [OF _ py_percent_plain])
  show "settled kv up R m t x (w\<lparr>lw_log := Ufmlog_open (lw_log w)\<rparr>)" using assms(1) by (simp add: settled_open_close)
qed (auto simp: wp_simps intro!: wp_settled_log [OF _ py_percent_plain] assms(2))

lemma settled_backend_del:
  fixes w :: "('db, 'r) rworld_scheme"
  assumes "settled kv up R m t x w"
  shows "settled kv up R m t x (snd (NkvSystemBackend_del l w))"
proof -
  have "wp (NkvSystemBackend_del l) (\<lambda>_. settled kv up R m t x) (\<lambda>_ _. False) w"
    unfolding NkvSystemBackend_del_def log_del_def wp_thenP wp_tryP
    by (rule wp_settled_log [OF assms py_percent_plain]) (simp_all add: wp_simps settled_open_close)
  then show ?thesis by (auto dest!: wpD)
qed

lemma wp_attemptP: "wp (attemptP m) Q X w = wp m (\<lambda>x. Q (Inr x)) (\<lambda>e. Q (Inl e)) w"
  by (auto simp: wp_def attemptP_def split: prod.splits sum.splits)

lemma wp_finallyP: "wp (finallyP m d) Q X w = wp m (\<lambda>x w'. Q x (snd (d w'))) (\<lambda>e w'. X e (snd (d w'))) w"
  by (auto simp: wp_def finallyP_def split: prod.splits sum.splits)

context etcd_store
begin

lemma wp_with_client:
  assumes "db_is kv up l m w"
    and "\<And>l' w'. db_is kv up l' m w' \<Longrightarrow> db_is kv up l m w' \<Longrightarrow> db_step w w' \<Longrightarrow>
      wp (body l') (\<lambda>x w'. Q x (snd (Ufmdb_del E w'))) (\<lambda>e w'. X e (snd (Ufmdb_del E w'))) w'"
  shows "wp (with_client E body) Q X w"
proof -
  have "wp (\<lambda>w. case body l' w of (r, w') \<Rightarrow> (r, snd (Ufmdb_del E w'))) Q X w1"
    if "wp (body l') (\<lambda>x w'. Q x (snd (Ufmdb_del E w'))) (\<lambda>e w'. X e (snd (Ufmdb_del E w'))) w1" for l' w1
    using that by (auto simp: wp_def split: prod.splits sum.splits)
  with assms show ?thesis unfolding with_client_def wp_bindP by (intro wp_Ufmdb_new [OF assms(1)]) blast
qed

lemma wp_get_value_missing:
  fixes w :: "('db, 'r) rworld_scheme"
  assumes "settled kv up R m t x w" and "m key = None" and "\<And>w'. settled kv up R m t x w' \<Longrightarrow> Q (JObj []) w'"
  shows "wp (get_value E parse key) Q X w"
  unfolding get_value_def
proof (rule wp_with_client)
  show is_db: "db_is kv up (re_db R) m w" using assms(1) by (simp add: settled_def rf_good_def)
  fix l' and w1 :: "('db, 'r) rworld_scheme"
  assume w1: "db_is kv up l' m w1" "db_is kv up (re_db R) m w1" "db_step w w1"
  show "wp (bindP (Ufmdb_get E l' key) (\<lambda>r. case r of None \<Rightarrow> raiseP TypeError | Some None \<Rightarrow> retP (JObj [])
      | Some (Some v) \<Rightarrow> if v = [] then retP (JObj []) else liftP (parse v)))
      (\<lambda>x w'. Q x (snd (Ufmdb_del E w'))) (\<lambda>e w'. X e (snd (Ufmdb_del E w'))) w1"
    unfolding wp_bindP
  proof (rule wp_get [OF w1(1)])
    fix w2 :: "('db, 'r) rworld_scheme"
    assume w2: "db_is kv up l' m w2" "db_step w1 w2"
    have "db_is kv up (re_db R) m w2" using w1(2) w2(1) by (auto simp: db_is_def quiet_def)
    from db_is_del [OF this] db_step_trans [OF w1(3) w2(2)]
    have "settled kv up R m t x (snd (Ufmdb_del E w2))"
      by (intro settled_db_step [OF assms(1)]) (blast intro: db_step_trans)+
    then show "wp (case Some (m key) of None \<Rightarrow> raiseP TypeError | Some None \<Rightarrow> retP (JObj [])
        | Some (Some v) \<Rightarrow> if v = [] then retP (JObj []) else liftP (parse v))
        (\<lambda>x w'. Q x (snd (Ufmdb_del E w'))) (\<lambda>e w'. X e (snd (Ufmdb_del E w'))) w2"
      using assms(2,3) by (simp add: wp_simps)
  qed
qed

text \<open>With data that has not expired an update only writes to the log.\<close>

lemma wp_update_fresh:
  fixes w :: "('db, 'r) rworld_scheme"
  assumes "settled kv up R m t x w" and "\<And>now. \<not> re_later R now x" and "\<And>w'. settled kv up R m t x w' \<Longrightarrow> Q () w'"
  shows "wp (rf_update E R) Q X w"
proof -
  have attempt: "wp (update_attempt E R now) P Y w1"
    if "settled kv up R m t x w1" "\<And>w'. settled kv up R m t x w' \<Longrightarrow> P () w'" for now P Y and w1 :: "('db, 'r) rworld_scheme"
  proof -
    have "rf_expiration w1 = x" using that(1) by (simp add: settled_def)
    then show ?thesis
      using assms(2) that int_str_percent
      by (auto simp: update_attempt_def wp_simps intro!: wp_settled_log [OF _ py_percent_plain])
  qed
  have act: "wp (build_redfish_actions R) P Y w1"
    if "settled kv up R m t x w1" "\<And>w'. settled kv up R m t x w' \<Longrightarrow> P () w'" for P Y and w1 :: "('db, 'r) rworld_scheme"
    unfolding build_redfish_actions_def wp_thenP
    by (rule wp_settled_log [OF that(1) py_percent_plain], simp, rule wp_settled_log)
      (use that(2) in \<open>simp_all add: int_str_def digit_char_def\<close>)
  have two: "update_tries E R now 2 = tryP (update_attempt E R now) (\<lambda>e. thenP (log_exception (re_log R) e)
      (thenP (modifyP (\<lambda>w. w\<lparr>rf_expiration := None\<rparr>))
      (thenP (log_error (re_log R) ''Unable to update data.  Retrying...'' []) (update_tries E R now 1))))" for now
    by (simp add: numeral_2_eq_2)
  show ?thesis
    unfolding rf_update_def wp_thenP wp_bindP [of time_time] two
    by (rule wp_settled_log [OF assms(1) py_percent_plain])
      (auto simp: wp_tryP wp_time_now settled_open_close intro!: act attempt assms(3))
qed

lemma wp_rf_get_fresh:
  fixes w :: "('db, 'r) rworld_scheme"
  assumes "settled kv up R m t x w" and "\<And>now. \<not> re_later R now x"
    and "map_of (redfish_actions shell (re_log R)) request = None" and "CHR ''%'' \<notin> set request" and "map_of t request = Some j"
    and "\<And>w'. settled kv up R m t x w' \<Longrightarrow> Q j w'"
  shows "wp (rf_get shell E R request payload) Q X w"
proof -
  have body: "wp (bindP (readP rf_tree) (\<lambda>tree. case map_of tree request of Some j \<Rightarrow> retP j
      | None \<Rightarrow> invalid_request R ''GET: Invalid Request. %s'' [JStr request] request)) Q Y w1"
    if "settled kv up R m t x w1" for Y and w1 :: "('db, 'r) rworld_scheme"
    using that assms(5,6) by (simp add: wp_simps settled_def)
  show ?thesis
    unfolding rf_get_def wp_thenP wp_tryP wp_whenP assms(3) option.case
    by (rule wp_settled_log [OF assms(1) py_percent_plain])
      (use assms(4) in \<open>auto simp: assms(2) intro!: wp_update_fresh body\<close>)
qed

lemma wp_resource_get:
  fixes w :: "('db, 'r) rworld_scheme"
  assumes "settled kv up R m t x w" and "\<And>now. \<not> re_later R now x" and "m (path_join ''/'' [SYSTEMS, sys_id]) = None"
    and "map_of (redfish_actions shell (re_log R)) url = None" and "CHR ''%'' \<notin> set url" and "map_of t url = Some j"
  shows "wp (resource_get shell E R lit sys_id url) (\<lambda>r w'. r = j \<and> settled kv up R m t x w') (\<lambda>_ _. False) w"
  unfolding resource_get_def with_backend_def create_instance_def lookup_resource_in_db_def get_resource_value_def
    wp_bindP wp_attemptP
  by (rule wp_get_value_missing [OF assms(1,3)])
    (auto simp: wp_simps wp_finallyP wp_retP_fun
      simp: assms(2,4-6) intro!: wp_settled_backend wp_rf_get_fresh settled_backend_del)

end

text \<open>The paths the backends look up are those of the tree.\<close>

definition plain :: "string \<Rightarrow> bool" where
  "plain s \<longleftrightarrow> s \<noteq> [] \<and> CHR ''/'' \<notin> set s \<and> CHR ''%'' \<notin> set s"

lemma path_join_plain:
  assumes "list_all plain bs" and "a \<noteq> []" and "last a \<noteq> CHR ''/''"
  shows "path_join a bs = a @ concat (map (\<lambda>b. ''/'' @ b) bs)"
  using assms
proof (induction bs arbitrary: a)
  case Nil
  then show ?case by (simp add: path_join_def)
next
  case (Cons b bs)
  obtain c b' where b: "b = c # b'" "c \<noteq> CHR ''/''" using Cons.prems(1) by (cases b) (auto simp: plain_def)
  have "last b \<in> set b" using b by simp
  moreover have "CHR ''/'' \<notin> set b" using Cons.prems(1) by (simp add: plain_def)
  ultimately have "last b \<noteq> CHR ''/''" by metis
  then have "path_join (a @ ''/'' @ b) bs = (a @ ''/'' @ b) @ concat (map (\<lambda>b. ''/'' @ b) bs)"
    using Cons.prems(1) b by (intro Cons.IH) simp_all
  moreover have "path_join2 a b = a @ ''/'' @ b" using Cons.prems b by (simp add: path_join2_def)
  ultimately show ?case by (simp add: path_join_def)
qed

lemma plain_names: "plain SYSTEMS" "plain STORAGE" "plain DRIVES" "plain ETH_INTERFACES"
  by (simp_all add: plain_def SYSTEMS_def STORAGE_def DRIVES_def ETH_INTERFACES_def)

lemma REST_BASE_join: "list_all plain bs \<Longrightarrow> path_join REST_BASE bs = REST_BASE @ concat (map (\<lambda>b. ''/'' @ b) bs)"
  by (rule path_join_plain) (simp_all add: REST_BASE_def)

lemma url_paths:
  assumes "plain (ss_uuid ss)"
  shows "system_url (ss_uuid ss) = system_path (ss_uuid ss)" "storage_collection_url (ss_uuid ss) = storage_path ss"
    "ethernet_collection_url (ss_uuid ss) = interfaces_path ss"
    "plain (st_uuid st) \<Longrightarrow> storage_url (ss_uuid ss) (st_uuid st) = storage_path ss @ ''/'' @ st_uuid st"
    "plain (st_uuid st) \<Longrightarrow> drive_collection_url (ss_uuid ss) (st_uuid st) = drives_path ss st"
    "plain (st_uuid st) \<Longrightarrow> plain (dv_uuid d) \<Longrightarrow>
       drive_url (ss_uuid ss) (st_uuid st) (dv_uuid d) = drives_path ss st @ ''/'' @ dv_uuid d"
    "plain (if_mac i) \<Longrightarrow> ethernet_url (ss_uuid ss) (if_mac i) = interfaces_path ss @ ''/'' @ if_mac i"
  unfolding system_url_def storage_collection_url_def storage_url_def drive_collection_url_def drive_url_def
      ethernet_collection_url_def ethernet_url_def system_path_def storage_path_def drives_path_def interfaces_path_def
  using assms plain_names by (simp_all add: REST_BASE_join)
    (simp_all add: REST_BASE_def SYSTEMS_def STORAGE_def DRIVES_def ETH_INTERFACES_def)

text \<open>Every document stands in the tree under its own identifier.\<close>

lemma tree_own_ids: "map_of (foldl put_doc t ds) k = Some j \<Longrightarrow> map_of t k = Some j \<or> (\<exists>d. j = JObj d \<and> d \<in> set ds \<and> odata_id d = k)"
proof (induction ds arbitrary: t)
  case (Cons d ds)
  have "map_of (foldl put_doc (put_doc t d) ds) k = Some j" using Cons.prems by simp
  from Cons.IH [OF this] show ?case by (cases "k = odata_id d") (auto simp: put_doc_def)
qed simp

lemma plain_paths:
  "CHR ''%'' \<notin> set (drives_path ss st @ ''/'' @ u) \<longleftrightarrow> CHR ''%'' \<notin> set (ss_uuid ss) \<and> CHR ''%'' \<notin> set (st_uuid st) \<and> CHR ''%'' \<notin> set u"
  "map_of (redfish_actions shell l) (drives_path ss st @ ''/'' @ u) = None"
  by (auto simp: drives_path_def storage_path_def system_path_def redfish_actions_def)

section \<open>The collection of systems\<close>

lemma resource_link_plain:
  assumes "plain i"
  shows "resource_link SYSTEMS (''/Systems/'' @ i) = Inr (odata (system_path i))"
proof -
  have "CHR ''/'' \<notin> set i" using assms by (simp add: plain_def)
  then have "py_nth (py_split (CHR ''/'') (''/Systems/'' @ i)) 2 = Inr i"
    using py_split_no_sep [of "CHR ''/''" i] by (simp add: py_nth_def)
  moreover have "path_join REST_BASE [SYSTEMS, i] = system_path i"
    using url_paths(1) [of "subsystem_new i"] assms by (simp add: subsystem_new_def system_url_def)
  ultimately show ?thesis by (simp add: resource_link_def)
qed

context etcd_store
begin

lemma wp_prefix_keys:
  fixes w :: "('db, 'r) rworld_scheme"
  assumes "settled kv up R m t x w"
    and "\<And>items w'. settled kv up R m t x w' \<Longrightarrow> distinct (map fst items) \<Longrightarrow> map_of items = m |` {k. prefix p k} \<Longrightarrow> Q (map fst items) w'"
  shows "wp (get_prefix_keys E p) Q X w"
  unfolding get_prefix_keys_def
proof (rule wp_with_client)
  show "db_is kv up (re_db R) m w" using assms(1) by (simp add: settled_def rf_good_def)
  fix l' and w1 :: "('db, 'r) rworld_scheme"
  assume w1: "db_is kv up l' m w1" "db_is kv up (re_db R) m w1" "db_step w w1"
  show "wp (bindP (Ufmdb_get_prefix E l' p []) (\<lambda>r. case r of None \<Rightarrow> raiseP TypeError
      | Some (items, None) \<Rightarrow> retP (map fst items) | Some (items, Some e) \<Rightarrow> raiseP e))
      (\<lambda>x w'. Q x (snd (Ufmdb_del E w'))) (\<lambda>e w'. X e (snd (Ufmdb_del E w'))) w1"
    unfolding wp_bindP
  proof (rule wp_get_prefix [OF w1(1)])
    fix items and w2 :: "('db, 'r) rworld_scheme"
    assume w2: "db_is kv up l' m w2" "db_step w1 w2" and items: "distinct (map fst items)" "map_of items = m |` {k. prefix p k}"
    have "db_is kv up (re_db R) m w2" using w1(2) w2(1) by (auto simp: db_is_def quiet_def)
    from db_is_del [OF this] db_step_trans [OF w1(3) w2(2)]
    have "settled kv up R m t x (snd (Ufmdb_del E w2))"
      by (intro settled_db_step [OF assms(1)]) (blast intro: db_step_trans)+
    then show "wp (case Some (items, None) of None \<Rightarrow> raiseP TypeError
        | Some (items, None) \<Rightarrow> retP (map fst items) | Some (items, Some e) \<Rightarrow> raiseP e)
        (\<lambda>x w'. Q x (snd (Ufmdb_del E w'))) (\<lambda>e w'. X e (snd (Ufmdb_del E w'))) w2"
      using assms(2) items by (simp add: wp_simps)
  qed
qed

lemma wp_system_collection:
  fixes w :: "('db, 'r) rworld_scheme"
  assumes "settled kv up R m t x w" and "\<And>now. \<not> re_later R now x"
    and "map_of t ''/redfish/v1/Systems'' = Some (JObj d)" and "map_of d ''Members'' = Some (JList ms)"
    and "\<And>k v. m k = Some v \<Longrightarrow> prefix ''/Systems'' k \<Longrightarrow> \<exists>i. k = ''/Systems/'' @ i \<and> plain i"
  shows "wp (SystemCollectionAPI_get shell E R SYSTEMS) (\<lambda>r w'. settled kv up R m t x w' \<and>
      (\<exists>is. distinct is \<and> set is = {i. m (''/Systems/'' @ i) \<noteq> None} \<and>
        r = system_collection_base (ms @ map (\<lambda>i. odata (system_path i)) is) (int (length ms + length is)))) (\<lambda>_ _. False) w"
proof -
  have url: "path_join REST_BASE [SYSTEMS] = ''/redfish/v1/Systems''"
    by (simp add: path_join_def path_join2_def REST_BASE_def SYSTEMS_def)
  have act: "map_of (redfish_actions shell (re_log R)) ''/redfish/v1/Systems'' = None" by (simp add: redfish_actions_def)
  have mem: "tree_members (JObj d) = Inr ms" using assms(4) by (simp add: tree_members_def dict_has_def dict_get_def)
  have links: "mapE (resource_link SYSTEMS) (map fst items) = Inr (map (\<lambda>i. odata (system_path i)) (map (drop 9) (map fst items)))
      \<and> distinct (map (drop 9) (map fst items)) \<and> set (map (drop 9) (map fst items)) = {i. m (''/Systems/'' @ i) \<noteq> None}"
    if items: "distinct (map fst items)" "map_of items = m |` {k. prefix ''/Systems'' k}" for items :: "(string \<times> string) list"
  proof -
    have keys: "set (map fst items) = {k. prefix ''/Systems'' k \<and> m k \<noteq> None}"
      using dom_map_of_conv_image_fst [of items] items(2) by (auto simp: dom_def restrict_map_def split: if_splits)
    have shape: "\<exists>i. k = ''/Systems/'' @ i \<and> plain i" if "k \<in> set (map fst items)" for k
      using that assms(5) unfolding keys by blast
    have "mapE (resource_link SYSTEMS) (map fst items) = Inr (map (\<lambda>k. odata (system_path (drop 9 k))) (map fst items))"
    proof (rule mapE_all)
      fix k assume "k \<in> set (map fst items)"
      then obtain i where "k = ''/Systems/'' @ i" "plain i" using shape by blast
      then show "resource_link SYSTEMS k = Inr (odata (system_path (drop 9 k)))" using resource_link_plain [of i] by simp
    qed
    moreover have "inj_on (drop 9) (set (map fst items))"
    proof (rule inj_onI)
      fix k k' assume k: "k \<in> set (map fst items)" "k' \<in> set (map fst items)" "drop 9 k = drop 9 k'"
      then obtain i i' where "k = ''/Systems/'' @ i" "k' = ''/Systems/'' @ i'" using shape by meson
      with k(3) show "k = k'" by simp
    qed
    moreover have "i \<in> drop 9 ` set (map fst items) \<longleftrightarrow> m (''/Systems/'' @ i) \<noteq> None" for i
    proof
      assume "i \<in> drop 9 ` set (map fst items)"
      then obtain k where k: "k \<in> set (map fst items)" "i = drop 9 k" by blast
      with shape [OF k(1)] have "k = ''/Systems/'' @ i" by auto
      with k(1) show "m (''/Systems/'' @ i) \<noteq> None" unfolding keys by simp
    next
      assume "m (''/Systems/'' @ i) \<noteq> None"
      then have "''/Systems/'' @ i \<in> set (map fst items)" unfolding keys by (simp add: prefix_def)
      then show "i \<in> drop 9 ` set (map fst items)" by (rule rev_image_eqI) simp
    qed
    then have "set (map (drop 9) (map fst items)) = {i. m (''/Systems/'' @ i) \<noteq> None}" unfolding set_map [of "drop 9"] by blast
    moreover have "distinct (map (drop 9) (map fst items))" using items(1) \<open>inj_on (drop 9) (set (map fst items))\<close> by (simp only: distinct_map [of "drop 9"])
    ultimately show ?thesis by (simp add: o_def)
  qed
  have list: "wp (get_resources_list E SYSTEMS) Q X w1"
    if w1: "settled kv up R m t x w1" and Q: "\<And>is w'. settled kv up R m t x w' \<Longrightarrow> distinct is \<Longrightarrow> set is = {i. m (''/Systems/'' @ i) \<noteq> None} \<Longrightarrow>
        Q (map (\<lambda>i. odata (system_path i)) is) w'" for Q X and w1 :: "('db, 'r) rworld_scheme"
    unfolding get_resources_list_def wp_bindP
  proof (rule wp_prefix_keys [OF w1])
    fix items :: "(string \<times> string) list" and w2 :: "('db, 'r) rworld_scheme"
    assume w2: "settled kv up R m t x w2" and it: "distinct (map fst items)" "map_of items = m |` {k. prefix (''/'' @ SYSTEMS) k}"
    then have lk: "map_of items = m |` {k. prefix ''/Systems'' k}" by (simp add: SYSTEMS_def)
    show "wp (liftP (mapE (resource_link SYSTEMS) (map fst items))) Q X w2"
      using links [OF it(1) lk] Q [OF w2, of "map (drop 9) (map fst items)"] by (simp only: wp_simps)
  qed
  show ?thesis
    unfolding SystemCollectionAPI_get_def system_collection_get_def simp_thms if_True wp_tryP wp_bindP wp_finallyP url
  proof (rule wp_settled_backend [OF assms(1)], rule wp_rf_get_fresh [OF _ assms(2) act _ assms(3)], assumption, simp,
      unfold mem wp_liftP_Inr, rule list, assumption)
    fix l "is" and w3 :: "('db, 'r) rworld_scheme"
    assume "settled kv up R m t x w3" and i: "distinct is" "set is = {i. m (''/Systems/'' @ i) \<noteq> None}"
    then have "settled kv up R m t x (snd (NkvSystemBackend_del l w3))" by (intro settled_backend_del)
    with i show "wp (retP (system_collection_base (ms @ map (\<lambda>i. odata (system_path i)) is)
        (int (length ms) + int (length (map (\<lambda>i. odata (system_path i)) is)))))
      (\<lambda>r w'. settled kv up R m t x (snd (NkvSystemBackend_del l w')) \<and> (\<exists>is. distinct is \<and> set is = {i. m (''/Systems/'' @ i) \<noteq> None} \<and>
         r = system_collection_base (ms @ map (\<lambda>i. odata (system_path i)) is) (int (length ms + length is))))
      (\<lambda>e w'. wp (get_server_error_response e) (\<lambda>r w'. settled kv up R m t x w' \<and>
         (\<exists>is. distinct is \<and> set is = {i. m (''/Systems/'' @ i) \<noteq> None} \<and>
          r = system_collection_base (ms @ map (\<lambda>i. odata (system_path i)) is) (int (length ms + length is)))) (\<lambda>_ _. False)
         (snd (NkvSystemBackend_del l w'))) w3"
      by (simp only: wp_retP length_map of_nat_add) blast
  qed
qed

end

end
