(* ===== verification/AgentDb.thy ===== *)
theory AgentDb
  imports Events
begin

text \<open>
  The database layer of the NKV agent, \<^verbatim>\<open>src/ufm/agents/nkv_agent/etcdlib/etcd_api.py\<close> (class
  \<^verbatim>\<open>EtcdAPI\<close>), and the events the agent stores, \<^verbatim>\<open>events/events.py\<close>.  The agent is written for Python 2:
  texts are bytes, and a dictionary has no order of its own; the model visits entries in the order
  of their list.

  Every object of the class is a state \<open>eworld\<close>: the server, whether a client is connected, and the
  optional cache of all keys, which a watch keeps up to date.  Its logger is Python's logging module
  and is not modelled.  The client is the record \<open>etcd3\<close> of the fabric manager, extended by the calls
  only the agent makes; a lease object is its number.

  Lemmas: reads from the cache agree with reads from the database, and the callback of the watch
  keeps them in step.
\<close>

section \<open>The client and the state of an EtcdAPI object\<close>

record 'db agent_etcd = "'db etcd3" +
  e_transaction :: "(string \<times> string \<times> int option) list \<Rightarrow> ('db, bool) py"
  e_members :: "('db, string list) py"
  e_lease_ttl :: "int \<Rightarrow> ('db, int) py"
  e_refresh_lease :: "int \<Rightarrow> ('db, int list) py"
  e_watch :: "string \<Rightarrow> ('db, int) py"
  e_cancel :: "int option \<Rightarrow> ('db, unit) py"

record 'db eworld =
  ew_db :: 'db
  ew_client :: bool
  ew_cache_data :: bool
  ew_cache :: "string dict option"
  ew_watch_id :: "int option"

text \<open>A call of \<^verbatim>\<open>self.client\<close>, which is \<^verbatim>\<open>None\<close> before the connection is made.\<close>

definition on_client :: "('db, 'a) py \<Rightarrow> (('db, 'r) eworld_scheme, 'a) py" where
  "on_client m w =
     (if ew_client w then (case m (ew_db w) of (r, d) \<Rightarrow> (r, w\<lparr>ew_db := d\<rparr>)) else (Inl AttributeError, w))"

section \<open>Reading\<close>

text \<open>The cache, when it is switched on and not empty.\<close>

definition cached :: "('db, 'r) eworld_scheme \<Rightarrow> string dict option" where
  "cached w = (if ew_cache_data w then (case ew_cache w of Some d \<Rightarrow> (if d = [] then None else Some d) | None \<Rightarrow> None) else None)"

definition get_key_value :: "('db, 'x) agent_etcd_scheme \<Rightarrow> string \<Rightarrow> (('db, 'r) eworld_scheme, string option) py" where
  "get_key_value E key =
     bindP (readP cached) (\<lambda>c. case c of
       Some d \<Rightarrow> retP (map_of d key)
     | None \<Rightarrow> tryP (on_client (e_get E key)) (\<lambda>_. retP None))"

text \<open>The pairs an iterator yields before it ends or raises, as a dictionary.\<close>

definition collect :: "kv_iter \<Rightarrow> string dict" where
  "collect it = foldl (\<lambda>d (k, v). dict_set k v d) [] (fst it)"

definition get_raw :: "('db, 'x) agent_etcd_scheme \<Rightarrow> kwargs \<Rightarrow> string \<Rightarrow> (('db, 'r) eworld_scheme, string dict) py" where
  "get_raw E kw p =
     bindP (readP cached) (\<lambda>c. case c of
       Some d \<Rightarrow> retP (filter (\<lambda>(k, v). prefix p k) d)
     | None \<Rightarrow> tryP (bindP (on_client (e_get_prefix E p kw)) (\<lambda>it. retP (collect it))) (\<lambda>_. retP []))"

text \<open>Without any key the result is a chain of dictionaries along the components of the prefix.\<close>

fun nest :: "string list \<Rightarrow> json" where
  "nest [] = JObj []"
| "nest (e # es) = JObj [(e, nest es)]"

definition get_key_with_prefix :: "('db, 'x) agent_etcd_scheme \<Rightarrow> string \<Rightarrow> (('db, 'r) eworld_scheme, json) py" where
  "get_key_with_prefix E p =
     bindP (get_raw E [(''sort_order'', KText None), (''sort_target'', KText None)] p) (\<lambda>flat.
       if flat = [] then retP (nest (tl (py_split (CHR ''/'') p))) else liftP (convert_flat_key_list_to_json flat))"

definition get_members :: "('db, 'x) agent_etcd_scheme \<Rightarrow> (('db, 'r) eworld_scheme, string list option) py" where
  "get_members E = tryP (bindP (on_client (e_members E)) (\<lambda>ms. retP (Some ms))) (\<lambda>_. retP None)"

section \<open>Writing\<close>

definition save_key_value ::
  "('db, 'x) agent_etcd_scheme \<Rightarrow> string \<Rightarrow> string \<Rightarrow> int option \<Rightarrow> (('db, 'r) eworld_scheme, bool) py" where
  "save_key_value E key v lease =
     thenP (case lease of None \<Rightarrow> retP ()
         | Some l \<Rightarrow> bindP (on_client (e_lease_ttl E l)) (\<lambda>t. if t < 5 then raiseP (GenericException ''InvalidLease'') else retP ()))
       (tryP (thenP (on_client (e_put E key v [(''lease'', KLease lease)])) (retP True)) (\<lambda>_. retP False))"

definition save_multiple_key_values ::
  "('db, 'x) agent_etcd_scheme \<Rightarrow> string dict \<Rightarrow> string list \<Rightarrow> int option \<Rightarrow> (('db, 'r) eworld_scheme, bool) py" where
  "save_multiple_key_values E kvs with_lease lease =
     tryP (on_client (e_transaction E (map (\<lambda>(k, v). (k, v, if k \<in> set with_lease then lease else None)) kvs)))
       (\<lambda>_. retP False)"

definition delete_key_value :: "('db, 'x) agent_etcd_scheme \<Rightarrow> string \<Rightarrow> (('db, 'r) eworld_scheme, bool) py" where
  "delete_key_value E key = tryP (thenP (on_client (e_delete E key [])) (retP True)) (\<lambda>_. retP False)"

definition delete_key_with_prefix :: "('db, 'x) agent_etcd_scheme \<Rightarrow> string \<Rightarrow> (('db, 'r) eworld_scheme, bool) py" where
  "delete_key_with_prefix E p = tryP (thenP (on_client (e_delete_prefix E p)) (retP True)) (\<lambda>_. retP False)"

section \<open>Leases\<close>

definition create_lease :: "('db, 'x) agent_etcd_scheme \<Rightarrow> int \<Rightarrow> int option \<Rightarrow> (('db, 'r) eworld_scheme, int) py" where
  "create_lease E ttl i = on_client (e_lease E ttl i)"

text \<open>
  \<^verbatim>\<open>refresh_lease\<close>: a live lease object is refreshed; otherwise a live lease number is; otherwise a new
  lease is made when a time to live is given.  A number 0 counts as not given.
\<close>

definition given :: "int option \<Rightarrow> int option" where
  "given x = (if x = Some 0 then None else x)"

definition refresh_object ::
  "('db, 'x) agent_etcd_scheme \<Rightarrow> int option \<Rightarrow> (('db, 'r) eworld_scheme, int option \<times> int option) py" where
  "refresh_object E lease =
     (case lease of None \<Rightarrow> retP (None, None)
      | Some l \<Rightarrow> bindP (on_client (e_lease_ttl E l)) (\<lambda>t.
          if t > 0 then thenP (on_client (e_refresh_lease E l)) (retP (Some l, given (Some l))) else retP (None, None)))"

definition refresh_number :: "('db, 'x) agent_etcd_scheme \<Rightarrow> int option \<Rightarrow> (('db, 'r) eworld_scheme, int option) py" where
  "refresh_number E lease_id =
     (case lease_id of None \<Rightarrow> retP None
      | Some i \<Rightarrow> bindP (on_client (e_lease_ttl E i)) (\<lambda>t.
          if t \<ge> 0 then bindP (on_client (e_refresh_lease E i)) (\<lambda>ids.
            case ids of [] \<Rightarrow> raiseP IndexError | j # _ \<Rightarrow> retP (given (Some j))) else retP None))"

definition refresh_lease ::
  "('db, 'x) agent_etcd_scheme \<Rightarrow> int option \<Rightarrow> int option \<Rightarrow> int option \<Rightarrow> (('db, 'r) eworld_scheme, int option \<times> int option) py" where
  "refresh_lease E ttl lease_id lease =
     (if lease = None \<and> given lease_id = None \<and> given ttl = None then retP (None, None)
      else bindP (refresh_object E lease) (\<lambda>(ret, k1).
        case k1 of Some i \<Rightarrow> retP (ret, Some i)
        | None \<Rightarrow> bindP (refresh_number E (given lease_id)) (\<lambda>k2.
            case k2 of Some i \<Rightarrow> retP (ret, Some i)
            | None \<Rightarrow> (case given ttl of None \<Rightarrow> retP (None, None)
                | Some t \<Rightarrow> bindP (on_client (e_lease E t lease_id)) (\<lambda>l. retP (if l = 0 then (None, None) else (Some l, Some l)))))))"

definition cancel_lease :: "('db, 'x) agent_etcd_scheme \<Rightarrow> int option \<Rightarrow> int option \<Rightarrow> (('db, 'r) eworld_scheme, unit) py" where
  "cancel_lease E lease lease_id =
     (if lease = None \<and> given lease_id = None then raiseP (GenericException ''Invalid parameters'')
      else tryP (on_client (e_revoke_lease E (case lease of Some l \<Rightarrow> l | None \<Rightarrow> the lease_id)))
        (\<lambda>_. raiseP (GenericException ''Invalid lease'')))"

section \<open>Connection, watch and cache\<close>

definition watch_callback :: "('db, 'x) agent_etcd_scheme \<Rightarrow> string \<Rightarrow> (('db, 'r) eworld_scheme, int option) py" where
  "watch_callback E key = tryP (bindP (on_client (e_watch E key)) (\<lambda>i. retP (Some i))) (\<lambda>_. retP None)"

definition get_etcd_client_connection :: "('db, 'x) agent_etcd_scheme \<Rightarrow> (('db, 'r) eworld_scheme, unit) py" where
  "get_etcd_client_connection E =
     tryP (\<lambda>w. case thenP (e_connect E) (e_get E ''/dummy-non-existent-key'') (ew_db w) of (r, d) \<Rightarrow>
         (map_sum id (\<lambda>_. ()) r, w\<lparr>ew_db := d\<rparr>))
       (\<lambda>_. raiseP (GenericException ''EtcdConnectionFail''))"

definition EtcdAPI_initialize :: "('db, 'x) agent_etcd_scheme \<Rightarrow> (('db, 'r) eworld_scheme, unit) py" where
  "EtcdAPI_initialize E =
     bindP (readP ew_client) (\<lambda>c. if c then retP ()
     else thenP (get_etcd_client_connection E)
       (thenP (modifyP (\<lambda>w. w\<lparr>ew_client := True\<rparr>))
       (bindP (readP ew_cache_data) (\<lambda>b. whenP b
          (bindP (get_raw E [(''sort_order'', KText None), (''sort_target'', KText None)] ''/'') (\<lambda>d.
           thenP (modifyP (\<lambda>w. w\<lparr>ew_cache := Some d\<rparr>))
           (bindP (watch_callback E ''/'') (\<lambda>i. modifyP (\<lambda>w. w\<lparr>ew_watch_id := i\<rparr>)))))))))"

definition EtcdAPI_deinitialize :: "('db, 'x) agent_etcd_scheme \<Rightarrow> (('db, 'r) eworld_scheme, unit) py" where
  "EtcdAPI_deinitialize E =
     bindP (readP (\<lambda>w. (ew_cache_data w, ew_watch_id w))) (\<lambda>(b, i).
     thenP (whenP b (thenP (on_client (e_cancel E i)) (modifyP (\<lambda>w. w\<lparr>ew_watch_id := None, ew_cache := None\<rparr>))))
       (modifyP (\<lambda>w. w\<lparr>ew_client := False\<rparr>)))"

text \<open>The callback of the watch: an event without a value removes the key.\<close>

definition callback_fn :: "string \<Rightarrow> string option \<Rightarrow> (('db, 'r) eworld_scheme, unit) py" where
  "callback_fn key value =
     bindP (readP (\<lambda>w. (ew_cache_data w, ew_cache w))) (\<lambda>(b, c).
     whenP b (case c of
        None \<Rightarrow> raiseP TypeError
      | Some d \<Rightarrow> modifyP (\<lambda>w. w\<lparr>ew_cache := Some
          (case value of Some (x # xs) \<Rightarrow> dict_set key (x # xs) d | _ \<Rightarrow> filter (\<lambda>(k, v). k \<noteq> key) d)\<rparr>)))"

section \<open>Events of the agent\<close>

definition agent_events :: "event_def dict" where "agent_events = events"

definition ETCD_EVENT_KEY_PREFIX :: string where "ETCD_EVENT_KEY_PREFIX = ''/events''"
definition ETCD_EVENT_TO_PROCESS_KEY_PREFIX :: string where "ETCD_EVENT_TO_PROCESS_KEY_PREFIX = ''/events_to_process''"

text \<open>\<open>uuids\<close>: the texts \<^verbatim>\<open>str(uuid1())\<close> of the calls, in order.\<close>

fun event_keys :: "(nat \<Rightarrow> string) \<Rightarrow> nat \<Rightarrow> json list \<Rightarrow> string dict \<Rightarrow> exn + string dict" where
  "event_keys uuids n [] kvs = Inr kvs"
| "event_keys uuids n (e # es) kvs =
     bindE (py_in ''name'' e) (\<lambda>a.
     bindE (if a then py_in ''timestamp'' e else Inr False) (\<lambda>b.
     bindE (if b then py_in ''node'' e else Inr False) (\<lambda>c.
     if \<not> c then event_keys uuids n es kvs
     else bindE (py_key e ''timestamp'') (\<lambda>t.
       event_keys uuids (Suc n) es
         (dict_set (py_join ''/'' [ETCD_EVENT_TO_PROCESS_KEY_PREFIX, py_str t, uuids n]) (json_dumps e) kvs)))))"

definition save_events_to_etcd_db ::
  "('db, 'x) agent_etcd_scheme \<Rightarrow> (nat \<Rightarrow> string) \<Rightarrow> json \<Rightarrow> (('db, 'r) eworld_scheme, bool option) py" where
  "save_events_to_etcd_db E uuids event_list =
     (case event_list of
        JList es \<Rightarrow> bindP (liftP (event_keys uuids 0 es [])) (\<lambda>kvs.
          bindP (save_multiple_key_values E kvs [] None) (\<lambda>b. retP (Some b)))
      | _ \<Rightarrow> retP None)"

definition get_events_from_etcd_db ::
  "('db, 'x) agent_etcd_scheme \<Rightarrow> (string \<Rightarrow> exn + json) \<Rightarrow> (('db, 'r) eworld_scheme, json list) py" where
  "get_events_from_etcd_db E loads =
     bindP (get_raw E [(''sort_order'', KText (Some ''ascend'')), (''sort_target'', KText (Some ''create''))] ETCD_EVENT_KEY_PREFIX)
       (\<lambda>kvs. liftP (mapE (\<lambda>(k, v). loads v) kvs))"

section \<open>What the agent relies on of etcd\<close>

text \<open>
  A transaction of puts without a condition is all or nothing: while the server is up every key is
  written; when the call fails or reports failure nothing is.
\<close>

definition puts :: "(string \<times> string \<times> int option) list \<Rightarrow> (string \<rightharpoonup> string) \<Rightarrow> string \<rightharpoonup> string" where
  "puts ops m = m ++ map_of (rev (map (\<lambda>(k, v, l). (k, v)) ops))"

locale agent_frame = etcd_frame "etcd3.truncate E" kv
  for E :: "('db, 'x) agent_etcd_scheme" and kv :: "'db \<Rightarrow> string \<rightharpoonup> string" +
  assumes transaction_fails: "e_transaction E ops d = (r, d') \<Longrightarrow> r \<noteq> Inr True \<Longrightarrow> kv d' = kv d"
    and members_kv: "kv (snd (e_members E d)) = kv d"
    and watch_kv: "kv (snd (e_watch E k d)) = kv d"
begin

lemma reads_kv:
  "kv (snd (e_get E k d)) = kv d" "kv (snd (e_get_prefix E p kw d)) = kv d" "kv (snd (e_connect E d)) = kv d"
  using get_kv [of k d] get_prefix_kv [of p kw d] connect_kv [of d] by (simp_all add: etcd3.truncate_def)

end

locale agent_store = agent_frame E kv + etcd_store "etcd3.truncate E" kv up
  for E :: "('db, 'x) agent_etcd_scheme" and kv :: "'db \<Rightarrow> string \<rightharpoonup> string" and up :: "'db \<Rightarrow> bool" +
  assumes up_transaction: "up d \<Longrightarrow> \<exists>d'. e_transaction E ops d = (Inr True, d') \<and> up d' \<and> kv d' = puts ops (kv d)"
    and up_members: "up d \<Longrightarrow> \<exists>ns d'. e_members E d = (Inr ns, d') \<and> up d'"
begin

lemma agent_reads:
  assumes "up d"
  shows "\<exists>d'. e_get E k d = (Inr (kv d k), d') \<and> up d' \<and> kv d' = kv d"
    and "\<exists>items d'. e_get_prefix E p kw d = (Inr (items, None), d') \<and> up d' \<and> kv d' = kv d \<and>
      distinct (map fst items) \<and> map_of items = kv d |` {k. prefix p k}"
  using up_get [OF assms, of k] get_kv [of k d] up_get_prefix [OF assms, of p kw] get_prefix_kv [of p kw d]
  by (auto simp: etcd3.truncate_def)

end

text \<open>\<open>in_step\<close>: a connected object whose cache, if it has one, holds exactly the keys of the database.\<close>

definition in_step :: "('db \<Rightarrow> string \<rightharpoonup> string) \<Rightarrow> ('db \<Rightarrow> bool) \<Rightarrow> ('db, 'r) eworld_scheme \<Rightarrow> bool" where
  "in_step kv up w \<longleftrightarrow> ew_client w \<and> up (ew_db w) \<and>
     (ew_cache_data w \<longrightarrow> (\<exists>d. ew_cache w = Some d \<and> distinct (map fst d) \<and> map_of d = kv (ew_db w)))"

lemma collect_items: "distinct (map fst items) \<Longrightarrow> collect (items, e) = items"
  using foldl_dict_set [of "[]" items] by (simp add: collect_def)

lemma on_client_run: "ew_client w \<Longrightarrow> m (ew_db w) = (r, d) \<Longrightarrow> on_client m w = (r, w\<lparr>ew_db := d\<rparr>)"
  by (simp add: on_client_def)

lemma cached_Some: "cached w = Some c \<Longrightarrow> ew_cache_data w \<and> ew_cache w = Some c \<and> c \<noteq> []"
  by (auto simp: cached_def split: if_splits option.splits)

lemma filter_keys: "filter (\<lambda>(k, v). P k) d = filter (\<lambda>kv. P (fst kv)) d"
  by (rule filter_cong) auto

context agent_store
begin

lemma get_key_value_run:
  assumes "in_step kv up w"
  shows "\<exists>w'. get_key_value E key w = (Inr (kv (ew_db w) key), w') \<and> in_step kv up w' \<and> kv (ew_db w') = kv (ew_db w)"
proof (cases "cached w")
  case None
  obtain d' where "e_get E key (ew_db w) = (Inr (kv (ew_db w) key), d')" "up d'" "kv d' = kv (ew_db w)"
    using agent_reads(1) assms by (metis in_step_def)
  moreover from this have "on_client (e_get E key) w = (Inr (kv (ew_db w) key), w\<lparr>ew_db := d'\<rparr>)"
    using assms by (intro on_client_run) (simp_all add: in_step_def)
  ultimately show ?thesis
    using assms None by (auto simp: get_key_value_def bindP_def readP_def tryP_def in_step_def)
next
  case (Some c)
  from cached_Some [OF this] assms have "map_of c = kv (ew_db w)" by (auto simp: in_step_def)
  then show ?thesis using Some assms by (auto simp: get_key_value_def bindP_def readP_def retP_def)
qed

lemma get_raw_run:
  assumes "in_step kv up w"
  shows "\<exists>d w'. get_raw E kw p w = (Inr d, w') \<and> distinct (map fst d) \<and> map_of d = kv (ew_db w) |` {k. prefix p k} \<and>
    in_step kv up w' \<and> kv (ew_db w') = kv (ew_db w)"
proof (cases "cached w")
  case None
  obtain items d' where d': "e_get_prefix E p kw (ew_db w) = (Inr (items, None), d')" "up d'" "kv d' = kv (ew_db w)"
      "distinct (map fst items)" "map_of items = kv (ew_db w) |` {k. prefix p k}"
    using agent_reads(2) assms by (metis in_step_def)
  moreover from this have "on_client (e_get_prefix E p kw) w = (Inr (items, None), w\<lparr>ew_db := d'\<rparr>)"
    using assms by (intro on_client_run) (simp_all add: in_step_def)
  ultimately show ?thesis
    using assms None collect_items [OF d'(4)]
    by (auto simp: get_raw_def bindP_def readP_def retP_def tryP_def in_step_def)
next
  case (Some c)
  from cached_Some [OF this] assms have "map_of c = kv (ew_db w)" "distinct (map fst c)" by (auto simp: in_step_def)
  then show ?thesis
    using Some assms by (auto simp: get_raw_def bindP_def readP_def retP_def filter_keys map_of_filter_keys distinct_filter_keys)
qed

lemma save_multiple_run:
  assumes "ew_client w" and "up (ew_db w)"
  shows "\<exists>d'. save_multiple_key_values E kvs ls l w = (Inr True, w\<lparr>ew_db := d'\<rparr>) \<and> up d' \<and>
    kv d' = puts (map (\<lambda>(k, v). (k, v, if k \<in> set ls then l else None)) kvs) (kv (ew_db w))"
proof -
  let ?ops = "map (\<lambda>(k, v). (k, v, if k \<in> set ls then l else None)) kvs"
  obtain d' where "e_transaction E ?ops (ew_db w) = (Inr True, d')" "up d'" "kv d' = puts ?ops (kv (ew_db w))"
    using up_transaction [OF assms(2)] by blast
  then show ?thesis using assms(1) by (auto simp: save_multiple_key_values_def tryP_def on_client_def)
qed

lemma save_multiple_fails:
  assumes "save_multiple_key_values E kvs ls l w = (r, w')"
  shows "\<exists>b. r = Inr b \<and> (\<not> b \<longrightarrow> kv (ew_db w') = kv (ew_db w))"
  using assms transaction_fails
  by (fastforce simp: save_multiple_key_values_def tryP_def on_client_def retP_def split: if_splits prod.splits sum.splits)

end

text \<open>The callback of the watch applies the change of the database to the cache.\<close>

fun changes :: "(string \<times> string option) list \<Rightarrow> (string \<rightharpoonup> string) \<Rightarrow> string \<rightharpoonup> string" where
  "changes [] m = m"
| "changes ((k, v) # cs) m = changes cs (m(k := v))"

lemma callback_follows:
  assumes "ew_cache_data w" and "ew_cache w = Some d" and "distinct (map fst d)" and "map_of d = m" and "v \<noteq> Some []"
  shows "\<exists>d'. callback_fn k v w = (Inr (), w\<lparr>ew_cache := Some d'\<rparr>) \<and> distinct (map fst d') \<and> map_of d' = m(k := v)"
proof (cases v)
  case None
  have "map_of (filter (\<lambda>(k', v). k' \<noteq> k) d) = m(k := None)"
    using assms(4) by (auto simp: filter_keys map_of_filter_keys restrict_map_def fun_eq_iff)
  with None assms show ?thesis
    by (auto simp: callback_fn_def bindP_def readP_def whenP_def modifyP_def filter_keys distinct_filter_keys)
next
  case (Some s)
  then obtain x xs where "s = x # xs" using assms(5) by (cases s) auto
  with Some assms show ?thesis by (auto simp: callback_fn_def bindP_def readP_def whenP_def modifyP_def)
qed

lemma callbacks_follow:
  fixes w :: "('db, 'r) eworld_scheme"
  assumes "ew_cache_data w" and "ew_cache w = Some d" and "distinct (map fst d)" and "\<forall>c \<in> set cs. snd c \<noteq> Some []"
  shows "\<exists>d'. forP cs (\<lambda>(k, v). callback_fn k v) w = (Inr (), w\<lparr>ew_cache := Some d'\<rparr>) \<and> distinct (map fst d') \<and>
    map_of d' = changes cs (map_of d)"
  using assms
proof (induction cs arbitrary: w d)
  case Nil
  then show ?case by (auto simp: retP_def intro!: exI [of _ d])
next
  case (Cons c cs)
  obtain k v where c: "c = (k, v)" by (cases c)
  with Cons.prems obtain d1 where d1: "callback_fn k v w = (Inr (), w\<lparr>ew_cache := Some d1\<rparr>)" "distinct (map fst d1)"
      "map_of d1 = (map_of d)(k := v)"
    using callback_follows [of w d _ v k] by auto
  have "\<exists>d'. forP cs (\<lambda>(k, v). callback_fn k v) (w\<lparr>ew_cache := Some d1\<rparr>) = (Inr (), w\<lparr>ew_cache := Some d1, ew_cache := Some d'\<rparr>) \<and>
      distinct (map fst d') \<and> map_of d' = changes cs (map_of d1)"
    by (rule Cons.IH) (use d1 Cons.prems in auto)
  with d1(1,3) c show ?case by (auto simp: bindP_def)
qed

section \<open>What leaves the database alone\<close>

definition same_store :: "('db \<Rightarrow> string \<rightharpoonup> string) \<Rightarrow> ('db, 'r) eworld_scheme \<Rightarrow> ('db, 'r) eworld_scheme \<Rightarrow> bool" where
  "same_store kv w w' \<longleftrightarrow> kv (ew_db w') = kv (ew_db w)"

interpretation sd: py_rel "same_store kv" for kv
  by unfold_locales (auto simp: same_store_def)

lemma keeps_on_client: "(\<And>d. kv (snd (m d)) = kv d) \<Longrightarrow> keeps (same_store kv) (on_client m)"
  by (auto simp: keeps_def on_client_def same_store_def split: prod.splits) (metis snd_conv)

context agent_frame
begin

lemma keeps_reads_db:
  "keeps (same_store kv) (get_key_value E k)" "keeps (same_store kv) (get_raw E kw p)" "keeps (same_store kv) (get_members E)"
  "keeps (same_store kv) (watch_callback E k)"
  unfolding get_key_value_def get_raw_def get_members_def watch_callback_def
  by (intro sd.keeps_rules keeps_on_client reads_kv members_kv watch_kv)+

lemma keeps_doc: "keeps (same_store kv) (get_key_with_prefix E p)"
  unfolding get_key_with_prefix_def by (intro sd.keeps_rules keeps_reads_db)

lemma keeps_initialize: "keeps (same_store kv) (EtcdAPI_initialize E)"
proof -
  have "keeps (same_store kv) (get_etcd_client_connection E)"
  proof -
    have "kv (snd (thenP (e_connect E) (e_get E k) d)) = kv d" for k d
      using reads_kv by (auto simp: thenP_def bindP_def split: prod.splits sum.splits) (metis snd_conv)+
    then have "keeps (same_store kv) (\<lambda>w. case thenP (e_connect E) (e_get E ''/dummy-non-existent-key'') (ew_db w) of (r, d) \<Rightarrow>
         (map_sum id (\<lambda>_. ()) r, w\<lparr>ew_db := d\<rparr>))"
      by (auto simp: keeps_def same_store_def split: prod.splits) (metis snd_conv)
    then show ?thesis unfolding get_etcd_client_connection_def by (intro sd.keeps_rules)
  qed
  then show ?thesis
    unfolding EtcdAPI_initialize_def
    by (intro sd.keeps_rules sd.keeps_modify keeps_reads_db) (simp_all add: same_store_def)
qed

lemmas keeps_agent = sd.keeps_rules keeps_reads_db keeps_doc keeps_initialize

end

section \<open>An executable client\<close>

definition mem_agent :: "string dict agent_etcd" where
  "mem_agent = etcd3.extend mem_etcd (agent_etcd.fields
     (\<lambda>ops. bindP (modifyP (\<lambda>d. foldl (\<lambda>d (k, v, l). dict_set k v d) d ops)) (\<lambda>_. retP True))
     (retP [''node1'', ''node2'', ''node3'']) (\<lambda>i. retP 60) (\<lambda>i. retP [i]) (\<lambda>k. retP 1) (\<lambda>i. retP ()))"

lemma mem_puts:
  "map_of (foldl (\<lambda>d (k, v, l). dict_set k v d) d ops) = puts ops (map_of d)"
  "distinct (map fst d) \<Longrightarrow> distinct (map fst (foldl (\<lambda>d (k, v, l). dict_set k v d) d ops))"
  by (induction ops arbitrary: d) (auto simp: puts_def map_add_assoc map_add_upd_left fun_eq_iff map_add_def split: option.splits)

lemma mem_agent_store: "agent_store mem_agent map_of mem_up"
proof -
  have "etcd3.truncate mem_agent = mem_etcd"
    by (simp add: mem_agent_def etcd3.truncate_def etcd3.extend_def agent_etcd.fields_def mem_etcd_def)
  then have "etcd_store (etcd3.truncate mem_agent) map_of mem_up" using mem_etcd_store by simp
  then show ?thesis
    by (intro agent_store.intro agent_store_axioms.intro agent_frame.intro agent_frame_axioms.intro etcd_store.axioms(1))
      (auto simp: mem_agent_def etcd3.extend_def agent_etcd.fields_def bindP_def modifyP_def retP_def mem_puts mem_up_def)
qed

interpretation mem_ag: agent_store mem_agent map_of mem_up
  by (rule mem_agent_store)

end
