(* ===== verification/ClusterLib.thy ===== *)
theory ClusterLib
  imports AgentDb
begin

text \<open>
  The cluster library of the NKV agent, \<^verbatim>\<open>src/ufm/agents/nkv_agent/clusterlib/lib.py\<close>: what the
  management tools read of the cluster (members, targets, subsystems, drives, health, versions, map,
  events), the control of services, and the start and the progress of software upgrades and downgrades.

  It is Python 2 code: \<^verbatim>\<open>/\<close> on integers rounds down.  A document of the database holds texts and
  dictionaries only; every access that may raise does so here.

  Parameters (record \<open>libenv\<close>): floating point (\<^verbatim>\<open>float\<close>, its comparison, the age of a time, \<^verbatim>\<open>int\<close>), the
  date text of a time, \<^verbatim>\<open>os.stat\<close>, \<^verbatim>\<open>Popen\<close> with its outputs, \<^verbatim>\<open>tarfile\<close> and \<^verbatim>\<open>hashlib.md5\<close>,
  \<^verbatim>\<open>ast.literal_eval\<close> and \<^verbatim>\<open>json.loads\<close>.
\<close>

section \<open>Environment\<close>

record ('db, 's) cworld = "'db eworld" +
  cw_sys :: 's

record 's libenv =
  le_float :: "json \<Rightarrow> exn + pytime"
  le_age :: "pytime \<Rightarrow> int"
  le_later :: "pytime \<Rightarrow> pytime \<Rightarrow> bool"
  le_int :: "pytime \<Rightarrow> int"
  le_date :: "json \<Rightarrow> exn + string"
  le_stat :: "string \<Rightarrow> json option"
  le_popen :: "string \<Rightarrow> ('s, string \<times> string) py"
  le_tar :: "string \<Rightarrow> exn + (string \<times> string) list"
  le_md5 :: "string \<Rightarrow> string"
  le_literal :: "json \<Rightarrow> exn + json"
  le_loads :: "string \<Rightarrow> exn + json"

definition on_sys :: "('s, 'a) py \<Rightarrow> (('db, 's, 'r) cworld_scheme, 'a) py" where
  "on_sys m w = (case m (cw_sys w) of (r, s) \<Rightarrow> (r, w\<lparr>cw_sys := s\<rparr>))"

text \<open>The decorator \<^verbatim>\<open>do_pre_checks\<close> for an object that is given.\<close>

definition do_pre_checks ::
  "('db, 'x) agent_etcd_scheme \<Rightarrow> (('db, 'r) eworld_scheme, 'a) py \<Rightarrow> (('db, 'r) eworld_scheme, 'a) py" where
  "do_pre_checks E f = bindP (readP ew_client) (\<lambda>c. thenP (if c then retP () else EtcdAPI_initialize E) f)"

section \<open>Access to documents\<close>

fun py_get :: "json \<Rightarrow> string \<Rightarrow> json \<Rightarrow> exn + json" where
  "py_get (JObj d) k x = Inr (case map_of d k of None \<Rightarrow> x | Some v \<Rightarrow> v)"
| "py_get j k x = Inl AttributeError"

fun py_path :: "json \<Rightarrow> string list \<Rightarrow> exn + json" where
  "py_path j [] = Inr j"
| "py_path j (k # ks) = bindE (py_key j k) (\<lambda>j'. py_path j' ks)"

text \<open>\<^verbatim>\<open>except KeyError\<close>.\<close>

fun or_key :: "exn + 'a \<Rightarrow> 'a \<Rightarrow> exn + 'a" where
  "or_key (Inl (KeyError k)) x = Inr x"
| "or_key r x = r"

definition has_val :: "json \<Rightarrow> string \<Rightarrow> string \<Rightarrow> exn + bool" where
  "has_val j k v = bindE (py_in k j) (\<lambda>b. if b then bindE (py_key j k) (\<lambda>x. Inr (x = JStr v)) else Inr False)"

definition int_field :: "json \<Rightarrow> string \<Rightarrow> exn + int" where
  "int_field j k = bindE (py_get j k (JInt 0)) py_int"

text \<open>A field that is added only when the source has it.\<close>

definition opt_field :: "string \<Rightarrow> json \<Rightarrow> string \<Rightarrow> exn + json dict" where
  "opt_field new j k = bindE (py_in k j) (\<lambda>b. if b then bindE (py_key j k) (\<lambda>v. Inr [(new, v)]) else Inr [])"

definition py_upper_char :: "char \<Rightarrow> char" where
  "py_upper_char c = (let n = (of_char c :: nat) in if 97 \<le> n \<and> n \<le> 122 then char_of (n - 32) else c)"

fun py_upper :: "json \<Rightarrow> exn + string" where
  "py_upper (JStr s) = Inr (map py_upper_char s)"
| "py_upper j = Inl AttributeError"

section \<open>Members of the cluster\<close>

definition CM_VERSION :: json where "CM_VERSION = JFloat 0 ''0.3''"
definition CM_UP :: int where "CM_UP = 0"
definition CM_DOWN :: int where "CM_DOWN = 1"
definition CM_ACTIVE :: int where "CM_ACTIVE = 0"
definition CM_PASSIVE :: int where "CM_PASSIVE = 1"

text \<open>The time of the last change of the database file, \<open>None\<close> when anything goes wrong.\<close>

definition get_db_last_update_time :: "'s libenv \<Rightarrow> string \<Rightarrow> json option" where
  "get_db_last_update_time L cluster_name = le_stat L (''/var/lib/etcd/'' @ cluster_name @ ''.etcd/member/snap/db'')"

definition last_update :: "'s libenv \<Rightarrow> json \<Rightarrow> json option" where
  "last_update L cl = (case bindE (py_key cl ''name'') as_str of Inl _ \<Rightarrow> None | Inr n \<Rightarrow> get_db_last_update_time L n)"

definition store_stats :: "'s libenv \<Rightarrow> json option \<Rightarrow> json \<Rightarrow> exn + json" where
  "store_stats L ctime m =
     bindE (py_get m ''db_size'' JNull) (\<lambda>sz.
     bindE (case ctime of None \<Rightarrow> Inr []
         | Some c \<Rightarrow> if py_truth c then bindE (le_date L c) (\<lambda>t. Inr [(''last_store_updated'', JStr t)]) else Inr []) (\<lambda>u.
     Inr (JObj ((''bytes_total'', sz) # u))))"

definition member_entry :: "'s libenv \<Rightarrow> json option \<Rightarrow> json \<Rightarrow> string \<Rightarrow> exn + json \<times> bool" where
  "member_entry L ctime cl name =
     bindE (py_key cl name) (\<lambda>m.
     bindE (py_get m ''id'' JNull) (\<lambda>i.
     bindE (py_get m ''ip_address'' JNull) (\<lambda>ip.
     bindE (opt_field ''cm_up_time_hours'' m ''uptime'') (\<lambda>upt.
     bindE (has_val m ''status'' ''up'') (\<lambda>up.
     bindE (has_val cl ''leader'' name) (\<lambda>leader.
     bindE (store_stats L ctime m) (\<lambda>stats.
     bindE (py_get m ''total_capacity_in_kb'' JNull) (\<lambda>kb.
     bindE (py_get m ''space_avail_percent'' JNull) (\<lambda>pc.
     Inr (JObj ([(''cm_server_name'', JStr name), (''cm_id'', i), (''cm_server_address'', ip)] @ upt @
       [(''cm_instance_health'', JInt (if up then CM_UP else CM_DOWN)), (''cm_instance_mode'', JInt (if leader then CM_ACTIVE else CM_PASSIVE)),
        (''cm_instance_store_stats'', stats), (''cm_server_kb_total'', kb), (''cm_server_avail_percent'', pc)]), up))))))))))"

definition status_updated :: "json \<Rightarrow> string \<Rightarrow> int \<Rightarrow> exn + int" where
  "status_updated cl name prev =
     bindE (py_key cl name) (\<lambda>m. bindE (py_in ''status_updated'' m) (\<lambda>b.
       if b then bindE (bindE (py_key m ''status_updated'') py_int) (\<lambda>t. Inr (if t > prev then t else prev)) else Inr prev))"

record cm_info =
  ci_members :: "json list"
  ci_total :: int
  ci_up :: int
  ci_last :: int

definition add_member :: "'s libenv \<Rightarrow> json option \<Rightarrow> json \<Rightarrow> string \<Rightarrow> cm_info \<Rightarrow> exn + cm_info" where
  "add_member L ctime cl name ci =
     bindE (py_in name cl) (\<lambda>known. if \<not> known then Inr ci
     else bindE (member_entry L ctime cl name) (\<lambda>(e, up).
       bindE (status_updated cl name (ci_last ci)) (\<lambda>t.
       Inr (ci\<lparr>ci_members := ci_members ci @ [e], ci_total := ci_total ci + 1, ci_up := ci_up ci + (if up then 1 else 0), ci_last := t\<rparr>))))"

definition cm_start :: cm_info where
  "cm_start = \<lparr>ci_members = [], ci_total = 0, ci_up = 0, ci_last = 0\<rparr>"

definition address_8080 :: "json \<Rightarrow> exn + json" where
  "address_8080 ip = (if py_truth ip then bindE (as_str ip) (\<lambda>s. Inr (JStr (s @ '':8080''))) else Inr ip)"

definition cluster_fields :: "'s libenv \<Rightarrow> json \<Rightarrow> exn + json dict" where
  "cluster_fields L cl =
     bindE (py_in ''time_created'' cl) (\<lambda>b.
     bindE (if b then bindE (bindE (py_key cl ''time_created'') (le_date L)) (\<lambda>t. Inr [(''cluster_creation_time'', JStr t)]) else Inr []) (\<lambda>ct.
     bindE (py_get cl ''id'' JNull) (\<lambda>i.
     bindE (py_get cl ''name'' JNull) (\<lambda>n.
     bindE (bindE (py_get cl ''ip_address'' JNull) address_8080) (\<lambda>ip.
     Inr (ct @ [(''cluster_id'', i), (''cluster_name'', n), (''cluster_client_communication_address'', ip)]))))))"

definition get_cluster_info_full ::
  "('db, 'x) agent_etcd_scheme \<Rightarrow> 's libenv \<Rightarrow> (('db, 'r) eworld_scheme, json dict \<times> cm_info) py" where
  "get_cluster_info_full E L = do_pre_checks E
     (bindP (get_key_with_prefix E ''/cluster/'') (\<lambda>out.
      bindP (get_members E) (\<lambda>members.
      if \<not> py_truth out then retP ([], cm_start)
      else bindP (liftP (py_key out ''cluster'')) (\<lambda>cl.
        bindP (liftP (cluster_fields L cl)) (\<lambda>fs.
        case members of None \<Rightarrow> raiseP TypeError
        | Some names \<Rightarrow> bindP (liftP (foldE (add_member L (last_update L cl) cl) names cm_start)) (\<lambda>ci.
            retP (fs @ [(''members'', JList (ci_members ci))], ci)))))))"

definition get_cluster_info where
  "get_cluster_info E L = do_pre_checks E (bindP (get_cluster_info_full E L) (\<lambda>(d, _). retP (JObj d)))"

section \<open>Targets, subsystems and drives\<close>

definition SUBSYSTEM_OK :: int where "SUBSYSTEM_OK = 0"
definition SUBSYSTEM_DOWN :: int where "SUBSYSTEM_DOWN = 1"
definition SUBSYSTEM_TYPE_TCP :: int where "SUBSYSTEM_TYPE_TCP = 0"
definition SUBSYSTEM_TYPE_RDMA :: int where "SUBSYSTEM_TYPE_RDMA = 1"
definition SUBSYSTEM_ADDR_FAMILY_IPV4 :: int where "SUBSYSTEM_ADDR_FAMILY_IPV4 = 2"
definition SUBSYSTEM_ADDR_FAMILY_IPV6 :: int where "SUBSYSTEM_ADDR_FAMILY_IPV6 = 10"
definition SUBSYSTEM_IFACE_STATUS_DOWN :: int where "SUBSYSTEM_IFACE_STATUS_DOWN = 0"
definition SUBSYSTEM_IFACE_STATUS_UP :: int where "SUBSYSTEM_IFACE_STATUS_UP = 1"
definition MAX_TIME_LAPSE :: int where "MAX_TIME_LAPSE = 90"

definition NET_SPEED_DICT :: "(int \<times> int) list" where
  "NET_SPEED_DICT = [(1, 0), (10, 1), (50, 2), (100, 3)]"

definition convert_network_speed_to_enum_val :: "json \<Rightarrow> exn + int" where
  "convert_network_speed_to_enum_val speed_in_mb =
     bindE (py_int speed_in_mb) (\<lambda>mb. Inr (case map_of NET_SPEED_DICT (mb div 1000) of None \<Rightarrow> - 1 | Some v \<Rightarrow> v))"

text \<open>The counters of a drive; the percentage goes through a floating point number.\<close>

definition drive_counters :: "(string \<times> string) list" where
  "drive_counters =
     [(''drive_data_units_read'', ''DriveDataUnitsRead''), (''drive_data_units_written'', ''DriveDataUnitsWritten''),
      (''drive_host_read_commands'', ''DriveHostReadCommands''), (''drive_host_write_commands'', ''DriveHostWriteCommands''),
      (''drive_power_cycles'', ''DrivePowerCycles''), (''drive_power_on_hours'', ''DrivePowerOnHours''),
      (''drive_unsafe_shutdowns'', ''DriveUnsafeShutdowns''), (''drive_media_errors'', ''DriveMediaErrors''),
      (''drive_num_err_log_entries'', ''DriveNumErrLogEntries'')]"

definition counter_fields :: "json \<Rightarrow> (string \<times> string) list \<Rightarrow> exn + json dict" where
  "counter_fields d fs = mapE (\<lambda>(new, k). bindE (int_field d k) (\<lambda>i. Inr (new, JInt i))) fs"

definition drive_fields :: "'s libenv \<Rightarrow> json \<Rightarrow> exn + json dict" where
  "drive_fields L d =
     bindE (py_get d ''Model'' JNull) (\<lambda>model.
     bindE (py_get d ''FirmwareRevision'' JNull) (\<lambda>fw.
     bindE (int_field d ''SizeInBytes'') (\<lambda>size.
     bindE (counter_fields d [(''drive_critical_warning'', ''DriveCriticalWarning''), (''drive_temperature_C'', ''DriveTemperature'')]) (\<lambda>c1.
     bindE (bindE (py_get d ''DiskUtilizationPercentage'' (JInt 0)) (le_float L)) (\<lambda>pc.
     bindE (counter_fields d drive_counters) (\<lambda>c2.
     Inr ([(''drive_model'', model), (''drive_fw_version'', fw), (''drive_size_mb'', JInt (size div (1024 * 1024)))] @ c1 @
       [(''drive_percentage_used_space'', JInt (le_int L pc))] @ c2)))))))"

record drive_sum =
  ds_drives :: "json list"
  ds_used :: int
  ds_total :: int
  ds_numa :: "int list"

definition add_drive :: "'s libenv \<Rightarrow> json \<Rightarrow> json \<Rightarrow> drive_sum \<Rightarrow> exn + drive_sum" where
  "add_drive L drives_json ns s =
     bindE (py_key ns ''PCIAddress'') (\<lambda>addr.
     bindE (py_key ns ''Serial'') (\<lambda>serial.
     bindE (as_str serial) (\<lambda>sn.
     bindE (py_get drives_json sn JNull) (\<lambda>d.
     let base = [(''drive_address'', addr), (''drive_serial_number'', serial), (''drive_id'', serial), (''drive_is_nvme'', JInt 1), (''drive_is_kv'', JInt 1)] in
     if \<not> py_truth d then Inr (s\<lparr>ds_drives := ds_drives s @ [JObj base]\<rparr>)
     else bindE (drive_fields L d) (\<lambda>fs.
       bindE (int_field d ''DiskUtilizationInBytes'') (\<lambda>used.
       bindE (int_field d ''SizeInBytes'') (\<lambda>total.
       bindE (bindE (py_key d ''NUMANode'') py_int) (\<lambda>numa.
       Inr (s\<lparr>ds_drives := ds_drives s @ [JObj (base @ fs)], ds_used := ds_used s + used, ds_total := ds_total s + total,
              ds_numa := ds_numa s @ [numa]\<rparr>)))))))))"

definition no_drives :: drive_sum where
  "no_drives = \<lparr>ds_drives = [], ds_used = 0, ds_total = 0, ds_numa = []\<rparr>"

definition transport_type :: "json \<Rightarrow> exn + json dict" where
  "transport_type value =
     bindE (py_key value ''trtype'') (\<lambda>t. bindE (py_upper t) (\<lambda>u.
       Inr (if u = ''RDMA'' then [(''subsystem_type'', JInt SUBSYSTEM_TYPE_RDMA)]
            else if u = ''TCP'' then [(''subsystem_type'', JInt SUBSYSTEM_TYPE_TCP)] else [])))"

text \<open>An interface is aligned when all drives sit on one NUMA node and it sits there too.\<close>

definition numa_aligned :: "int list \<Rightarrow> json \<Rightarrow> exn + bool" where
  "numa_aligned numas nic =
     (case remdups numas of
        [n] \<Rightarrow> bindE (bindE (py_key nic ''NUMANode'') py_int) (\<lambda>i. Inr (n = i))
      | _ \<Rightarrow> Inr False)"

definition transport_entry :: "json \<Rightarrow> int list \<Rightarrow> string \<times> json \<Rightarrow> exn + json" where
  "transport_entry network_json numas = (\<lambda>(mac, value).
     bindE (py_key value ''traddr'') (\<lambda>addr.
     bindE (py_key value ''trsvcid'') (\<lambda>port.
     bindE (transport_type value) (\<lambda>ty.
     bindE (py_key value ''adrfam'') (\<lambda>fam.
     bindE (py_key network_json mac) (\<lambda>nic.
     bindE (bindE (py_key nic ''Speed'') convert_network_speed_to_enum_val) (\<lambda>speed.
     bindE (numa_aligned numas nic) (\<lambda>aligned.
     bindE (has_val nic ''Status'' ''up'') (\<lambda>up.
     Inr (JObj ([(''subsystem_address'', addr), (''subsystem_port'', port)] @ ty @
       [(''subsystem_addr_fam'', JInt (if fam = JStr ''IPv4'' then SUBSYSTEM_ADDR_FAMILY_IPV4 else SUBSYSTEM_ADDR_FAMILY_IPV6)),
        (''subsystem_interface_speed'', JInt speed), (''subsystem_interface_numa_aligned'', JBool aligned),
        (''subsystem_interface_status'', JInt (if up then SUBSYSTEM_IFACE_STATUS_UP else SUBSYSTEM_IFACE_STATUS_DOWN))])))))))))))"

definition kb :: "int \<Rightarrow> int" where "kb n = n div 1024"

definition space_fields :: "int \<Rightarrow> int \<Rightarrow> json dict" where
  "space_fields used size_b =
     [(''subsystem_kb_used'', JInt (kb used)), (''subsystem_kb_total'', JInt (kb size_b)), (''subsystem_kb_avail'', JInt (kb size_b - kb used))] @
     (if kb size_b \<noteq> 0 then [(''subsystem_space_avail_percent'', JInt ((kb size_b - kb used) * 100 div kb size_b))] else [])"

record ss_sum =
  sm_entries :: "json list"
  sm_up :: int
  sm_total :: int
  sm_kb_total :: int
  sm_kb_avail :: int

definition add_subsystem ::
  "'s libenv \<Rightarrow> json \<Rightarrow> json \<Rightarrow> json \<Rightarrow> string \<times> json \<Rightarrow> ss_sum \<Rightarrow> exn + ss_sum" where
  "add_subsystem L server_name drives_json network_json = (\<lambda>(nqn, ss) s.
     bindE (py_get ss ''UUID'' JNull) (\<lambda>uuid.
     bindE (py_get ss ''cmd_status'' (JStr ''None'')) (\<lambda>cmd.
     bindE (py_in ''status'' ss) (\<lambda>up.
     bindE (bindE (py_key ss ''namespaces'') py_items) (\<lambda>nss.
     bindE (foldE (\<lambda>(_, ns). add_drive L drives_json ns) nss no_drives) (\<lambda>ds.
     bindE (bindE (or_key (py_key ss ''transport_addresses'') (JObj [])) py_items) (\<lambda>tas.
     bindE (mapE (transport_entry network_json (ds_numa ds)) tas) (\<lambda>ts.
     Inr (s\<lparr>sm_entries := sm_entries s @ [JObj ([(''subsystem_name'', JStr nqn), (''target_server_name'', server_name),
           (''subsystem_nqn_id'', uuid), (''subsystem_nqn_nsid'', JInt 1), (''cmd_status'', cmd),
           (''subsystem_status'', JInt (if up then SUBSYSTEM_OK else SUBSYSTEM_DOWN)), (''mapped_drives'', JList (ds_drives ds))] @
           space_fields (ds_used ds) (ds_total ds) @ [(''subsystem_transport'', JList ts)])],
         sm_up := sm_up s + (if up then 1 else 0), sm_total := sm_total s + 1,
         sm_kb_total := sm_kb_total s + kb (ds_total ds), sm_kb_avail := sm_kb_avail s + (kb (ds_total ds) - kb (ds_used ds))\<rparr>)))))))))"

record tgt_info =
  ti_targets :: "json list"
  ti_ss_total :: int
  ti_ss_up :: int
  ti_agents :: int
  ti_agents_up :: int
  ti_last :: pytime

text \<open>The heartbeat of an agent: alive within the last 90 seconds, and the newest one seen.\<close>

definition heartbeat :: "'s libenv \<Rightarrow> json option \<Rightarrow> string \<Rightarrow> pytime \<Rightarrow> exn + bool \<times> pytime" where
  "heartbeat L hb target_id newest =
     (case hb of None \<Rightarrow> Inr (False, newest)
      | Some l \<Rightarrow> bindE (if py_truth l then py_in target_id l else Inr False) (\<lambda>b.
          if \<not> b then Inr (False, newest)
          else bindE (bindE (py_key l target_id) (le_float L)) (\<lambda>t.
            Inr (le_age L t < MAX_TIME_LAPSE, if le_later L t newest then t else newest))))"

text \<open>\<^verbatim>\<open>for k in x: x[k]\<close>: a text is indexed by its characters, which raises.\<close>

fun loop_items :: "json \<Rightarrow> exn + (string \<times> json) list" where
  "loop_items (JObj d) = Inr d"
| "loop_items (JStr s) = (if s = [] then Inr [] else Inl TypeError)"
| "loop_items j = Inl TypeError"

definition add_target :: "'s libenv \<Rightarrow> json option \<Rightarrow> string \<times> json \<Rightarrow> tgt_info \<Rightarrow> exn + tgt_info" where
  "add_target L hb = (\<lambda>(target_id, srv) ti.
     bindE (heartbeat L hb target_id (ti_last ti)) (\<lambda>(alive, newest).
     bindE (or_key (py_path srv [''server_attributes'', ''identity'', ''Hostname'']) (JStr ''None'')) (\<lambda>name.
     bindE (or_key (py_path srv [''kv_attributes'', ''config'', ''subsystems'']) (JObj [])) (\<lambda>subsystems_json.
     bindE (or_key (py_path srv [''server_attributes'', ''storage'', ''nvme'', ''devices'']) (JObj [])) (\<lambda>drives_json.
     bindE (or_key (py_path srv [''server_attributes'', ''network'', ''interfaces'']) (JObj [])) (\<lambda>network_json.
     bindE (loop_items subsystems_json) (\<lambda>sss.
     bindE (foldE (add_subsystem L name drives_json network_json) sss
         \<lparr>sm_entries = [], sm_up = 0, sm_total = 0, sm_kb_total = 0, sm_kb_avail = 0\<rparr>) (\<lambda>s.
     bindE (or_key (bindE (bindE (py_path srv [''server_attributes'', ''uptime'']) py_int) (\<lambda>i. Inr [(''target_up_time_hours'', JInt i)])) []) (\<lambda>upt.
     Inr (ti\<lparr>ti_targets := ti_targets ti @ [JObj ([(''target_id'', JStr target_id), (''target_kb_total'', JInt (sm_kb_total s)),
           (''target_kb_avail'', JInt (sm_kb_avail s)), (''target_server_name'', name), (''subsystem_stats'', JList (sm_entries s)),
           (''number_of_subsystems'', JInt (int (length (sm_entries s))))] @ upt)],
         ti_ss_total := ti_ss_total ti + sm_total s, ti_ss_up := ti_ss_up ti + sm_up s, ti_agents := ti_agents ti + 1,
         ti_agents_up := ti_agents_up ti + (if alive then 1 else 0), ti_last := newest\<rparr>))))))))))"

definition no_targets :: tgt_info where
  "no_targets = \<lparr>ti_targets = [], ti_ss_total = 0, ti_ss_up = 0, ti_agents = 0, ti_agents_up = 0, ti_last = PyTime 0 ''0.0''\<rparr>"

definition targets_of :: "'s libenv \<Rightarrow> json \<Rightarrow> exn + tgt_info" where
  "targets_of L json_out =
     (if \<not> py_truth json_out then Inr no_targets
      else bindE (py_path json_out [''object_storage'', ''servers'']) (\<lambda>servers_out.
        bindE (py_items servers_out) (\<lambda>d.
        foldE (add_target L (map_of d ''list'')) (filter (\<lambda>(k, v). k \<noteq> ''list'') d) no_targets)))"

definition get_targets_info ::
  "('db, 'x) agent_etcd_scheme \<Rightarrow> 's libenv \<Rightarrow> (('db, 'r) eworld_scheme, tgt_info) py" where
  "get_targets_info E L = do_pre_checks E
     (bindP (get_key_with_prefix E ''/object_storage/servers/'') (\<lambda>out. liftP (targets_of L out)))"

section \<open>Health, map and events\<close>

definition HEALTH_OK :: int where "HEALTH_OK = 0"
definition HEALTH_WARNING :: int where "HEALTH_WARNING = 4"
definition HEALTH_CRITICAL :: int where "HEALTH_CRITICAL = 5"
definition HEALTH_FAILED :: int where "HEALTH_FAILED = 6"

definition overall_status :: "int \<Rightarrow> int \<Rightarrow> int \<Rightarrow> int \<Rightarrow> int" where
  "overall_status cm_total cm_up ss_total ss_up =
     (if cm_total \<noteq> cm_up \<or> ss_up \<noteq> ss_total then
        (if cm_total - cm_up > (cm_total - 1) div 2 then HEALTH_FAILED
         else if cm_total - cm_up = (cm_total - 1) div 2 then HEALTH_CRITICAL else HEALTH_WARNING)
      else HEALTH_OK)"

definition map_status :: "int \<Rightarrow> int \<Rightarrow> int \<Rightarrow> int \<Rightarrow> int" where
  "map_status cm_total cm_up ss_total ss_up =
     (if cm_total \<noteq> cm_up \<or> ss_up \<noteq> ss_total then
        (if cm_total - cm_up > (cm_total - 1) div 2 then HEALTH_FAILED else HEALTH_CRITICAL)
      else HEALTH_OK)"

text \<open>\<^verbatim>\<open>msg.format(**args)\<close> for the messages of the table, whose fields are plain names.\<close>

function format_named :: "json dict \<Rightarrow> string \<Rightarrow> exn + string" where
  "format_named args [] = Inr []"
| "format_named args (c # s) =
     (if c = CHR ''{'' then
        (let f = takeWhile (\<lambda>x. x \<noteq> CHR ''}'') s in
         bindE (dict_get args f) (\<lambda>v.
         bindE (format_named args (tl (dropWhile (\<lambda>x. x \<noteq> CHR ''}'') s))) (\<lambda>t. Inr (py_str v @ t))))
      else bindE (format_named args s) (\<lambda>t. Inr (c # t)))"
  by pat_completeness auto
termination
  by (relation "measure (\<lambda>(_, s). length s)")
    (auto simp: less_Suc_eq_le intro: order_trans [OF diff_le_self] order_trans [OF _ length_dropWhile_le])

definition event_type :: "int dict" where
  "event_type = [(''config'', 0), (''state'', 1), (''client'', 2)]"

fun as_dict :: "json \<Rightarrow> exn + json dict" where
  "as_dict (JObj d) = Inr d"
| "as_dict j = Inl TypeError"

definition format_stored_event :: "'s libenv \<Rightarrow> json \<Rightarrow> exn + int \<times> json" where
  "format_stored_event L e =
     bindE (bindE (py_key e ''name'') as_str) (\<lambda>name.
     bindE (dict_get agent_events name) (\<lambda>ed.
     bindE (py_int_str (take 2 (drop 2 (ed_id ed)))) (\<lambda>sev.
     bindE (dict_get event_type (ed_change ed)) (\<lambda>ty.
     bindE (bindE (py_key e ''args'') as_dict) (\<lambda>args.
     bindE (format_named args (ed_msg ed)) (\<lambda>msg.
     bindE (py_key e ''timestamp'') (\<lambda>ts.
     bindE (le_date L ts) (\<lambda>date.
     bindE (py_int ts) (\<lambda>t.
     Inr (t, JObj [(''cluster_event_severity'', JInt (sev - 1)), (''cluster_event_type'', JInt ty), (''cluster_event_message'', JStr msg),
       (''cluster_event_creation_time'', JStr date), (''timestamp'', JInt t)]))))))))))"

text \<open>\<^verbatim>\<open>sorted(..., reverse=True)\<close> keeps events of the same time in their order.\<close>

definition newest_first :: "(int \<times> 'a) list \<Rightarrow> (int \<times> 'a) list" where
  "newest_first es = sort_key (\<lambda>(t, _). - t) es"

definition get_events :: "('db, 'x) agent_etcd_scheme \<Rightarrow> 's libenv \<Rightarrow> (('db, 'r) eworld_scheme, json list) py" where
  "get_events E L = do_pre_checks E
     (bindP (get_events_from_etcd_db E (le_loads L)) (\<lambda>el.
      bindP (liftP (mapE (format_stored_event L) el)) (\<lambda>es. retP (map snd (newest_first es)))))"

definition uptime_hours :: "string option \<Rightarrow> json dict" where
  "uptime_hours v =
     (case v of None \<Rightarrow> []
      | Some s \<Rightarrow> if s = [] then [] else (case py_int_str s of Inl _ \<Rightarrow> [] | Inr i \<Rightarrow> [(''cluster_up_time_hours'', JInt (i div 3600))]))"

text \<open>The loop overwrites the two sums, so the space of the cluster is that of the last target.\<close>

definition cluster_space :: "json list \<Rightarrow> exn + json dict" where
  "cluster_space targets =
     bindE (foldE (\<lambda>t _. bindE (bindE (py_key t ''target_kb_total'') py_int) (\<lambda>a.
         bindE (bindE (py_key t ''target_kb_avail'') py_int) (\<lambda>b. Inr (a, b)))) targets (0, 0)) (\<lambda>(a, b).
     Inr (if a \<noteq> 0 then [(''space_avail_percent'', JInt (b * 100 div a))] else []))"

definition get_cluster_health ::
  "('db, 'x) agent_etcd_scheme \<Rightarrow> 's libenv \<Rightarrow> bool \<Rightarrow> (('db, 'r) eworld_scheme, json) py" where
  "get_cluster_health E L detail = do_pre_checks E
     (bindP (get_cluster_info_full E L) (\<lambda>(info, ci).
      bindP (get_targets_info E L) (\<lambda>ti.
      bindP (get_key_value E ''/cluster/uptime_in_seconds'') (\<lambda>upt.
      bindP (liftP (cluster_space (ti_targets ti))) (\<lambda>space.
      bindP (liftP (le_date L (JInt (max (ci_last ci) (le_int L (ti_last ti)))))) (\<lambda>date.
      bindP (if \<not> detail then retP []
        else bindP (tryP (bindP (get_events E L) (\<lambda>es. retP [(''events'', JList es)])) (\<lambda>_. retP [])) (\<lambda>ev.
          retP [(''health_services'', JObj ((case map_of info ''members'' of None \<Rightarrow> [] | Some ms \<Rightarrow> [(''cms'', ms)]) @
            [(''targets'', JList (ti_targets ti))] @ ev))])) (\<lambda>services.
      retP (JObj ([(''number_of_cm_server_instances'', JInt (ci_total ci)), (''number_of_up_cm_server_instances'', JInt (ci_up ci)),
        (''number_of_target_subsystems'', JInt (ti_ss_total ti)), (''number_of_up_target_subsystems'', JInt (ti_ss_up ti)),
        (''number_of_cm_agent_instances'', JInt (ti_agents ti)), (''number_of_up_cm_agent_instances'', JInt (ti_agents_up ti)),
        (''overall_cluster_status'', JInt (overall_status (ci_total ci) (ci_up ci) (ti_ss_total ti) (ti_ss_up ti)))] @
        uptime_hours upt @ space @ [(''last_status_update'', JStr date)] @ services)))))))))"

definition target_subsystems :: "json \<Rightarrow> exn + json list" where
  "target_subsystems t = bindE (bindE (py_key t ''subsystem_stats'') py_iter) (\<lambda>sss.
     bindE (mapE (\<lambda>ss. bindE (py_key ss ''cmd_status'') (\<lambda>c. Inr (if c = JStr ''success'' then [ss] else []))) sss) (\<lambda>xs. Inr (concat xs)))"

definition get_cluster_map :: "('db, 'x) agent_etcd_scheme \<Rightarrow> 's libenv \<Rightarrow> (('db, 'r) eworld_scheme, json) py" where
  "get_cluster_map E L = do_pre_checks E
     (bindP (get_cluster_info_full E L) (\<lambda>(info, ci).
      bindP (get_targets_info E L) (\<lambda>ti.
      bindP (liftP (dict_get info ''members'')) (\<lambda>ms.
      bindP (liftP (le_date L (JInt (max (ci_last ci) (le_int L (ti_last ti)))))) (\<lambda>date.
      bindP (liftP (mapE target_subsystems (ti_targets ti))) (\<lambda>sss.
      retP (JObj [(''cm_maps'', ms),
        (''overall_cluster_status'', JInt (map_status (ci_total ci) (ci_up ci) (ti_ss_total ti) (ti_ss_up ti))),
        (''last_status_update'', JStr date), (''subsystem_maps'', JList (concat sss))])))))))"

section \<open>Versions\<close>

definition version_drive :: "json \<Rightarrow> json \<Rightarrow> exn + json" where
  "version_drive drives_json ns =
     bindE (py_key ns ''PCIAddress'') (\<lambda>addr.
     bindE (py_key ns ''Serial'') (\<lambda>serial.
     bindE (as_str serial) (\<lambda>sn.
     bindE (py_path drives_json [sn, ''Model'']) (\<lambda>model.
     bindE (py_path drives_json [sn, ''FirmwareRevision'']) (\<lambda>fw.
     Inr (JObj [(''drive_address'', addr), (''drive_serial_number'', serial), (''drive_id'', serial), (''drive_is_nvme'', JInt 1),
       (''drive_is_kv'', JInt 1), (''drive_model'', model), (''drive_fw_version'', fw)]))))))"

definition version_transport :: "string \<times> json \<Rightarrow> exn + json" where
  "version_transport = (\<lambda>(_, value).
     bindE (py_key value ''traddr'') (\<lambda>addr. bindE (py_key value ''trsvcid'') (\<lambda>port.
     Inr (JObj [(''subsystem_address'', addr), (''subsystem_port'', port)]))))"

definition version_subsystem :: "json \<Rightarrow> string \<times> json \<Rightarrow> exn + json" where
  "version_subsystem srv = (\<lambda>(nqn, ss).
     bindE (py_get ss ''UUID'' JNull) (\<lambda>uuid.
     bindE (bindE (py_key ss ''transport_addresses'') py_items) (\<lambda>tas.
     bindE (mapE version_transport tas) (\<lambda>ts.
     bindE (py_key ss ''namespaces'') (\<lambda>nss.
     bindE (py_path srv [''server_attributes'', ''storage'', ''nvme'', ''devices'']) (\<lambda>drives_json.
     bindE (py_items nss) (\<lambda>nsl.
     bindE (mapE (\<lambda>(_, ns). version_drive drives_json ns) nsl) (\<lambda>ds.
     Inr (JObj [(''subsystem_nqn'', JStr nqn), (''subsystem_nqn_id'', uuid), (''subsystem_transport'', JList ts), (''drives'', JList ds)])))))))))"

definition version_target :: "string \<times> json \<Rightarrow> exn + json" where
  "version_target = (\<lambda>(target_id, srv).
     bindE (or_key (py_path srv [''server_attributes'', ''identity'', ''Hostname'']) (JStr ''None'')) (\<lambda>name.
     bindE (py_in ''kv_attributes'' srv) (\<lambda>b.
     bindE (if b then py_path srv [''kv_attributes'', ''config'', ''subsystems''] else Inr (JObj [])) (\<lambda>subsystems_json.
     bindE (loop_items subsystems_json) (\<lambda>l.
     bindE (mapE (version_subsystem srv) l) (\<lambda>sss.
     bindE (py_in ''target'' srv) (\<lambda>t.
     bindE (if t then bindE (py_key srv ''target'') (\<lambda>tg. bindE (py_get tg ''version'' JNull) (\<lambda>v. bindE (py_get tg ''hash'' JNull) (\<lambda>h.
         Inr [(''version'', v), (''version_hash'', h)]))) else Inr []) (\<lambda>vs.
     Inr (JObj ([(''target_id'', JStr target_id), (''target_server_name'', name), (''subsystems'', JList sss)] @ vs))))))))))"

definition version_agent :: "string \<times> json \<Rightarrow> exn + json" where
  "version_agent = (\<lambda>(target_id, srv).
     bindE (py_in ''agent'' srv) (\<lambda>a. if \<not> a then Inr (JObj [])
     else bindE (py_in ''server_attributes'' srv) (\<lambda>b.
       bindE (if b then bindE (py_path srv [''server_attributes'', ''identity'', ''Hostname'']) (\<lambda>n. Inr [(''target_server_name'', n)]) else Inr []) (\<lambda>nm.
       bindE (bindE (py_key srv ''agent'') (\<lambda>ag. py_get ag ''version'' JNull)) (\<lambda>v.
       Inr (JObj (nm @ [(''target_id'', JStr target_id), (''version'', v)])))))))"

definition version_member :: "json \<Rightarrow> string \<Rightarrow> exn + json" where
  "version_member cluster_out name =
     bindE (if py_truth cluster_out then bindE (py_path cluster_out [''cluster'', name, ''id'']) (\<lambda>i. Inr [(''cm_id'', i)]) else Inr []) (\<lambda>i.
     Inr (JObj ((''cm_server_name'', JStr name) # i @ [(''version'', CM_VERSION)])))"

definition version_targets :: "json \<Rightarrow> exn + json list \<times> json list" where
  "version_targets json_out =
     (if \<not> py_truth json_out then Inr ([], [])
      else bindE (bindE (py_path json_out [''object_storage'', ''servers'']) py_items) (\<lambda>d.
        let srvs = filter (\<lambda>(k, v). k \<noteq> ''list'') d in
        bindE (mapE (\<lambda>s. bindE (version_target s) (\<lambda>t. bindE (version_agent s) (\<lambda>a. Inr (t, a)))) srvs) (\<lambda>ps.
        Inr (map fst ps, map snd ps))))"

definition get_cluster_version :: "('db, 'x) agent_etcd_scheme \<Rightarrow> (('db, 'r) eworld_scheme, json) py" where
  "get_cluster_version E = do_pre_checks E
     (bindP (get_key_with_prefix E ''/cluster/'') (\<lambda>cluster_out.
      bindP (get_members E) (\<lambda>members.
      bindP (case members of None \<Rightarrow> raiseP TypeError | Some ns \<Rightarrow> liftP (mapE (version_member cluster_out) ns)) (\<lambda>cms.
      bindP (get_key_with_prefix E ''/object_storage/servers/'') (\<lambda>json_out.
      bindP (liftP (version_targets json_out)) (\<lambda>(ts, as).
      retP (JObj [(''cm_version'', JList cms), (''target_software_version'', JList ts), (''cm_agent_version'', JList as)])))))))"

section \<open>Services and configurations\<close>

text \<open>
  The services in order: one that is in the given state gets the action, a failed action ends the loop,
  a failed query does not.
\<close>

fun for_services ::
  "'s libenv \<Rightarrow> string \<Rightarrow> string \<Rightarrow> string list \<Rightarrow> int \<Rightarrow> (('db, 's, 'r) cworld_scheme, int) py" where
  "for_services L state act [] ret = retP ret"
| "for_services L state act (s # ss) ret =
     bindP (on_sys (le_popen L (''systemctl show '' @ s))) (\<lambda>(out, err).
       if err = [] \<and> py_in_str state out then
         bindP (on_sys (le_popen L (''systemctl '' @ act @ '' '' @ s))) (\<lambda>(_, err2).
           if err2 \<noteq> [] then retP (- 1) else for_services L state act ss ret)
       else for_services L state act ss (if err \<noteq> [] then - 1 else ret))"

definition start_cm where
  "start_cm E L = do_pre_checks E
     (bindP (for_services L ''SubState=dead'' ''start'' [''etcd'', ''etcdmonitor''] 0) (\<lambda>ret.
      thenP (whenP (ret \<noteq> 0) (EtcdAPI_initialize E)) (retP ret)))"

definition stop_cm where
  "stop_cm E L = do_pre_checks E
     (bindP (for_services L ''SubState=running'' ''stop'' [''etcdmonitor'', ''etcd''] 0) (\<lambda>ret.
      thenP (whenP (ret \<noteq> 0) (EtcdAPI_deinitialize E)) (retP ret)))"

definition manage_service ::
  "('db, 'x) agent_etcd_scheme \<Rightarrow> 's libenv \<Rightarrow> string \<Rightarrow> string \<Rightarrow> string \<Rightarrow> (('db, 's, 'r) cworld_scheme, int) py" where
  "manage_service E L service_name act node_name = do_pre_checks E
     (bindP (on_sys (le_popen L (py_join '' '' (py_words
          (''sshpass -p msl-ssg ssh root@'' @ node_name @ '' systemctl '' @ act @ '' '' @ service_name))))) (\<lambda>(_, err).
      retP (if err \<noteq> [] then - 1 else 0)))"

definition get_nkv_config :: "('db, 'x) agent_etcd_scheme \<Rightarrow> string \<Rightarrow> (('db, 'r) eworld_scheme, json \<times> bool) py" where
  "get_nkv_config E nkv_client = do_pre_checks E
     (bindP (tryP (bindP (get_key_value E (''/nkv/'' @ nkv_client)) (\<lambda>d.
          retP (case d of None \<Rightarrow> ''None'' | Some s \<Rightarrow> s, True))) (\<lambda>_. retP (''{}'', False))) (\<lambda>(data, st).
      retP (JObj [(''client'', JStr nkv_client), (''config'', JStr data)], st)))"

definition save_nkv_config :: "('db, 'x) agent_etcd_scheme \<Rightarrow> string \<Rightarrow> json \<Rightarrow> (('db, 'r) eworld_scheme, bool) py" where
  "save_nkv_config E nkv_client config = do_pre_checks E
     (tryP (thenP (save_key_value E (''/nkv/'' @ nkv_client) (py_str config) None) (retP True)) (\<lambda>_. retP False))"

section \<open>Software upgrade and downgrade\<close>

text \<open>\<^verbatim>\<open>if x\<close> for a value of the database.\<close>

definition present :: "string option \<Rightarrow> bool" where
  "present x \<longleftrightarrow> x \<noteq> None \<and> x \<noteq> Some []"

definition upgrade_dir :: string where "upgrade_dir = ''/etc/nkv-agent/upgrade_dir/''"

definition progress_key :: "string \<Rightarrow> string \<Rightarrow> string" where
  "progress_key kind f = ''/software/'' @ kind @ ''/progress/'' @ f"

text \<open>
  The checksums of an image: the first word of the last member named \<^verbatim>\<open>...md5sum\<close> and the MD5 sum of the last
  member named \<^verbatim>\<open>...tar\<close>.  An empty checksum file raises.
\<close>

definition read_member :: "'s libenv \<Rightarrow> string \<times> string \<Rightarrow> string option \<times> string option \<Rightarrow> exn + string option \<times> string option" where
  "read_member L = (\<lambda>(name, content) (r, f).
     bindE (if suffix ''md5sum'' name then (case py_words content of [] \<Rightarrow> Inl IndexError | x # _ \<Rightarrow> Inr (Some x)) else Inr r) (\<lambda>r'.
     Inr (r', if suffix ''tar'' name then Some (le_md5 L content) else f)))"

definition image_sums :: "'s libenv \<Rightarrow> string \<Rightarrow> exn + string option \<times> string option" where
  "image_sums L file = bindE (le_tar L file) (\<lambda>ms. foldE (read_member L) ms (None, None))"

text \<open>Either a code to return, or the checksum of a good image.\<close>

definition check_image :: "'s libenv \<Rightarrow> string \<Rightarrow> int + string" where
  "check_image L file =
     (case image_sums L file of
        Inl _ \<Rightarrow> Inl 3
      | Inr (r, f) \<Rightarrow> (case r of None \<Rightarrow> Inl 5 | Some s \<Rightarrow> if s = [] \<or> Some s \<noteq> f then Inl 5 else Inr s))"

definition copy_cmd :: "string \<Rightarrow> string \<Rightarrow> string" where
  "copy_cmd file ip = ''ssh root@'' @ ip @ '' mkdir -p '' @ upgrade_dir @ ''&&'' @ ''scp '' @ file @ '' root@'' @ ip @ '':'' @ upgrade_dir @ path_last file"

fun copy_image :: "'s libenv \<Rightarrow> string \<Rightarrow> json list \<Rightarrow> (('db, 's, 'r) cworld_scheme, int) py" where
  "copy_image L file [] = retP 0"
| "copy_image L file (m # ms) =
     bindP (liftP (bindE (py_key m ''cm_server_address'') as_str)) (\<lambda>ip.
     bindP (on_sys (le_popen L (copy_cmd file ip))) (\<lambda>(out, err).
       if err \<noteq> [] then retP 6 else copy_image L file ms))"

text \<open>Whether a change is needed and possible: 8 when the image is current, 2 when one is in progress.\<close>

definition may_start :: "('db, 'x) agent_etcd_scheme \<Rightarrow> string \<Rightarrow> string \<Rightarrow> (('db, 'r) eworld_scheme, int) py" where
  "may_start E kind base =
     tryP (bindP (get_key_value E ''/software/current_image'') (\<lambda>cur.
         if present cur \<and> cur = Some base then retP 8
         else bindP (get_key_value E (progress_key kind ''image_name'')) (\<lambda>p. retP (if present p then 2 else 0))))
       (\<lambda>_. retP 4)"

text \<open>A good image is copied to every member; only then the change is announced in the database.\<close>

definition spread_image ::
  "('db, 'x) agent_etcd_scheme \<Rightarrow> 's libenv \<Rightarrow> string \<Rightarrow> string \<Rightarrow> string \<Rightarrow> (('db, 's, 'r) cworld_scheme, int) py" where
  "spread_image E L kind file chk =
     bindP (tryP (bindP (get_cluster_info_full E L) (\<lambda>(info, ci). retP (map_of info ''members''))) (\<lambda>_. retP None)) (\<lambda>ms.
       case ms of None \<Rightarrow> retP 4
       | Some j \<Rightarrow> bindP (liftP (py_iter j)) (\<lambda>members.
           bindP (copy_image L file members) (\<lambda>c. if c \<noteq> 0 then retP c
           else tryP (thenP (save_multiple_key_values E
               [(progress_key kind ''image_dir'', upgrade_dir), (progress_key kind ''image_name'', path_last file),
                (progress_key kind ''checksum'', chk)] [] None) (retP 0)) (\<lambda>_. retP 4))))"

definition initiate_change ::
  "('db, 'x) agent_etcd_scheme \<Rightarrow> 's libenv \<Rightarrow> string \<Rightarrow> string \<Rightarrow> (('db, 's, 'r) cworld_scheme, int) py" where
  "initiate_change E L kind file =
     bindP (may_start E kind (path_last file)) (\<lambda>c. if c \<noteq> 0 then retP c
     else (case check_image L file of Inl c \<Rightarrow> retP c | Inr chk \<Rightarrow> spread_image E L kind file chk))"

definition initiate_sw_upgrade where
  "initiate_sw_upgrade E L file = do_pre_checks E (initiate_change E L ''upgrade'' file)"

text \<open>Without an image the previous one is taken, whether or not a downgrade is in progress.\<close>

definition initiate_sw_downgrade where
  "initiate_sw_downgrade E L file = do_pre_checks E
     (if file = [] then
        tryP (bindP (get_key_value E ''/software/prev_image'') (\<lambda>prev.
          if \<not> present prev then retP 9
          else thenP (save_multiple_key_values E [(progress_key ''downgrade'' ''image_dir'', upgrade_dir),
              (progress_key ''downgrade'' ''image_name'', the prev)] [] None) (retP 0))) (\<lambda>_. retP 4)
      else initiate_change E L ''downgrade'' file)"

text \<open>The progress of a change as stored by the nodes.\<close>

definition node_field :: "string \<times> json \<Rightarrow> json dict \<times> json list \<Rightarrow> exn + json dict \<times> json list" where
  "node_field = (\<lambda>(k, v) (d, ms).
     if k \<in> set [''services'', ''node_status'', ''node_service_status'', ''node_package_version'', ''version'', ''node_rollback_flag''] then Inr (d, ms)
     else if py_in_str ''timestamp'' k then
       bindE (opt_field ''node_start_timestamp'' v ''start_epoch'') (\<lambda>a.
       bindE (opt_field ''node_end_timestamp'' v ''end_epoch'') (\<lambda>b. Inr (dict_update d (a @ b), ms)))
     else Inr (d, ms @ [JObj [(''name'', JStr k), (''status'', v)]]))"

definition node_progress :: "string \<times> json \<Rightarrow> exn + json" where
  "node_progress = (\<lambda>(node, v).
     bindE (py_items v) (\<lambda>fs.
     bindE (foldE node_field fs ([], [])) (\<lambda>(d, ms).
     Inr (JObj ([(''node_name'', JStr node), (''module_status'', JList ms)] @ d)))))"

definition progress_doc :: "'s libenv \<Rightarrow> string \<Rightarrow> json \<Rightarrow> exn + json option" where
  "progress_doc L kind sw =
     bindE (py_in kind sw) (\<lambda>b.
     if \<not> b then
       bindE (py_in (kind @ ''_status'') sw) (\<lambda>s.
         if s then bindE (bindE (py_key sw (kind @ ''_status'')) (le_literal L)) (\<lambda>j. Inr (Some j)) else Inr None)
     else bindE (py_key sw kind) (\<lambda>ch.
       bindE (py_in ''progress'' ch) (\<lambda>p. if p then bindE (py_key ch ''progress'') (\<lambda>j. Inr (Some j)) else Inr None)))"

definition format_progress :: "string \<Rightarrow> json \<Rightarrow> exn + json" where
  "format_progress kind p =
     bindE (py_key p ''image_name'') (\<lambda>image.
     bindE (opt_field ''status'' p ''status'') (\<lambda>st.
     bindE (py_in ''end_timestamp_epoch'' p) (\<lambda>e.
     bindE (if e then opt_field (kind @ ''_timestamp'') p ''end_timestamp_epoch''
            else opt_field (kind @ ''_timestamp'') p ''start_timestamp_epoch'') (\<lambda>ts.
     bindE (py_in ''node'' p) (\<lambda>n.
     bindE (if n then bindE (bindE (py_key p ''node'') loop_items) (mapE node_progress) else Inr []) (\<lambda>nodes.
     Inr (JObj ((''file_name'', image) # st @ ts @ [(''node_status'', JList nodes)]))))))))"

definition get_progress ::
  "('db, 'x) agent_etcd_scheme \<Rightarrow> 's libenv \<Rightarrow> string \<Rightarrow> (('db, 'r) eworld_scheme, json option) py" where
  "get_progress E L kind = do_pre_checks E
     (bindP (tryP (bindP (get_key_with_prefix E ''/software'') (\<lambda>j. retP (Some j))) (\<lambda>_. retP None)) (\<lambda>r.
      case r of None \<Rightarrow> retP None
      | Some j \<Rightarrow> bindP (liftP (bindE (py_key j ''software'') (progress_doc L kind))) (\<lambda>p.
          case p of None \<Rightarrow> retP None | Some pr \<Rightarrow> bindP (liftP (format_progress kind pr)) (\<lambda>d. retP (Some d)))))"

definition lib_get_sw_upgrade_progress where "lib_get_sw_upgrade_progress E L = get_progress E L ''upgrade''"
definition lib_get_sw_downgrade_progress where "lib_get_sw_downgrade_progress E L = get_progress E L ''downgrade''"

section \<open>Counts and status\<close>

text \<open>
  The reference: a cluster of \<open>n\<close> members works while more than half of them are up; it is critical
  when the loss of one more member would end that.
\<close>

definition quorum :: "int \<Rightarrow> int \<Rightarrow> bool" where
  "quorum n up \<longleftrightarrow> 2 * up > n"

definition quorum_status :: "int \<Rightarrow> int \<Rightarrow> int \<Rightarrow> int \<Rightarrow> int" where
  "quorum_status n up ss_total ss_up =
     (if up = n \<and> ss_up = ss_total then HEALTH_OK else if \<not> quorum n up then HEALTH_FAILED
      else if \<not> quorum n (up - 1) then HEALTH_CRITICAL else HEALTH_WARNING)"

lemma overall_status_quorum: "up \<le> n \<Longrightarrow> overall_status n up st su = quorum_status n up st su"
  by (auto simp: overall_status_def quorum_status_def quorum_def)

lemma add_member_counts:
  assumes "add_member L t cl name ci = Inr ci'" and "0 \<le> ci_up ci \<and> ci_up ci \<le> ci_total ci"
  shows "0 \<le> ci_up ci' \<and> ci_up ci' \<le> ci_total ci'"
  using assms by (auto simp: add_member_def bindE_Inr_iff split: if_splits)

lemma add_subsystem_counts:
  assumes "add_subsystem L n d net x s = Inr s'" and "0 \<le> sm_up s \<and> sm_up s \<le> sm_total s"
  shows "0 \<le> sm_up s' \<and> sm_up s' \<le> sm_total s'"
  using assms by (auto simp: add_subsystem_def bindE_Inr_iff split: prod.splits if_splits)

lemma add_target_counts:
  assumes "add_target L hb x ti = Inr ti'"
    and "0 \<le> ti_ss_up ti \<and> ti_ss_up ti \<le> ti_ss_total ti \<and> 0 \<le> ti_agents_up ti \<and> ti_agents_up ti \<le> ti_agents ti"
  shows "0 \<le> ti_ss_up ti' \<and> ti_ss_up ti' \<le> ti_ss_total ti' \<and> 0 \<le> ti_agents_up ti' \<and> ti_agents_up ti' \<le> ti_agents ti'"
proof -
  obtain name d net sss s alive where s: "foldE (add_subsystem L name d net) sss
      \<lparr>sm_entries = [], sm_up = 0, sm_total = 0, sm_kb_total = 0, sm_kb_avail = 0\<rparr> = Inr s"
    and ti': "ti_ss_up ti' = ti_ss_up ti + sm_up s" "ti_ss_total ti' = ti_ss_total ti + sm_total s"
      "ti_agents ti' = ti_agents ti + 1" "ti_agents_up ti' = ti_agents_up ti + (if alive then 1 else 0)"
    using assms(1) by (auto simp: add_target_def bindE_Inr_iff split: prod.splits)
  have "0 \<le> sm_up s \<and> sm_up s \<le> sm_total s"
    by (rule foldE_inv [OF s, where I = "\<lambda>s. 0 \<le> sm_up s \<and> sm_up s \<le> sm_total s"]) (simp, rule add_subsystem_counts)
  with assms(2) ti' show ?thesis by auto
qed

lemma targets_counts:
  assumes "targets_of L j = Inr ti"
  shows "0 \<le> ti_ss_up ti \<and> ti_ss_up ti \<le> ti_ss_total ti \<and> 0 \<le> ti_agents_up ti \<and> ti_agents_up ti \<le> ti_agents ti"
proof (cases "py_truth j")
  case True
  with assms obtain hb ts where "foldE (add_target L hb) ts no_targets = Inr ti" by (auto simp: targets_of_def bindE_Inr_iff)
  then show ?thesis
    by (rule foldE_inv) (auto simp: no_targets_def dest: add_target_counts)
qed (use assms in \<open>auto simp: targets_of_def no_targets_def\<close>)

lemma yields_pre: "yields P f \<Longrightarrow> yields P (do_pre_checks E f)"
  unfolding do_pre_checks_def by (intro yields_bind yields_then)

lemma yields_info:
  "yields (\<lambda>(info, ci). 0 \<le> ci_up ci \<and> ci_up ci \<le> ci_total ci) (get_cluster_info_full E L)"
proof -
  have "0 \<le> ci_up ci \<and> ci_up ci \<le> ci_total ci" if "foldE (add_member L t cl) ns cm_start = Inr ci" for t cl ns ci
    by (rule foldE_inv [OF that, where I = "\<lambda>ci. 0 \<le> ci_up ci \<and> ci_up ci \<le> ci_total ci"]) (simp add: cm_start_def, rule add_member_counts)
  note fold = this
  have loop: "yields (\<lambda>ci. 0 \<le> ci_up ci \<and> ci_up ci \<le> ci_total ci) (liftP (foldE (add_member L t cl) ns cm_start))" for t cl ns
    by (rule yields_lift) (rule fold)
  have start: "ci_up cm_start = 0" "ci_total cm_start = 0" by (simp_all add: cm_start_def)
  have none: "yields P (raiseP TypeError)" for P by (simp add: yields_def raiseP_def)
  show ?thesis
    unfolding get_cluster_info_full_def
    by (intro yields_pre yields_bind yields_if yields_ret)
      (auto simp: start split: option.split intro!: none yields_bind_with [OF loop] yields_ret)
qed

lemma yields_targets:
  "yields (\<lambda>ti. 0 \<le> ti_ss_up ti \<and> ti_ss_up ti \<le> ti_ss_total ti \<and> 0 \<le> ti_agents_up ti \<and> ti_agents_up ti \<le> ti_agents ti)
     (get_targets_info E L)"
  unfolding get_targets_info_def by (intro yields_pre yields_bind yields_lift) (rule targets_counts)

section \<open>Changes of the software\<close>

lemma keeps_on_sys: "keeps (same_store kv) (on_sys m)"
  by (auto simp: keeps_def on_sys_def same_store_def split: prod.splits)

lemma keeps_copy_image:
  "keeps (same_store kv) (copy_image L file ms :: (('db, 's, 'r) cworld_scheme, int) py)"
proof (induction ms)
  case (Cons m ms)
  have "keeps (same_store kv) (case x of (out, err) \<Rightarrow> if err \<noteq> [] then retP 6 else (copy_image L file ms
      :: (('db, 's, 'r) cworld_scheme, int) py))" for x :: "string \<times> string"
    unfolding split_def by (intro sd.keeps_rules Cons.IH)
  then show ?case unfolding copy_image.simps by (intro sd.keeps_rules keeps_on_sys)
qed (simp add: sd.keeps_rules)

context agent_frame
begin

lemma keeps_pre: "keeps (same_store kv) f \<Longrightarrow> keeps (same_store kv) (do_pre_checks E f)"
  unfolding do_pre_checks_def by (intro keeps_agent)

lemma keeps_cluster_info: "keeps (same_store kv) (get_cluster_info_full E L)"
  unfolding get_cluster_info_full_def by (intro keeps_pre keeps_agent)

lemma keeps_may_start: "keeps (same_store kv) (may_start E kind base)"
  unfolding may_start_def by (intro keeps_agent)

lemma save_multiple_returns:
  "\<exists>b. fst (save_multiple_key_values E kvs ls l w) = Inr b"
  by (auto simp: save_multiple_key_values_def tryP_def on_client_def retP_def split: prod.splits sum.splits)

text \<open>A start that does not report success has not touched the database.\<close>

lemma wp_initiate_fails:
  fixes w :: "('db, 's, 'r) cworld_scheme"
  shows "wp (initiate_change E L kind file) (\<lambda>c w'. c \<noteq> 0 \<longrightarrow> same_store kv w w') (\<lambda>_. same_store kv w) w"
proof -
  let ?Q = "\<lambda>c w'. c \<noteq> 0 \<longrightarrow> same_store kv w w'" and ?X = "\<lambda>_. same_store kv w"
  have step: "wp (bindP m f) ?Q ?X v"
    if "keeps (same_store kv) m" "same_store kv w v" "\<And>x v'. same_store kv w v' \<Longrightarrow> wp (f x) ?Q ?X v'"
    for m :: "(('db, 's, 'r) cworld_scheme, 'e) py" and f and v :: "('db, 's, 'r) cworld_scheme"
    unfolding wp_bindP by (rule wp_mono [OF keeps_wp [OF that(1)]]) (use that in \<open>auto simp: same_store_def\<close>)
  have info: "keeps (same_store kv) (tryP (bindP (get_cluster_info_full E L) (\<lambda>(info, ci). retP (map_of info ''members''))) (\<lambda>_. retP None)
      :: (('db, 's, 'r) cworld_scheme, json option) py)"
    unfolding split_def by (intro sd.keeps_rules keeps_cluster_info)
  have save: "wp (tryP (thenP (save_multiple_key_values E kvs [] None) (retP (0 :: int))) h) ?Q X v" for kvs h X v
  proof -
    obtain b v' where "save_multiple_key_values E kvs [] None v = (Inr b, v')" using save_multiple_returns by (metis prod.collapse)
    then show ?thesis by (simp add: wp_simps wp_run)
  qed
  have spread: "wp (spread_image E L kind file chk) ?Q ?X v" if "same_store kv w v" for chk and v :: "('db, 's, 'r) cworld_scheme"
    unfolding spread_image_def
  proof (rule step [OF info that], goal_cases)
    case (1 ms v')
    then show ?case
      by (auto simp: wp_retP split: option.split intro!: step sd.keeps_rules keeps_copy_image save)
  qed
  show ?thesis
    unfolding initiate_change_def
    by (rule step [OF keeps_may_start]; (simp add: same_store_def; fail)?) (auto simp: wp_retP split: sum.split intro!: spread)
qed

lemma wp_pre:
  fixes w :: "('db, 's, 'r) cworld_scheme"
  assumes "\<And>v. same_store kv w v \<Longrightarrow> wp m Q (\<lambda>_. same_store kv w) v"
  shows "wp (do_pre_checks E m) Q (\<lambda>_. same_store kv w) w"
proof -
  have "keeps (same_store kv) (if c then retP () else EtcdAPI_initialize E)" for c by (intro keeps_agent)
  from keeps_wp [OF this] show ?thesis
    unfolding do_pre_checks_def wp_bindP wp_readP wp_thenP by (rule wp_mono) (auto intro: assms)
qed

lemma wp_upgrade_fails:
  fixes w :: "('db, 's, 'r) cworld_scheme"
  shows "wp (initiate_sw_upgrade E L file) (\<lambda>c w'. c \<noteq> 0 \<longrightarrow> same_store kv w w') (\<lambda>_. same_store kv w) w"
  unfolding initiate_sw_upgrade_def
proof (rule wp_pre)
  fix v :: "('db, 's, 'r) cworld_scheme"
  assume "same_store kv w v"
  then show "wp (initiate_change E L ''upgrade'' file) (\<lambda>c w'. c \<noteq> 0 \<longrightarrow> same_store kv w w') (\<lambda>_. same_store kv w) v"
    by (intro wp_mono [OF wp_initiate_fails]) (auto simp: same_store_def)
qed

lemma wp_downgrade_fails:
  fixes w :: "('db, 's, 'r) cworld_scheme"
  shows "wp (initiate_sw_downgrade E L file) (\<lambda>c w'. c \<noteq> 0 \<longrightarrow> same_store kv w w') (\<lambda>_. same_store kv w) w"
  unfolding initiate_sw_downgrade_def
proof (rule wp_pre)
  fix v :: "('db, 's, 'r) cworld_scheme"
  assume v: "same_store kv w v"
  let ?Q = "\<lambda>c w'. c \<noteq> 0 \<longrightarrow> same_store kv w w'" and ?X = "\<lambda>_. same_store kv w"
  have with_image: "wp (initiate_change E L ''downgrade'' file) ?Q ?X v"
    using v by (intro wp_mono [OF wp_initiate_fails]) (auto simp: same_store_def)
  have save: "wp (save_multiple_key_values E kvs [] None) (\<lambda>_. wp (retP (0 :: int)) ?Q X) Y u" for kvs X Y u
  proof -
    obtain b u' where "save_multiple_key_values E kvs [] None u = (Inr b, u')" using save_multiple_returns by (metis prod.collapse)
    then show ?thesis by (simp add: wp_retP wp_run)
  qed
  have read: "wp (get_key_value E ''/software/prev_image'') (\<lambda>_. same_store kv w) (\<lambda>_. same_store kv w) v"
    by (rule wp_mono [OF keeps_wp [OF keeps_reads_db(1)]]) (use v in \<open>auto simp: same_store_def\<close>)
  have "wp (tryP (bindP (get_key_value E ''/software/prev_image'') (\<lambda>prev. if \<not> present prev then retP (9 :: int)
      else thenP (save_multiple_key_values E [(progress_key ''downgrade'' ''image_dir'', upgrade_dir),
          (progress_key ''downgrade'' ''image_name'', the prev)] [] None) (retP 0))) (\<lambda>_. retP 4)) ?Q ?X v"
    unfolding wp_tryP wp_bindP
    by (rule wp_mono [OF read]) (auto simp: wp_retP wp_thenP intro: save)
  with with_image show "wp (if file = [] then tryP (bindP (get_key_value E ''/software/prev_image'') (\<lambda>prev. if \<not> present prev then retP (9 :: int)
      else thenP (save_multiple_key_values E [(progress_key ''downgrade'' ''image_dir'', upgrade_dir),
          (progress_key ''downgrade'' ''image_name'', the prev)] [] None) (retP 0))) (\<lambda>_. retP 4)
      else initiate_change E L ''downgrade'' file) ?Q ?X v" by simp
qed

end

text \<open>\<open>live\<close>: a connected object without a cache stays one and sees the same keys.\<close>

definition live :: "('db \<Rightarrow> string \<rightharpoonup> string) \<Rightarrow> ('db \<Rightarrow> bool) \<Rightarrow> ('db, 'r) eworld_scheme \<Rightarrow> bool" where
  "live kv up w \<longleftrightarrow> ew_client w \<and> \<not> ew_cache_data w \<and> up (ew_db w)"

definition stays_live :: "('db \<Rightarrow> string \<rightharpoonup> string) \<Rightarrow> ('db \<Rightarrow> bool) \<Rightarrow> ('db, 'r) eworld_scheme \<Rightarrow> ('db, 'r) eworld_scheme \<Rightarrow> bool" where
  "stays_live kv up w w' \<longleftrightarrow> (live kv up w \<longrightarrow> live kv up w' \<and> kv (ew_db w') = kv (ew_db w))"

interpretation sl: py_rel "stays_live kv up" for kv up
  by unfold_locales (auto simp: stays_live_def)

lemma live_in_step: "live kv up w \<Longrightarrow> in_step kv up w"
  by (simp add: live_def in_step_def)

lemma stays_on_sys: "keeps (stays_live kv up) (on_sys m)"
  by (auto simp: keeps_def on_sys_def stays_live_def live_def split: prod.splits)

lemma stays_on_client:
  "(\<And>d. up d \<Longrightarrow> up (snd (m d)) \<and> kv (snd (m d)) = kv d) \<Longrightarrow> keeps (stays_live kv up) (on_client m)"
  by (auto simp: keeps_def on_client_def stays_live_def live_def split: prod.splits) (metis snd_conv)+

lemma stays_copy_image:
  "keeps (stays_live kv up) (copy_image L file ms :: (('db, 's, 'r) cworld_scheme, int) py)"
proof (induction ms)
  case (Cons m ms)
  have "keeps (stays_live kv up) (case x of (out, err) \<Rightarrow> if err \<noteq> [] then retP 6 else (copy_image L file ms
      :: (('db, 's, 'r) cworld_scheme, int) py))" for x :: "string \<times> string"
    unfolding split_def by (intro sl.keeps_rules Cons.IH)
  then show ?case unfolding copy_image.simps by (intro sl.keeps_rules stays_on_sys)
qed (simp add: sl.keeps_rules)

context agent_store
begin

lemma stays_reads:
  "keeps (stays_live kv up) (get_key_value E k)" "keeps (stays_live kv up) (get_raw E kw p)" "keeps (stays_live kv up) (get_members E)"
  unfolding get_key_value_def get_raw_def get_members_def
  using agent_reads up_members members_kv
  by (intro sl.keeps_rules stays_on_client; metis snd_conv)+

lemma stays_pre: "keeps (stays_live kv up) f \<Longrightarrow> keeps (stays_live kv up) (do_pre_checks E f)"
  by (auto simp: keeps_def do_pre_checks_def bindP_def readP_def thenP_def retP_def stays_live_def live_def)

lemma stays_cluster_info: "keeps (stays_live kv up) (get_cluster_info_full E L)"
  unfolding get_cluster_info_full_def get_key_with_prefix_def by (intro stays_pre sl.keeps_rules stays_reads)

lemma stays_may_start: "keeps (stays_live kv up) (may_start E kind base)"
  unfolding may_start_def by (intro sl.keeps_rules stays_reads)

lemma wp_initiate_succeeds:
  fixes w :: "('db, 's, 'r) cworld_scheme"
  assumes live: "live kv up w"
  shows "wp (initiate_change E L kind file) (\<lambda>c w'. c = 0 \<longrightarrow> (\<exists>chk. check_image L file = Inr chk \<and> live kv up w' \<and>
      kv (ew_db w') = (kv (ew_db w))(progress_key kind ''image_dir'' \<mapsto> upgrade_dir,
        progress_key kind ''image_name'' \<mapsto> path_last file, progress_key kind ''checksum'' \<mapsto> chk))) (\<lambda>_ _. True) w"
proof -
  let ?R = "\<lambda>v. live kv up v \<and> kv (ew_db v) = kv (ew_db w)"
  let ?new = "\<lambda>chk. (kv (ew_db w))(progress_key kind ''image_dir'' \<mapsto> upgrade_dir,
        progress_key kind ''image_name'' \<mapsto> path_last file, progress_key kind ''checksum'' \<mapsto> chk)"
  let ?Q = "\<lambda>c w'. c = (0 :: int) \<longrightarrow> (\<exists>chk. check_image L file = Inr chk \<and> live kv up w' \<and> kv (ew_db w') = ?new chk)"
  have step: "wp (bindP m f) ?Q (\<lambda>_ _. True) v"
    if "keeps (stays_live kv up) m" "?R v" "\<And>x v'. ?R v' \<Longrightarrow> wp (f x) ?Q (\<lambda>_ _. True) v'"
    for m :: "(('db, 's, 'r) cworld_scheme, 'e) py" and f and v :: "('db, 's, 'r) cworld_scheme"
    unfolding wp_bindP by (rule wp_mono [OF keeps_wp [OF that(1)]]) (use that in \<open>auto simp: stays_live_def\<close>)
  have info: "keeps (stays_live kv up) (tryP (bindP (get_cluster_info_full E L) (\<lambda>(info, ci). retP (map_of info ''members''))) (\<lambda>_. retP None)
      :: (('db, 's, 'r) cworld_scheme, json option) py)"
    unfolding split_def by (intro sl.keeps_rules stays_cluster_info)
  have save: "wp (tryP (thenP (save_multiple_key_values E [(progress_key kind ''image_dir'', upgrade_dir),
        (progress_key kind ''image_name'', path_last file), (progress_key kind ''checksum'', chk)] [] None) (retP (0 :: int))) h) ?Q X v"
    if R: "?R v" and chk: "check_image L file = Inr chk" for chk h X and v :: "('db, 's, 'r) cworld_scheme"
  proof -
    obtain d' where d': "save_multiple_key_values E [(progress_key kind ''image_dir'', upgrade_dir),
        (progress_key kind ''image_name'', path_last file), (progress_key kind ''checksum'', chk)] [] None v = (Inr True, v\<lparr>ew_db := d'\<rparr>)"
      "up d'" "kv d' = ?new chk"
      using save_multiple_run [of v "[(progress_key kind ''image_dir'', upgrade_dir),
        (progress_key kind ''image_name'', path_last file), (progress_key kind ''checksum'', chk)]" "[]" None] R
      by (auto simp: live_def puts_def)
    then show ?thesis using R chk by (auto simp: wp_simps wp_run live_def)
  qed
  have spread: "wp (spread_image E L kind file chk) ?Q (\<lambda>_ _. True) v"
    if "?R v" "check_image L file = Inr chk" for chk and v :: "('db, 's, 'r) cworld_scheme"
    unfolding spread_image_def
  proof (rule step [OF info that(1)], goal_cases)
    case (1 ms v')
    then show ?case
      by (auto simp: wp_retP split: option.split intro!: step sl.keeps_rules stays_copy_image save [OF _ that(2)])
  qed
  show ?thesis
    unfolding initiate_change_def
  proof (rule step [OF stays_may_start], goal_cases)
    case (2 c v)
    have "check_image L file \<noteq> Inl 0" by (simp add: check_image_def split: sum.split prod.split option.split)
    then show ?case
    proof (cases "check_image L file")
      case (Inr chk)
      from spread [OF 2 this] Inr show ?thesis by (simp add: wp_retP)
    qed (auto simp: wp_retP)
  qed (simp add: live)
qed

text \<open>While the name of an image is stored for the change, no further one of the kind starts.\<close>

lemma initiate_blocked:
  fixes w :: "('db, 's, 'r) cworld_scheme"
  assumes "live kv up w" and "kv (ew_db w) (progress_key kind ''image_name'') = Some x" and "x \<noteq> []"
  shows "\<exists>c w'. initiate_change E L kind file w = (Inr c, w') \<and> c \<in> {2, 8} \<and> live kv up w' \<and> kv (ew_db w') = kv (ew_db w)"
proof -
  obtain w1 where w1: "get_key_value E ''/software/current_image'' w = (Inr (kv (ew_db w) ''/software/current_image''), w1)"
      "in_step kv up w1" "kv (ew_db w1) = kv (ew_db w)"
    using get_key_value_run [OF live_in_step [OF assms(1)]] by metis
  obtain w2 where w2: "get_key_value E (progress_key kind ''image_name'') w1 = (Inr (Some x), w2)"
    using get_key_value_run [OF w1(2)] w1(3) assms(2) by metis
  have "\<exists>c w'. may_start E kind (path_last file) w = (Inr c, w') \<and> c \<in> {2, 8}"
    using w1(1) w2 assms(3) by (auto simp: may_start_def tryP_def bindP_def retP_def present_def)
  then obtain c w' where m: "may_start E kind (path_last file) w = (Inr c, w')" "c \<in> {2, 8}" by blast
  have "stays_live kv up w w'" using stays_may_start m(1) unfolding keeps_def by (metis snd_conv)
  with m assms(1) show ?thesis by (auto simp: initiate_change_def bindP_def retP_def stays_live_def)
qed

end

end
