(* ===== verification/SpdkConfig.thy ===== *)
theory SpdkConfig
  imports ClusterLib "HOL-Library.List_Lexorder" "HOL-Library.Char_ord"
begin

text \<open>
  The configuration file of the storage target, \<^verbatim>\<open>src/ufm/agents/nkv_agent/spdk_config_file/spdk_config.py\<close>
  (class \<^verbatim>\<open>SPDKConfig\<close>).  The file system is a dictionary from paths to contents (\<open>fsworld\<close>); \<^verbatim>\<open>hashlib.sha1\<close>
  is an argument.  The program is Python 2: texts are bytes.  The regular expressions of the source are
  written out as functions; \<^verbatim>\<open>$\<close> also matches before a newline at the end, which \<open>chomp\<close> takes off.

  Lemmas: what was written is read back, except that every Listen line grows by a blank; adding a
  subsystem and deleting it again restores the configuration; the file itself changes only by the
  renaming of a complete temporary file.
\<close>

section \<open>Files and lines\<close>

record fsworld =
  fs_files :: "string dict"

definition read_file :: "string \<Rightarrow> ('r fsworld_scheme, string) py" where
  "read_file path w = (case map_of (fs_files w) path of None \<Rightarrow> (Inl (GenericException ''IOError''), w) | Some s \<Rightarrow> (Inr s, w))"

definition write_file :: "string \<Rightarrow> string \<Rightarrow> ('r fsworld_scheme, unit) py" where
  "write_file path s = modifyP (\<lambda>w. w\<lparr>fs_files := dict_set path s (fs_files w)\<rparr>)"

definition dict_del :: "string \<Rightarrow> 'v dict \<Rightarrow> 'v dict" where
  "dict_del k d = filter (\<lambda>(k', v). k' \<noteq> k) d"

definition newline :: char where "newline = CHR 0x0A"
definition quote :: char where "quote = CHR 0x22"

text \<open>\<^verbatim>\<open>readlines\<close>: every line keeps its newline.\<close>

fun py_readlines :: "string \<Rightarrow> string list" where
  "py_readlines [] = []"
| "py_readlines (c # s) =
     (if c = newline then [c] # py_readlines s
      else (case py_readlines s of [] \<Rightarrow> [[c]] | l # ls \<Rightarrow> (c # l) # ls))"

definition strip_chars :: "string \<Rightarrow> string \<Rightarrow> string" where
  "strip_chars cs s = rev (dropWhile (\<lambda>c. c \<in> set cs) (rev (dropWhile (\<lambda>c. c \<in> set cs) s)))"

definition crlf :: string where "crlf = [CHR 0x0D, newline]"

definition chomp :: "string \<Rightarrow> string" where
  "chomp l = (if l \<noteq> [] \<and> last l = newline then butlast l else l)"

text \<open>\<^verbatim>\<open>s.split(c, 1)\<close> and \<^verbatim>\<open>s.rsplit(c, 1)\<close> unpacked into two variables.\<close>

definition split_once :: "char \<Rightarrow> string \<Rightarrow> exn + string \<times> string" where
  "split_once c s = (if c \<in> set s then Inr (takeWhile (\<lambda>x. x \<noteq> c) s, tl (dropWhile (\<lambda>x. x \<noteq> c) s)) else Inl ValueError)"

definition rsplit_once :: "char \<Rightarrow> string \<Rightarrow> exn + string \<times> string" where
  "rsplit_once c s = bindE (split_once c (rev s)) (\<lambda>(b, a). Inr (rev a, rev b))"

text \<open>\<^verbatim>\<open>\s\<close> and \<^verbatim>\<open>\d\<close> of the regular expressions.\<close>

definition re_space :: "char \<Rightarrow> bool" where
  "re_space c \<longleftrightarrow> (let n = (of_char c :: nat) in (9 \<le> n \<and> n \<le> 13) \<or> n = 32)"

section \<open>Reading\<close>

text \<open>\<^verbatim>\<open>^(\[.+?\])$\<close>\<close>

definition section_of :: "string \<Rightarrow> string option" where
  "section_of line =
     (let l = chomp line in
      if 3 \<le> length l \<and> hd l = CHR ''['' \<and> last l = CHR '']'' \<and> newline \<notin> set l then Some l else None)"

text \<open>\<^verbatim>\<open>^(Namespace\s+".+?")\s+(\d+)$\<close>: the second quote is the last one of the line.\<close>

definition namespace_of :: "string \<Rightarrow> exn + string \<times> string" where
  "namespace_of line =
     (let l = chomp line;
          a = rev (takeWhile (\<lambda>c. c \<noteq> quote) (rev l));
          b = rev (dropWhile (\<lambda>c. c \<noteq> quote) (rev l));
          t = drop (length ''Namespace'') b;
          u = dropWhile re_space t;
          d = dropWhile re_space a in
      if prefix ''Namespace'' b \<and> u \<noteq> t \<and> 3 \<le> length u \<and> hd u = quote \<and> d \<noteq> a \<and> d \<noteq> [] \<and> list_all is_digit d \<and> newline \<notin> set u
      then Inr (b, d) else Inl AttributeError)"

text \<open>
  \<^verbatim>\<open>^(Qos_host\s+.+?)\s+(".+?")$\<close>: the blanks after the word as many as possible, then the shortest
  text that a quoted one follows.
\<close>

definition qos_of :: "string \<Rightarrow> exn + string \<times> string" where
  "qos_of line =
     (let l = chomp line; t = drop (length ''Qos_host'') l; w = length (takeWhile re_space t);
          good = (\<lambda>j. let r = drop j t; u = dropWhile re_space r in
                    u \<noteq> r \<and> 3 \<le> length u \<and> hd u = quote \<and> last u = quote) in
      case filter good (concat (map (\<lambda>i. [i + 1..<length t]) (rev [1..<w + 1]))) of
        [] \<Rightarrow> Inl AttributeError
      | j # _ \<Rightarrow> Inr (''Qos_host'' @ take j t, dropWhile re_space (drop j t)))"

definition entry_of :: "string \<Rightarrow> exn + string \<times> string" where
  "entry_of line =
     (if prefix ''TransportId'' line then rsplit_once (CHR '' '') (strip_chars crlf line)
      else if prefix ''Listen'' line then Inr (strip_chars crlf line, [])
      else if prefix ''Namespace'' line then namespace_of line
      else if prefix ''Qos_host'' line then qos_of line
      else split_once (CHR '' '') (strip_chars crlf line))"

text \<open>A configuration is the list of its sections; a line belongs to the last one.\<close>

type_synonym spdk_conf = "(string \<times> string dict) list"

definition read_line :: "string \<Rightarrow> spdk_conf \<Rightarrow> spdk_conf" where
  "read_line line arr =
     (if prefix ''#'' line then arr
      else (case section_of line of
        Some s \<Rightarrow> arr @ [(s, [])]
      | None \<Rightarrow> (if arr = [] then arr
          else (case entry_of line of Inl _ \<Rightarrow> arr
            | Inr (k, v) \<Rightarrow> butlast arr @ [(fst (last arr), dict_set k v (snd (last arr)))]))))"

definition parse_conf :: "string \<Rightarrow> spdk_conf" where
  "parse_conf s = foldl (\<lambda>arr l. read_line l arr) [] (py_readlines s)"

definition read_local_config :: "string \<Rightarrow> ('r fsworld_scheme, spdk_conf) py" where
  "read_local_config path = bindP (read_file path) (\<lambda>s. retP (parse_conf s))"

section \<open>Writing\<close>

definition entry_line :: "string \<times> string \<Rightarrow> string" where
  "entry_line = (\<lambda>(k, v). k @ '' '' @ v @ [newline])"

definition section_lines :: "string \<times> string dict \<Rightarrow> string list" where
  "section_lines = (\<lambda>(s, d). (s @ [newline]) # map entry_line (sort_key fst d) @ [[newline]])"

definition conf_lines :: "spdk_conf \<Rightarrow> string list" where
  "conf_lines arr = (''# AUTO-GENERATED FILE - DO NOT EDIT'' @ [newline]) # concat (map section_lines arr)"

definition write_local_config :: "spdk_conf \<Rightarrow> string \<Rightarrow> ('r fsworld_scheme, unit) py" where
  "write_local_config arr path = write_file path (concat (conf_lines arr))"

section \<open>Changes of a configuration\<close>

fun delete_subsystem_local_config :: "spdk_conf \<Rightarrow> string \<Rightarrow> spdk_conf" where
  "delete_subsystem_local_config [] n = []"
| "delete_subsystem_local_config ((s, d) # arr) n = (if s = n then arr else (s, d) # delete_subsystem_local_config arr n)"

definition transport_key :: "string \<Rightarrow> string" where
  "transport_key pci = ''TransportId '' @ [quote] @ ''trtype:PCIe traddr:'' @ pci @ [quote]"

definition quoted :: "string \<Rightarrow> string" where
  "quoted s = [quote] @ s @ [quote]"

text \<open>The drive of a namespace is added unless its address is there.\<close>

definition add_transport :: "string \<times> json \<Rightarrow> string dict \<Rightarrow> exn + string dict" where
  "add_transport = (\<lambda>(_, ns) d.
     bindE (py_key ns ''Serial'') (\<lambda>sn.
     bindE (py_key ns ''PCIAddress'') (\<lambda>pci.
     let k = transport_key (py_str pci) in Inr (if dict_has k d then d else dict_set k (quoted (py_str sn)) d))))"

text \<open>
  The section is found by \<^verbatim>\<open>startswith\<close> and then taken by its exact name, which raises for another name
  of that beginning.
\<close>

fun on_nvme :: "(string \<times> json) list \<Rightarrow> spdk_conf \<Rightarrow> exn + spdk_conf" where
  "on_nvme nss [] = bindE (foldE add_transport nss []) (\<lambda>d. Inr [(''[Nvme]'', d)])"
| "on_nvme nss ((s, d) # arr) =
     (if s = ''[Nvme]'' then bindE (foldE add_transport nss d) (\<lambda>d'. Inr ((s, d') # arr))
      else if prefix ''[Nvme]'' s then
        (case nss of [] \<Rightarrow> Inr ((s, d) # arr) | ns # _ \<Rightarrow> bindE (add_transport ns []) (\<lambda>_. Inl (KeyError ''[Nvme]'')))
      else bindE (on_nvme nss arr) (\<lambda>arr'. Inr ((s, d) # arr')))"

definition update_namespaces_local_config :: "spdk_conf \<Rightarrow> json \<Rightarrow> exn + spdk_conf" where
  "update_namespaces_local_config arr config =
     bindE (bindE (py_key config ''namespaces'') py_items) (\<lambda>nss. on_nvme nss arr)"

definition listen_key :: "string \<times> json \<Rightarrow> string dict \<Rightarrow> exn + string dict" where
  "listen_key = (\<lambda>(_, address) d.
     bindE (py_key address ''trtype'') (\<lambda>t.
     bindE (py_key address ''traddr'') (\<lambda>a.
     bindE (py_key address ''trsvcid'') (\<lambda>p.
     Inr (dict_set (''Listen '' @ py_str t @ '' '' @ py_str a @ '':'' @ py_str p) [] d)))))"

definition namespace_key :: "string \<times> json \<Rightarrow> string dict \<Rightarrow> exn + string dict" where
  "namespace_key = (\<lambda>(_, ns) d.
     bindE (py_key ns ''Serial'') (\<lambda>sn.
     bindE (py_key ns ''nsid'') (\<lambda>nsid.
     Inr (dict_set (''Namespace '' @ quoted (py_str sn @ ''n1'')) (py_str nsid) d))))"

definition subsystem_section :: "string \<Rightarrow> string" where
  "subsystem_section nqn = ''[Subsystem_'' @ nqn @ '']''"

definition append_subsystem_local_config :: "(string \<Rightarrow> string) \<Rightarrow> spdk_conf \<Rightarrow> json \<Rightarrow> exn + spdk_conf" where
  "append_subsystem_local_config sha1 arr config =
     bindE (bindE (py_key config ''NQN'') as_str) (\<lambda>nqn.
     bindE (bindE (py_key config ''transport_addresses'') py_items) (\<lambda>tas.
     bindE (foldE listen_key tas [(''NQN'', nqn), (''SN'', take 20 (sha1 nqn)), (''AllowAnyHost'', ''Yes'')]) (\<lambda>d1.
     bindE (bindE (py_key config ''namespaces'') py_items) (\<lambda>nss.
     bindE (foldE namespace_key nss d1) (\<lambda>d2.
     Inr (arr @ [(subsystem_section nqn, d2)]))))))"

section \<open>Operations on the file\<close>

definition temp_path :: "string \<Rightarrow> string" where
  "temp_path conf_path = conf_path @ ''~''"

definition changed_conf :: "(string \<Rightarrow> string) \<Rightarrow> spdk_conf \<Rightarrow> json \<Rightarrow> bool \<Rightarrow> exn + spdk_conf" where
  "changed_conf sha1 arr subsystem del =
     bindE (update_namespaces_local_config arr subsystem) (\<lambda>arr1.
     if del then bindE (py_key subsystem ''NQN'') (\<lambda>n. Inr (delete_subsystem_local_config arr1 (subsystem_section (py_str n))))
     else append_subsystem_local_config sha1 arr1 subsystem)"

definition save_temp_local_config :: "(string \<Rightarrow> string) \<Rightarrow> string \<Rightarrow> json \<Rightarrow> bool \<Rightarrow> ('r fsworld_scheme, unit) py" where
  "save_temp_local_config sha1 conf_path subsystem del =
     bindP (read_local_config conf_path) (\<lambda>arr.
     bindP (liftP (changed_conf sha1 arr subsystem del)) (\<lambda>arr'. write_local_config arr' (temp_path conf_path)))"

definition add_subsystem_temp_local_config where
  "add_subsystem_temp_local_config sha1 conf_path subsystem = save_temp_local_config sha1 conf_path subsystem False"

definition delete_subsystem_temp_local_config where
  "delete_subsystem_temp_local_config sha1 conf_path subsystem = save_temp_local_config sha1 conf_path subsystem True"

definition rename_temp_local_config :: "string \<Rightarrow> ('r fsworld_scheme, unit) py" where
  "rename_temp_local_config conf_path w =
     (case map_of (fs_files w) (temp_path conf_path) of
        None \<Rightarrow> (Inl (GenericException ''OSError''), w)
      | Some s \<Rightarrow> (Inr (), w\<lparr>fs_files := dict_set conf_path s (dict_del (temp_path conf_path) (fs_files w))\<rparr>))"

definition delete_temp_local_config :: "string \<Rightarrow> ('r fsworld_scheme, unit) py" where
  "delete_temp_local_config conf_path = modifyP (\<lambda>w. w\<lparr>fs_files := dict_del (temp_path conf_path) (fs_files w)\<rparr>)"

section \<open>Drives of the configuration\<close>

text \<open>\<^verbatim>\<open>[0-9A-Fa-f]{4}(?::[0-9A-Fa-f]{2}){2}\.\d\<close>\<close>

definition is_hex :: "char \<Rightarrow> bool" where
  "is_hex c \<longleftrightarrow> is_digit c \<or> (let n = (of_char c :: nat) in (65 \<le> n \<and> n \<le> 70) \<or> (97 \<le> n \<and> n \<le> 102))"

definition is_pci :: "string \<Rightarrow> bool" where
  "is_pci s \<longleftrightarrow> length s = 12 \<and> list_all (\<lambda>i. is_hex (s ! i)) [0, 1, 2, 3, 5, 6, 8, 9] \<and>
     s ! 4 = CHR '':'' \<and> s ! 7 = CHR '':'' \<and> s ! 10 = CHR ''.'' \<and> is_digit (s ! 11)"

definition pci_of :: "string \<Rightarrow> string option" where
  "pci_of key =
     (let p = ''TransportId '' @ [quote] @ ''trtype:PCIe traddr:''; l = chomp key; s = take 12 (drop (length p) l) in
      if l = p @ s @ [quote] \<and> is_pci s then Some s else None)"

definition namespaces_of :: "spdk_conf \<Rightarrow> (string \<times> string) list" where
  "namespaces_of arr =
     concat (map (\<lambda>(s, d). if s = ''[Nvme]'' then
       concat (map (\<lambda>(k, v). case pci_of k of None \<Rightarrow> [] | Some p \<Rightarrow> [(p, v)]) d) else []) arr)"

definition get_namespaces_local_config :: "string \<Rightarrow> ('r fsworld_scheme, (string \<times> string) list) py" where
  "get_namespaces_local_config conf_path = bindP (read_local_config conf_path) (\<lambda>arr. retP (namespaces_of arr))"

text \<open>Equality of a device with the entry \<^verbatim>\<open>{"PCIAddress": p, "Serial": s}\<close>.\<close>

fun is_entry :: "json \<Rightarrow> string \<times> string \<Rightarrow> bool" where
  "is_entry (JObj d) (p, s) = (length d = 2 \<and> map_of d ''PCIAddress'' = Some (JStr p) \<and> map_of d ''Serial'' = Some (JStr s))"
| "is_entry j e = False"

definition save_device_transport_to_config :: "string \<Rightarrow> json dict \<Rightarrow> ('r fsworld_scheme, unit) py" where
  "save_device_transport_to_config conf_path devices =
     bindP (get_namespaces_local_config conf_path) (\<lambda>nss.
     bindP (read_local_config conf_path) (\<lambda>arr.
     let new = filter (\<lambda>(_, dev). \<not> list_ex (is_entry dev) nss) devices in
     whenP (new \<noteq> [])
       (bindP (liftP (update_namespaces_local_config arr (JObj [(''namespaces'', JObj new)]))) (\<lambda>arr'.
        bindP (get_namespaces_local_config conf_path) (\<lambda>_.
        thenP (write_local_config arr' (temp_path conf_path)) (rename_temp_local_config conf_path))))))"

section \<open>Subsystems of a file of the user\<close>

definition before :: "char \<Rightarrow> string \<Rightarrow> string" where
  "before c s = takeWhile (\<lambda>x. x \<noteq> c) s"

text \<open>\<^verbatim>\<open>s.rsplit('n', 1)[0]\<close>\<close>

definition before_last :: "char \<Rightarrow> string \<Rightarrow> string" where
  "before_last c s = (case rsplit_once c s of Inl _ \<Rightarrow> s | Inr (a, _) \<Rightarrow> a)"

definition nth_word :: "string \<Rightarrow> nat \<Rightarrow> exn + string" where
  "nth_word s n = (if n < length (py_words s) then Inr (py_words s ! n) else Inl IndexError)"

text \<open>
  A further list for a key is added to the one that is there, without duplicates; the order of
  \<^verbatim>\<open>list(set(x))\<close> is not specified, the model keeps the last occurrence of each element.
\<close>

definition merge_list :: "json dict \<Rightarrow> string \<Rightarrow> string list \<Rightarrow> exn + json dict" where
  "merge_list d k xs =
     (case map_of d k of
        None \<Rightarrow> Inr (dict_set k (JList (map JStr xs)) d)
      | Some (JList ys) \<Rightarrow> Inr (dict_set k (JList (remdups (ys @ map JStr xs))) d)
      | Some _ \<Rightarrow> Inl AttributeError)"

definition user_entry :: "string \<Rightarrow> json dict \<Rightarrow> exn + json dict" where
  "user_entry line d =
     (if prefix ''Listen'' line then
        bindE (nth_word line 1) (\<lambda>k. bindE (nth_word line 2) (\<lambda>v. merge_list d k (py_split (CHR '','') v)))
      else if prefix ''Namespace'' line then
        bindE (nth_word line 1) (\<lambda>v. merge_list d ''Devices'' [before_last (CHR ''n'') (filter (\<lambda>c. c \<noteq> quote) v)])
      else bindE (split_once (CHR '' '') line) (\<lambda>(k, v). Inr (dict_set k (JStr v) d)))"

definition user_line :: "string \<Rightarrow> (string \<times> json dict) list \<Rightarrow> (string \<times> json dict) list" where
  "user_line line0 arr =
     (let line1 = strip_chars (crlf @ '' '') line0 in
      if prefix ''#'' line1 then arr
      else (let line = before (CHR ''#'') line1 in
        case section_of line of
          Some s \<Rightarrow> (if prefix ''[Subsystem'' s \<and> length ''[Subsystem]'' < length s then arr @ [(s, [])]
            else if arr = [] then arr else (case user_entry line (snd (last arr)) of Inl _ \<Rightarrow> arr
              | Inr d \<Rightarrow> butlast arr @ [(fst (last arr), d)]))
        | None \<Rightarrow> if arr = [] then arr else (case user_entry line (snd (last arr)) of Inl _ \<Rightarrow> arr
              | Inr d \<Rightarrow> butlast arr @ [(fst (last arr), d)])))"

definition read_subsystems :: "string \<Rightarrow> ('r fsworld_scheme, (string \<times> json dict) list) py" where
  "read_subsystems path = bindP (read_file path) (\<lambda>s. retP (foldl (\<lambda>arr l. user_line l arr) [] (py_readlines s)))"

section \<open>What is written is read back\<close>

text \<open>The entries the agent itself writes.\<close>

definition one_line :: "string \<Rightarrow> bool" where
  "one_line s \<longleftrightarrow> set s \<inter> set crlf = {}"

fun plain_entry :: "string \<times> string \<Rightarrow> bool" where
  "plain_entry (k, v) \<longleftrightarrow> one_line k \<and> one_line v \<and> k \<noteq> [] \<and> hd k \<noteq> CHR ''#'' \<and> hd k \<noteq> CHR ''['' \<and>
     (if prefix ''TransportId'' k then CHR '' '' \<notin> set v
      else if prefix ''Listen'' k then True
      else if prefix ''Namespace'' k then (\<exists>x. x \<noteq> [] \<and> k = ''Namespace '' @ quoted x) \<and> v \<noteq> [] \<and> list_all is_digit v
      else CHR '' '' \<notin> set k \<and> \<not> prefix ''Qos_host'' k)"

text \<open>What an entry is after it was written and read: the blank before an empty value stays on a Listen line.\<close>

fun reread :: "string \<times> string \<Rightarrow> string \<times> string" where
  "reread (k, v) = (if prefix ''Listen'' k \<and> \<not> prefix ''TransportId'' k then (k @ '' '' @ v, []) else (k, v))"

lemma strip_crlf_line:
  assumes "one_line s" and "s \<noteq> []"
  shows "strip_chars crlf (s @ [newline]) = s"
proof -
  have d: "dropWhile (\<lambda>c. c \<in> set crlf) (t @ u) = t @ u" if "t \<noteq> []" "set t \<inter> set crlf = {}" for t u
    using that by (cases t) auto
  have "dropWhile (\<lambda>c. c \<in> set crlf) (rev s) = rev s"
    using d [of "rev s" "[]"] assms by (simp add: one_line_def)
  then show ?thesis
    using d [of s "[newline]"] assms unfolding strip_chars_def by (simp add: one_line_def crlf_def)
qed

lemma prefix_before_blank: "CHR '' '' \<notin> set p \<Longrightarrow> prefix p (k @ CHR '' '' # u) \<longleftrightarrow> prefix p k"
  by (auto simp: prefix_append prefix_Cons)

lemma until_first: "c \<notin> set k \<Longrightarrow> takeWhile (\<lambda>x. x \<noteq> c) (k @ c # v) = k" "c \<notin> set k \<Longrightarrow> dropWhile (\<lambda>x. x \<noteq> c) (k @ c # v) = c # v"
  by (induction k) auto

lemma split_once_first: "c \<notin> set k \<Longrightarrow> split_once c (k @ c # v) = Inr (k, v)"
  by (simp add: split_once_def until_first)

lemma rsplit_once_last: "c \<notin> set v \<Longrightarrow> rsplit_once c (k @ c # v) = Inr (k, v)"
  by (simp add: rsplit_once_def split_once_first)

lemma after_last:
  assumes "c \<notin> set v"
  shows "rev (takeWhile (\<lambda>x. x \<noteq> c) (rev (k @ c # v))) = v" "rev (dropWhile (\<lambda>x. x \<noteq> c) (rev (k @ c # v))) = k @ [c]"
  using until_first [of c "rev v" "rev k"] assms by simp_all

lemma namespace_read:
  assumes "x \<noteq> []" and "newline \<notin> set x" and "v \<noteq> []" and "list_all is_digit v"
  shows "namespace_of (''Namespace '' @ quoted x @ CHR '' '' # v @ [newline]) = Inr (''Namespace '' @ quoted x, v)"
proof -
  let ?q = "\<lambda>c. c \<noteq> quote"
  have v: "quote \<notin> set (CHR '' '' # v)" "dropWhile re_space v = v"
  proof -
    have "c \<noteq> quote" "\<not> re_space c" if "is_digit c" for c
      using that by (auto simp: is_digit_def re_space_def quote_def Let_def)
    with assms(3,4) show "quote \<notin> set (CHR '' '' # v)" "dropWhile re_space v = v"
      by (auto simp: list_all_iff quote_def dropWhile_eq_self_iff)
  qed
  have l: "chomp (''Namespace '' @ quoted x @ CHR '' '' # v @ [newline]) = (''Namespace '' @ quote # x) @ quote # CHR '' '' # v"
    by (simp add: chomp_def quoted_def butlast_append)
  have ab: "rev (takeWhile ?q (rev ((''Namespace '' @ quote # x) @ quote # CHR '' '' # v))) = CHR '' '' # v"
    "rev (dropWhile ?q (rev ((''Namespace '' @ quote # x) @ quote # CHR '' '' # v))) = ''Namespace '' @ quote # x @ [quote]"
    unfolding after_last [OF v(1)] by simp_all
  have s: "re_space CHR '' ''" "\<not> re_space quote" by (simp_all add: re_space_def quote_def)
  have u: "dropWhile re_space (drop (length ''Namespace'') (''Namespace '' @ quote # x @ [quote])) = quote # x @ [quote]"
    using s by simp
  have n: "newline \<notin> set (quote # x @ [quote])" using assms(2) by (simp add: newline_def quote_def)
  show ?thesis
    unfolding namespace_of_def Let_def l ab u using assms v(2) s n by (simp add: quoted_def Suc_le_eq)
qed

lemma entry_read:
  assumes "plain_entry (k, v)"
  shows "entry_of (entry_line (k, v)) = Inr (reread (k, v))"
proof -
  let ?l = "k @ CHR '' '' # v"
  have line: "entry_line (k, v) = k @ CHR '' '' # v @ [newline]" by (simp add: entry_line_def)
  have one: "one_line ?l" using assms by (auto simp: one_line_def crlf_def newline_def)
  have strip: "strip_chars crlf (k @ CHR '' '' # v @ [newline]) = ?l" using strip_crlf_line [OF one] by simp
  note pre = prefix_before_blank [of _ k "v @ [newline]"]
  show ?thesis
  proof (cases "prefix ''Namespace'' k")
    case True
    with assms obtain x where x: "x \<noteq> []" "k = ''Namespace '' @ quoted x" "v \<noteq> []" "list_all is_digit v"
      by (auto split: if_splits simp: prefix_def)
    then have "newline \<notin> set x" using assms by (auto simp: one_line_def crlf_def quoted_def)
    from namespace_read [OF x(1) this x(3,4)] show ?thesis
      unfolding line entry_of_def using x(2) by (simp add: pre)
  next
    case False
    then show ?thesis
      unfolding line entry_of_def strip using assms
      by (auto simp: pre split_once_first rsplit_once_last)
  qed
qed

text \<open>Lines without a newline inside are found again by \<^verbatim>\<open>readlines\<close>.\<close>

lemma readlines_line: "newline \<notin> set l \<Longrightarrow> py_readlines (l @ newline # s) = (l @ [newline]) # py_readlines s"
  by (induction l) auto

lemma readlines_concat:
  assumes "\<And>l. l \<in> set ls \<Longrightarrow> \<exists>b. l = b @ [newline] \<and> newline \<notin> set b"
  shows "py_readlines (concat ls) = ls"
  using assms
proof (induction ls)
  case (Cons l ls)
  then obtain b where "l = b @ [newline]" "newline \<notin> set b" by (meson list.set_intros(1))
  moreover have "py_readlines (concat ls) = ls" using Cons by (meson list.set_intros(2))
  ultimately show ?case by (simp add: readlines_line)
qed simp

fun plain_section :: "string \<times> string dict \<Rightarrow> bool" where
  "plain_section (s, d) \<longleftrightarrow> (\<exists>x. x \<noteq> [] \<and> s = CHR ''['' # x @ '']'') \<and> newline \<notin> set s \<and>
     distinct (map (fst \<circ> reread) d) \<and> (\<forall>e \<in> set d. plain_entry e)"

text \<open>The keys are written in order.\<close>

definition reread_conf :: "spdk_conf \<Rightarrow> spdk_conf" where
  "reread_conf arr = map (\<lambda>(s, d). (s, map reread (sort_key fst d))) arr"

lemma section_read: "plain_section (s, d) \<Longrightarrow> section_of (s @ [newline]) = Some s \<and> \<not> prefix ''#'' (s @ [newline])"
  by (auto simp: section_of_def chomp_def Suc_le_eq)

lemma entry_not_section:
  assumes "plain_entry (k, v)"
  shows "section_of (entry_line (k, v)) = None" "\<not> prefix ''#'' (entry_line (k, v))"
proof -
  have "hd (entry_line (k, v)) = hd k" "entry_line (k, v) \<noteq> []" using assms by (simp_all add: entry_line_def)
  moreover from this have "hd (chomp (entry_line (k, v))) = hd k"
    using assms by (auto simp: chomp_def entry_line_def butlast_append)
  ultimately show "section_of (entry_line (k, v)) = None" "\<not> prefix ''#'' (entry_line (k, v))"
    using assms by (auto simp: section_of_def Let_def prefix_def)
qed

lemma read_entries:
  assumes "\<And>e. e \<in> set es \<Longrightarrow> plain_entry e" and "distinct (map fst d @ map (fst \<circ> reread) es)"
  shows "foldl (\<lambda>arr l. read_line l arr) (arr @ [(s, d)]) (map entry_line es) = arr @ [(s, d @ map reread es)]"
  using assms
proof (induction es arbitrary: d)
  case (Cons e es)
  obtain k v where e: "e = (k, v)" by (cases e)
  obtain k' v' where r: "reread (k, v) = (k', v')" by (cases "reread (k, v)")
  have "k' \<notin> fst ` set d" using Cons.prems(2) r e by auto
  then have "read_line (entry_line e) (arr @ [(s, d)]) = arr @ [(s, d @ [(k', v')])]"
    using entry_read [of k v] entry_not_section [of k v] Cons.prems(1) [of e] e r
    by (simp add: read_line_def dict_set_new del: plain_entry.simps reread.simps)
  moreover have "foldl (\<lambda>arr l. read_line l arr) (arr @ [(s, d @ [(k', v')])]) (map entry_line es) =
      arr @ [(s, (d @ [(k', v')]) @ map reread es)]"
    using Cons.prems e r by (intro Cons.IH) auto
  ultimately show ?case using e r by (simp del: reread.simps)
qed simp

lemma read_section:
  assumes "plain_section (s, d)"
  shows "foldl (\<lambda>arr l. read_line l arr) arr (section_lines (s, d)) = arr @ [(s, map reread (sort_key fst d))]"
proof -
  have "distinct (map (fst \<circ> reread) (sort_key fst d))"
    using assms by (simp add: distinct_map)
  then have "foldl (\<lambda>arr l. read_line l arr) (arr @ [(s, [])]) (map entry_line (sort_key fst d)) =
      arr @ [(s, [] @ map reread (sort_key fst d))]"
    using assms by (intro read_entries) auto
  moreover have "read_line (s @ [newline]) arr = arr @ [(s, [])]"
    using section_read [OF assms] by (simp add: read_line_def)
  moreover have "read_line [newline] (arr @ [x]) = arr @ [x]" for x
    by (simp add: read_line_def section_of_def chomp_def entry_of_def prefix_def strip_chars_def crlf_def split_once_def newline_def)
  ultimately show ?thesis by (simp add: section_lines_def)
qed

theorem conf_roundtrip:
  assumes "\<And>x. x \<in> set arr \<Longrightarrow> plain_section x"
  shows "parse_conf (concat (conf_lines arr)) = reread_conf arr"
proof -
  have "\<exists>b. l = b @ [newline] \<and> newline \<notin> set b" if l: "l \<in> set (conf_lines arr)" for l
  proof -
    have "\<exists>b. entry_line (k, v) = b @ [newline] \<and> newline \<notin> set b" if "plain_entry (k, v)" for k v
      using that by (intro exI [of _ "k @ '' '' @ v"]) (auto simp: entry_line_def one_line_def crlf_def newline_def)
    with l assms show ?thesis
      by (fastforce simp: conf_lines_def section_lines_def newline_def)
  qed
  then have lines: "py_readlines (concat (conf_lines arr)) = conf_lines arr" by (rule readlines_concat)
  have "foldl (\<lambda>arr l. read_line l arr) a (concat (map section_lines arr)) = a @ reread_conf arr" for a
    using assms
  proof (induction arr arbitrary: a)
    case (Cons x arr)
    then show ?case using read_section [of "fst x" "snd x" a] by (simp add: reread_conf_def split_def)
  qed (simp add: reread_conf_def)
  then show ?thesis
    unfolding parse_conf_def lines by (simp add: conf_lines_def read_line_def prefix_def)
qed

section \<open>Adding and deleting\<close>

lemma delete_appended: "s \<notin> fst ` set arr \<Longrightarrow> delete_subsystem_local_config (arr @ [(s, d)]) s = arr"
  by (induction arr) auto

lemma on_nvme_again:
  assumes "on_nvme nss arr = Inr arr'"
  shows "on_nvme nss arr' = Inr arr'"
proof -
  have keep: "dict_has k d \<Longrightarrow> foldE add_transport nss d = Inr d' \<Longrightarrow> dict_has k d'" for k d d' nss
    by (rule foldE_inv [where I = "dict_has k"]) (auto simp: add_transport_def bindE_Inr_iff Let_def split: prod.splits if_splits)
  have again: "foldE add_transport nss d = Inr d' \<Longrightarrow> foldE add_transport nss d' = Inr d'" for nss d d'
  proof (induction nss arbitrary: d)
    case (Cons x nss)
    then obtain d1 where d1: "add_transport x d = Inr d1" "foldE add_transport nss d1 = Inr d'" by (auto simp: bindE_Inr_iff)
    then obtain i ns sn pci where x: "x = (i, ns)" "py_key ns ''Serial'' = Inr sn" "py_key ns ''PCIAddress'' = Inr pci"
      by (cases x) (auto simp: add_transport_def bindE_Inr_iff)
    then have "dict_has (transport_key (py_str pci)) d1" using d1(1) by (auto simp: add_transport_def Let_def split: if_splits)
    then have "add_transport x d' = Inr d'" using keep [OF _ d1(2)] x by (simp add: add_transport_def Let_def)
    with Cons.IH [OF d1(2)] show ?case by simp
  qed simp
  show ?thesis using assms
  proof (induction nss arr arbitrary: arr' rule: on_nvme.induct)
    case (1 nss)
    then show ?case by (auto simp: bindE_Inr_iff again)
  next
    case (2 nss s d arr)
    then show ?case by (auto simp: bindE_Inr_iff again split: if_splits list.splits)
  qed
qed

lemma on_nvme_append: "on_nvme nss arr = Inr arr' \<Longrightarrow> on_nvme nss (arr' @ ys) = Inr (arr' @ ys)"
proof -
  assume "on_nvme nss arr = Inr arr'"
  then have idem: "on_nvme nss arr' = Inr arr'" and ne: "\<exists>x \<in> set arr'. prefix ''[Nvme]'' (fst x)"
    by (rule on_nvme_again, induction nss arr arbitrary: arr' rule: on_nvme.induct)
      (auto simp: bindE_Inr_iff split: if_splits list.splits)
  have "on_nvme nss xs = Inr xs \<Longrightarrow> \<exists>x \<in> set xs. prefix ''[Nvme]'' (fst x) \<Longrightarrow> on_nvme nss (xs @ ys) = Inr (xs @ ys)" for xs
  proof (induction nss xs rule: on_nvme.induct)
    case (2 nss s d arr)
    then show ?case by (cases "prefix ''[Nvme]'' s") (auto simp: bindE_Inr_iff split: if_splits list.splits)
  qed simp
  with idem ne show ?thesis by blast
qed

lemma on_nvme_names: "on_nvme nss arr = Inr arr' \<Longrightarrow> fst ` set arr' \<subseteq> insert ''[Nvme]'' (fst ` set arr)"
proof (induction nss arr arbitrary: arr' rule: on_nvme.induct)
  case (1 nss)
  then show ?case by (auto simp: bindE_Inr_iff)
next
  case (2 nss s d arr)
  consider "s = ''[Nvme]''" | "s \<noteq> ''[Nvme]''" "prefix ''[Nvme]'' s" | "\<not> prefix ''[Nvme]'' s" "s \<noteq> ''[Nvme]''" by blast
  then show ?case
  proof cases
    case 1
    then show ?thesis using "2.prems" by (auto simp: bindE_Inr_iff)
  next
    case 2
    then show ?thesis using "2.prems" by (auto simp: bindE_Inr_iff split: list.splits)
  next
    case 3
    then obtain a where "on_nvme nss arr = Inr a" "arr' = (s, d) # a" using "2.prems" by (auto simp: bindE_Inr_iff)
    with "2.IH" [of a] 3 show ?thesis by auto
  qed
qed

section \<open>The file\<close>



lemma dict_del_other: "map_of (dict_del k d) p = (if p = k then None else map_of d p)"
  by (induction d) (auto simp: dict_del_def)

lemma temp_path_neq: "temp_path c \<noteq> c"
  by (simp add: temp_path_def)

section \<open>Properties\<close>

text \<open>
  C21.  A change of the configuration is read back: saved to the temporary file and renamed, it is the
  changed configuration, its keys sorted and every Listen key longer by a blank; no other file
  changes.
\<close>

theorem saved_config_reads_back:
  assumes "read_local_config conf_path w = (Inr arr, w)" and "changed_conf sha1 arr subsystem del = Inr arr'"
    and "\<And>x. x \<in> set arr' \<Longrightarrow> plain_section x"
  shows "\<exists>w'. thenP (save_temp_local_config sha1 conf_path subsystem del) (rename_temp_local_config conf_path) w = (Inr (), w') \<and>
    read_local_config conf_path w' = (Inr (reread_conf arr'), w') \<and>
    (\<forall>p. p \<noteq> conf_path \<longrightarrow> p \<noteq> temp_path conf_path \<longrightarrow> map_of (fs_files w') p = map_of (fs_files w) p)"
  using assms(1,2) conf_roundtrip [OF assms(3)] temp_path_neq [of conf_path]
  by (auto simp: save_temp_local_config_def thenP_def bindP_def liftP_def write_local_config_def write_file_def modifyP_def
    rename_temp_local_config_def read_local_config_def read_file_def retP_def dict_del_other)

definition demo_disk :: fsworld where
  "demo_disk = \<lparr>fs_files = [(''/etc/nvmf.in.conf'', ''[Nvme]'' @ [newline] @ ''RetryCount 4'' @ [newline])]\<rparr>"

definition demo_config :: json where
  "demo_config = JObj [(''NQN'', JStr ''nqn.2019-06.io:a''),
     (''namespaces'', JObj [(''1'', JObj [(''Serial'', JStr ''S1''), (''PCIAddress'', JStr ''0000:01:00.0''), (''nsid'', JStr ''1'')])]),
     (''transport_addresses'', JObj [(''aa:bb'', JObj [(''trtype'', JStr ''TCP''), (''traddr'', JStr ''10.0.0.1''), (''trsvcid'', JStr ''1024'')])])]"

definition demo_conf :: "spdk_conf" where
  "demo_conf = [(''[Nvme]'', [(''RetryCount'', ''4''), (transport_key ''0000:01:00.0'', quoted ''S1'')]),
     (''[Subsystem_nqn.2019-06.io:a]'', [(''NQN'', ''nqn.2019-06.io:a''), (''SN'', ''1234''), (''AllowAnyHost'', ''Yes''),
        (''Listen TCP 10.0.0.1:1024'', []), (''Namespace '' @ quoted ''S1n1'', ''1'')])]"

lemma demo_conf_facts:
  "read_local_config ''/etc/nvmf.in.conf'' demo_disk = (Inr [(''[Nvme]'', [(''RetryCount'', ''4'')])], demo_disk)"
  "changed_conf (\<lambda>_. ''1234'') [(''[Nvme]'', [(''RetryCount'', ''4'')])] demo_config False = Inr demo_conf"
  by code_simp+

theorem saved_config_reads_back_witness:
  "\<exists>w'. thenP (save_temp_local_config (\<lambda>_. ''1234'') ''/etc/nvmf.in.conf'' demo_config False) (rename_temp_local_config ''/etc/nvmf.in.conf'') demo_disk = (Inr (), w') \<and>
    read_local_config ''/etc/nvmf.in.conf'' w' = (Inr (reread_conf demo_conf), w')"
proof -
  have "plain_section x" if "x \<in> set demo_conf" for x
    using that by (auto simp: demo_conf_def one_line_def crlf_def newline_def quoted_def transport_key_def quote_def is_digit_def)
  from saved_config_reads_back [OF demo_conf_facts this] show ?thesis by blast
qed

text \<open>
  C38.  Deleting a subsystem that was added gives the configuration without it; the drives it brought into
  the section of the drives stay.
\<close>

theorem deleted_subsystem_restores:
  assumes "changed_conf sha1 arr subsystem False = Inr arr2" and "py_key subsystem ''NQN'' = Inr (JStr nqn)"
    and "subsystem_section nqn \<notin> fst ` set arr"
  shows "\<exists>arr1. update_namespaces_local_config arr subsystem = Inr arr1 \<and> changed_conf sha1 arr2 subsystem True = Inr arr1"
proof -
  obtain nss' nss arr1 d where n: "py_key subsystem ''namespaces'' = Inr nss'" "py_items nss' = Inr nss" "on_nvme nss arr = Inr arr1"
      "arr2 = arr1 @ [(subsystem_section nqn, d)]"
    using assms(1,2) by (auto simp: changed_conf_def update_namespaces_local_config_def append_subsystem_local_config_def bindE_Inr_iff)
  have "subsystem_section nqn \<noteq> ''[Nvme]''" by (simp add: subsystem_section_def)
  then have "subsystem_section nqn \<notin> fst ` set arr1" using on_nvme_names [OF n(3)] assms(3) by blast
  then show ?thesis
    using n assms(2) on_nvme_append [OF n(3)]
    by (auto simp: changed_conf_def update_namespaces_local_config_def delete_appended)
qed

theorem deleted_subsystem_restores_witness:
  "\<exists>arr1. update_namespaces_local_config [(''[Nvme]'', [(''RetryCount'', ''4'')])] demo_config = Inr arr1 \<and>
     changed_conf (\<lambda>_. ''1234'') demo_conf demo_config True = Inr arr1"
proof -
  have "py_key demo_config ''NQN'' = Inr (JStr ''nqn.2019-06.io:a'')"
    "subsystem_section ''nqn.2019-06.io:a'' \<notin> fst ` set [(''[Nvme]'', [(''RetryCount'', ''4'')])]"
    by code_simp+
  from deleted_subsystem_restores [OF demo_conf_facts(2) this] show ?thesis .
qed



end
