(* ===== verification/AgentBackend.thy ===== *)
theory AgentBackend
  imports SpdkConfig
begin

text \<open>
  The commands that configure the subsystems of a target:
  \<^verbatim>\<open>src/ufm/agents/nkv_agent/utils/utils.py\<close> (flattening of dictionaries), \<^verbatim>\<open>utils/backend_layer.py\<close> (class
  \<^verbatim>\<open>BackendLayer\<close>: locks, documents, commands in the database and the wait for their result),
  \<^verbatim>\<open>utils/validate_kv.py\<close> and \<^verbatim>\<open>subcommands/kv/kv.py\<close> (class \<^verbatim>\<open>KVManager\<close>).  Python 2.

  A lock of etcd is its name; the package's calls on it are parameters (record \<open>lock_etcd\<close>).  The events a
  watch puts into its queue are the argument \<open>evs\<close>: \<open>evs i\<close> is what the \<open>i\<close>-th \<^verbatim>\<open>get\<close> returns, \<open>None\<close> when
  it times out.  \<^verbatim>\<open>sys.exit\<close> is the exception \<open>SystemExit\<close> with the text printed before it; other output is
  not modelled.  The pattern of \<^verbatim>\<open>re.sub\<close> in \<^verbatim>\<open>get_json_prefix\<close> is a path of the database, which has no
  special characters.
\<close>

section \<open>Flat keys of a dictionary\<close>

fun flat_dict :: "string list \<Rightarrow> json \<Rightarrow> (string list \<times> json) list"
  and flat_pairs :: "string list \<Rightarrow> (string \<times> json) list \<Rightarrow> (string list \<times> json) list"
  and flat_items :: "string list \<Rightarrow> json list \<Rightarrow> (string list \<times> json) list" where
  "flat_dict pre (JObj d) = flat_pairs pre d"
| "flat_dict pre j = [(pre, j)]"
| "flat_pairs pre [] = []"
| "flat_pairs pre ((k, v) # d) =
     (case v of
        JObj e \<Rightarrow> flat_pairs (pre @ [k]) e
      | JList xs \<Rightarrow> flat_items (pre @ [k]) xs
      | _ \<Rightarrow> [(pre @ [k], v)]) @ flat_pairs pre d"
| "flat_items pre [] = []"
| "flat_items pre (x # xs) = flat_dict pre x @ flat_items pre xs"

definition flat_puts :: "string \<Rightarrow> json \<Rightarrow> (string \<times> string \<times> int option) list" where
  "flat_puts key_prefix d = map (\<lambda>(path, v). (key_prefix @ py_join ''/'' path, py_str v, None)) (flat_dict [] d)"

section \<open>The backend\<close>

record 'db lock_etcd = "'db agent_etcd" +
  b_acquire :: "string \<Rightarrow> ('db, bool) py"
  b_release :: "string \<Rightarrow> ('db, bool) py"
  b_held :: "string \<Rightarrow> ('db, bool) py"
  b_refresh :: "string \<Rightarrow> ('db, unit) py"

record 'db bworld = "'db eworld" +
  bw_lock :: "string option"

definition ETCD_SRV_BASE :: string where "ETCD_SRV_BASE = ''/object_storage/servers/''"

definition lock_of :: "(('db, 'r) bworld_scheme, string) py" where
  "lock_of = bindP (readP bw_lock) (\<lambda>l. case l of None \<Rightarrow> raiseP AttributeError | Some n \<Rightarrow> retP n)"

definition set_lock :: "('db, 'x) lock_etcd_scheme \<Rightarrow> string \<Rightarrow> (('db, 'r) bworld_scheme, unit) py" where
  "set_lock E server_uuid =
     bindP (readP bw_lock) (\<lambda>l.
     bindP (case l of None \<Rightarrow> retP False | Some n \<Rightarrow> on_client (b_held E n)) (\<lambda>held.
     if held then raiseP (GenericException ''Lock already acquired'')
     else modifyP (\<lambda>w. w\<lparr>bw_lock := Some server_uuid\<rparr>)))"

text \<open>Without a lock the handler itself raises when it names the lock.\<close>

definition acquire_lock :: "('db, 'x) lock_etcd_scheme \<Rightarrow> (('db, 'r) bworld_scheme, unit) py" where
  "acquire_lock E = bindP lock_of (\<lambda>n. thenP (on_client (b_acquire E n)) (retP ()))"

definition release_lock :: "('db, 'x) lock_etcd_scheme \<Rightarrow> (('db, 'r) bworld_scheme, unit) py" where
  "release_lock E = bindP lock_of (\<lambda>n. thenP (on_client (b_release E n)) (retP ()))"

text \<open>A key below a key that has a value raises TypeError.\<close>

definition put_path :: "string list \<Rightarrow> json \<Rightarrow> json \<Rightarrow> exn + json" where
  "put_path ks v j = (case json_put ks v j of Inl _ \<Rightarrow> Inl TypeError | Inr j' \<Rightarrow> Inr j')"

definition sub_path :: "string \<Rightarrow> string \<Rightarrow> string list" where
  "sub_path key_prefix key = py_split (CHR ''/'') (py_replace key_prefix [] key)"

definition docs_of :: "string \<Rightarrow> (string \<times> string) list \<Rightarrow> exn + json" where
  "docs_of key_prefix items = foldE (\<lambda>(k, v). put_path (sub_path key_prefix k) (JStr v)) items (JObj [])"

definition get_json_prefix :: "('db, 'x) lock_etcd_scheme \<Rightarrow> string \<Rightarrow> (('db, 'r) eworld_scheme, json) py" where
  "get_json_prefix E key_prefix =
     bindP (on_client (e_get_prefix E key_prefix [])) (\<lambda>(items, e).
     bindP (liftP (docs_of key_prefix items)) (\<lambda>d. case e of None \<Rightarrow> retP d | Some x \<Rightarrow> raiseP x))"

definition write_dict_to_etcd :: "('db, 'x) lock_etcd_scheme \<Rightarrow> json \<Rightarrow> string \<Rightarrow> (('db, 'r) eworld_scheme, bool) py" where
  "write_dict_to_etcd E d key_prefix = on_client (e_transaction E (flat_puts key_prefix d))"

definition subsystem_prefix :: "string \<Rightarrow> string \<Rightarrow> string" where
  "subsystem_prefix server_uuid nqn = ETCD_SRV_BASE @ server_uuid @ ''/kv_attributes/config/subsystems/'' @ nqn"

text \<open>The number of the watch on the status of the command; \<open>None\<close> when the subsystem cannot be locked.\<close>

definition write_spdk_command ::
  "('db, 'x) lock_etcd_scheme \<Rightarrow> string \<Rightarrow> string \<Rightarrow> json \<Rightarrow> (('db, 'r) bworld_scheme, int option) py" where
  "write_spdk_command E server_uuid sect kv =
     bindP (bindP lock_of (\<lambda>n. on_client (b_held E n))) (\<lambda>held.
     if \<not> held then raiseP (GenericException ''Write Command requires lock'')
     else (let dir = subsystem_prefix server_uuid sect @ ''/''; sub = server_uuid @ ''_'' @ sect in
       thenP (on_client (b_acquire E sub))
       (bindP (on_client (b_held E sub)) (\<lambda>h.
        if \<not> h then retP None
        else bindP (on_client (e_watch E (dir @ ''cmd_status''))) (\<lambda>watch_id.
          thenP (tryP (thenP (on_client (e_transaction E (flat_puts dir kv))) (retP ()))
              (\<lambda>e. thenP (on_client (b_release E sub)) (raiseP e)))
            (thenP (on_client (b_release E sub)) (retP (Some watch_id))))))))"

datatype wevent = PutEvent string | DeleteEvent

fun event_value :: "wevent \<Rightarrow> string" where
  "event_value (PutEvent v) = v"
| "event_value DeleteEvent = []"

text \<open>
  The message for a queue that stays empty, by the last status that was seen; \<open>None\<close>: the loop goes on.
  A deletion is assigned to a variable that nothing reads.
\<close>

definition timeout_answer :: "wevent option \<Rightarrow> string \<Rightarrow> (wevent option \<times> string) option" where
  "timeout_answer event last_state =
     (if last_state = [] then Some (None, ''Database did not receive configuration to add/remove subsystem'')
      else if last_state = ''pending'' then Some (None, ''Agent not yet processed the subsystem command. Taking longer than expected'')
      else if last_state = ''processing'' then Some (None, ''Subsystem command taking longer than expected'')
      else if last_state = ''success'' then Some (event, ''Success'')
      else if last_state = ''deleted'' then Some (event, ''Subsystem successfully deleted'') else None)"

fun response_loop ::
  "('db, 'x) lock_etcd_scheme \<Rightarrow> (nat \<Rightarrow> wevent option) \<Rightarrow> int \<Rightarrow> nat list \<Rightarrow> wevent option \<Rightarrow> string \<Rightarrow>
   (('db, 'r) eworld_scheme, wevent option \<times> string) py" where
  "response_loop E evs watch_id [] event state =
     thenP (tryP (on_client (e_cancel E (Some watch_id))) (\<lambda>_. retP ())) (retP (event, ''Success''))"
| "response_loop E evs watch_id (i # is) event state =
     (case evs i of
        Some e \<Rightarrow> response_loop E evs watch_id is (Some e) (if event_value e \<noteq> [] then event_value e else state)
      | None \<Rightarrow> thenP (on_client (e_cancel E (Some watch_id)))
          (case timeout_answer event state of Some r \<Rightarrow> retP r | None \<Rightarrow> response_loop E evs watch_id is event state))"

definition event_response ::
  "('db, 'x) lock_etcd_scheme \<Rightarrow> (nat \<Rightarrow> wevent option) \<Rightarrow> int \<Rightarrow> (('db, 'r) eworld_scheme, wevent option \<times> string) py" where
  "event_response E evs watch_id = response_loop E evs watch_id [0, 1, 2] None []"

section \<open>Validation\<close>

definition ADRFAM :: "string list" where "ADRFAM = [''IPv4'', ''IPv6'']"
definition MIN_PORT :: int where "MIN_PORT = 1"
definition MAX_PORT :: int where "MAX_PORT = 65536"
definition MAXIMUM_LISTEN_DIRECTIVES :: int where "MAXIMUM_LISTEN_DIRECTIVES = 255"
definition MAXIMUM_NAMESPACE_DIRECTIVES :: int where "MAXIMUM_NAMESPACE_DIRECTIVES = 255"

text \<open>\<^verbatim>\<open>adrfam in x and ipaddr == x[adrfam]\<close>\<close>

definition has_address :: "string \<Rightarrow> string \<Rightarrow> json \<Rightarrow> exn + bool" where
  "has_address ipaddr adrfam x = has_val x adrfam ipaddr"

definition in_family :: "string \<Rightarrow> json \<Rightarrow> string \<Rightarrow> exn + bool" where
  "in_family ipaddr iface adrfam =
     bindE (py_in adrfam iface) (\<lambda>b.
     if b then bindE (py_key iface adrfam) (\<lambda>v. Inr (v = JStr ipaddr))
     else bindE (bindE (py_key iface ''Interfaces'') loop_items) (\<lambda>vs.
       foldE (\<lambda>(_, v) found. if found then Inr True else has_address ipaddr adrfam v) vs False))"

fun first_found :: "('a \<Rightarrow> exn + bool) \<Rightarrow> 'a list \<Rightarrow> exn + 'a option" where
  "first_found f [] = Inr None"
| "first_found f (x # xs) = bindE (f x) (\<lambda>b. if b then Inr (Some x) else first_found f xs)"

definition find_network_interface :: "string \<Rightarrow> json \<Rightarrow> exn + (string \<times> json) option" where
  "find_network_interface ipaddr interface_list =
     bindE (loop_items interface_list) (\<lambda>is.
     bindE (first_found (\<lambda>(fam, _, iface). in_family ipaddr iface fam)
         (concat (map (\<lambda>i. map (\<lambda>fam. (fam, i)) ADRFAM) is))) (\<lambda>r.
     Inr (case r of None \<Rightarrow> None | Some (fam, _, iface) \<Rightarrow> Some (fam, iface))))"

definition find_storage_device :: "string \<Rightarrow> json \<Rightarrow> exn + json option" where
  "find_storage_device ident device_list =
     bindE (py_items device_list) (\<lambda>ds.
     bindE (first_found (\<lambda>dev. bindE (py_key dev ''Serial'') (\<lambda>s. Inr (s = JStr ident))) (map snd ds)) Inr)"

definition valid_port :: "string \<Rightarrow> exn + bool" where
  "valid_port port = bindE (py_int_str port) (\<lambda>p. Inr (MIN_PORT \<le> p \<and> p < MAX_PORT))"

definition exceeded_maximum_listen_addresses :: "'a list \<Rightarrow> bool" where
  "exceeded_maximum_listen_addresses xs \<longleftrightarrow> int (length xs) > MAXIMUM_LISTEN_DIRECTIVES"

definition exceeded_maximum_namespaces :: "'a list \<Rightarrow> bool" where
  "exceeded_maximum_namespaces xs \<longleftrightarrow> int (length xs) > MAXIMUM_NAMESPACE_DIRECTIVES"

text \<open>The bounds of a range are compared with the core as texts.\<close>

definition in_range :: "string \<Rightarrow> string \<Rightarrow> bool" where
  "in_range core_id r =
     (case py_split (CHR ''-'') r of [a, b] \<Rightarrow> a \<le> core_id \<and> core_id \<le> b | _ \<Rightarrow> r \<le> core_id \<and> core_id \<le> r)"

fun find_numa :: "string \<Rightarrow> int \<Rightarrow> json list \<Rightarrow> exn + int" where
  "find_numa core_id n [] = Inr (- 1)"
| "find_numa core_id n (g # gs) =
     bindE (py_split_json (CHR '','') g) (\<lambda>rs. if list_ex (in_range core_id) rs then Inr n else find_numa core_id (n + 1) gs)"

definition find_numa_for_core :: "string \<Rightarrow> json \<Rightarrow> exn + int" where
  "find_numa_for_core core_id numa_group = bindE (py_items numa_group) (\<lambda>gs. find_numa core_id 0 (map snd gs))"

section \<open>Names of subsystems\<close>

definition SPDK_NVMF_NQN_MAX_LEN :: nat where "SPDK_NVMF_NQN_MAX_LEN = 223"
definition SPDK_DOMAIN_LABEL_MAX_LEN :: nat where "SPDK_DOMAIN_LABEL_MAX_LEN = 63"
definition STORE_SUBSYS_CMD :: string where "STORE_SUBSYS_CMD = ''store_nvmf_subsystem''"

definition is_alpha :: "char \<Rightarrow> bool" where
  "is_alpha c \<longleftrightarrow> (let n = (of_char c :: nat) in (65 \<le> n \<and> n \<le> 90) \<or> (97 \<le> n \<and> n \<le> 122))"

definition is_alnum :: "char \<Rightarrow> bool" where
  "is_alnum c \<longleftrightarrow> is_alpha c \<or> is_digit c"

text \<open>\<^verbatim>\<open>^nqn\.\d{4}-\d{2}\.\<close>\<close>

definition nqn_start :: "string \<Rightarrow> bool" where
  "nqn_start s \<longleftrightarrow> 12 \<le> length s \<and> prefix ''nqn.'' s \<and> list_all (\<lambda>i. is_digit (s ! i)) [4, 5, 6, 7, 9, 10] \<and> s ! 8 = CHR ''-'' \<and> s ! 11 = CHR ''.''"

text \<open>
  \<^verbatim>\<open>^nqn\.\d{4}-\d{2}\.(.+?):(.+?)$\<close>: the group ends before the first colon, not counting one at its
  beginning, that has text behind it.
\<close>

definition domain_label :: "string \<Rightarrow> string option" where
  "domain_label nqn =
     (let s = chomp nqn; t = drop 12 s in
      if nqn_start s \<and> newline \<notin> set s then
        (case filter (\<lambda>i. t ! i = CHR '':'') [1..<length t - 1] of [] \<Rightarrow> None | i # _ \<Rightarrow> Some (take i t))
      else None)"

text \<open>The text of the first rule that is broken, or \<open>None\<close>.\<close>

definition check_nqn :: "string \<Rightarrow> string option" where
  "check_nqn nqn =
     (if length nqn > SPDK_NVMF_NQN_MAX_LEN then Some ''NQN max length 223 bytes''
      else if \<not> nqn_start nqn then Some ''NQN must start with nqn.<yyyy>-<mm>.''
      else (case domain_label nqn of
        None \<Rightarrow> Some ''NQN requires nqn.<yyyy>-<mm>.<reverse-domain>:<user-string>''
      | Some l \<Rightarrow>
          if \<not> is_alpha (hd l) then Some ''Domain label must start with letter.''
          else if \<not> is_alnum (last l) then Some ''Domain label must end with letter or number.''
          else if \<not> (2 \<le> length l \<and> list_all is_alnum l) then Some ''Domain label may only use letters, numbers, and hyphens.''
          else if length l > SPDK_DOMAIN_LABEL_MAX_LEN then Some ''Domain label length is too long'' else None))"

section \<open>Creating a subsystem\<close>

definition exit_if :: "bool \<Rightarrow> string \<Rightarrow> exn + unit" where
  "exit_if b msg = (if b then Inl (SystemExit msg) else Inr ())"

text \<open>\<^verbatim>\<open>get_json_prefix(...).values()[0]\<close>\<close>

definition first_value :: "json \<Rightarrow> exn + json" where
  "first_value j = bindE (py_items j) (\<lambda>d. case d of [] \<Rightarrow> Inl IndexError | (_, v) # _ \<Rightarrow> Inr v)"

definition subsystems_of :: "json \<Rightarrow> exn + json" where
  "subsystems_of server =
     bindE (py_in ''kv_attributes'' server) (\<lambda>b. if b then py_path server [''kv_attributes'', ''config'', ''subsystems''] else Inr (JObj []))"

definition check_core :: "json \<Rightarrow> string option \<Rightarrow> exn + unit" where
  "check_core attrs core_id =
     (case core_id of None \<Rightarrow> Inr ()
      | Some c \<Rightarrow> bindE (bindE (py_path attrs [''cpu'', ''LogicalCount'']) py_int) (\<lambda>n.
          bindE (py_int_str c) (\<lambda>i. exit_if (\<not> (0 \<le> i \<and> i < n)) ''Invalid core, not within valid range'')))"

text \<open>The devices, up to the first one that is not found.\<close>

fun find_devices :: "json \<Rightarrow> string list \<Rightarrow> exn + json list" where
  "find_devices ds [] = Inr []"
| "find_devices ds (x # xs) =
     bindE (find_storage_device x ds) (\<lambda>r. case r of None \<Rightarrow> Inl (SystemExit (''Could not find '' @ x))
       | Some dev \<Rightarrow> if py_truth dev then bindE (find_devices ds xs) (\<lambda>ys. Inr (dev # ys)) else Inl (SystemExit (''Could not find '' @ x)))"

definition check_devices :: "json \<Rightarrow> string list \<Rightarrow> exn + json list" where
  "check_devices attrs devices =
     bindE (py_path attrs [''storage'', ''nvme'']) (\<lambda>nvme.
     bindE (py_in ''devices'' nvme) (\<lambda>b.
     bindE (exit_if (\<not> b) ''No NVMe devices available'') (\<lambda>_.
     bindE (py_key nvme ''devices'') (\<lambda>ds. find_devices ds devices))))"

definition transport_address :: "json \<Rightarrow> string \<Rightarrow> string \<Rightarrow> exn + string \<times> json \<times> string \<times> json" where
  "transport_address attrs tr_type ip_port =
     (case py_split (CHR '':'') ip_port of
        [ip, port] \<Rightarrow>
          bindE (py_path attrs [''network'', ''interfaces'']) (\<lambda>interfaces.
          bindE (find_network_interface ip interfaces) (\<lambda>r.
          case r of None \<Rightarrow> Inl (SystemExit (''Could not find '' @ ip))
          | Some (adrfam, iface) \<Rightarrow>
              bindE (valid_port port) (\<lambda>ok.
              bindE (exit_if (\<not> ok) (''Invalid port requested - '' @ port)) (\<lambda>_.
              bindE (bindE (py_key iface ''MACAddress'') as_str) (\<lambda>mac.
              Inr (mac, JObj [(''trtype'', JStr tr_type), (''traddr'', JStr ip), (''trsvcid'', JStr port), (''adrfam'', JStr adrfam)],
                   adrfam, iface))))))
      | _ \<Rightarrow> Inl ValueError)"

text \<open>Whether a serial number is a key of the namespaces of a subsystem.\<close>

definition check_used :: "string \<Rightarrow> json \<Rightarrow> string \<Rightarrow> (json \<times> json) list \<Rightarrow> exn + unit" where
  "check_used cmd subs nqn namespaces =
     bindE (py_in nqn subs) (\<lambda>used.
     bindE (exit_if (used \<and> cmd \<noteq> STORE_SUBSYS_CMD) (''NQN('' @ nqn @ '') is already in-use'')) (\<lambda>_.
     bindE (py_items subs) (\<lambda>ss.
     if cmd = STORE_SUBSYS_CMD then Inr ()
     else foldE (\<lambda>(_, obj) _. foldE (\<lambda>(sn, _) _.
         bindE (bindE (py_key obj ''namespaces'') (py_in (py_str sn))) (\<lambda>b.
           exit_if b (''Device S/N ('' @ py_str sn @ '') is already in-use''))) namespaces ()) ss ())))"

text \<open>The warnings about the location of the core have no effect, but the values they read may be missing.\<close>

definition check_numa :: "json \<Rightarrow> string option \<Rightarrow> json option \<Rightarrow> json list \<Rightarrow> exn + unit" where
  "check_numa attrs core_id iface devs =
     (case core_id of None \<Rightarrow> Inr ()
      | Some c \<Rightarrow>
          bindE (py_path attrs [''cpu'', ''NUMAMap'']) (\<lambda>m.
          bindE (find_numa_for_core c m) (\<lambda>_.
          bindE (case iface of None \<Rightarrow> Inl UnboundLocalError | Some i \<Rightarrow> bindE (py_key i ''NUMANode'') py_int) (\<lambda>_.
          bindE (mapE (\<lambda>d. bindE (py_key d ''NUMANode'') py_int) devs) (\<lambda>_. Inr ())))))"

definition namespace_entries :: "(json \<times> json) list \<Rightarrow> json dict" where
  "namespace_entries ns = map (\<lambda>(i, sn, pci). let n = nat_str (i + 1) in
     (n, JObj [(''PCIAddress'', pci), (''Serial'', sn), (''nsid'', JStr n)])) (zip [0..<length ns] ns)"

definition address_entries :: "(string \<times> json) list \<Rightarrow> json dict" where
  "address_entries tas = foldl (\<lambda>d (mac, a). dict_set mac (JList [a]) d) [] tas"

text \<open>The document a command writes; without an address the family is not defined.\<close>

definition config_args ::
  "json \<Rightarrow> string list \<Rightarrow> string \<Rightarrow> string list \<Rightarrow> string \<Rightarrow> string \<Rightarrow> string option \<Rightarrow> exn + json" where
  "config_args server devices nqn ip_addresses tr_type cmd core_id =
     bindE (py_key server ''server_attributes'') (\<lambda>attrs.
     bindE (subsystems_of server) (\<lambda>subs.
     bindE (check_core attrs core_id) (\<lambda>_.
     bindE (check_devices attrs devices) (\<lambda>devs.
     bindE (mapE (transport_address attrs tr_type) ip_addresses) (\<lambda>tas.
     bindE (mapE (\<lambda>d. bindE (py_key d ''Serial'') (\<lambda>s. bindE (py_key d ''PCIAddress'') (\<lambda>p. Inr (s, p)))) devs) (\<lambda>nss.
     bindE (case check_nqn nqn of None \<Rightarrow> Inr () | Some msg \<Rightarrow> Inl (SystemExit msg)) (\<lambda>_.
     bindE (check_used cmd subs nqn nss) (\<lambda>_.
     bindE (check_numa attrs core_id (if tas = [] then None else Some (snd (snd (snd (last tas))))) devs) (\<lambda>_.
     if tas = [] then Inl UnboundLocalError
     else Inr (JObj [(''Command'', JStr cmd), (''NQN'', JStr nqn), (''namespaces'', JObj (namespace_entries nss)),
        (''transport_addresses'', JObj (address_entries (map (\<lambda>(mac, a, _). (mac, a)) tas))),
        (''adrfam'', JStr (fst (snd (snd (last tas))))), (''cmd_status'', JStr ''pending'')]))))))))))"

definition created_message :: "wevent \<Rightarrow> string" where
  "created_message e =
     (case e of PutEvent v \<Rightarrow> if v = ''success'' then ''Successfully configured device'' else []
      | DeleteEvent \<Rightarrow> ''Failed to configure device'')"

definition create_subsystem_cmd ::
  "('db, 'x) lock_etcd_scheme \<Rightarrow> (nat \<Rightarrow> wevent option) \<Rightarrow> string \<Rightarrow> string list \<Rightarrow> string \<Rightarrow> string list \<Rightarrow> bool \<Rightarrow> string \<Rightarrow> string \<Rightarrow>
   string option \<Rightarrow> (('db, 'r) bworld_scheme, string) py" where
  "create_subsystem_cmd E evs server_uuid devices nqn ip_addresses asynchronous tr_type cmd core_id =
     thenP (acquire_lock E)
     (bindP (get_json_prefix E (ETCD_SRV_BASE @ server_uuid)) (\<lambda>docs.
      bindP (liftP (first_value docs)) (\<lambda>server.
      bindP (liftP (exit_if (server = JObj []) ''No servers detected, is daemon running?'')) (\<lambda>_.
      bindP (liftP (config_args server devices nqn ip_addresses tr_type cmd core_id)) (\<lambda>args.
      bindP (write_spdk_command E server_uuid nqn args) (\<lambda>watch.
      thenP (release_lock E)
      (case watch of None \<Rightarrow> raiseP AttributeError
       | Some watch_id \<Rightarrow>
           bindP (event_response E evs watch_id) (\<lambda>(event, msg).
           case event of None \<Rightarrow> raiseP (SystemExit msg)
           | Some e \<Rightarrow> if asynchronous then thenP (on_client (e_cancel E (Some watch_id))) (retP ''Add subsystem command written'')
               else retP (created_message e)))))))))"

definition create_subsystem where
  "create_subsystem E evs server_uuid devices nqn ip_addresses asynchronous tr_type core_id =
     create_subsystem_cmd E evs server_uuid devices nqn ip_addresses asynchronous tr_type ''construct_nvmf_subsystem'' core_id"

section \<open>Deleting a subsystem\<close>

definition removed_message :: "wevent \<Rightarrow> string" where
  "removed_message e =
     (case e of PutEvent v \<Rightarrow> if v = ''failed'' then ''Failed to remove device'' else []
      | DeleteEvent \<Rightarrow> ''Successfully removed device'')"

definition request_removal ::
  "('db, 'x) lock_etcd_scheme \<Rightarrow> (nat \<Rightarrow> wevent option) \<Rightarrow> string \<Rightarrow> string \<Rightarrow> bool \<Rightarrow> (('db, 'r) bworld_scheme, string) py" where
  "request_removal E evs server_uuid nqn asynchronous =
     bindP (write_spdk_command E server_uuid nqn
         (JObj [(''Command'', JStr ''delete_nvmf_subsystem''), (''cmd_status'', JStr ''pending'')])) (\<lambda>watch.
     thenP (release_lock E)
     (case watch of None \<Rightarrow> raiseP (SystemExit ''Failed to write requested command'')
      | Some watch_id \<Rightarrow>
          if asynchronous then thenP (on_client (e_cancel E (Some watch_id))) (retP ''Remove subsystem command written'')
          else bindP (event_response E evs watch_id) (\<lambda>(event, msg).
            case event of None \<Rightarrow> raiseP (SystemExit msg) | Some e \<Rightarrow> retP (removed_message e))))"

definition cancel_pending :: "('db, 'x) lock_etcd_scheme \<Rightarrow> string \<Rightarrow> string \<Rightarrow> (('db, 'r) bworld_scheme, string) py" where
  "cancel_pending E server_uuid nqn =
     bindP (bindP lock_of (\<lambda>n. on_client (b_held E n))) (\<lambda>held.
     if held then thenP (on_client (e_delete_prefix E (subsystem_prefix server_uuid nqn)))
       (thenP (release_lock E) (retP ''Successfully removed device''))
     else raiseP (SystemExit ''Requires server prefix to be locked to delete NQN config''))"

definition delete_subsystem ::
  "('db, 'x) lock_etcd_scheme \<Rightarrow> (nat \<Rightarrow> wevent option) \<Rightarrow> string \<Rightarrow> string \<Rightarrow> bool \<Rightarrow> (('db, 'r) bworld_scheme, string) py" where
  "delete_subsystem E evs server_uuid nqn asynchronous =
     thenP (acquire_lock E)
     (bindP (get_json_prefix E (ETCD_SRV_BASE @ server_uuid)) (\<lambda>docs.
      bindP (liftP (first_value docs)) (\<lambda>server.
      if server = JObj [] then thenP (release_lock E) (raiseP (SystemExit ''Failed to retrieve JSON data from server''))
      else bindP (liftP (subsystems_of server)) (\<lambda>subs.
        bindP (liftP (py_in nqn subs)) (\<lambda>known.
        if \<not> known then retP (''Unknown NQN'' @ nqn)
        else bindP (liftP (py_path subs [nqn, ''Command''])) (\<lambda>cmd.
          bindP (liftP (py_path subs [nqn, ''cmd_status''])) (\<lambda>st.
          if cmd = JStr ''construct_nvmf_subsystem'' then
            (if st = JStr ''pending'' \<or> st = JStr ''processing'' then cancel_pending E server_uuid nqn
             else request_removal E evs server_uuid nqn asynchronous)
          else if cmd = JStr ''delete_nvmf_subsystem'' then thenP (release_lock E) (retP ''Already pending removal by server'')
          else raiseP (SystemExit ''Unknown command''))))))))"

section \<open>Subsystems of a file, address of the statistics\<close>

definition text_list :: "json \<Rightarrow> exn + string list" where
  "text_list j = bindE (py_iter j) (mapE as_str)"

definition add_from_section where
  "add_from_section E evs server_uuid asynchronous tr_type core_id v =
     bindP (liftP (bindE (dict_get v ''Devices'') text_list)) (\<lambda>devices.
     bindP (liftP (bindE (dict_get v ''NQN'') as_str)) (\<lambda>nqn.
     bindP (liftP (bindE (dict_get v (map py_upper_char tr_type)) text_list)) (\<lambda>ips.
     bindP (liftP (exit_if (exceeded_maximum_listen_addresses ips) ''Maximum of 255 listen addresses allowed'')) (\<lambda>_.
     bindP (liftP (exit_if (exceeded_maximum_namespaces devices) ''Maximum of 255 namespaces allowed'')) (\<lambda>_.
     create_subsystem_cmd E evs server_uuid devices nqn ips asynchronous tr_type STORE_SUBSYS_CMD core_id)))))"

definition add_subsystem_from_file where
  "add_subsystem_from_file E evs server_uuid secs asynchronous tr_type core_id =
     forP secs (\<lambda>(_, v). thenP (add_from_section E evs server_uuid asynchronous tr_type core_id v) (retP ()))"

definition set_carbon_address ::
  "('db, 'x) lock_etcd_scheme \<Rightarrow> (string \<Rightarrow> bool) \<Rightarrow> string \<Rightarrow> string \<Rightarrow> (('db, 'r) eworld_scheme, unit) py" where
  "set_carbon_address E valid_ip server_uuid ip_address =
     (case py_split (CHR '':'') ip_address of
        [ip, port] \<Rightarrow> bindP (if valid_ip ip then liftP (valid_port port) else retP False) (\<lambda>ok.
          whenP ok (thenP (write_dict_to_etcd E (JObj [(''carbon'', JObj [(''address'', JStr (ip @ '':'' @ port))])])
            (ETCD_SRV_BASE @ server_uuid @ ''/server_attributes/'')) (retP ())))
      | _ \<Rightarrow> raiseP ValueError)"

section \<open>What the commands rely on of etcd\<close>

text \<open>
  \<open>kv\<close> are the keys other than those of the locks.  A transaction that reports success has written
  all its keys.
\<close>

locale lock_frame = agent_frame E kv
  for E :: "('db, 'x) lock_etcd_scheme" and kv :: "'db \<Rightarrow> string \<rightharpoonup> string" +
  assumes transaction_done: "e_transaction E ops d = (Inr True, d') \<Longrightarrow> kv d' = puts ops (kv d)"
    and lock_kv: "kv (snd (b_acquire E n d)) = kv d" "kv (snd (b_release E n d)) = kv d" "kv (snd (b_held E n d)) = kv d"
      "kv (snd (b_refresh E n d)) = kv d"
    and cancel_kv: "kv (snd (e_cancel E i d)) = kv d"

definition same_but ::
  "('db \<Rightarrow> string \<rightharpoonup> string) \<Rightarrow> (string \<Rightarrow> bool) \<Rightarrow> ('db, 'r) eworld_scheme \<Rightarrow> ('db, 'r) eworld_scheme \<Rightarrow> bool" where
  "same_but kv P w w' \<longleftrightarrow> (\<forall>k. \<not> P k \<longrightarrow> kv (ew_db w') k = kv (ew_db w) k)"

interpretation sb: py_rel "same_but kv P" for kv P
  by unfold_locales (auto simp: same_but_def)

lemma but_on_client: "(\<And>d k. \<not> P k \<Longrightarrow> kv (snd (m d)) k = kv d k) \<Longrightarrow> keeps (same_but kv P) (on_client m)"
  by (auto simp: keeps_def on_client_def same_but_def split: prod.splits) (metis snd_conv)

lemma but_lock_of: "keeps (same_but kv P) lock_of"
  unfolding lock_of_def by (intro sb.keeps_rules)

lemma puts_other: "(\<And>op. op \<in> set ops \<Longrightarrow> fst op \<noteq> k) \<Longrightarrow> puts ops m k = m k"
proof -
  assume "\<And>op. op \<in> set ops \<Longrightarrow> fst op \<noteq> k"
  then have "map_of (rev (map (\<lambda>(k, v, l). (k, v)) ops)) k = None" by (force simp: map_of_eq_None_iff)
  then show ?thesis by (simp add: puts_def map_add_def)
qed

lemma flat_puts_prefix: "op \<in> set (flat_puts p d) \<Longrightarrow> prefix p (fst op)"
  by (auto simp: flat_puts_def)

context lock_frame
begin

lemma but_transaction:
  assumes "\<And>k. prefix p k \<Longrightarrow> P k"
  shows "keeps (same_but kv P) (on_client (e_transaction E (flat_puts p j)))"
proof (rule but_on_client)
  fix d k assume k: "\<not> P k"
  obtain r d' where t: "e_transaction E (flat_puts p j) d = (r, d')" by (cases "e_transaction E (flat_puts p j) d")
  show "kv (snd (e_transaction E (flat_puts p j) d)) k = kv d k"
  proof (cases "r = Inr True")
    case True
    with t transaction_done have "kv d' = puts (flat_puts p j) (kv d)" by blast
    moreover have "fst op \<noteq> k" if "op \<in> set (flat_puts p j)" for op
      using flat_puts_prefix [OF that] assms k by blast
    ultimately show ?thesis using t by (simp add: puts_other)
  next
    case False
    then show ?thesis using transaction_fails [OF t] t by simp
  qed
qed

lemma but_calls:
  "keeps (same_but kv P) (on_client (b_acquire E n))" "keeps (same_but kv P) (on_client (b_release E n))"
  "keeps (same_but kv P) (on_client (b_held E n))" "keeps (same_but kv P) (on_client (b_refresh E n))" "keeps (same_but kv P) (on_client (e_cancel E i))"
  "keeps (same_but kv P) (on_client (e_watch E k))" "keeps (same_but kv P) (on_client (e_get_prefix E p kw))"
  by (intro but_on_client; simp add: lock_kv cancel_kv watch_kv reads_kv)+

lemma but_delete: "(\<And>k. prefix p k \<Longrightarrow> P k) \<Longrightarrow> keeps (same_but kv P) (on_client (e_delete_prefix E p))"
  using delete_prefix_other by (intro but_on_client) (auto simp: etcd3.truncate_def)

lemma but_locks: "keeps (same_but kv P) (acquire_lock E)" "keeps (same_but kv P) (release_lock E)"
  unfolding acquire_lock_def release_lock_def by (intro sb.keeps_rules but_lock_of but_calls)+

lemma but_docs: "keeps (same_but kv P) (get_json_prefix E p)"
  unfolding get_json_prefix_def split_def by (intro sb.keeps_rules but_calls)

lemma but_response: "keeps (same_but kv P) (event_response E evs i)"
proof -
  have "keeps (same_but kv P) (response_loop E evs i is e s)" for "is" e s
    by (induction "is" arbitrary: e s) (auto intro!: sb.keeps_rules but_calls split: option.splits)
  then show ?thesis unfolding event_response_def .
qed

lemma but_command: "keeps (same_but kv (prefix (subsystem_prefix u n))) (write_spdk_command E u n j)"
  unfolding write_spdk_command_def Let_def
  by (intro sb.keeps_rules but_lock_of but_calls but_transaction) (auto elim: append_prefixD)

lemmas but_rules = sb.keeps_rules but_lock_of but_calls but_locks but_docs but_response but_command

lemma but_create:
  "keeps (same_but kv (prefix (subsystem_prefix u n))) (create_subsystem_cmd E evs u devs n ips asy tr cmd core)"
  unfolding create_subsystem_cmd_def split_def by (intro but_rules)

lemma but_remove: "keeps (same_but kv (prefix (subsystem_prefix u n))) (delete_subsystem E evs u n asy)"
  unfolding delete_subsystem_def request_removal_def cancel_pending_def split_def by (intro but_rules but_delete)

text \<open>Nothing is written unless the lock of the target is held.\<close>

lemma command_needs_lock:
  assumes "ew_client w" and "bw_lock w = Some l" and "fst (b_held E l (ew_db w)) = Inr False"
  shows "\<exists>w'. write_spdk_command E u n j w = (Inl (GenericException ''Write Command requires lock''), w') \<and> kv (ew_db w') = kv (ew_db w)"
  using assms lock_kv(3) [of l "ew_db w"]
  by (cases "b_held E l (ew_db w)")
    (auto simp: write_spdk_command_def bindP_def lock_of_def readP_def retP_def on_client_def raiseP_def)

end

section \<open>Documents are read back\<close>

text \<open>
  A document of dictionaries and values, whose keys are distinct and have no slash; a list has one
  element, which is a dictionary.
\<close>

fun wf_pairs :: "(string \<times> json) list \<Rightarrow> bool" where
  "wf_pairs [] = True"
| "wf_pairs ((k, v) # d) \<longleftrightarrow> k \<notin> fst ` set d \<and> CHR ''/'' \<notin> set k \<and>
     (case v of JObj e \<Rightarrow> wf_pairs e | JList [JObj e] \<Rightarrow> wf_pairs e | JList _ \<Rightarrow> False | _ \<Rightarrow> True) \<and> wf_pairs d"

lemma wf_list: "wf_pairs ((k, JList xs) # d) \<Longrightarrow> \<exists>e. xs = [JObj e] \<and> wf_pairs e"
  by (cases xs; cases "hd xs"; cases "tl xs") auto

definition paths_free :: "string list list \<Rightarrow> bool" where
  "paths_free ps \<longleftrightarrow> distinct ps \<and> (\<forall>p \<in> set ps. \<forall>q \<in> set ps. prefix p q \<longrightarrow> p = q)"

lemma paths_free_append:
  assumes "paths_free ps" and "paths_free qs" and "\<And>p q. p \<in> set ps \<Longrightarrow> q \<in> set qs \<Longrightarrow> \<not> prefix p q \<and> \<not> prefix q p"
  shows "paths_free (ps @ qs)"
  using assms by (fastforce simp: paths_free_def)

text \<open>All paths of a dictionary go through one of its keys, and have no slash in them.\<close>

lemma flat_pairs_below:
  "wf_pairs d \<Longrightarrow> p \<in> fst ` set (flat_pairs pre d) \<Longrightarrow> \<exists>k ks. p = pre @ k # ks \<and> k \<in> fst ` set d \<and> (\<forall>x \<in> set (k # ks). CHR ''/'' \<notin> set x)"
proof (induction d arbitrary: pre p rule: wf_pairs.induct)
  case (2 k v d)
  show ?case
  proof (cases "p \<in> fst ` set (flat_pairs pre d)")
    case True
    then show ?thesis using "2.IH"(3) [of p pre] "2.prems" by (auto simp del: flat_pairs.simps)
  next
    case False
    show ?thesis
    proof (cases v)
      case (JObj e)
      then have "p \<in> fst ` set (flat_pairs (pre @ [k]) e)" using False "2.prems"(2) by auto
      with "2.IH"(2) [OF JObj, of p "pre @ [k]"] "2.prems"(1) JObj show ?thesis by auto
    next
      case (JList xs)
      then obtain e where e: "xs = [JObj e]" "wf_pairs e" using "2.prems"(1) wf_list by blast
      then have "p \<in> fst ` set (flat_pairs (pre @ [k]) e)" using False "2.prems"(2) JList by auto
      with "2.IH"(1) [OF JList e(1) refl refl, of p "pre @ [k]"] e(2) show ?thesis using "2.prems"(1) by auto
    qed (use False "2.prems" in auto)
  qed
qed simp

lemma flat_pairs_free: "wf_pairs d \<Longrightarrow> paths_free (map fst (flat_pairs pre d))"
proof (induction d arbitrary: pre rule: wf_pairs.induct)
  case (2 k v d)
  define h where "h = (case v of JObj e \<Rightarrow> flat_pairs (pre @ [k]) e | JList xs \<Rightarrow> flat_items (pre @ [k]) xs | _ \<Rightarrow> [(pre @ [k], v)])"
  have h: "paths_free (map fst h)" "\<And>p. p \<in> fst ` set h \<Longrightarrow> prefix (pre @ [k]) p"
  proof -
    show "paths_free (map fst h)"
    proof (cases v)
      case (JList xs)
      then obtain e where e: "xs = [JObj e]" "wf_pairs e" using "2.prems" wf_list by blast
      from "2.IH"(1) [OF JList e(1) refl refl e(2), of "pre @ [k]"] JList e(1) show ?thesis by (simp add: h_def)
    next
      case (JObj e)
      with "2.IH"(2) [OF JObj, of "pre @ [k]"] "2.prems" show ?thesis by (simp add: h_def)
    qed (auto simp: h_def paths_free_def)
    show "prefix (pre @ [k]) p" if "p \<in> fst ` set h" for p
    proof (cases v)
      case (JObj e)
      with that "2.prems" flat_pairs_below [of e p "pre @ [k]"] show ?thesis by (auto simp: h_def)
    next
      case (JList xs)
      then obtain e where "xs = [JObj e]" "wf_pairs e" using "2.prems" wf_list by blast
      with that JList flat_pairs_below [of e p "pre @ [k]"] show ?thesis by (auto simp: h_def)
    qed (use that "2.prems" in \<open>auto simp: h_def\<close>)
  qed
  have "\<not> prefix p q \<and> \<not> prefix q p" if p: "p \<in> fst ` set h" and q: "q \<in> fst ` set (flat_pairs pre d)" for p q
  proof -
    from h(2) [OF p] obtain ps where "p = pre @ k # ps" by (auto simp: prefix_def)
    moreover obtain k' ks where "q = pre @ k' # ks" "k' \<in> fst ` set d"
      using flat_pairs_below [OF _ q] "2.prems" by auto
    moreover have "k \<notin> fst ` set d" using "2.prems" by simp
    ultimately show ?thesis by auto
  qed
  then have "paths_free (map fst h @ map fst (flat_pairs pre d))"
    using h(1) "2.IH"(3) [of pre] "2.prems" by (intro paths_free_append) auto
  then show ?case by (simp add: h_def)
qed (simp add: paths_free_def)

lemma py_replace_front:
  assumes "old \<noteq> []" and "\<not> py_in_str old s"
  shows "py_replace old [] (old @ s) = s"
proof -
  have "py_replace old [] t = t" if "\<not> py_in_str old t" for t
    using that by (induction t) (auto simp: assms(1))
  moreover obtain c t where "old = c # t" using assms(1) by (cases old) auto
  ultimately show ?thesis using assms by simp
qed

lemma docs_of_convert:
  "convert_flat (map (\<lambda>(k, v). (CHR ''/'' # py_replace p [] k, v)) items) j = Inr j' \<Longrightarrow>
   foldE (\<lambda>(k, v). put_path (sub_path p k) (JStr v)) items j = Inr j'"
  by (induction items arbitrary: j) (auto simp: bindE_Inr_iff put_path_def sub_path_def)

text \<open>What \<^verbatim>\<open>get_json_prefix\<close> builds from the keys of a document is that document, with texts as values.\<close>

lemma docs_of_flat:
  assumes "wf_pairs d" and "p \<noteq> []" and "distinct (map fst items)"
    and items: "set items = (\<lambda>(path, v). (p @ py_join ''/'' path, py_str v)) ` set (flat_pairs [] d)"
    and plain: "\<And>path. path \<in> fst ` set (flat_pairs [] d) \<Longrightarrow> \<not> py_in_str p (py_join ''/'' path)"
  shows "\<exists>j. docs_of p items = Inr j \<and> (\<forall>(path, v) \<in> set (flat_pairs [] d). json_get path j = Some (JStr (py_str v)))"
proof -
  let ?P = "fst ` set (flat_pairs [] d)" and ?k = "\<lambda>path. CHR ''/'' # py_join ''/'' path"
  have ne: "path \<noteq> []" "\<And>x. x \<in> set path \<Longrightarrow> CHR ''/'' \<notin> set x" if "path \<in> ?P" for path
    using flat_pairs_below [OF assms(1) that] by auto
  have kp: "key_path (?k path) = path" if "path \<in> ?P" for path
    using py_split_join [of path "CHR ''/''"] ne [OF that] by (simp add: key_path_def)
  define its where "its = map (\<lambda>(k, v). (CHR ''/'' # py_replace p [] k, v)) items"
  have rep: "py_replace p [] (p @ py_join ''/'' path) = py_join ''/'' path" if "path \<in> ?P" for path
    by (rule py_replace_front [OF assms(2) plain [OF that]])
  have set_its: "set its = (\<lambda>(path, v). (?k path, py_str v)) ` set (flat_pairs [] d)"
  proof -
    have "set its = (\<lambda>(k, v). (CHR ''/'' # py_replace p [] k, v)) ` (\<lambda>(path, v). (p @ py_join ''/'' path, py_str v)) ` set (flat_pairs [] d)"
      unfolding its_def set_map items ..
    also have "\<dots> = (\<lambda>(path, v). (?k path, py_str v)) ` set (flat_pairs [] d)"
      unfolding image_image by (rule image_cong) (use rep in \<open>force\<close>)+
    finally show ?thesis .
  qed
  then have keys: "set (map fst its) = ?k ` ?P" unfolding set_map by (simp only: image_image split_def fst_conv)
  have free: "paths_free (map fst (flat_pairs [] d))" by (rule flat_pairs_free [OF assms(1)])
  have "distinct (map fst its)"
  proof -
    have "inj_on (\<lambda>k. CHR ''/'' # py_replace p [] k) (fst ` set items)"
      unfolding items image_image split_def fst_conv
      by (rule inj_onI, elim imageE) (simp add: rep image_eqI)
    then show ?thesis using assms(3) by (simp add: its_def comp_def split_def distinct_map inj_on_def)
  qed
  moreover have "\<forall>k \<in> ?k ` ?P. key_path k \<noteq> []"
    by (intro ballI, erule imageE) (simp only: kp ne(1) not_False_eq_True)
  moreover have "\<not> prefix (key_path k) (key_path k')" if k: "k \<in> ?k ` ?P" "k' \<in> ?k ` ?P" "k \<noteq> k'" for k k'
  proof -
    from k(1,2) obtain q q' where q: "k = ?k q" "k' = ?k q'" "q \<in> ?P" "q' \<in> ?P" by blast
    have "q = q'" if "prefix q q'" using free q(3,4) that unfolding paths_free_def set_map by blast
    then have "\<not> prefix q q'" using q(1,2) k(3) by blast
    then show ?thesis unfolding q(1,2) kp [OF q(3)] kp [OF q(4)] .
  qed
  ultimately have "prefix_free (map fst its)" unfolding prefix_free_def keys by blast
  moreover have "open_at (key_path k) (JObj [])" if "k \<in> set (map fst its)" for k
    using that unfolding keys by (rule imageE) (simp only: kp ne(1) open_at_empty not_False_eq_True)
  ultimately obtain j where j: "convert_flat its (JObj []) = Inr j" "\<forall>(k, v) \<in> set its. json_get (key_path k) j = Some (JStr v)"
    using convert_flat_all [of its "JObj []"] by blast
  from docs_of_convert [OF j(1) [unfolded its_def]] have "docs_of p items = Inr j" by (simp add: docs_of_def)
  moreover have "json_get path j = Some (JStr (py_str v))" if "(path, v) \<in> set (flat_pairs [] d)" for path v
  proof -
    have "(?k path, py_str v) \<in> set its" using that by (force simp: set_its)
    then show ?thesis using j(2) kp [of path] that by (force simp: image_iff)
  qed
  ultimately show ?thesis by blast
qed

lemma flat_keys_distinct:
  assumes "wf_pairs d"
  shows "distinct (map fst (map (\<lambda>(path, v). (p @ py_join ''/'' path, py_str v)) (flat_pairs [] d)))"
proof -
  have "inj_on (\<lambda>path. p @ py_join ''/'' path) (fst ` set (flat_pairs [] d))"
  proof (rule inj_onI)
    fix x y assume x: "x \<in> fst ` set (flat_pairs [] d)" "y \<in> fst ` set (flat_pairs [] d)" "p @ py_join ''/'' x = p @ py_join ''/'' y"
    have "py_split (CHR ''/'') (py_join ''/'' z) = z" if "z \<in> fst ` set (flat_pairs [] d)" for z
      using flat_pairs_below [OF assms that] by (intro py_split_join) auto
    with x show "x = y" by (metis same_append_eq)
  qed
  moreover have "distinct (map fst (flat_pairs [] d))" using flat_pairs_free [OF assms] by (simp add: paths_free_def)
  ultimately have "distinct (map (\<lambda>path. p @ py_join ''/'' path) (map fst (flat_pairs [] d)))" by (simp only: distinct_map set_map)
  then show ?thesis by (simp add: comp_def split_def)
qed

lemma puts_flat:
  assumes "wf_pairs d"
  shows "puts (flat_puts p (JObj d)) m = m ++ map_of (map (\<lambda>(path, v). (p @ py_join ''/'' path, py_str v)) (flat_pairs [] d))"
proof -
  let ?kvs = "map (\<lambda>(path, v). (p @ py_join ''/'' path, py_str v)) (flat_pairs [] d)"
  have "map_of (rev ?kvs) = map_of ?kvs"
    using flat_keys_distinct [OF assms, of p] by (intro map_of_inject_set [THEN iffD2]) (simp_all add: rev_map [symmetric])
  moreover have "map (\<lambda>(k, v, l). (k, v)) (flat_puts p (JObj d)) = ?kvs" by (simp add: flat_puts_def comp_def split_def)
  ultimately show ?thesis by (simp only: puts_def)
qed

text \<open>The keys below a directory that was empty before a document was written there.\<close>

lemma items_of_flat:
  assumes "wf_pairs d" and "\<And>k. prefix q k \<Longrightarrow> m k = None" and "prefix q p" and "distinct (map fst items)"
    and "map_of items = puts (flat_puts p (JObj d)) m |` {k. prefix q k}"
  shows "set items = (\<lambda>(path, v). (p @ py_join ''/'' path, py_str v)) ` set (flat_pairs [] d)"
proof -
  let ?kvs = "map (\<lambda>(path, v). (p @ py_join ''/'' path, py_str v)) (flat_pairs [] d)"
  have "map_of items = map_of ?kvs"
  proof
    fix k
    have "prefix q k" if "map_of ?kvs k = Some v" for v using map_of_SomeD [OF that] assms(3) by auto
    then show "map_of items k = map_of ?kvs k"
      using assms(2) [of k] unfolding assms(5) puts_flat [OF assms(1)]
      by (auto simp: restrict_map_def map_add_def split: option.splits)
  qed
  then have "set items = set ?kvs" using map_of_inject_set [OF assms(4) flat_keys_distinct [OF assms(1), of p]] by blast
  then show ?thesis by simp
qed

locale lock_store = lock_frame E kv + agent_store E kv up
  for E :: "('db, 'x) lock_etcd_scheme" and kv :: "'db \<Rightarrow> string \<rightharpoonup> string" and up :: "'db \<Rightarrow> bool"
begin

lemma write_then_read:
  assumes "ew_client w" and "up (ew_db w)" and "wf_pairs d" and "p \<noteq> []" and "\<And>k. prefix p k \<Longrightarrow> kv (ew_db w) k = None"
    and "\<And>path. path \<in> fst ` set (flat_pairs [] d) \<Longrightarrow> \<not> py_in_str p (py_join ''/'' path)"
  shows "\<exists>j w1 w2. write_dict_to_etcd E (JObj d) p w = (Inr True, w1) \<and> get_json_prefix E p w1 = (Inr j, w2) \<and>
    (\<forall>(path, v) \<in> set (flat_pairs [] d). json_get path j = Some (JStr (py_str v)))"
proof -
  obtain d1 where d1: "e_transaction E (flat_puts p (JObj d)) (ew_db w) = (Inr True, d1)" "up d1" "kv d1 = puts (flat_puts p (JObj d)) (kv (ew_db w))"
    using up_transaction [OF assms(2)] by blast
  obtain items d2 where d2: "e_get_prefix E p [] d1 = (Inr (items, None), d2)" "distinct (map fst items)"
      "map_of items = kv d1 |` {k. prefix p k}"
    using agent_reads(2) [OF d1(2)] by blast
  have "set items = (\<lambda>(path, v). (p @ py_join ''/'' path, py_str v)) ` set (flat_pairs [] d)"
    using d2(3) d1(3) by (intro items_of_flat [OF assms(3,5) _ d2(2)]) auto
  from docs_of_flat [OF assms(3,4) d2(2) this assms(6)] d1(1) d2(1) assms(1) show ?thesis
    by (auto simp: write_dict_to_etcd_def get_json_prefix_def on_client_def bindP_def liftP_def retP_def)
qed

end

section \<open>An executable client\<close>

definition mem_locks :: "string dict lock_etcd" where
  "mem_locks = agent_etcd.extend mem_agent (lock_etcd.fields (\<lambda>n. retP True) (\<lambda>n. retP True) (\<lambda>n. retP True) (\<lambda>n. retP ()))"

lemma mem_locks_store: "lock_store mem_locks map_of mem_up"
proof -
  have "etcd3.truncate mem_locks = etcd3.truncate mem_agent"
    by (simp add: mem_locks_def agent_etcd.extend_def lock_etcd.fields_def etcd3.truncate_def)
  moreover have "agent_store_axioms mem_locks map_of mem_up" "agent_frame_axioms mem_locks map_of"
    using mem_agent_store agent_store.axioms(1) [OF mem_agent_store]
    by (simp_all add: mem_locks_def agent_etcd.extend_def lock_etcd.fields_def agent_store_axioms_def agent_frame_axioms_def
      agent_store_def agent_frame_def)
  ultimately have store: "agent_store mem_locks map_of mem_up"
    using mem_agent_store by (simp add: agent_store_def agent_frame_def)
  moreover have "lock_frame_axioms mem_locks map_of"
    by unfold_locales (auto simp: mem_locks_def agent_etcd.extend_def lock_etcd.fields_def mem_agent_def etcd3.extend_def
      agent_etcd.fields_def bindP_def modifyP_def retP_def mem_puts)
  ultimately show ?thesis by (simp add: lock_store_def lock_frame_def agent_store_def)
qed

interpretation mem_lk: lock_store mem_locks map_of mem_up
  by (rule mem_locks_store)

section \<open>Checks of a command\<close>

text \<open>A domain with a dot or a hyphen, such as every real one, is refused.\<close>

lemma domain_of:
  assumes "nqn_start s" and "newline \<notin> set s" and "drop 12 s = l @ CHR '':'' # t" and "t \<noteq> []" and "l \<noteq> []" and "CHR '':'' \<notin> set (tl l)"
  shows "domain_label s = Some l"
proof -
  have c: "chomp s = s" using assms(2) by (auto simp: chomp_def) (metis last_in_set)
  let ?t = "l @ CHR '':'' # t" and ?f = "\<lambda>i. (l @ CHR '':'' # t) ! i = CHR '':''"
  have len: "1 \<le> length l" "length l < length ?t - 1" using assms(4,5) by (auto simp: Suc_le_eq)
  have "\<not> ?f i" if "i \<in> set [1..<length l]" for i
  proof -
    have "i - 1 < length (tl l)" "?t ! i = tl l ! (i - 1)" using that by (auto simp: nth_append nth_tl)
    then show ?thesis using assms(6) by (metis nth_mem)
  qed
  then have "filter ?f [1..<length l] = []" by (simp add: filter_empty_conv)
  moreover have "[1..<length ?t - 1] = [1..<length l] @ length l # [Suc (length l)..<length ?t - 1]"
    using len upt_add_eq_append [of 1 "length l" "length ?t - 1 - length l"] by (simp add: upt_conv_Cons)
  ultimately have "filter ?f [1..<length ?t - 1] = length l # filter ?f [Suc (length l)..<length ?t - 1]" by simp
  then show ?thesis using assms(1,2,3) c by (simp add: domain_label_def Let_def)
qed

lemma is_alnum_no: "\<not> is_alnum CHR ''.''" "\<not> is_alnum CHR ''-''"
  by (simp_all add: is_alnum_def is_alpha_def is_digit_def)

text \<open>
  The namespaces of a subsystem that a command wrote are numbered from one: a serial number is not
  among their keys unless it is such a number.
\<close>

lemma namespace_keys: "dict_has k (namespace_entries ns) \<longleftrightarrow> k \<in> nat_str ` {1..length ns}"
proof -
  have "map fst (namespace_entries ns) = map (\<lambda>i. nat_str (i + 1)) [0..<length ns]"
    by (rule nth_equalityI) (auto simp: namespace_entries_def split_def Let_def)
  then have "fst ` set (namespace_entries ns) = (\<lambda>i. nat_str (i + 1)) ` {0..<length ns}" by (metis set_map set_upt)
  also have "\<dots> = nat_str ` {1..length ns}" by (auto simp: image_iff Bex_def intro: exI [of _ "_ - 1 :: nat"]) (metis Suc_pred' atLeastAtMost_iff
      atLeastLessThan_iff gr0I le0 less_eq_Suc_le not_less_eq_eq One_nat_def)
  finally show ?thesis by (simp add: dict_has_iff)
qed

lemma used_device_passes:
  assumes "\<And>s j. (s, j) \<in> set subs \<Longrightarrow> \<exists>d. py_key j ''namespaces'' = Inr (JObj d) \<and> fst ` set d \<subseteq> range nat_str"
    and "\<And>sn pci. (sn, pci) \<in> set nss \<Longrightarrow> py_str sn \<notin> range nat_str" and "nqn \<notin> fst ` set subs"
  shows "check_used cmd (JObj subs) nqn nss = Inr ()"
proof -
  have one: "foldE (\<lambda>(sn, _) _. bindE (bindE (py_key j ''namespaces'') (py_in (py_str sn))) (\<lambda>b.
      exit_if b (''Device S/N ('' @ py_str sn @ '') is already in-use''))) nss () = Inr ()" if sj: "(s, j) \<in> set subs" for s j
  proof -
    obtain d where d: "py_key j ''namespaces'' = Inr (JObj d)" "fst ` set d \<subseteq> range nat_str" using assms(1) [OF sj] by blast
    have "\<not> dict_has (py_str sn) d" if "(sn, pci) \<in> set nss" for sn pci
      using assms(2) [OF that] d(2) by (auto simp: dict_has_iff)
    then show ?thesis by (intro foldE_unit) (auto simp: d(1) exit_if_def)
  qed
  have "foldE (\<lambda>(_, obj) _. foldE (\<lambda>(sn, _) _. bindE (bindE (py_key obj ''namespaces'') (py_in (py_str sn))) (\<lambda>b.
      exit_if b (''Device S/N ('' @ py_str sn @ '') is already in-use''))) nss ()) subs () = Inr ()"
    by (rule foldE_unit) (auto simp: one simp del: append.simps)
  then show ?thesis using assms(3) by (simp add: check_used_def exit_if_def dict_has_iff)
qed

section \<open>Properties\<close>

text \<open>
  C22.  Whatever the outcome of a command, exceptions included, creating or deleting a subsystem changes no
  key outside the directory of that subsystem and the names that begin like it.
\<close>

theorem kv_commands_touch_subsystem:
  assumes "lock_frame E kv" and "\<not> prefix (subsystem_prefix u n) k"
  shows "kv (ew_db (snd (create_subsystem_cmd E evs u devs n ips asy tr cmd core w))) k = kv (ew_db w) k \<and>
    kv (ew_db (snd (delete_subsystem E evs u n asy w))) k = kv (ew_db w) k"
  using assms(2) keepsD [OF lock_frame.but_create [OF assms(1)]] keepsD [OF lock_frame.but_remove [OF assms(1)]]
  by (metis same_but_def prod.collapse)

definition demo_target :: "string dict" where
  "demo_target = map (\<lambda>(k, v). (ETCD_SRV_BASE @ ''u/server_attributes/'' @ k, v))
     [(''storage/nvme/devices/S1/Serial'', ''S1''), (''storage/nvme/devices/S1/PCIAddress'', ''0000:01:00.0''),
      (''network/interfaces/m/IPv4'', ''10.0.0.1''), (''network/interfaces/m/MACAddress'', ''aa:bb'')]"

definition demo_backend :: "string dict \<Rightarrow> string dict bworld" where
  "demo_backend d = \<lparr>ew_db = d, ew_client = True, ew_cache_data = False, ew_cache = None, ew_watch_id = None, bw_lock = Some ''u''\<rparr>"

definition demo_create :: "(string dict bworld, string) py" where
  "demo_create = create_subsystem_cmd mem_locks (\<lambda>i. if i = 0 then Some (PutEvent ''success'') else None) ''u'' [''S1'']
     ''nqn.2019-06.io:a'' [''10.0.0.1:1024''] False ''TCP'' ''construct_nvmf_subsystem'' None"

theorem kv_commands_touch_subsystem_witness:
  "fst (demo_create (demo_backend demo_target)) = Inr ''Successfully configured device'' \<and>
   (let d = ew_db (snd (demo_create (demo_backend demo_target))) in
     map_of d (subsystem_prefix ''u'' ''nqn.2019-06.io:a'' @ ''/cmd_status'') = Some ''pending'' \<and>
     map_of d (subsystem_prefix ''u'' ''nqn.2019-06.io:b'') = map_of demo_target (subsystem_prefix ''u'' ''nqn.2019-06.io:b''))"
proof -
  have a: "fst (demo_create (demo_backend demo_target)) = Inr ''Successfully configured device''"
    "map_of (ew_db (snd (demo_create (demo_backend demo_target)))) (subsystem_prefix ''u'' ''nqn.2019-06.io:a'' @ ''/cmd_status'') = Some ''pending''"
    by code_simp+
  have "\<not> prefix (subsystem_prefix ''u'' ''nqn.2019-06.io:a'') (subsystem_prefix ''u'' ''nqn.2019-06.io:b'')" by code_simp
  from conjunct1 [OF kv_commands_touch_subsystem [OF mem_lk.lock_frame_axioms this]]
  have "map_of (ew_db (snd (demo_create (demo_backend demo_target)))) (subsystem_prefix ''u'' ''nqn.2019-06.io:b'') =
      map_of (ew_db (demo_backend demo_target)) (subsystem_prefix ''u'' ''nqn.2019-06.io:b'')"
    unfolding demo_create_def .
  with a show ?thesis by (simp add: demo_backend_def Let_def)
qed



text \<open>
  A name whose domain has a dot or a hyphen is refused, although the message of the check allows
  hyphens: no subsystem can be created under a real reverse domain.
\<close>

theorem dotted_domain_refused:
  assumes "nqn_start s" and "newline \<notin> set s" and "drop 12 s = l @ CHR '':'' # t" and "t \<noteq> []" and "l \<noteq> []" and "CHR '':'' \<notin> set l"
    and "CHR ''.'' \<in> set l \<or> CHR ''-'' \<in> set l"
  shows "\<exists>msg. check_nqn s = Some msg \<and> (\<forall>server devices ips tr core. \<exists>e. config_args server devices s ips tr cmd core = Inl e)"
proof -
  have "CHR '':'' \<notin> set (tl l)" using assms(6) by (meson list.set_sel(2) assms(5))
  from domain_of [OF assms(1-5) this] obtain msg where m: "check_nqn s = Some msg"
    using assms(7) is_alnum_no by (cases "check_nqn s") (auto simp: check_nqn_def list_all_iff split: if_splits)
  have "config_args server devices s ips tr cmd core \<noteq> Inr a" for server devices ips tr core a
    by (simp add: config_args_def bindE_Inr_iff m)
  then show ?thesis using m by (meson sum.exhaust)
qed

theorem dotted_domain_refused_witness:
  "\<exists>msg. check_nqn ''nqn.2019-06.com.samsung:a'' = Some msg \<and>
     (\<forall>server devices ips tr core. \<exists>e. config_args server devices ''nqn.2019-06.com.samsung:a'' ips tr ''construct_nvmf_subsystem'' core = Inl e)"
proof -
  have "nqn_start ''nqn.2019-06.com.samsung:a''" "newline \<notin> set ''nqn.2019-06.com.samsung:a''" by code_simp+
  then show ?thesis
    by (rule dotted_domain_refused [where l = "''com.samsung''" and t = "''a''"]) simp_all
qed

text \<open>
  The check for drives in use never finds one in the subsystems the commands write, whose namespaces
  are numbered: a drive of another subsystem is accepted again.
\<close>

theorem used_device_accepted:
  assumes "\<And>s j. (s, j) \<in> set subs \<Longrightarrow> \<exists>ns. py_key j ''namespaces'' = Inr (JObj (namespace_entries ns))"
    and "\<And>sn pci. (sn, pci) \<in> set nss \<Longrightarrow> py_str sn \<notin> range nat_str" and "nqn \<notin> fst ` set subs"
  shows "check_used cmd (JObj subs) nqn nss = Inr ()"
proof (rule used_device_passes)
  fix s j assume "(s, j) \<in> set subs"
  then obtain ns where "py_key j ''namespaces'' = Inr (JObj (namespace_entries ns))" using assms(1) by blast
  moreover have "fst ` set (namespace_entries ns) \<subseteq> range nat_str" using namespace_keys [of _ ns] by (auto simp: dict_has_iff)
  ultimately show "\<exists>d. py_key j ''namespaces'' = Inr (JObj d) \<and> fst ` set d \<subseteq> range nat_str" by blast
qed (use assms in auto)

theorem used_device_accepted_witness:
  "check_used ''construct_nvmf_subsystem'' (JObj [(''nqn.a'', JObj [(''namespaces'', JObj (namespace_entries [(JStr ''S1'', JStr ''p'')]))])])
     ''nqn.b'' [(JStr ''S1'', JStr ''p'')] = Inr ()"
proof (rule used_device_accepted)
  fix sn pci assume "(sn, pci) \<in> set [(JStr ''S1'', JStr ''p'')]"
  moreover have "''S1'' \<noteq> nat_str n" for n 
  proof
    assume "''S1'' = nat_str n"
    then have "CHR ''S'' \<in> set (nat_str n)" by (metis list.set_intros(1))
    from nat_str_digits [OF this] show False by (simp add: is_digit_def)
  qed
  ultimately show "py_str sn \<notin> range nat_str" by auto
qed (auto simp: dict_get_def)

end
