(* ===== verification/AgentStats.thy ===== *)
theory AgentStats
  imports AgentBackend
begin

text \<open>
  The statistics of the NKV agent: the counters that \<^verbatim>\<open>subcommands/daemon/daemon.py\<close> makes of the output of
  \<^verbatim>\<open>ustat\<close> (\<^verbatim>\<open>statistics_helper\<close>, \<^verbatim>\<open>subsystem_statistics_to_message\<close>, the sessions, the loop of
  \<^verbatim>\<open>poll_statistics\<close>), and \<^verbatim>\<open>subcommands/daemon/graphite.py\<close>, class \<^verbatim>\<open>StatsdManager\<close>, which packs the messages
  into datagrams.  The lines of \<^verbatim>\<open>ustat\<close> are the argument of the loop; the sending of a datagram is the
  list of datagrams.

  Lemmas: what is reported of a growing counter adds up to the counter; a counter that wraps around is
  reported wrongly from then on; the datagrams hold all messages in order and respect their size.
\<close>

section \<open>Counters\<close>

definition COUNTER_MAX :: int where "COUNTER_MAX = 0xffffffffffffffff"

text \<open>
  One counter: \<open>prev\<close> holds the last values, \<open>out\<close> what is reported.  A counter that is not cumulative is
  reported as it is.  The first value of a counter is reported whole.
\<close>

definition count_of_type :: "bool \<Rightarrow> int dict \<Rightarrow> string \<Rightarrow> int \<Rightarrow> int \<times> int dict" where
  "count_of_type client prev c v =
     (case map_of prev c of
        None \<Rightarrow> (v, dict_set c v prev)
      | Some p \<Rightarrow> if \<not> client \<and> v < p then (v + (COUNTER_MAX - p), prev) else (v - p, dict_set c v prev))"

definition stat_step :: "bool \<Rightarrow> string list \<Rightarrow> string \<times> json \<Rightarrow> int dict \<times> int dict \<Rightarrow> exn + int dict \<times> int dict" where
  "stat_step client nc = (\<lambda>(c, value) (prev, out).
     bindE (py_int value) (\<lambda>v.
     if c \<in> set nc then Inr (prev, dict_set c v out)
     else (case count_of_type client prev c v of (n, prev') \<Rightarrow>
       Inr (prev', dict_set c ((case map_of out c of None \<Rightarrow> 0 | Some o' \<Rightarrow> o') + n) out))))"

definition statistics_helper ::
  "bool \<Rightarrow> string list \<Rightarrow> (string \<times> json) list \<Rightarrow> int dict \<times> int dict \<Rightarrow> exn + int dict \<times> int dict" where
  "statistics_helper client nc items s = foldE (stat_step client nc) items s"

section \<open>Messages\<close>

record statsenv =
  se_cluster :: string
  se_server :: string
  se_nqn_uuid :: "string dict"
  se_black :: "string \<Rightarrow> bool"

type_synonym 'ts stat_message = "string \<times> 'ts \<times> string"

definition message :: "statsenv \<Rightarrow> 'ts \<Rightarrow> string \<Rightarrow> string \<Rightarrow> 'ts stat_message list" where
  "message S ts path value = (if se_black S path then [] else [(path, ts, value)])"

definition ids :: "statsenv \<Rightarrow> string \<Rightarrow> string" where
  "ids S nqn = '';cluster_id='' @ se_cluster S @ '';target_id='' @ se_server S @ '';nqn_id='' @ nqn"

type_synonym prevs = "int dict dict"

definition prev_of :: "prevs \<Rightarrow> string \<Rightarrow> int dict" where
  "prev_of P k = (case map_of P k of None \<Rightarrow> [] | Some d \<Rightarrow> d)"

text \<open>The counters below one key, with the last values that belong to \<open>owner\<close>.\<close>

definition kvio_messages ::
  "statsenv \<Rightarrow> 'ts \<Rightarrow> string list \<Rightarrow> string \<Rightarrow> string \<Rightarrow> json \<Rightarrow> prevs \<Rightarrow> exn + 'ts stat_message list \<times> prevs" where
  "kvio_messages S ts nc owner suf kvio P =
     bindE (py_items kvio) (\<lambda>items.
     bindE (statistics_helper False nc items (prev_of P owner, [])) (\<lambda>(prev, out).
     Inr (concat (map (\<lambda>(c, n). message S ts (c @ suf) (int_str n)) out), dict_set owner prev P)))"

definition touch :: "string \<Rightarrow> prevs \<Rightarrow> prevs" where
  "touch k P = (if dict_has k P then P else dict_set k [] P)"

definition drive_serial :: "json \<Rightarrow> exn + string" where
  "drive_serial drive = bindE (bindE (py_path drive [''id'', ''c_serial'']) as_str) (\<lambda>s. Inr (take (length s - 2) s))"

definition drive_messages where
  "drive_messages S ts nc nqn drive P =
     (case drive_serial drive of Inl _ \<Rightarrow> Inr ([], P)
      | Inr serial \<Rightarrow> bindE (py_in ''kvio'' drive) (\<lambda>b.
          if b then bindE (py_key drive ''kvio'') (\<lambda>kvio.
            kvio_messages S ts nc serial (ids S nqn @ '';disk_id='' @ serial @ '';type=subsystem'') kvio (touch serial P))
          else Inr ([], touch serial P)))"

definition plain_messages ::
  "statsenv \<Rightarrow> 'ts \<Rightarrow> (string \<Rightarrow> string) \<Rightarrow> (string \<times> json) list \<Rightarrow> 'ts stat_message list" where
  "plain_messages S ts path counters = concat (map (\<lambda>(c, v). message S ts (path c) (py_str v)) counters)"

definition ctrlr_messages where
  "ctrlr_messages S ts nqn ctrlr =
     bindE (py_in ''c_initiator_ip'' ctrlr) (\<lambda>b.
     if \<not> b then Inr []
     else bindE (py_items ctrlr) (\<lambda>cs.
       bindE (dict_get cs ''c_initiator_ip'') (\<lambda>host.
       Inr (plain_messages S ts (\<lambda>c. c @ ids S nqn @ '';host_id='' @ py_str host @ '';type=subsystem'') (dict_del ''c_initiator_ip'' cs)))))"

definition element_messages where
  "element_messages S ts nc nqn uuid = (\<lambda>(el, v) (ms, P).
     bindE (if prefix ''drive'' el then drive_messages S ts nc nqn v P
       else if prefix ''kvio'' el then kvio_messages S ts nc uuid (ids S nqn @ '';type=subsystem'') v (touch uuid P)
       else if prefix ''ctrlr'' el then bindE (ctrlr_messages S ts nqn v) (\<lambda>m. Inr (m, P))
       else bindE (loop_items v) (\<lambda>cs. Inr (plain_messages S ts
         (\<lambda>c. ''subsystem.'' @ el @ ''.'' @ c @ ids S nqn @ '';type=subsystem'') cs, P))) (\<lambda>(m, P').
     Inr (ms @ m, P')))"

definition subsystem_statistics_to_message where
  "subsystem_statistics_to_message S ts nc subsystem s =
     bindE (py_in ''id'' subsystem) (\<lambda>a.
     bindE (if a then bindE (py_key subsystem ''id'') (py_in ''c_nqn'') else Inr False) (\<lambda>b.
     if \<not> b then Inr s
     else bindE (bindE (py_path subsystem [''id'', ''c_nqn'']) as_str) (\<lambda>nqn.
       case map_of (se_nqn_uuid S) nqn of None \<Rightarrow> Inr s
       | Some uuid \<Rightarrow> bindE (loop_items subsystem) (\<lambda>els. foldE (element_messages S ts nc nqn uuid) els s))))"

section \<open>Sessions\<close>

text \<open>\<open>agg\<close>: the sums by address; \<open>prevs\<close>: the last values by address and name; \<open>valid\<close>: what was seen.\<close>

record sessions =
  sn_agg :: prevs
  sn_prev :: "prevs dict"
  sn_valid :: "string list dict"

definition session_ctrl :: "string \<Rightarrow> bool" where
  "session_ctrl k \<longleftrightarrow> prefix ''ctrl'' k \<and> (last k \<noteq> CHR ''0'' \<or> is_digit (k ! (length k - 2)))"

definition ctrl_requests where
  "ctrl_requests S ts ip = (\<lambda>(k, v) ms.
     if session_ctrl k then
       bindE (loop_items v) (\<lambda>rs. Inr (ms @ concat (map (\<lambda>(r, x). if r = ''reqs''
         then [(''cluster_id_'' @ se_cluster S @ ''.target_id_'' @ se_server S @ ''.client_id_'' @ ip @ ''.client_'' @ k @ ''.qd_reqs'', ts, py_str x)]
         else []) rs)))
     else Inr ms)"

definition session_step where
  "session_step S ts nc session = (\<lambda>(ms, N).
     bindE (py_in ''id'' session) (\<lambda>a.
     bindE (if a then bindE (py_key session ''id'') (py_in ''ip'') else Inr False) (\<lambda>b.
     if \<not> b then Inr (ms, N)
     else bindE (bindE (py_path session [''id'', ''ip'']) as_str) (\<lambda>ip.
       bindE (bindE (py_path session [''id'', ''nqn'']) as_str) (\<lambda>name.
       let seen = (case map_of (sn_valid N) ip of None \<Rightarrow> [] | Some xs \<Rightarrow> xs);
           P = (case map_of (sn_prev N) ip of None \<Rightarrow> [] | Some d \<Rightarrow> d);
           N1 = N\<lparr>sn_valid := dict_set ip (List.insert name seen) (sn_valid N), sn_agg := touch ip (sn_agg N),
                  sn_prev := dict_set ip (touch name P) (sn_prev N)\<rparr> in
       bindE (py_in ''kvio'' session) (\<lambda>k.
       bindE (if \<not> k then Inr N1
         else bindE (bindE (py_key session ''kvio'') py_items) (\<lambda>items.
           bindE (statistics_helper True nc items (prev_of P name, prev_of (sn_agg N1) ip)) (\<lambda>(prev, out).
           Inr (N1\<lparr>sn_agg := dict_set ip out (sn_agg N1), sn_prev := dict_set ip (dict_set name prev P) (sn_prev N1)\<rparr>)))) (\<lambda>N2.
       bindE (loop_items session) (\<lambda>els.
       bindE (foldE (ctrl_requests S ts ip) els ms) (\<lambda>ms'. Inr (ms', N2))))))))))"

definition session_statistics_to_message :: "statsenv \<Rightarrow> 'ts \<Rightarrow> prevs \<Rightarrow> 'ts stat_message list" where
  "session_statistics_to_message S ts agg =
     concat (map (\<lambda>(ip, cs). concat (map (\<lambda>(c, n). message S ts
       (c @ '';cluster_id='' @ se_cluster S @ '';target_id='' @ se_server S @ '';client_ip='' @ ip @ '';type=session'') (int_str n)) cs)) agg)"

definition remove_stale_prev_sessions :: "string list dict \<Rightarrow> prevs dict \<Rightarrow> prevs dict" where
  "remove_stale_prev_sessions valid P =
     concat (map (\<lambda>(ip, d). case map_of valid ip of None \<Rightarrow> []
       | Some names \<Rightarrow> [(ip, filter (\<lambda>(name, _). name \<in> set names) d)]) P)"

section \<open>The output of ustat\<close>

fun convert_stats :: "string dict \<Rightarrow> json \<Rightarrow> exn + json" where
  "convert_stats [] j = Inr j"
| "convert_stats ((k, v) # kvs) j = bindE (json_put (py_split (CHR ''.'') k) (JStr v) j) (convert_stats kvs)"

definition convert_stats_dict_to_json_dict :: "string dict \<Rightarrow> exn + json" where
  "convert_stats_dict_to_json_dict d = convert_stats d (JObj [])"

text \<open>\<^verbatim>\<open>x[1:-1].split(',')\<close>, each part stripped.\<close>

definition listed :: "json \<Rightarrow> exn + string list" where
  "listed x = bindE (as_str x) (\<lambda>s. Inr (map py_strip (py_split (CHR '','') (butlast (tl s)))))"

definition non_cumulative :: "(string \<times> json) list \<Rightarrow> exn + string list" where
  "non_cumulative target =
     (case map_of target ''counters'' of None \<Rightarrow> Inr []
      | Some cs \<Rightarrow> bindE (loop_items cs) (\<lambda>d. bindE (mapE (\<lambda>(_, x). listed x) d) (\<lambda>xs. Inr (concat xs))))"

record 'ts pollstate =
  ps_output :: "string dict"
  ps_disk :: prevs
  ps_sess :: "prevs dict"
  ps_sent :: "'ts stat_message list list"

definition stats_element where
  "stats_element S ts nc = (\<lambda>(k, v) (ms, disk, N).
     if k = ''subsystem0'' then Inr (ms, disk, N)
     else if prefix ''subsystem'' k then bindE (subsystem_statistics_to_message S ts nc v (ms, disk)) (\<lambda>(ms', disk'). Inr (ms', disk', N))
     else if prefix ''session'' k then bindE (session_step S ts nc v (ms, N)) (\<lambda>(ms', N'). Inr (ms', disk, N'))
     else Inr (ms, disk, N))"

definition process_dump :: "statsenv \<Rightarrow> 'ts \<Rightarrow> 'ts pollstate \<Rightarrow> exn + 'ts pollstate" where
  "process_dump S ts p =
     (if ps_output p = [] then Inr p
      else bindE (bindE (bindE (convert_stats_dict_to_json_dict (ps_output p)) (\<lambda>j. py_key j ''target'')) py_items) (\<lambda>target.
       bindE (non_cumulative target) (\<lambda>nc.
       bindE (foldE (stats_element S ts nc) (dict_del ''counters'' target)
           ([], ps_disk p, \<lparr>sn_agg = [], sn_prev = ps_sess p, sn_valid = []\<rparr>)) (\<lambda>(ms, disk, N).
       let all = ms @ session_statistics_to_message S ts (sn_agg N) in
       Inr (p\<lparr>ps_output := [], ps_disk := disk, ps_sess := remove_stale_prev_sessions (sn_valid N) (sn_prev N),
              ps_sent := (if all = [] then ps_sent p else ps_sent p @ [all])\<rparr>)))))"

text \<open>A line without exactly one equals sign is logged and dropped; an empty line ends a dump.\<close>

definition ustat_line :: "statsenv \<Rightarrow> 'ts \<Rightarrow> string \<Rightarrow> 'ts pollstate \<Rightarrow> exn + 'ts pollstate" where
  "ustat_line S ts line p =
     (let l = py_strip line in
      if l = [] then process_dump S ts p
      else (case py_split (CHR ''='') l of [k, v] \<Rightarrow> Inr (p\<lparr>ps_output := dict_set k v (ps_output p)\<rparr>) | _ \<Rightarrow> Inr p))"

definition poll_statistics :: "statsenv \<Rightarrow> ('ts \<times> string) list \<Rightarrow> exn + 'ts pollstate" where
  "poll_statistics S lines = foldE (\<lambda>(ts, l). ustat_line S ts l) lines \<lparr>ps_output = [], ps_disk = [], ps_sess = [], ps_sent = []\<rparr>"

section \<open>Datagrams\<close>

definition max_size :: nat where "max_size = 1432"
definition stats_q_maxlen :: nat where "stats_q_maxlen = 512"

text \<open>A full queue loses its oldest element.\<close>

definition submit_message :: "bool \<Rightarrow> 'm list \<Rightarrow> 'm list list \<Rightarrow> 'm list list" where
  "submit_message stop_flag tuples q =
     (if stop_flag then q else (let q' = q @ [tuples] in drop (length q' - stats_q_maxlen) q'))"

definition statsd_entry :: "'ts stat_message \<Rightarrow> string" where
  "statsd_entry = (\<lambda>(path, _, value). path @ '':'' @ value @ ''|g'' @ [newline])"

text \<open>The datagrams for a list of entries, with the text that is not sent yet.\<close>

fun pack :: "string list \<Rightarrow> string \<Rightarrow> string list" where
  "pack [] msg = (if msg \<noteq> [] then [msg] else [])"
| "pack (e # es) msg = (if length msg + length e > max_size then msg # pack es e else pack es (msg @ e))"

definition push_statistics :: "'ts stat_message list \<Rightarrow> string list" where
  "push_statistics tuples = pack (map statsd_entry tuples) []"

section \<open>What is reported of a counter\<close>

text \<open>The reports of one counter over a series of polls, each with fresh output.\<close>

fun reports :: "bool \<Rightarrow> string \<Rightarrow> int list \<Rightarrow> int dict \<Rightarrow> int list \<times> int dict" where
  "reports client c [] prev = ([], prev)"
| "reports client c (v # vs) prev =
     (case count_of_type client prev c v of (n, prev') \<Rightarrow>
      case reports client c vs prev' of (ns, prev'') \<Rightarrow> (n # ns, prev''))"

text \<open>One poll of the helper reports what \<open>count_of_type\<close> says.\<close>

lemma helper_reports:
  assumes "c \<notin> set nc" and "py_int value = Inr v" and "count_of_type client prev c v = (n, prev')"
  shows "statistics_helper client nc [(c, value)] (prev, []) = Inr (prev', [(c, n)])"
  using assms by (simp add: statistics_helper_def stat_step_def)

lemma reports_growing:
  assumes "map_of prev c = Some p" and "sorted (p # vs)"
  shows "sum_list (fst (reports client c vs prev)) = last (p # vs) - p \<and> map_of (snd (reports client c vs prev)) c = Some (last (p # vs))"
  using assms
proof (induction vs arbitrary: p prev)
  case (Cons v vs)
  then have step: "count_of_type client prev c v = (v - p, dict_set c v prev)" by (auto simp: count_of_type_def)
  have "sum_list (fst (reports client c vs (dict_set c v prev))) = last (v # vs) - v \<and>
      map_of (snd (reports client c vs (dict_set c v prev))) c = Some (last (v # vs))"
    using Cons.prems(2) by (intro Cons.IH) auto
  then show ?case using step by (auto split: prod.splits)
qed simp

section \<open>What the datagrams hold\<close>

lemma pack_concat: "concat (pack es msg) = msg @ concat es"
  by (induction es msg rule: pack.induct) auto

lemma pack_size:
  assumes "\<And>e. e \<in> set es \<Longrightarrow> length e \<le> max_size" and "length msg \<le> max_size" and "m \<in> set (pack es msg)"
  shows "length m \<le> max_size"
  using assms
proof (induction es msg rule: pack.induct)
  case (2 e es msg)
  then show ?case by (cases "length msg + length e > max_size") (auto simp: not_less)
qed (auto split: if_splits)

lemma pack_nonempty:
  assumes "\<And>e. e \<in> set es \<Longrightarrow> e \<noteq> [] \<and> length e \<le> max_size" and "m \<in> set (pack es msg)"
  shows "m \<noteq> []"
  using assms
proof (induction es msg rule: pack.induct)
  case (2 e es msg)
  show ?case
  proof (cases "length msg + length e > max_size")
    case True
    have "msg \<noteq> []" using True "2.prems"(1) [of e] by auto
    with True 2 show ?thesis by auto
  qed (use 2 in auto)
qed (auto split: if_splits)

lemma submit_bound: "length q \<le> stats_q_maxlen \<Longrightarrow> length (submit_message b t q) \<le> stats_q_maxlen"
  by (auto simp: submit_message_def Let_def)

section \<open>Properties\<close>

text \<open>
  C23.  What is reported of a counter that only grows adds up to its last value, over any number of polls,
  for drives and for clients.
\<close>

theorem counter_reports_total:
  assumes "map_of prev c = None" and "sorted vs" and "vs \<noteq> []"
  shows "sum_list (fst (reports client c vs prev)) = last vs"
proof -
  obtain v us where vs: "vs = v # us" using assms(3) by (cases vs) auto
  have "count_of_type client prev c v = (v, dict_set c v prev)" using assms(1) by (simp add: count_of_type_def)
  moreover have "sum_list (fst (reports client c us (dict_set c v prev))) = last (v # us) - v"
    using reports_growing [of "dict_set c v prev" c v us client] assms(2) vs by simp
  ultimately show ?thesis using vs by (auto split: prod.splits)
qed

theorem counter_reports_total_witness:
  "sum_list (fst (reports False ''puts'' [3, 3, 10] [])) = 10 \<and> fst (reports False ''puts'' [3, 3, 10] []) = [3, 0, 7]"
  using counter_reports_total [of "[]" "''puts''" "[3, 3, 10]" False] by (simp add: count_of_type_def)

text \<open>
  C39.  A counter of a drive that wrapped around at two to the sixty-fourth is reported one too small, and the value before the
  wrap-around stays the one to compare with: every later value below it is reported as if the
  counter had just wrapped around again.
\<close>

theorem counter_wrap_repeats:
  assumes "map_of prev c = Some p" and "\<And>v. v \<in> set vs \<Longrightarrow> 0 \<le> v \<and> v < p" and "p \<le> COUNTER_MAX"
  shows "reports False c vs prev = (map (\<lambda>v. (v - p) mod 2 ^ 64 - 1) vs, prev)"
proof -
  have "v + (COUNTER_MAX - p) = (v - p) mod 2 ^ 64 - 1" if "v \<in> set vs" for v
  proof -
    have "0 \<le> v - p + 2 ^ 64" "v - p + 2 ^ 64 < 2 ^ 64" using assms(2) [OF that] assms(3) by (simp_all add: COUNTER_MAX_def)
    then have "(v - p) mod 2 ^ 64 = v - p + 2 ^ 64" by (metis mod_add_self2 mod_pos_pos_trivial)
    then show ?thesis by (simp add: COUNTER_MAX_def)
  qed
  moreover have "reports False c vs prev = (map (\<lambda>v. v + (COUNTER_MAX - p)) vs, prev)"
    using assms(1,2) by (induction vs) (auto simp: count_of_type_def)
  ultimately show ?thesis by simp
qed

theorem counter_wrap_repeats_witness:
  "reports False ''puts'' [3, 4] [(''puts'', 2 ^ 64 - 5)] = ([7, 8], [(''puts'', 2 ^ 64 - 5)])"
proof -
  have "reports False ''puts'' [3, 4] [(''puts'', 2 ^ 64 - 5)] =
      (map (\<lambda>v. (v - (2 ^ 64 - 5)) mod 2 ^ 64 - 1) [3, 4], [(''puts'', 2 ^ 64 - 5)])"
    by (rule counter_wrap_repeats) (auto simp: COUNTER_MAX_def)
  then show ?thesis by simp
qed

text \<open>
  C24.  The datagrams of a list of messages hold the entries of all messages in order; if every entry fits
  into a datagram, no datagram is larger than allowed and none is empty.
\<close>

theorem datagrams_hold_messages:
  assumes "\<And>m. m \<in> set ms \<Longrightarrow> length (statsd_entry m) \<le> max_size"
  shows "concat (push_statistics ms) = concat (map statsd_entry ms) \<and>
    (\<forall>g \<in> set (push_statistics ms). g \<noteq> [] \<and> length g \<le> max_size)"
proof -
  have "e \<noteq> [] \<and> length e \<le> max_size" if "e \<in> set (map statsd_entry ms)" for e
    using that assms by (auto simp: statsd_entry_def split_def)
  then show ?thesis
    using pack_concat [of "map statsd_entry ms" "[]"] pack_nonempty [of "map statsd_entry ms" _ "[]"]
      pack_size [of "map statsd_entry ms" "[]"] unfolding push_statistics_def by auto
qed

theorem datagrams_hold_messages_witness:
  "concat (push_statistics [(''puts'', (), ''3''), (''gets'', (), ''4'')]) = ''puts:3|g'' @ newline # ''gets:4|g'' @ [newline] \<and>
   list_all (\<lambda>g. g \<noteq> [] \<and> length g \<le> max_size) (push_statistics [(''puts'', (), ''3''), (''gets'', (), ''4'')])"
proof -
  let ?ms = "[(''puts'', (), ''3''), (''gets'', (), ''4'')]"
  have "length (statsd_entry m) \<le> max_size" if "m \<in> set ?ms" for m using that by (auto simp: statsd_entry_def max_size_def)
  from datagrams_hold_messages [of ?ms, OF this] show ?thesis by (simp add: statsd_entry_def list_all_iff)
qed

end
