(* ===== verification/AgentDaemon.thy ===== *)
theory AgentDaemon
  imports AgentStats
begin

text \<open>
  The daemon of the NKV agent, \<^verbatim>\<open>src/ufm/agents/nkv_agent/subcommands/daemon/daemon.py\<close>, class \<^verbatim>\<open>OSMDaemon\<close>:
  the attributes of the server in the database, the queue of commands for the target and their
  execution, the status of the target; with \<^verbatim>\<open>utils/jsonrpc.py\<close> and \<^verbatim>\<open>utils/target_events_processing.py\<close>.

  World \<open>dmworld\<close>: the fields of the object, the files, the lock \<^verbatim>\<open>subsys_op_lock\<close> between the threads, and
  the machine \<open>dm_mach\<close> with the clock, the drivers and the services, whose functions are the parameter
  \<open>denv\<close>.  \<^verbatim>\<open>self.etcd_devices\<close> and the like are parts of \<open>dm_etcd\<close>, addressed by their path.  A thread is the
  number of passes of its loop; a pass that waits for a lock nobody will release gives \<open>None\<close>.
\<close>

section \<open>State\<close>

record ('db, 'm) denv =
  dn_uuid :: string
  dn_version :: string
  dn_node :: string
  dn_conf :: string
  dn_sha1 :: "string \<Rightarrow> string"
  dn_attr_poll :: "int option"
  dn_attrs :: "('m, json) py"
  dn_spdk :: "('m, bool) py"
  dn_now :: "('m, string) py"
  dn_uptime :: "('m, string) py"
  dn_uuid4 :: "('m, string) py"
  dn_time :: "('m, string) py"
  dn_driver :: "string \<Rightarrow> ('m, string) py"
  dn_setup :: "string \<Rightarrow> string \<Rightarrow> ('m, unit) py"
  dn_restart :: "('m, unit) py"
  dn_socket :: "json \<Rightarrow> ('m, json) py"
  dn_lease_of :: "string \<Rightarrow> ('db, int option) py"
  dn_uuid1 :: "nat \<Rightarrow> string"

record ('db, 'm) dmworld = "'db bworld" +
  dm_etcd :: json
  dm_local :: json
  dm_spdk :: bool
  dm_init :: bool
  dm_uptime :: string
  dm_q :: "(string \<times> json) list"
  dm_removed :: "string list"
  dm_uuid_map :: "string dict"
  dm_sync :: int
  dm_op :: bool
  dm_restart :: int
  dm_watch :: "int dict"
  dm_cached :: json
  dm_fs :: fsworld
  dm_mach :: 'm

definition on_mach :: "('m, 'a) py \<Rightarrow> (('db, 'm, 'r) dmworld_scheme, 'a) py" where
  "on_mach m w = (case m (dm_mach w) of (r, s) \<Rightarrow> (r, w\<lparr>dm_mach := s\<rparr>))"

definition on_fs :: "(fsworld, 'a) py \<Rightarrow> (('db, 'm, 'r) dmworld_scheme, 'a) py" where
  "on_fs m w = (case m (dm_fs w) of (r, s) \<Rightarrow> (r, w\<lparr>dm_fs := s\<rparr>))"

definition SERVER_BASE_KEY_PREFIX where
  "SERVER_BASE_KEY_PREFIX D = ETCD_SRV_BASE @ dn_uuid D @ ''/''"

definition SERVER_ATTR_KEY_PREFIX where
  "SERVER_ATTR_KEY_PREFIX D = SERVER_BASE_KEY_PREFIX D @ ''server_attributes/''"

definition SERVER_CONFIG_KEY_PREFIX where
  "SERVER_CONFIG_KEY_PREFIX D = SERVER_BASE_KEY_PREFIX D @ ''kv_attributes/config/subsystems/''"

definition SERVER_LIST where
  "SERVER_LIST D = ETCD_SRV_BASE @ ''list/'' @ dn_uuid D"

definition AssertionError :: exn where
  "AssertionError = GenericException ''AssertionError''"

section \<open>Attributes of the server\<close>

datatype devtype = TYPE_UNKNOWN | TYPE_NETWORK | TYPE_STORAGE

fun dev_path :: "devtype \<Rightarrow> string list" where
  "dev_path TYPE_NETWORK = [''network'', ''interfaces'']"
| "dev_path TYPE_STORAGE = [''storage'', ''nvme'', ''devices'']"
| "dev_path TYPE_UNKNOWN = []"

definition on_attrs :: "(json \<Rightarrow> exn + json) \<Rightarrow> (('db, 'm, 'r) dmworld_scheme, unit) py" where
  "on_attrs f = bindP (readP dm_etcd) (\<lambda>j. bindP (liftP (f j)) (\<lambda>j'. modifyP (\<lambda>w. w\<lparr>dm_etcd := j'\<rparr>)))"

definition attrs_at :: "string list \<Rightarrow> (('db, 'm, 'r) dmworld_scheme, json) py" where
  "attrs_at path = bindP (readP dm_etcd) (\<lambda>j. liftP (py_path j path))"

text \<open>\<^verbatim>\<open>if k not in x: x[k] = {}\<close> and \<^verbatim>\<open>del x[k]\<close> at a path.\<close>

definition ensure :: "string list \<Rightarrow> string \<Rightarrow> json \<Rightarrow> exn + json" where
  "ensure path k j =
     bindE (bindE (py_path j path) (py_in k)) (\<lambda>b. if b then Inr j else put_path (path @ [k]) (JObj []) j)"

fun json_del :: "string list \<Rightarrow> json \<Rightarrow> exn + json" where
  "json_del [k] (JObj d) = (if dict_has k d then Inr (JObj (dict_del k d)) else Inl (KeyError k))"
| "json_del (k # k2 # ks) (JObj d) =
     bindE (dict_get d k) (\<lambda>x. bindE (json_del (k2 # ks) x) (\<lambda>x'. Inr (JObj (dict_set k x' d))))"
| "json_del _ _ = Inl TypeError"

definition total_bytes :: "(string \<times> json) list \<Rightarrow> exn + int" where
  "total_bytes ds = foldE (\<lambda>(_, dev) n. bindE (bindE (py_key dev ''SizeInBytes'') py_int) (\<lambda>i. Inr (n + i))) ds 0"

definition storage_entry :: "nat \<Rightarrow> int \<Rightarrow> json" where
  "storage_entry n bytes =
     (let c = [(''Count'', JInt (int n)), (''Capacity'', JInt bytes)] in JObj [(''storage'', JObj (c @ [(''nvme'', JObj c)]))])"

definition create_storage_metadata_entries :: "(('db, 'm, 'r) dmworld_scheme, json) py" where
  "create_storage_metadata_entries =
     thenP (on_attrs (ensure [''storage''] ''nvme''))
     (thenP (on_attrs (ensure [''storage'', ''nvme''] ''devices''))
     (bindP (bindP (attrs_at (dev_path TYPE_STORAGE)) (\<lambda>ds. liftP (py_items ds))) (\<lambda>ds.
      bindP (liftP (total_bytes ds)) (\<lambda>bytes. retP (storage_entry (length ds) bytes)))))"

definition create_network_interface_metadata_entries :: "(('db, 'm, 'r) dmworld_scheme, json) py" where
  "create_network_interface_metadata_entries =
     thenP (on_attrs (ensure [''network''] ''interfaces''))
     (bindP (bindP (attrs_at (dev_path TYPE_NETWORK)) (\<lambda>ds. liftP (py_len ds))) (\<lambda>n.
      retP (JObj [(''network'', JObj [(''Count'', JInt n)])])))"

definition create_metadata_entries :: "devtype \<Rightarrow> (('db, 'm, 'r) dmworld_scheme, json) py" where
  "create_metadata_entries ty =
     (case ty of TYPE_NETWORK \<Rightarrow> create_network_interface_metadata_entries
      | TYPE_STORAGE \<Rightarrow> create_storage_metadata_entries
      | TYPE_UNKNOWN \<Rightarrow> raiseP AssertionError)"

definition synchronize_device_metadata where
  "synchronize_device_metadata E D ty =
     bindP (create_metadata_entries ty) (\<lambda>entry. write_dict_to_etcd E entry (SERVER_ATTR_KEY_PREFIX D))"

definition find_set_delta :: "'v dict \<Rightarrow> 'w dict \<Rightarrow> string list" where
  "find_set_delta a b = filter (\<lambda>k. \<not> dict_has k b) (dict_keys a)"

text \<open>A drive that is gone stays in the database while the target is down or when it is to be ignored.\<close>

definition stays :: "devtype \<Rightarrow> string \<Rightarrow> (('db, 'm, 'r) dmworld_scheme, bool) py" where
  "stays ty dev =
     (if ty \<noteq> TYPE_STORAGE then retP False
      else bindP (readP dm_spdk) (\<lambda>running.
        if \<not> running then retP True
        else bindP (attrs_at (dev_path ty @ [dev])) (\<lambda>d.
          liftP (bindE (py_in ''ignore'' d) (\<lambda>b. if \<not> b then Inr False else bindE (bindE (py_key d ''ignore'') py_int) (\<lambda>i. Inr (i = 1)))))))"

definition remove_device where
  "remove_device E D ty key_prefix dev =
     bindP (stays ty dev) (\<lambda>s.
     whenP (\<not> s) (tryP
       (thenP (on_client (e_delete_prefix E (key_prefix @ dev @ ''/'')))
       (thenP (on_attrs (json_del (dev_path ty @ [dev])))
       (thenP (synchronize_device_metadata E D ty) (retP ())))) (\<lambda>_. retP ())))"

definition with_device :: "devtype \<Rightarrow> string \<Rightarrow> json \<Rightarrow> json \<Rightarrow> exn + json" where
  "with_device ty dev v entry = put_path (dev_path ty) (JObj [(dev, v)]) entry"

definition update_device where
  "update_device E D ty dev v =
     bindP (bindP (create_metadata_entries ty) (\<lambda>entry. liftP (with_device ty dev v entry))) (\<lambda>entry.
     let write = tryP (thenP (write_dict_to_etcd E entry (SERVER_ATTR_KEY_PREFIX D)) (retP ())) (\<lambda>_. retP ()) in
     thenP (tryP
       (bindP (bindP (attrs_at (dev_path ty @ [dev, ''CRC''])) (\<lambda>c. liftP (py_int c))) (\<lambda>c.
        bindP (liftP (bindE (py_key v ''CRC'') py_int)) (\<lambda>c'. whenP (c \<noteq> c') write)))
       (\<lambda>_. write))
     (on_attrs (put_path (dev_path ty @ [dev]) v)))"

definition synchronize_device where
  "synchronize_device E D local_devices etcd_devices key_prefix ty =
     thenP (forP (find_set_delta etcd_devices local_devices) (remove_device E D ty key_prefix))
       (forP local_devices (\<lambda>(dev, v). update_device E D ty dev v))"

fun root_key :: "devtype \<Rightarrow> string" where
  "root_key TYPE_NETWORK = ''network''"
| "root_key TYPE_STORAGE = ''storage''"
| "root_key TYPE_UNKNOWN = []"

text \<open>The devices the database has of a type, if there are any.\<close>

definition known_devices :: "devtype \<Rightarrow> json \<Rightarrow> exn + json option" where
  "known_devices ty root =
     bindE (case ty of
         TYPE_NETWORK \<Rightarrow> bindE (py_in ''interfaces'' root) (\<lambda>b. if b then bindE (py_key root ''interfaces'') (\<lambda>x. Inr (Some x)) else Inr None)
       | TYPE_STORAGE \<Rightarrow> bindE (py_in ''nvme'' root) (\<lambda>b. if \<not> b then Inr None
           else bindE (py_key root ''nvme'') (\<lambda>n. bindE (py_in ''devices'' n) (\<lambda>c. if c then bindE (py_key n ''devices'') (\<lambda>x. Inr (Some x)) else Inr None)))
       | TYPE_UNKNOWN \<Rightarrow> Inl AssertionError) (\<lambda>r.
     Inr (case r of None \<Rightarrow> None | Some x \<Rightarrow> if py_truth x then Some x else None))"

definition identity_key :: "devtype \<Rightarrow> string" where
  "identity_key ty = (if ty = TYPE_NETWORK then ''MACAddress'' else ''Serial'')"

fun nested :: "string list \<Rightarrow> json \<Rightarrow> json" where
  "nested [] j = j"
| "nested (k # ks) j = JObj [(k, nested ks j)]"

text \<open>The first write of a type: the devices one by one, then the rest.\<close>

definition write_all where
  "write_all E D ty root =
     (let entry = JObj [(root_key ty, root)]; p = SERVER_ATTR_KEY_PREFIX D in
      bindP (liftP (bindE (py_path entry (dev_path ty)) py_items)) (\<lambda>devices.
      bindP (liftP (json_del (dev_path ty) entry)) (\<lambda>rest.
      thenP (forP devices (\<lambda>(_, device).
        bindP (liftP (bindE (py_key device (identity_key ty)) as_str)) (\<lambda>name.
        thenP (write_dict_to_etcd E (nested (dev_path ty @ [name]) device) p) (retP ()))))
      (thenP (write_dict_to_etcd E rest p)
        (on_attrs (\<lambda>j. bindE (bindE (py_key j (root_key ty)) py_items) (\<lambda>old.
           bindE (py_items root) (\<lambda>new. put_path [root_key ty] (JObj (dict_update old new)) j))))))))"

definition synchronize_type where
  "synchronize_type E D ty =
     (if ty = TYPE_UNKNOWN then raiseP AssertionError
     else bindP (attrs_at [root_key ty]) (\<lambda>etcd_root.
     bindP (bindP (readP dm_local) (\<lambda>l. liftP (py_key l (root_key ty)))) (\<lambda>local_root.
     bindP (liftP (known_devices ty etcd_root)) (\<lambda>known.
     case known of
       None \<Rightarrow> write_all E D ty local_root
     | Some etcd_devices \<Rightarrow>
         bindP (liftP (py_path (JObj [(root_key ty, local_root)]) (dev_path ty))) (\<lambda>local_devices.
         if py_truth local_devices then
           bindP (liftP (py_items local_devices)) (\<lambda>ls.
           bindP (liftP (py_items etcd_devices)) (\<lambda>es.
           synchronize_device E D ls es (SERVER_ATTR_KEY_PREFIX D @ concat (map (\<lambda>k. k @ ''/'') (dev_path ty))) ty))
         else if ty = TYPE_STORAGE then retP ()
         else raiseP AssertionError)))))"

definition put_key where
  "put_key E key v lease = on_client (e_put E key v [(''lease'', KLease lease)])"

definition write_spdk_status where
  "write_spdk_status E D running =
     tryP (bindP (case dn_attr_poll D of None \<Rightarrow> retP None | Some t \<Rightarrow> bindP (on_client (e_lease E (t + 10) None)) (\<lambda>l. retP (Some l))) (\<lambda>lease.
       put_key E (SERVER_ATTR_KEY_PREFIX D @ ''spdk_status'') (if running then ''up'' else ''down'') lease)) (\<lambda>_. retP ())"

definition server_info_to_db where
  "server_info_to_db E D =
     thenP (on_client (b_acquire E (dn_uuid D)))
     (bindP (on_mach (dn_spdk D)) (\<lambda>running.
      thenP (modifyP (\<lambda>w. w\<lparr>dm_spdk := running\<rparr>))
      (thenP (write_spdk_status E D running)
      (bindP (readP dm_etcd) (\<lambda>attrs.
       thenP (if attrs = JObj [] then
           bindP (readP dm_local) (\<lambda>l.
             thenP (tryP (thenP (write_dict_to_etcd E l (SERVER_ATTR_KEY_PREFIX D)) (retP ())) (\<lambda>_. retP ()))
               (modifyP (\<lambda>w. w\<lparr>dm_etcd := l\<rparr>)))
         else thenP (synchronize_type E D TYPE_NETWORK) (synchronize_type E D TYPE_STORAGE))
       (thenP (modifyP (\<lambda>w. w\<lparr>dm_init := True\<rparr>))
       (thenP (bindP (on_mach (dn_now D)) (\<lambda>t. tryP (put_key E (SERVER_LIST D) t None) (\<lambda>_. retP ())))
       (thenP (bindP (on_mach (dn_uptime D)) (\<lambda>hr. bindP (readP dm_uptime) (\<lambda>old.
           whenP (old \<noteq> hr) (thenP (tryP (put_key E (SERVER_ATTR_KEY_PREFIX D @ ''uptime'') hr None) (\<lambda>_. retP ()))
             (modifyP (\<lambda>w. w\<lparr>dm_uptime := hr\<rparr>))))))
         (thenP (on_client (b_release E (dn_uuid D))) (retP ()))))))))))"

text \<open>One pass of \<^verbatim>\<open>poll_attributes\<close> that got the lock, and \<open>n\<close> passes.\<close>

definition poll_attributes_pass where
  "poll_attributes_pass E D =
     thenP (modifyP (\<lambda>w. w\<lparr>dm_op := True\<rparr>))
     (bindP (on_mach (dn_attrs D)) (\<lambda>l.
      thenP (modifyP (\<lambda>w. w\<lparr>dm_local := l, dm_op := False\<rparr>)) (server_info_to_db E D)))"

fun poll_attributes ::
  "('db, 'x) lock_etcd_scheme \<Rightarrow> ('db, 'm, 'y) denv_scheme \<Rightarrow> nat \<Rightarrow> ('db, 'm, 'r) dmworld_scheme \<Rightarrow>
   ((exn + unit) \<times> ('db, 'm, 'r) dmworld_scheme) option" where
  "poll_attributes E D 0 w = Some (Inr (), w)"
| "poll_attributes E D (Suc n) w =
     (if dm_op w then None
      else (case poll_attributes_pass E D w of (Inl e, w') \<Rightarrow> Some (Inl e, w') | (Inr _, w') \<Rightarrow> poll_attributes E D n w'))"

section \<open>Remote calls of the target\<close>

definition build_payload :: "string \<Rightarrow> json option \<Rightarrow> json" where
  "build_payload m params =
     JObj ([(''jsonrpc'', JStr ''2.0''), (''method'', JStr m), (''id'', JInt 1)] @ (case params of None \<Rightarrow> [] | Some p \<Rightarrow> [(''params'', p)]))"

definition JSONRPCException :: exn where
  "JSONRPCException = GenericException ''JSONRPCException''"

text \<open>
  Every method but one raises before the socket is used.  \<open>dn_socket\<close>: the document received, \<open>JNull\<close> when
  the connection is closed before it is complete.
\<close>

definition SPDKJSONRPC_call where
  "SPDKJSONRPC_call D payload =
     bindP (liftP (py_key payload ''method'')) (\<lambda>m.
     if m \<noteq> JStr ''dfly_oss_version_info'' then raiseP JSONRPCException
     else bindP (on_mach (dn_socket D payload)) (\<lambda>r. if py_truth r then retP r else raiseP JSONRPCException))"

definition get_namespaces where
  "get_namespaces D =
     bindP (SPDKJSONRPC_call D (build_payload ''get_bdevs'' None)) (\<lambda>r.
     liftP (bindE (py_in ''error'' r) (\<lambda>b. if b then Inr JNull else py_key r ''result'')))"

definition create_namespaces where
  "create_namespaces D ns =
     bindP (liftP (py_key ns ''Serial'')) (\<lambda>sn.
     bindP (liftP (py_key ns ''PCIAddress'')) (\<lambda>pci.
     bindP (SPDKJSONRPC_call D (build_payload ''construct_nvme_bdev''
         (Some (JObj [(''trtype'', JStr ''PCIe''), (''name'', sn), (''traddr'', pci)])))) (\<lambda>r.
     bindP (liftP (py_in ''error'' r)) (\<lambda>b. if b then raiseP AssertionError else retP ()))))"

text \<open>Whether the target has a drive with this address; entries without an address are skipped.\<close>

definition has_drive :: "json \<Rightarrow> json \<Rightarrow> exn + bool" where
  "has_drive pci spdk_namespaces =
     bindE (py_iter spdk_namespaces) (\<lambda>xs.
     Inr (list_ex (\<lambda>ns. py_path ns [''driver_specific'', ''nvme'', ''trid'', ''traddr''] = Inr pci) xs))"

definition execute_subsystem_rpc where
  "execute_subsystem_rpc E D lock namespaces command rpc_args =
     bindP (get_namespaces D) (\<lambda>spdk_namespaces.
     thenP (forP namespaces (\<lambda>(_, ns).
       bindP (liftP (bindE (py_key ns ''PCIAddress'') (\<lambda>pci. has_drive pci spdk_namespaces))) (\<lambda>found.
       whenP (\<not> found) (create_namespaces D ns))))
     (thenP (on_client (b_refresh E lock))
     (bindP (SPDKJSONRPC_call D (build_payload command (Some rpc_args))) (\<lambda>results.
      thenP (on_client (b_refresh E lock)) (retP results)))))"

section \<open>Commands for the target\<close>

definition set_device_config_status where
  "set_device_config_status E D lock nqn_key status_msg =
     bindP (on_client (b_held E lock)) (\<lambda>held.
     thenP (if held then retP True else on_client (b_acquire E lock))
     (thenP (tryP (put_key E (SERVER_CONFIG_KEY_PREFIX D @ nqn_key @ ''/cmd_status'') status_msg None) (\<lambda>_. retP ()))
       (if held then retP () else thenP (on_client (b_release E lock)) (retP ()))))"

definition remove_device_config where
  "remove_device_config E D lock nqn_key =
     bindP (on_client (b_held E lock)) (\<lambda>held.
     if held then tryP (on_client (e_delete_prefix E (SERVER_CONFIG_KEY_PREFIX D @ nqn_key @ ''/''))) (\<lambda>_. retP ())
     else raiseP (SystemExit ''Requires server prefix to be locked to delete NQN config''))"

definition SPDK_RESET :: bool where "SPDK_RESET = False"

definition reset_drivers where
  "reset_drivers D namespaces =
     whenP SPDK_RESET (forP namespaces (\<lambda>(_, ns). bindP (liftP (bindE (py_key ns ''PCIAddress'') as_str)) (\<lambda>pci. on_mach (dn_setup D ''nvme'' pci))))"

definition subsystem_fail where
  "subsystem_fail E D command lock nqn namespaces =
     (if command = ''construct_nvmf_subsystem'' then
        thenP (reset_drivers D namespaces) (thenP (remove_device_config E D lock nqn) (on_fs (delete_temp_local_config (dn_conf D))))
      else if command = ''delete_nvmf_subsystem'' then raiseP AssertionError
      else raiseP (SystemExit []))"

text \<open>
  Whether all drives are at one NUMA node, and the namespaces of the remote call.  \<open>JNull\<close>: no node yet.
\<close>

definition numa_step :: "bool \<Rightarrow> json \<Rightarrow> string \<times> json \<Rightarrow> json list \<times> bool \<times> json \<Rightarrow> exn + json list \<times> bool \<times> json" where
  "numa_step build_rpc attrs = (\<lambda>(nsid, ns) (rpcs, aligned, node).
     bindE (bindE (py_key ns ''Serial'') as_str) (\<lambda>sn.
     bindE (if build_rpc then bindE (py_int_str nsid) (\<lambda>i. Inr (rpcs @ [JObj [(''bdev_name'', JStr (sn @ ''n1'')), (''nsid'', JInt i)]])) else Inr rpcs) (\<lambda>rpcs'.
     if aligned then bindE (py_path attrs (dev_path TYPE_STORAGE @ [sn, ''NUMANode''])) (\<lambda>cur.
       Inr (if node = JNull then (rpcs', True, cur) else (rpcs', cur = node, node)))
     else Inr (rpcs', False, node))))"

definition get_numa_alignment :: "bool \<Rightarrow> json \<Rightarrow> (string \<times> json) list \<Rightarrow> exn + json list \<times> bool" where
  "get_numa_alignment build_rpc attrs namespaces =
     bindE (foldE (numa_step build_rpc attrs) namespaces ([], True, JNull)) (\<lambda>(rpcs, aligned, _). Inr (rpcs, aligned))"

text \<open>The speed of each interface; each one replaces the one before it.\<close>

definition interface_speeds :: "json \<Rightarrow> (string \<times> json) list \<Rightarrow> json dict \<Rightarrow> exn + json dict" where
  "interface_speeds attrs addresses d =
     foldE (\<lambda>(mac, _) d. bindE (py_path attrs (dev_path TYPE_NETWORK @ [mac, ''Speed''])) (\<lambda>s.
       Inr (dict_set ''transport_addresses'' (JObj [(mac, JObj [(''interface_speed'', s)])]) d))) addresses d"

definition change_drivers where
  "change_drivers D namespaces =
     foldP namespaces False (\<lambda>(_, ns) flag.
       bindP (liftP (bindE (py_key ns ''PCIAddress'') as_str)) (\<lambda>pci.
       bindP (on_mach (dn_driver D pci)) (\<lambda>driver.
       if driver \<noteq> ''uio_pci_generic'' then thenP (tryP (on_mach (dn_setup D ''uio_pci_generic'' pci)) (\<lambda>_. retP ())) (retP True)
       else retP flag)))"

text \<open>The details of a subsystem that is in use, and its status.\<close>

definition announce where
  "announce E D lock nqn d aligned =
     bindP (on_mach (dn_uuid4 D)) (\<lambda>u.
     thenP (modifyP (\<lambda>w. w\<lparr>dm_uuid_map := dict_set nqn u (dm_uuid_map w)\<rparr>))
     (bindP (on_mach (dn_time D)) (\<lambda>t.
      thenP (write_dict_to_etcd E (JObj (d @ [(''UUID'', JStr u), (''time_created'', JStr t), (''numa_aligned'', JInt (if aligned then 1 else 0))]))
          (SERVER_CONFIG_KEY_PREFIX D @ nqn @ ''/''))
        (set_device_config_status E D lock nqn ''success''))))"

definition construct_command where
  "construct_command E D lock config nqn namespaces addresses =
     bindP (change_drivers D namespaces) (\<lambda>flag.
     thenP (whenP flag (tryP (on_mach (dn_restart D)) (\<lambda>_. retP ())))
     (bindP (readP dm_etcd) (\<lambda>attrs.
      bindP (liftP (interface_speeds attrs addresses [])) (\<lambda>d.
      bindP (liftP (get_numa_alignment True attrs namespaces)) (\<lambda>(rpcs, aligned).
      thenP (on_fs (add_subsystem_temp_local_config (dn_sha1 D) (dn_conf D) config))
      (bindP (execute_subsystem_rpc E D lock namespaces ''construct_nvmf_subsystem''
          (JObj [(''nqn'', JStr nqn), (''listen_addresses'', JList (map snd addresses)), (''serial_number'', JStr (take 20 (dn_sha1 D nqn))),
             (''namespaces'', JList rpcs), (''allow_any_host'', JBool True)])) (\<lambda>results.
       bindP (liftP (py_in ''error'' results)) (\<lambda>failed.
       if failed then subsystem_fail E D ''construct_nvmf_subsystem'' lock nqn namespaces
       else thenP (on_fs (rename_temp_local_config (dn_conf D)))
         (thenP (announce E D lock nqn d aligned)
           (whenP flag (modifyP (\<lambda>w. w\<lparr>dm_restart := dm_restart w + 1\<rparr>))))))))))))"

definition forget_nqn where
  "forget_nqn nqn = modifyP (\<lambda>w. w\<lparr>dm_removed := dm_removed w @ [nqn], dm_uuid_map := dict_del nqn (dm_uuid_map w)\<rparr>)"

definition delete_command where
  "delete_command E D lock config nqn namespaces =
     thenP (remove_device_config E D lock nqn)
     (thenP (on_fs (delete_subsystem_temp_local_config (dn_sha1 D) (dn_conf D) config))
     (bindP (execute_subsystem_rpc E D lock namespaces ''delete_nvmf_subsystem'' (JObj [(''nqn'', JStr nqn)])) (\<lambda>results.
      bindP (liftP (py_in ''error'' results)) (\<lambda>failed.
      if failed then subsystem_fail E D ''delete_nvmf_subsystem'' lock nqn namespaces
      else thenP (forget_nqn nqn) (thenP (reset_drivers D namespaces) (on_fs (rename_temp_local_config (dn_conf D))))))))"

definition store_command where
  "store_command E D lock nqn namespaces addresses =
     bindP (readP dm_etcd) (\<lambda>attrs.
     bindP (liftP (interface_speeds attrs addresses [])) (\<lambda>d.
     bindP (liftP (get_numa_alignment False attrs namespaces)) (\<lambda>(_, aligned). announce E D lock nqn d aligned)))"

definition sync_count_inc :: "(('db, 'm, 'r) dmworld_scheme, unit) py" where
  "sync_count_inc = modifyP (\<lambda>w. w\<lparr>dm_sync := dm_sync w + 1\<rparr>)"

definition sync_count_dec :: "(('db, 'm, 'r) dmworld_scheme, unit) py" where
  "sync_count_dec = thenP (modifyP (\<lambda>w. w\<lparr>dm_sync := dm_sync w - 1\<rparr>))
     (bindP (readP dm_sync) (\<lambda>n. if n \<ge> 0 then retP () else raiseP AssertionError))"

definition run_command where
  "run_command E D lock config command nqn namespaces addresses =
     (if command = ''construct_nvmf_subsystem'' then construct_command E D lock config nqn namespaces addresses
      else if command = ''delete_nvmf_subsystem'' then delete_command E D lock config nqn namespaces
      else if command = ''store_nvmf_subsystem'' then store_command E D lock nqn namespaces addresses
      else if command = ''erase_nvmf_subsystem'' then thenP (remove_device_config E D lock nqn) (forget_nqn nqn)
      else raiseP (SystemExit ''Unknown command''))"

definition execute_command where
  "execute_command E D lock config =
     bindP (liftP (bindE (py_key config ''Command'') as_str)) (\<lambda>command.
     bindP (liftP (bindE (py_key config ''NQN'') as_str)) (\<lambda>nqn.
     bindP (liftP (bindE (py_key config ''namespaces'') py_items)) (\<lambda>namespaces.
     bindP (liftP (bindE (py_key config ''transport_addresses'') py_items)) (\<lambda>addresses.
     thenP (set_device_config_status E D lock nqn ''processing'')
     (thenP (run_command E D lock config command nqn namespaces addresses)
     (bindP (readP dm_sync) (\<lambda>n.
      thenP (whenP (n \<noteq> 0) sync_count_dec)
      (thenP (on_client (b_release E lock)) (modifyP (\<lambda>w. w\<lparr>dm_op := False\<rparr>))))))))))"

text \<open>One pass of \<^verbatim>\<open>server_config_poll\<close>: \<open>None\<close> when it waits for the lock of the threads.\<close>

definition server_config_pass ::
  "('db, 'x) lock_etcd_scheme \<Rightarrow> ('db, 'm, 'y) denv_scheme \<Rightarrow> ('db, 'm, 'r) dmworld_scheme \<Rightarrow>
   ((exn + unit) \<times> ('db, 'm, 'r) dmworld_scheme) option" where
  "server_config_pass E D w =
     (if \<not> dm_init w then Some (Inr (), w)
      else (case dm_q w of
        [] \<Rightarrow> Some (Inr (), w)
      | (lock, config) # q \<Rightarrow>
          if dm_op w then None
          else Some (thenP (on_client (b_acquire E lock))
            (if py_truth config then execute_command E D lock config else retP ()) (w\<lparr>dm_op := True, dm_q := q\<rparr>))))"

fun server_config_poll ::
  "('db, 'x) lock_etcd_scheme \<Rightarrow> ('db, 'm, 'y) denv_scheme \<Rightarrow> nat \<Rightarrow> ('db, 'm, 'r) dmworld_scheme \<Rightarrow>
   ((exn + unit) \<times> ('db, 'm, 'r) dmworld_scheme) option" where
  "server_config_poll E D 0 w = Some (Inr (), w)"
| "server_config_poll E D (Suc n) w =
     (case server_config_pass E D w of None \<Rightarrow> None | Some (Inl e, w') \<Rightarrow> Some (Inl e, w')
      | Some (Inr _, w') \<Rightarrow> server_config_poll E D n w')"

section \<open>Where commands come from\<close>


definition lock_name where
  "lock_name D nqn = dn_uuid D @ ''_'' @ nqn"

definition enqueue :: "string \<Rightarrow> json \<Rightarrow> (('db, 'm, 'r) dmworld_scheme, unit) py" where
  "enqueue lock config = modifyP (\<lambda>w. w\<lparr>dm_q := dm_q w @ [(lock, config)]\<rparr>)"


definition catch_up where
  "catch_up D dev =
     bindP (liftP (py_in ''Command'' dev)) (\<lambda>b.
     whenP b
       (bindP (liftP (py_key dev ''Command'')) (\<lambda>cmd.
        bindP (liftP (py_key dev ''cmd_status'')) (\<lambda>st.
        bindP (liftP (bindE (py_key dev ''NQN'') as_str)) (\<lambda>nqn.
        whenP ((cmd = JStr ''construct_nvmf_subsystem'' \<and> (st = JStr ''pending'' \<or> st = JStr ''processing'')) \<or>
            cmd = JStr ''delete_nvmf_subsystem'')
          (thenP sync_count_inc (enqueue (lock_name D nqn) dev)))))))"

text \<open>\<^verbatim>\<open>sync_with_etcd\<close> up to the loop that waits until the queue was worked off.\<close>

definition sync_with_etcd where
  "sync_with_etcd E D =
     bindP (on_client (b_held E (dn_uuid D))) (\<lambda>held.
     if \<not> held then raiseP (SystemExit ''Sync with etcd requires lock'')
     else bindP (tryP (get_json_prefix E (SERVER_CONFIG_KEY_PREFIX D)) (\<lambda>_. retP (JObj []))) (\<lambda>docs.
       bindP (liftP (py_items docs)) (\<lambda>ds. forP (map snd ds) (catch_up D))))"

definition subsystem_config_watcher where
  "subsystem_config_watcher E D =
     thenP (on_client (b_acquire E (dn_uuid D)))
     (bindP (readP dm_watch) (\<lambda>ws.
      thenP (whenP (\<not> dict_has ''subsystem_config_watcher'' ws)
        (tryP (bindP (on_client (e_watch E (SERVER_CONFIG_KEY_PREFIX D))) (\<lambda>i.
           modifyP (\<lambda>w. w\<lparr>dm_watch := dict_set ''subsystem_config_watcher'' i (dm_watch w)\<rparr>))) (\<lambda>_. retP ())))
      (thenP (sync_with_etcd E D)
      (thenP (on_client (b_release E (dn_uuid D))) (retP ())))))"

definition stop_etcd_watchers where
  "stop_etcd_watchers E =
     bindP (readP dm_watch) (\<lambda>ws.
     thenP (modifyP (\<lambda>w. w\<lparr>dm_watch := []\<rparr>))
       (forP ws (\<lambda>(_, i). tryP (on_client (e_cancel E (Some i))) (\<lambda>_. retP ()))))"

section \<open>Status of the target\<close>

definition TARGET_STATUS_PREFIX where
  "TARGET_STATUS_PREFIX D = ''/target/status/'' @ before (CHR ''.'') (dn_node D) @ ''/''"

definition store_events where
  "store_events E D es = tryP (thenP (save_events_to_etcd_db E (dn_uuid1 D) (JList es)) (retP True)) (\<lambda>_. retP False)"

definition read_target_status where
  "read_target_status E D = tryP (get_json_prefix E (TARGET_STATUS_PREFIX D)) (\<lambda>_. retP (JObj []))"

definition write_target_status where
  "write_target_status E D status = tryP (thenP (write_dict_to_etcd E status (TARGET_STATUS_PREFIX D)) (retP True)) (\<lambda>_. retP False)"

definition status_changed :: "json \<Rightarrow> string \<Rightarrow> string \<Rightarrow> json \<Rightarrow> exn + bool" where
  "status_changed known event_name key value =
     bindE (py_in event_name known) (\<lambda>a. if \<not> a then Inr True
     else bindE (py_key known event_name) (\<lambda>c.
       bindE (py_in key c) (\<lambda>b. if \<not> b then Inr True
       else bindE (py_path c [key, ''status'']) (\<lambda>old. bindE (py_key value ''status'') (\<lambda>new. Inr (old \<noteq> new))))))"

definition target_event :: "string \<Rightarrow> json \<Rightarrow> string \<Rightarrow> json \<Rightarrow> json" where
  "target_event node ts event_name value =
     JObj [(''node'', JStr node), (''name'', JStr event_name), (''args'', value), (''timestamp'', ts)]"

text \<open>
  The loops of \<^verbatim>\<open>compare_target_status\<close>: the events, the status with the serial numbers written into
  it, and whether the loop came to its end.  An exception ends both loops and is only logged.
\<close>

fun compare_keys :: "json \<Rightarrow> string \<Rightarrow> json \<Rightarrow> string \<Rightarrow> (string \<times> json) list \<Rightarrow> json list \<times> (string \<times> json) list \<times> bool" where
  "compare_keys known node ts name [] = ([], [], True)"
| "compare_keys known node ts name ((k, v) # kvs) =
     (case (status_changed known name k v, v) of
        (Inr False, _) \<Rightarrow> (case compare_keys known node ts name kvs of (es, r, ok) \<Rightarrow> (es, (k, v) # r, ok))
      | (Inr True, JObj d) \<Rightarrow>
          let v' = JObj (dict_set ''slno'' (JStr k) d) in
          (case compare_keys known node ts name kvs of (es, r, ok) \<Rightarrow> (target_event node ts name v' # es, (k, v') # r, ok))
      | _ \<Rightarrow> ([], (k, v) # kvs, False))"

fun compare_names :: "json \<Rightarrow> string \<Rightarrow> json \<Rightarrow> (string \<times> json) list \<Rightarrow> json list \<times> (string \<times> json) list" where
  "compare_names known node ts [] = ([], [])"
| "compare_names known node ts ((name, JObj kvs) # rest) =
     (case compare_keys known node ts name kvs of (es, kvs', ok) \<Rightarrow>
        if ok then (case compare_names known node ts rest of (es', rest') \<Rightarrow> (es @ es', (name, JObj kvs') # rest'))
        else (es, (name, JObj kvs') # rest))"
| "compare_names known node ts rest = ([], rest)"

definition compare_target_status where
  "compare_target_status E D known status =
     (case status of
        JObj d \<Rightarrow>
          (case compare_names known (before (CHR ''.'') (dn_node D)) (case map_of d ''timestamp'' of None \<Rightarrow> JNull | Some t \<Rightarrow> t)
              (dict_del ''timestamp'' d) of (es, d') \<Rightarrow>
           if es = [] then retP (False, JObj d')
           else thenP (store_events E D es) (thenP (write_target_status E D (JObj d')) (retP (True, JObj d'))))
      | _ \<Rightarrow> retP (False, status))"

definition process_target_status where
  "process_target_status E D status =
     bindP (readP dm_cached) (\<lambda>known.
     if py_truth known then
       bindP (compare_target_status E D known status) (\<lambda>(changed, status'). whenP changed (modifyP (\<lambda>w. w\<lparr>dm_cached := status'\<rparr>)))
     else thenP (modifyP (\<lambda>w. w\<lparr>dm_cached := status\<rparr>)) (thenP (write_target_status E D status) (retP ())))"

definition initialize_target_events where
  "initialize_target_events E D = bindP (read_target_status E D) (\<lambda>s. modifyP (\<lambda>w. w\<lparr>dm_cached := s\<rparr>))"

section \<open>Polling of the subsystems\<close>

definition put_locked where
  "put_locked E D key v lease =
     thenP (set_lock E (dn_uuid D)) (thenP (acquire_lock E) (thenP (put_key E key v (Some lease)) (release_lock E)))"

definition keep_lease where
  "keep_lease E ok t lease =
     bindP (case lease of None \<Rightarrow> retP None | Some l \<Rightarrow> bindP (on_client (e_lease_ttl E l)) (\<lambda>r. retP (if ok r then Some l else None))) (\<lambda>alive.
     case alive of Some l \<Rightarrow> thenP (on_client (e_refresh_lease E l)) (retP l) | None \<Rightarrow> on_client (e_lease E t None))"

definition subsystem_up where
  "subsystem_up E D t subsystem table =
     bindP (liftP (py_key subsystem ''subtype'')) (\<lambda>ty.
     if ty \<noteq> JStr ''NVMe'' then retP table
     else bindP (liftP (bindE (py_key subsystem ''nqn'') as_str)) (\<lambda>nqn.
       let key = SERVER_CONFIG_KEY_PREFIX D @ nqn @ ''/status'' in
       bindP (if dict_has nqn table then retP table
         else tryP (bindP (on_client (dn_lease_of D key)) (\<lambda>m. case m of None \<Rightarrow> retP table
           | Some i \<Rightarrow> bindP (on_client (e_lease E t (Some i))) (\<lambda>l. retP (dict_set nqn l table)))) (\<lambda>_. retP table)) (\<lambda>table1.
       bindP (keep_lease E (\<lambda>r. r \<noteq> - 1) t (map_of table1 nqn)) (\<lambda>l.
       thenP (put_locked E D key ''up'' l) (retP (dict_set nqn l table1))))))"

definition poll_subsystems_pass where
  "poll_subsystems_pass E D sec = (\<lambda>(table, lease).
     bindP (tryP (SPDKJSONRPC_call D (build_payload ''get_nvmf_subsystems'' None)) (\<lambda>_. retP JNull)) (\<lambda>results.
     bindP (readP dm_removed) (\<lambda>removed.
     thenP (modifyP (\<lambda>w. w\<lparr>dm_removed := []\<rparr>))
     (bindP (if py_truth results then liftP (py_get results ''status'' (JBool False)) else retP JNull) (\<lambda>st.
      thenP (whenP (py_truth st) (process_target_status E D st))
      (bindP (if py_truth results then liftP (bindE (py_in ''error'' results) (\<lambda>b. Inr (\<not> b))) else retP False) (\<lambda>ok.
       bindP (if ok then bindP (liftP (bindE (py_key results ''result'') py_iter)) (\<lambda>subs.
           foldP subs (filter (\<lambda>(k, _). k \<notin> set removed) table) (subsystem_up E D (2 * sec)))
         else retP (filter (\<lambda>(k, _). k \<notin> set removed) table)) (\<lambda>table'.
       bindP (tryP (bindP (keep_lease E (\<lambda>r. r > 0) (2 * sec) lease) (\<lambda>l. retP (Some l))) (\<lambda>_. retP None)) (\<lambda>r.
       case r of None \<Rightarrow> retP (table', lease)
       | Some l \<Rightarrow> thenP (tryP (put_locked E D (SERVER_BASE_KEY_PREFIX D @ ''target/status'') (if ok then ''up'' else ''down'') l) (\<lambda>_. retP ()))
           (retP (table', Some l)))))))))))"

section \<open>The making of the daemon\<close>

definition target_version :: "json \<Rightarrow> exn + json \<times> json" where
  "target_version results =
     bindE (py_in ''error'' results) (\<lambda>a.
     bindE (if a then Inr False else py_in ''result'' results) (\<lambda>b.
     if \<not> b then Inr (JNull, JNull)
     else bindE (bindE (py_key results ''result'') py_first) (\<lambda>r.
       bindE (py_in ''OSS_TARGET_HASH'' r) (\<lambda>c.
       if \<not> c then Inr (JNull, JNull)
       else bindE (py_key r ''OSS_TARGET_VER'') (\<lambda>v. bindE (py_key r ''OSS_TARGET_HASH'') (\<lambda>h. Inr (v, h)))))))"

definition learn_nqn :: "json \<Rightarrow> string dict \<Rightarrow> string dict" where
  "learn_nqn subsystem m =
     (case (bindE (py_key subsystem ''NQN'') as_str, bindE (py_key subsystem ''UUID'') as_str) of
        (Inr n, Inr u) \<Rightarrow> dict_set n u m | _ \<Rightarrow> m)"

definition OSMDaemon_init where
  "OSMDaemon_init E D =
     thenP (on_client (e_get E ''/cluster/id''))
     (thenP (on_fs (delete_temp_local_config (dn_conf D)))
     (bindP (SPDKJSONRPC_call D (build_payload ''dfly_oss_version_info'' None)) (\<lambda>results.
      bindP (liftP (target_version results)) (\<lambda>(v, h).
      thenP (write_dict_to_etcd E (JObj [(''agent'', JObj [(''version'', JStr (dn_version D))]), (''target'', JObj [(''version'', v), (''hash'', h)])])
          (SERVER_BASE_KEY_PREFIX D))
      (bindP (tryP (get_json_prefix E (SERVER_CONFIG_KEY_PREFIX D)) (\<lambda>_. retP (JObj []))) (\<lambda>subsystems.
       bindP (liftP (py_items subsystems)) (\<lambda>ss.
       thenP (modifyP (\<lambda>w. w\<lparr>dm_uuid_map := foldl (\<lambda>m (_, s). learn_nqn s m) [] ss\<rparr>))
       (bindP (on_mach (dn_attrs D)) (\<lambda>l.
        thenP (modifyP (\<lambda>w. w\<lparr>dm_local := l\<rparr>))
        (bindP (liftP (bindE (py_key l ''identity'') (\<lambda>i. bindE (py_key l ''cpu'') (\<lambda>c. Inr (JObj [(''identity'', i), (''cpu'', c)]))))) (\<lambda>entry.
         thenP (write_dict_to_etcd E entry (SERVER_ATTR_KEY_PREFIX D))
         (bindP (get_json_prefix E (SERVER_ATTR_KEY_PREFIX D)) (\<lambda>attrs.
          thenP (modifyP (\<lambda>w. w\<lparr>dm_etcd := attrs\<rparr>))
          (thenP (on_attrs (ensure [] ''network''))
          (thenP (on_attrs (ensure [] ''storage''))
          (thenP (synchronize_device_metadata E D TYPE_NETWORK)
          (thenP (synchronize_device_metadata E D TYPE_STORAGE) (retP ()))))))))))))))))))"

section \<open>Commands that never end well\<close>

lemma rpc_raises: "m \<noteq> ''dfly_oss_version_info'' \<Longrightarrow> SPDKJSONRPC_call D (build_payload m p) w = (Inl JSONRPCException, w)"
  by (simp add: SPDKJSONRPC_call_def build_payload_def dict_get_def bindP_def liftP_def raiseP_def split: option.split)

lemma yields_False_bind: "yields (\<lambda>_. False) m \<Longrightarrow> yields P (bindP m f)"
  by (fastforce simp: yields_def bindP_def split: prod.splits sum.splits)

lemma yields_False_then: "yields (\<lambda>_. False) m \<Longrightarrow> yields P (thenP m n)"
  by (simp add: thenP_def yields_False_bind)

lemma execute_raises: "yields (\<lambda>_. False) (execute_subsystem_rpc E D lock namespaces command rpc_args)"
  unfolding execute_subsystem_rpc_def get_namespaces_def
  by (intro yields_False_bind) (simp add: yields_def rpc_raises)

lemma commands_raise:
  "yields (\<lambda>_. False) (construct_command E D lock config nqn namespaces addresses)"
  "yields (\<lambda>_. False) (delete_command E D lock config nqn namespaces)"
  unfolding construct_command_def delete_command_def split_def
  by (intro yields_bind yields_then yields_False_bind execute_raises)+

text \<open>Nothing but the end of a command releases the lock between the threads.\<close>

definition same_op :: "('db, 'm, 'r) dmworld_scheme \<Rightarrow> ('db, 'm, 'r) dmworld_scheme \<Rightarrow> bool" where
  "same_op w w' \<longleftrightarrow> dm_op w' = dm_op w"

interpretation so: py_rel same_op
  by unfold_locales (auto simp: same_op_def)

lemma op_calls: "keeps same_op (on_client m)" "keeps same_op (on_mach n)" "keeps same_op (on_fs f)"
  by (auto simp: keeps_def same_op_def on_client_def on_mach_def on_fs_def split: prod.splits)

lemma op_modify: "(\<And>w. dm_op (f w) = dm_op w) \<Longrightarrow> keeps same_op (modifyP f)"
  by (rule so.keeps_modify) (simp add: same_op_def)

lemma op_write: "keeps same_op (write_dict_to_etcd E d p)"
  by (simp add: write_dict_to_etcd_def op_calls)

lemma op_rpc: "keeps same_op (SPDKJSONRPC_call D p)"
  unfolding SPDKJSONRPC_call_def by (intro so.keeps_rules op_calls)

lemma op_status: "keeps same_op (set_device_config_status E D lock nqn s)" "keeps same_op (remove_device_config E D lock nqn)"
  "keeps same_op (subsystem_fail E D c lock nqn nss)"
  unfolding set_device_config_status_def remove_device_config_def put_key_def subsystem_fail_def reset_drivers_def split_def
  by (intro so.keeps_rules op_calls)+

lemma op_execute: "keeps same_op (execute_subsystem_rpc E D lock nss c args)"
  unfolding execute_subsystem_rpc_def get_namespaces_def create_namespaces_def split_def
  by (intro so.keeps_rules op_calls op_rpc)

lemma op_announce: "keeps same_op (announce E D lock nqn d a)"
  unfolding announce_def by (intro so.keeps_rules op_calls op_status op_write op_modify) simp

lemma op_commands:
  "keeps same_op (construct_command E D lock config nqn nss as)" "keeps same_op (delete_command E D lock config nqn nss)"
  unfolding construct_command_def delete_command_def change_drivers_def forget_nqn_def reset_drivers_def split_def
  by (intro so.keeps_rules op_calls op_status op_execute op_announce op_modify; simp)+

definition raising :: "('w \<Rightarrow> 'w \<Rightarrow> bool) \<Rightarrow> ('w, 'a) py \<Rightarrow> bool" where
  "raising R m \<longleftrightarrow> keeps R m \<and> yields (\<lambda>_. False) m"

lemma raisingD: "raising R m \<Longrightarrow> \<exists>e w'. m w = (Inl e, w') \<and> R w w'"
  unfolding raising_def yields_def by (metis keepsD prod.collapse sum.exhaust)

lemma raisingI: "(\<And>w. \<exists>e w'. m w = (Inl e, w') \<and> R w w') \<Longrightarrow> raising R m"
  unfolding raising_def keeps_def yields_def by (metis Inl_Inr_False prod.sel)

lemma raising_first: "raising R m \<Longrightarrow> raising R (thenP m n)"
proof (rule raisingI)
  fix w assume "raising R m"
  from raisingD [OF this] obtain e w' where "m w = (Inl e, w')" "R w w'" by blast
  then show "\<exists>e w'. thenP m n w = (Inl e, w') \<and> R w w'" by (simp add: thenP_def bindP_def)
qed

context py_rel
begin

lemma raising_bind: "keeps R m \<Longrightarrow> (\<And>x. raising R (f x)) \<Longrightarrow> raising R (bindP m f)"
  by (auto simp: raising_def intro: keeps_bind yields_bind)

lemma raising_then: "keeps R m \<Longrightarrow> raising R n \<Longrightarrow> raising R (thenP m n)"
  by (simp add: thenP_def raising_bind)

end

lemma raising_command:
  assumes "py_key config ''Command'' = Inr (JStr c)" and "c = ''construct_nvmf_subsystem'' \<or> c = ''delete_nvmf_subsystem''"
  shows "raising same_op (execute_command E D lock config)"
proof -
  have "raising same_op (run_command E D lock config c nqn nss as)" for nqn nss as
    using assms(2) by (elim disjE) (simp_all add: run_command_def raising_def op_commands commands_raise)
  then have "raising same_op (thenP (set_device_config_status E D lock nqn ''processing'')
     (thenP (run_command E D lock config c nqn nss as) m))" for nqn nss as m
    by (intro so.raising_then op_status raising_first)
  moreover have "bindE (py_key config ''Command'') as_str = Inr c" using assms(1) by simp
  ultimately show ?thesis
    unfolding execute_command_def by (simp only: bindP_liftP) (intro so.raising_bind so.keeps_pure)
qed

section \<open>Which keys the daemon changes\<close>

text \<open>What the polling of the subsystems relies on: asking for a lease changes no key.\<close>

locale daemon_frame = lock_frame E kv
  for E :: "('db, 'x) lock_etcd_scheme" and kv :: "'db \<Rightarrow> string \<rightharpoonup> string" +
  fixes D :: "('db, 'm, 'y) denv_scheme"
  assumes ttl_kv: "kv (snd (e_lease_ttl E l d)) = kv d"
    and refresh_kv: "kv (snd (e_refresh_lease E l d)) = kv d"
    and lease_of_kv: "kv (snd (dn_lease_of D k d)) = kv d"

definition own_key where
  "own_key D k \<longleftrightarrow> prefix (SERVER_BASE_KEY_PREFIX D) k \<or> k = SERVER_LIST D"

lemma own_prefixes:
  "prefix (SERVER_ATTR_KEY_PREFIX D) k \<Longrightarrow> own_key D k" "prefix (SERVER_CONFIG_KEY_PREFIX D) k \<Longrightarrow> own_key D k"
  "own_key D (SERVER_LIST D)" "own_key D (SERVER_BASE_KEY_PREFIX D @ k)"
  "own_key D (SERVER_ATTR_KEY_PREFIX D @ k)" "own_key D (SERVER_CONFIG_KEY_PREFIX D @ k)"
  by (auto simp: own_key_def SERVER_ATTR_KEY_PREFIX_def SERVER_CONFIG_KEY_PREFIX_def dest: append_prefixD)

lemma but_parts: "keeps (same_but kv P) (on_mach m)" "keeps (same_but kv P) (on_fs n)"
  by (auto simp: keeps_def same_but_def on_mach_def on_fs_def split: prod.splits)

lemma but_modify: "(\<And>w. ew_db (f w) = ew_db w) \<Longrightarrow> keeps (same_but kv P) (modifyP f)"
  by (rule sb.keeps_modify) (simp add: same_but_def)

lemma but_attrs: "keeps (same_but kv P) (on_attrs f)" "keeps (same_but kv P) (attrs_at p)"
  unfolding on_attrs_def attrs_at_def by (intro sb.keeps_rules but_modify; simp)+

lemma but_entries: "keeps (same_but kv P) (create_metadata_entries ty)"
  unfolding create_metadata_entries_def create_storage_metadata_entries_def create_network_interface_metadata_entries_def
  by (cases ty) (auto intro!: sb.keeps_rules but_attrs simp: Let_def)

context daemon_frame
begin

abbreviation "own \<equiv> same_but kv (own_key D)"

lemma own_put: "own_key D k \<Longrightarrow> keeps own (put_key E k v l)"
proof -
  assume k: "own_key D k"
  have "kv (snd (e_put E k v [(''lease'', KLease l)] d)) ka = kv d ka" if "\<not> own_key D ka" for d ka
    using put_other [of ka k v] k that by (auto simp: etcd3.truncate_def)
  then show ?thesis unfolding put_key_def by (rule but_on_client)
qed

lemma own_lease: "keeps own (on_client (e_lease E t i))"
  using lease_kv by (intro but_on_client) (simp add: etcd3.truncate_def)

lemma own_write:
  "keeps own (write_dict_to_etcd E j (SERVER_ATTR_KEY_PREFIX D))" "keeps own (write_dict_to_etcd E j (SERVER_CONFIG_KEY_PREFIX D @ s))"
  unfolding write_dict_to_etcd_def by (intro but_transaction; auto intro: own_prefixes dest: append_prefixD)+

lemma own_delete: "prefix (SERVER_BASE_KEY_PREFIX D) p \<Longrightarrow> keeps own (on_client (e_delete_prefix E p))"
  by (rule but_delete) (auto simp: own_key_def)

lemmas own_rules = sb.keeps_rules but_calls but_parts but_attrs but_entries own_put own_lease own_write own_prefixes but_docs

lemma own_sync_device:
  assumes "prefix (SERVER_BASE_KEY_PREFIX D) p"
  shows "keeps own (synchronize_device E D ls es p ty)"
proof -
  have del: "keeps own (on_client (e_delete_prefix E (p @ q)))" for q using assms by (intro own_delete) auto
  show ?thesis
    unfolding synchronize_device_def remove_device_def update_device_def stays_def synchronize_device_metadata_def Let_def split_def
    by (intro own_rules del)
qed

lemma own_sync_type: "keeps own (synchronize_type E D ty)"
proof -
  have all: "keeps own (write_all E D ty root)" for root
    unfolding write_all_def Let_def split_def by (intro own_rules)
  have p: "prefix (SERVER_BASE_KEY_PREFIX D) (SERVER_ATTR_KEY_PREFIX D @ q)" for q by (simp add: SERVER_ATTR_KEY_PREFIX_def)
  show ?thesis unfolding synchronize_type_def by (intro own_rules all own_sync_device p)
qed

lemma own_reports: "keeps own (poll_attributes_pass E D)"
  unfolding poll_attributes_pass_def server_info_to_db_def write_spdk_status_def
  by (intro own_rules own_sync_type but_modify; simp)

lemma own_status: "keeps own (set_device_config_status E D lock nqn s)" "keeps own (remove_device_config E D lock nqn)"
proof -
  have del: "keeps own (on_client (e_delete_prefix E (SERVER_CONFIG_KEY_PREFIX D @ q)))" for q
    by (intro own_delete) (simp add: SERVER_CONFIG_KEY_PREFIX_def)
  show "keeps own (set_device_config_status E D lock nqn s)" "keeps own (remove_device_config E D lock nqn)"
    unfolding set_device_config_status_def remove_device_config_def by (intro own_rules del)+
qed

lemma own_rpc: "keeps own (SPDKJSONRPC_call D' p)"
  unfolding SPDKJSONRPC_call_def by (intro own_rules)

lemma own_announce: "keeps own (announce E D lock nqn d a)"
  unfolding announce_def by (intro own_rules own_status but_modify) simp

lemma own_command: "keeps own (execute_command E D lock config)"
proof -
  have rpc: "keeps own (execute_subsystem_rpc E D lock nss c args)" for nss c args
    unfolding execute_subsystem_rpc_def get_namespaces_def create_namespaces_def split_def by (intro own_rules own_rpc)
  have run: "keeps own (run_command E D lock config c nqn nss as)" for c nqn nss as
    unfolding run_command_def construct_command_def delete_command_def store_command_def change_drivers_def forget_nqn_def
      reset_drivers_def subsystem_fail_def split_def
    by (intro own_rules own_status own_announce rpc but_modify; simp)
  show ?thesis
    unfolding execute_command_def sync_count_dec_def by (intro own_rules own_status run but_modify; simp)
qed

lemma own_config_pass: "server_config_pass E D w = Some (r, w') \<Longrightarrow> own w w'"
proof -
  have k: "keeps own (thenP (on_client (b_acquire E lock)) (if py_truth config then execute_command E D lock config else retP ()))" for lock config
    by (intro own_rules own_command)
  have "own v w'" if "thenP (on_client (b_acquire E lock)) (if py_truth config then execute_command E D lock config else retP ()) v = (r, w')" for lock config v
    using keepsD [OF k] that by blast
  then show "server_config_pass E D w = Some (r, w') \<Longrightarrow> own w w'"
    by (fastforce simp: server_config_pass_def same_but_def split: if_splits list.splits prod.splits)
qed

lemma own_polls:
  "poll_attributes E D n w = Some (r, w') \<Longrightarrow> own w w'" "server_config_poll E D n w = Some (r, w') \<Longrightarrow> own w w'"
proof -
  show "poll_attributes E D n w = Some (r, w') \<Longrightarrow> own w w'"
    by (induction n arbitrary: w) (auto simp: sb.R_refl split: if_splits prod.splits sum.splits dest: keepsD [OF own_reports] intro: sb.R_trans)
  show "server_config_poll E D n w = Some (r, w') \<Longrightarrow> own w w'"
    by (induction n arbitrary: w) (auto simp: sb.R_refl split: option.splits prod.splits sum.splits dest: own_config_pass intro: sb.R_trans)
qed

end

section \<open>Parts of a document\<close>








section \<open>What is known of the devices\<close>








section \<open>Keys of the devices\<close>

definition dev_prefix where
  "dev_prefix D ty = SERVER_ATTR_KEY_PREFIX D @ concat (map (\<lambda>k. k @ ''/'') (dev_path ty))"








section \<open>Synchronization of the devices\<close>


















section \<open>A command reaches the queue\<close>








section \<open>The status of the target\<close>

definition down_only where
  "down_only kv D w w' \<longleftrightarrow> (\<forall>k. kv (ew_db w') k = kv (ew_db w) k \<or> (k = SERVER_BASE_KEY_PREFIX D @ ''target/status'' \<and> kv (ew_db w') k = Some ''down''))"

interpretation do: py_rel "down_only kv D" for kv D
  by unfold_locales (simp add: down_only_def, unfold down_only_def, metis)

lemma down_on_client:
  "(\<And>d k. kv (snd (m d)) k = kv d k \<or> (k = SERVER_BASE_KEY_PREFIX D @ ''target/status'' \<and> kv (snd (m d)) k = Some ''down'')) \<Longrightarrow>
   keeps (down_only kv D) (on_client m)"
  by (simp add: keeps_def on_client_def down_only_def split_def)

lemma bindP_retP: "bindP (retP x) f = f x"
  by (simp add: bindP_def retP_def fun_eq_iff)

lemma thenP_retP: "thenP (retP x) m = m"
  by (simp add: thenP_def bindP_retP)

lemma whenP_False: "whenP False m = retP ()"
  by (simp add: whenP_def)

lemma subsystems_call: "tryP (SPDKJSONRPC_call D (build_payload ''get_nvmf_subsystems'' None)) (\<lambda>_. retP JNull) = retP JNull"
  by (simp add: tryP_def rpc_raises fun_eq_iff)

lemma down_modify: "(\<And>w. ew_db (f w) = ew_db w) \<Longrightarrow> keeps (down_only kv D) (modifyP f)"
  by (rule do.keeps_modify) (simp add: down_only_def)

context daemon_frame
begin

lemma down_put: "keeps (down_only kv D) (put_key E (SERVER_BASE_KEY_PREFIX D @ ''target/status'') ''down'' l)"
proof -
  let ?k = "SERVER_BASE_KEY_PREFIX D @ ''target/status''" and ?kw = "[(''lease'', KLease l)]"
  have "kv (snd (e_put E ?k ''down'' ?kw d)) k = kv d k \<or> k = ?k \<and> kv (snd (e_put E ?k ''down'' ?kw d)) k = Some ''down''" for d k
    using put_other [of k ?k "''down''" ?kw d] put_same [of ?k "''down''" ?kw d] by (cases "k = ?k") (auto simp: etcd3.truncate_def)
  then show ?thesis unfolding put_key_def by (rule down_on_client)
qed

lemma down_leases:
  "keeps (down_only kv D) (on_client (e_lease E t i))" "keeps (down_only kv D) (on_client (e_lease_ttl E l))"
  "keeps (down_only kv D) (on_client (e_refresh_lease E l))" "keeps (down_only kv D) (on_client (b_acquire E n))"
  "keeps (down_only kv D) (on_client (b_release E n))" "keeps (down_only kv D) (on_client (b_held E n))"
  using lease_kv by (intro down_on_client; simp add: etcd3.truncate_def ttl_kv refresh_kv lock_kv)+

lemma down_put_locked: "keeps (down_only kv D) (put_locked E D (SERVER_BASE_KEY_PREFIX D @ ''target/status'') ''down'' l)"
  unfolding put_locked_def set_lock_def acquire_lock_def release_lock_def lock_of_def
  by (intro do.keeps_rules down_put down_leases down_modify) simp_all

lemma down_pass:
  fixes w :: "('db, 'm, 'r) dmworld_scheme"
  shows "down_only kv D w (snd (poll_subsystems_pass E D sec s w))"
proof -
  have lease: "keeps (down_only kv D) (keep_lease E ok t l :: (('db, 'm, 'r) dmworld_scheme, int) py)" for ok t l
    unfolding keep_lease_def by (intro do.keeps_rules down_leases)
  have "keeps (down_only kv D) (poll_subsystems_pass E D sec (table, l) :: (('db, 'm, 'r) dmworld_scheme, int dict \<times> int option) py)" for table l
    unfolding poll_subsystems_pass_def split_conv subsystems_call bindP_retP py_truth.simps if_False whenP_False thenP_retP
    by (intro do.keeps_rules lease down_put_locked down_modify) simp
  then show ?thesis by (cases s) (simp add: keeps_def)
qed

end

section \<open>A concrete daemon\<close>

definition demo_attrs :: json where
  "demo_attrs = JObj [(''identity'', JObj [(''UUID'', JStr ''u'')]), (''cpu'', JObj []),
     (''network'', JObj [(''interfaces'', JObj [(''m'', JObj [(''CRC'', JInt 2), (''MACAddress'', JStr ''m'')])]), (''Count'', JInt 1)]),
     (''storage'', JObj [(''nvme'', JObj [(''devices'', JObj []), (''Count'', JInt 0), (''Capacity'', JInt 0)]), (''Count'', JInt 0), (''Capacity'', JInt 0)])]"

definition demo_denv :: "(string dict, unit) denv" where
  "demo_denv = \<lparr>dn_uuid = ''u'', dn_version = ''1'', dn_node = ''n.local'', dn_conf = ''/etc/nvmf.in.conf'', dn_sha1 = (\<lambda>_. ''1234''),
     dn_attr_poll = Some 60, dn_attrs = retP demo_attrs, dn_spdk = retP True, dn_now = retP ''17'', dn_uptime = retP ''3'', dn_uuid4 = retP ''x'',
     dn_time = retP ''17.0'', dn_driver = (\<lambda>_. retP ''nvme''), dn_setup = (\<lambda>_ _. retP ()), dn_restart = retP (), dn_socket = (\<lambda>_. retP JNull),
     dn_lease_of = (\<lambda>_. retP None), dn_uuid1 = (\<lambda>_. ''y'')\<rparr>"

definition demo_daemon :: "string dict \<Rightarrow> json \<Rightarrow> (string \<times> json) list \<Rightarrow> (string dict, unit) dmworld" where
  "demo_daemon d attrs q = \<lparr>ew_db = d, ew_client = True, ew_cache_data = False, ew_cache = None, ew_watch_id = None, bw_lock = None,
     dm_etcd = attrs, dm_local = JObj [], dm_spdk = True, dm_init = True, dm_uptime = ''2'', dm_q = q, dm_removed = [], dm_uuid_map = [],
     dm_sync = 0, dm_op = False, dm_restart = 0, dm_watch = [], dm_cached = JObj [], dm_fs = demo_disk, dm_mach = ()\<rparr>"

interpretation mem_dm: daemon_frame mem_locks map_of demo_denv
  by unfold_locales (simp_all add: mem_locks_def agent_etcd.extend_def lock_etcd.fields_def mem_agent_def etcd3.extend_def
    agent_etcd.fields_def retP_def demo_denv_def)

definition demo_interfaces :: "(string \<times> json) list" where
  "demo_interfaces = [(''m'', JObj [(''CRC'', JInt 1)]), (''old'', JObj [(''CRC'', JInt 5)])]"

definition demo_stored :: json where
  "demo_stored = JObj [(''network'', JObj [(''interfaces'', JObj demo_interfaces)]), (''storage'', JObj [])]"

section \<open>Properties\<close>

text \<open>
  C9.  The report of the attributes and the execution of commands, over any number of passes, change no
  key but those of the daemon's own server.
\<close>

theorem daemon_touches_own_keys:
  assumes "daemon_frame E kv D" and "\<not> own_key D k"
  shows "(poll_attributes E D n w = Some (r, w') \<longrightarrow> kv (ew_db w') k = kv (ew_db w) k) \<and>
    (server_config_poll E D n w = Some (r, w') \<longrightarrow> kv (ew_db w') k = kv (ew_db w) k)"
  using daemon_frame.own_polls [OF assms(1)] assms(2) unfolding same_but_def by blast

definition demo_db :: "string dict" where
  "demo_db = [(dev_prefix demo_denv TYPE_NETWORK @ ''old/CRC'', ''5''), (''/cluster/id'', ''c'')]"

theorem daemon_touches_own_keys_witness:
  "\<exists>w'. poll_attributes mem_locks demo_denv 1 (demo_daemon demo_db demo_stored []) = Some (Inr (), w') \<and>
     map_of (ew_db w') (dev_prefix demo_denv TYPE_NETWORK @ ''old/CRC'') = None \<and> map_of (ew_db w') ''/cluster/id'' = Some ''c''"
proof -
  let ?r = "poll_attributes mem_locks demo_denv 1 (demo_daemon demo_db demo_stored [])"
  have a: "map_option fst ?r = Some (Inr ())" "map_option (\<lambda>r. map_of (ew_db (snd r)) (dev_prefix demo_denv TYPE_NETWORK @ ''old/CRC'')) ?r = Some None"
    by code_simp+
  then obtain w' where r: "?r = Some (Inr (), w')" by (cases ?r) auto
  have o: "\<not> own_key demo_denv ''/cluster/id''" "map_of (ew_db (demo_daemon demo_db demo_stored [])) ''/cluster/id'' = Some ''c''" by code_simp+
  have "map_of (ew_db w') ''/cluster/id'' = Some ''c''"
    using daemon_touches_own_keys [OF mem_dm.daemon_frame_axioms o(1)] r o(2) by metis
  moreover have "map_of (ew_db w') (dev_prefix demo_denv TYPE_NETWORK @ ''old/CRC'') = None" using a(2) unfolding r by simp
  ultimately show ?thesis using r by blast
qed




definition demo_command :: "(string \<times> json) list" where
  "demo_command = [(''Command'', JStr ''store_nvmf_subsystem''), (''NQN'', JStr ''nqn''),
     (''namespaces'', JObj [(''1'', JObj [(''Serial'', JStr ''S1'')])]),
     (''transport_addresses'', JObj [(''m'', JList [JObj [(''trtype'', JStr ''TCP'')]])]),
     (''adrfam'', JStr ''IPv4''), (''cmd_status'', JStr ''pending'')]"




text \<open>
  C16.  A command to construct or delete a subsystem ends the thread that executes commands with an
  exception, because every remote call but the one for the version raises; the lock between the
  threads stays held, and the attributes of the server are never reported again.
\<close>

theorem command_stops_reports:
  assumes "dm_init w" and "dm_q w = (lock, config) # q" and "\<not> dm_op w"
    and "py_key config ''Command'' = Inr (JStr c)" and "c = ''construct_nvmf_subsystem'' \<or> c = ''delete_nvmf_subsystem''"
  shows "\<exists>e w'. server_config_pass E D w = Some (Inl e, w') \<and> dm_op w' \<and> poll_attributes E D (Suc n) w' = None"
proof -
  have "py_truth config" using assms(4) by (cases config) (auto simp: dict_get_def)
  moreover have "raising same_op (thenP (on_client (b_acquire E lock)) (execute_command E D lock config))"
    using raising_command [OF assms(4,5)] by (auto intro: so.raising_then op_calls)
  from raisingD [OF this, of "w\<lparr>dm_op := True, dm_q := q\<rparr>"] obtain e w' where
    "thenP (on_client (b_acquire E lock)) (execute_command E D lock config) (w\<lparr>dm_op := True, dm_q := q\<rparr>) = (Inl e, w')" "dm_op w'"
    by (auto simp: same_op_def)
  ultimately show ?thesis using assms(1-3) by (simp add: server_config_pass_def)
qed

theorem command_stops_reports_witness:
  "\<exists>e w'. server_config_pass mem_locks demo_denv (demo_daemon [] demo_stored [(''u_nqn'', JObj ((''Command'', JStr ''construct_nvmf_subsystem'') # tl demo_command))]) = Some (Inl e, w') \<and>
     dm_op w' \<and> poll_attributes mem_locks demo_denv 1 w' = None"
proof -
  let ?c = "JObj ((''Command'', JStr ''construct_nvmf_subsystem'') # tl demo_command)"
  have "py_key ?c ''Command'' = Inr (JStr ''construct_nvmf_subsystem'')" by (simp add: dict_get_def)
  with command_stops_reports [of "demo_daemon [] demo_stored [(''u_nqn'', ?c)]" "''u_nqn''" ?c "[]" "''construct_nvmf_subsystem''" mem_locks demo_denv 0]
  show ?thesis by (simp add: demo_daemon_def)
qed

text \<open>
  C40.  The polling of the subsystems changes no key but the status of the target, and that only to
  \<^verbatim>\<open>down\<close>: the remote call it relies on always raises.
\<close>

theorem target_reported_down:
  assumes "daemon_frame E kv D" and "poll_subsystems_pass E D sec s w = (r, w')"
  shows "kv (ew_db w') k = kv (ew_db w) k \<or> (k = SERVER_BASE_KEY_PREFIX D @ ''target/status'' \<and> kv (ew_db w') k = Some ''down'')"
  using daemon_frame.down_pass [OF assms(1), of w sec s] assms(2) by (simp add: down_only_def)

theorem target_reported_down_witness:
  "let r = poll_subsystems_pass mem_locks demo_denv 60 ([], None) (demo_daemon [] demo_stored []) in
     map_of (ew_db (snd r)) (SERVER_BASE_KEY_PREFIX demo_denv @ ''target/status'') = Some ''down'' \<and>
     map_of (ew_db (snd r)) (SERVER_BASE_KEY_PREFIX demo_denv @ ''target/x'') = None"
proof -
  let ?r = "poll_subsystems_pass mem_locks demo_denv 60 ([], None) (demo_daemon [] demo_stored [])"
  have "map_of (ew_db (snd ?r)) (SERVER_BASE_KEY_PREFIX demo_denv @ ''target/status'') = Some ''down''" by code_simp
  moreover have "map_of (ew_db (snd ?r)) (SERVER_BASE_KEY_PREFIX demo_denv @ ''target/x'') = None"
    using target_reported_down [OF mem_dm.daemon_frame_axioms, of 60 "([], None)" "demo_daemon [] demo_stored []" "fst ?r" "snd ?r"
      "SERVER_BASE_KEY_PREFIX demo_denv @ ''target/x''"]
    by (simp add: demo_daemon_def)
  ultimately show ?thesis by (simp add: Let_def)
qed

end
