(* ===== verification/Spec2Isabelle.thy ===== *)
theory Spec2Isabelle
  imports LogActions SwitchService RedfishBackend RedfishServer NodeHealth SystemsRest AgentDaemon
begin

text \<open>
  A verification of the control plane of the DSS SDK: the unified fabric manager (UFM) of
  \<^verbatim>\<open>src/ufm/fabricmanager\<close> and the message broker of \<^verbatim>\<open>src/ufm/ufm_msg_broker\<close>, Python 3, and the
  NKV agent of \<^verbatim>\<open>src/ufm/agents/nkv_agent\<close>, Python 2.

  \<^bold>\<open>The program.\<close>  The fabric manager keeps the configuration of the switches and storage nodes of a
  cluster in etcd.  A switch client polls a Mellanox switch and writes what it reports as keys with
  a lease; a switch controller executes commands that come as JSON requests over a ZeroMQ reply
  socket and polls again; REST resources read the keys back as Redfish documents and post commands.
  A monitor watches the keys of the storage nodes, turns changes into events, and an event processor
  sends them to a broker, which publishes them.  Every part writes to one log, a ring in memory whose
  masks can be set by request.  The agent on the storage nodes stores their state in the same database;
  its cluster library reads it back as health, map and version documents and starts software upgrades;
  its commands put subsystems for the storage target into the database, its daemon writes the target's
  configuration file and sends the statistics of the target on.

  \<^bold>\<open>How Python is modelled.\<close>  Theory \<open>Prelude\<close>: a statement is a function from a world to a result and
  a world, the result being an exception (\<open>Inl\<close>) or a value (\<open>Inr\<close>); \<open>bindP\<close>, \<open>thenP\<close>, \<open>tryP\<close>, \<open>forP\<close>,
  \<open>foldP\<close> are sequence, \<^verbatim>\<open>try\<close> and loops; dictionaries are association lists in insertion order.  \<open>wp\<close>
  is the weakest precondition with a postcondition for each kind of end, \<open>keeps R\<close> says that a
  statement stays within the relation \<open>R\<close>.  Worlds are records that grow by component:
  \<open>lworld\<close> (log, clock), \<open>dworld\<close> (database), \<open>world\<close> (switch and its client), \<open>nworld\<close> (socket of the
  event sender), \<open>mworld\<close> (queue of events), \<open>rworld\<close> (the Redfish tree kept in memory); and for the
  agent \<open>eworld\<close> (database, connection, cache), \<open>cworld\<close> (the machine its commands run on), \<open>bworld\<close> (the
  lock of a server), \<open>dmworld\<close> (the daemon) and \<open>fsworld\<close> (files).  Theory \<open>PyLib\<close>: texts and numbers (\<^verbatim>\<open>split\<close>, \<^verbatim>\<open>join\<close>, \<^verbatim>\<open>strip\<close>,
  \<^verbatim>\<open>int\<close>, \<^verbatim>\<open>str\<close>).  Theory \<open>Json\<close>: JSON values with indexing, truth, \<^verbatim>\<open>json.dumps\<close>, \<^verbatim>\<open>repr\<close> and the \<^verbatim>\<open>%\<close> format.

  \<^bold>\<open>Components.\<close>  Source paths are below \<^verbatim>\<open>src/ufm/fabricmanager\<close>.
  \<^item> \<open>Ufmlog\<close>: \<^verbatim>\<open>common/ufmlog/ufmlog.py\<close>, the ring of entries and the masks of the module logs.
  \<^item> \<open>Ufmdb\<close>: \<^verbatim>\<open>common/ufmdb/\<close> (\<^verbatim>\<open>ufmdb.py\<close>, \<^verbatim>\<open>ufmdb_etcd3/\<close>, \<^verbatim>\<open>redfish/ufmdb_util.py\<close>), access to etcd.
  \<^item> \<open>LogActions\<close>: \<^verbatim>\<open>common/ufmdb/redfish/redfish_action.py\<close>, requests to the log.
  \<^item> \<open>SwitchClient\<close>, \<open>SwitchController\<close>: \<^verbatim>\<open>systems/switch/\<close>, the polls and commands of a switch and the
    handlers of requests.
  \<^item> \<open>SwitchService\<close>: \<^verbatim>\<open>systems/switch/switch_poller.py\<close>, \<^verbatim>\<open>ufm_thread.py\<close>, \<^verbatim>\<open>systems/subsystem.py\<close>.
  \<^item> \<open>RedfishServer\<close>: \<^verbatim>\<open>systems/switch/redfish_server.py\<close>, the loop over the reply socket.
  \<^item> \<open>RedfishBackend\<close>, \<open>RedfishRest\<close>: \<^verbatim>\<open>common/ufmdb/redfish/redfish_*_backend.py\<close> and \<^verbatim>\<open>rest_api/redfish/\<close>
    for fabrics, switches, ports and VLANs, stored and emulated.
  \<^item> \<open>RedfishResponses\<close>, \<open>RedfishTree\<close>: \<^verbatim>\<open>common/ufmdb/redfish/redfish_responses.py\<close> and \<^verbatim>\<open>redfish_ufmdb.py\<close>, the
    documents and the tree of systems, storage, drives and interfaces that is rebuilt from the database.
  \<^item> \<open>SystemsRest\<close>: the backends and REST resources of that tree, the emulated resources and
    \<^verbatim>\<open>backend/populate.py\<close>.
  \<^item> \<open>Events\<close>: \<^verbatim>\<open>common/events/\<close> and the broker; \<open>NodeMonitor\<close>, \<open>NodeHealth\<close>: \<^verbatim>\<open>systems/nkv/\<close>.
  \<^item> \<open>AgentDb\<close>: \<^verbatim>\<open>agents/nkv_agent/etcdlib/etcd_api.py\<close> and \<^verbatim>\<open>events/events.py\<close>; \<open>ClusterLib\<close>:
    \<^verbatim>\<open>agents/nkv_agent/clusterlib/lib.py\<close> (all of the agent is below \<^verbatim>\<open>src/ufm\<close>).
  \<^item> \<open>SpdkConfig\<close>: \<^verbatim>\<open>agents/nkv_agent/spdk_config_file/spdk_config.py\<close>, the configuration file of the target.
  \<^item> \<open>AgentBackend\<close>: \<^verbatim>\<open>utils/backend_layer.py\<close>, \<^verbatim>\<open>utils/validate_kv.py\<close> and \<^verbatim>\<open>subcommands/kv/kv.py\<close> of the agent, the
    commands that create and delete subsystems; \<open>AgentStats\<close>: the statistics of
    \<^verbatim>\<open>subcommands/daemon/daemon.py\<close> and \<^verbatim>\<open>graphite.py\<close>.
  \<^item> \<open>AgentDaemon\<close>: the rest of class \<^verbatim>\<open>OSMDaemon\<close> of that file, the attributes of the server, the queue and the
    execution of commands, the status of the target; \<^verbatim>\<open>utils/jsonrpc.py\<close>, \<^verbatim>\<open>utils/target_events_processing.py\<close>.

  \<^bold>\<open>Parameters.\<close>  Code outside the repository is an argument of the definitions, with what is relied on
  as a locale: etcd (\<open>etcd_frame\<close>, \<open>etcd_store\<close>), the reply, request and publishing sockets of ZeroMQ
  (\<open>rep_socket\<close>, \<open>req_socket\<close>, \<open>broker_sockets\<close>), the switch (\<open>answers\<close>, \<open>executes\<close>); the calls
  only the agent makes of etcd (\<open>agent_frame\<close>, \<open>agent_store\<close>) and its locks and leases (\<open>lock_frame\<close>, \<open>lock_store\<close>, \<open>daemon_frame\<close>).  Without laws: the commands \<^verbatim>\<open>fping\<close> and those of
  the shell, the clock and floating point numbers (fields \<open>re_\<close> of \<open>rfenv\<close>, \<open>le_\<close> of \<open>libenv\<close>,
  \<open>dn_\<close> of \<open>denv\<close>).  Each locale has an
  interpretation on an executable instance (\<open>mem_etcd\<close>, \<open>mem_agent\<close>, \<open>mem_locks\<close>, \<open>mem_zmq\<close>, \<open>mem_req\<close>, \<open>mem_broker\<close>) and the
  frames of the components are interpretations of \<open>py_rel\<close> and \<open>q_frame\<close> on the model's worlds.

  \<^bold>\<open>What is shown.\<close>  This theory states the properties that span components: a confirmed command is
  visible in the REST resource; a poll writes exactly what the switch reports; the log ring refines
  the history of entries; refused commands leave the database alone; the server answers in order and
  when it falls silent; events are sent a bounded number of times, marked only when acknowledged, and
  moved exactly; the links of the Redfish tree resolve and drives are found through the REST resource;
  the health of the cluster follows the rule of the majority; the cache of the agent follows the
  database; software changes announce all or nothing and exclude each other; and the round trips and
  error behaviour of the parts.  The theories of the agent end with their own: the configuration file
  is read back and replaced as a whole, commands stay within their subsystem and reach the queue of the
  daemon, the daemon keeps the devices in the database in step with the machine and stays within the
  keys of its server until a command for the target stops it, documents are read back,
  the reports of a counter add up, and datagrams hold what was to be sent.

  \<^bold>\<open>Bounds.\<close>  Loops over data are structural recursion.  Loops that run until a stop flag (the server, the
  poller, the broker, the event processor) take the number of passes as an argument; the statements
  hold for every number, or for every number that is at least the number of waiting requests.  The
  retries of an event are the three of the source.

  \<^bold>\<open>Not modelled.\<close>  Interleaving of threads (each component is one thread of control), Python's
  \<^verbatim>\<open>logging\<close> module, start-up and command line of the programs, and the parts of the repository that
  drive hardware or run system commands: the process control and the hardware inventory of the agent, the host
  and target scripts of \<^verbatim>\<open>src/host\<close> and \<^verbatim>\<open>src/target\<close>, and the C++ code.
\<close>

section \<open>A concrete world\<close>

text \<open>Used only to show that the hypotheses of the properties can be met.\<close>

definition db_logger :: logger where "db_logger = \<lparr>lg_module = ''DB'', lg_mask = UFM_DB\<rparr>"
definition sw_logger :: logger where "sw_logger = \<lparr>lg_module = ''SWITCH'', lg_mask = UFM_SWITCH\<rparr>"

definition demo_client :: mclient where
  "demo_client = \<lparr>mc_url = ''https://10.1.10.191/admin/launch'', mc_uuid = JStr ''f1ec15f8''\<rparr>"

definition demo :: "string dict \<Rightarrow> 'sw \<Rightarrow> (string dict, 'sw) world" where
  "demo d s =
     \<lparr>lw_log = Ufmlog_init 8, lw_clock = (\<lambda>n. PyTime (int n) ''0.0''), lw_tick = 0, lw_traceback = (\<lambda>e. ''trace''),
      w_db = d, w_sw = s, w_client = demo_client\<rparr>"

lemmas demo_simps = demo_def db_logger_def sw_logger_def Ufmlog_init_def UFM_DB_def UFM_SWITCH_def UFM_ALL_def UFM_NONE_def

text \<open>A switch whose state is what it reports; it executes \<open>cs\<close> by going to \<open>V'\<close> and refuses everything else.\<close>

definition demo_shows :: "swview \<Rightarrow> (json \<times> json) list" where
  "demo_shows V = map (\<lambda>(c, d). (commands [c], result_json c d))
     [(''show version'', version_data V), (''show vlan'', vlan_data V),
      (''show interfaces switchport'', port_data V), (''show dcb priority-flow-control'', pfc_data V),
      (''show qos'', qos_data V)]"

definition demo_switch :: "string list \<Rightarrow> swview \<Rightarrow> swview switch_env" where
  "demo_switch cs V' =
     \<lparr>s_login = (\<lambda>url u p. retP 200),
      s_post = (\<lambda>url j V. case map_of (demo_shows V) j of
          Some r \<Rightarrow> (Inr (200, Inr r), V)
        | None \<Rightarrow> if j = commands cs then (Inr (200, Inr (all_ok cs)), V')
                  else (Inr (200, Inr (JObj [(''results'', JList [])])), V))\<rparr>"

definition demo_arg :: swarg where
  "demo_arg = \<lparr>sw_type = ''Mellanox'', sw_ip = ''10.1.10.191'', sa_log = sw_logger, sa_db = db_logger,
     usrname = ''admin'', pwd = ''admin'', sa_port = JInt 5555\<rparr>"

definition demo_cmds :: "string list" where
  "demo_cmds = [''interface ethernet 1/7 switchport mode access'', ''interface ethernet 1/7 switchport access vlan 6'']"

text \<open>Before and after port 7 is put into access mode in VLAN 6.\<close>

definition demo_view :: "string \<Rightarrow> string \<Rightarrow> swview" where
  "demo_view acc al =
     \<lparr>v_uuid = ''f1ec15f8'', v_model = ''x86onie'', v_serial = ''MT1935'', v_vlans = [(''1'', ''default'', []), (''6'', '''', [''7''])],
      v_ports = [(''7'', (if acc = ''N/A'' then ''trunk'' else ''access''), acc, al), (''8'', ''access'', ''1'', '''')],
      v_pfc = ''enabled'', v_prio_on = [''3''], v_prio_off = [''0''], v_port_pfc = [(''7'', ''disabled'')], v_trust = [(''7'', ''L2'')]\<rparr>"

definition silent_switch :: "unit switch_env" where
  "silent_switch = \<lparr>s_login = (\<lambda>url u p. retP 200), s_post = (\<lambda>url j. retP (200, Inr (JObj [])))\<rparr>"

lemma demo_answers: "answers (demo_switch cs V') url V V"
  by (simp add: answers_def answers_show_def demo_switch_def demo_shows_def commands_def)

lemma demo_executes: "cs \<noteq> [] \<Longrightarrow> hd cs \<notin> {''show version'', ''show vlan'', ''show interfaces switchport'',
    ''show dcb priority-flow-control'', ''show qos''} \<Longrightarrow> executes (demo_switch cs V') url V cs V'"
  by (cases cs) (simp_all add: executes_def demo_switch_def demo_shows_def commands_def)

lemma demo_wf: "wf_view (demo_view acc al)"
  by (simp add: wf_view_def demo_view_def num_str_def is_digit_def)

lemma demo_log_ok: "log_ok (lw_log (demo d s))"
  by (simp add: log_ok_def demo_def Ufmlog_init_def)

lemma demo_db_is:
  "distinct (map fst d) \<Longrightarrow> db_is map_of mem_up db_logger (map_of d) (demo d s)"
  by (simp add: db_is_def quiet_def mask_hit_def mem_up_def demo_simps)

lemma demo_ring: "has_ring (demo d s)"
  using ring_init [of 8] by (auto simp: has_ring_def demo_def)

lemma demo_cl_is:
  "distinct (map fst d) \<Longrightarrow> cl_is map_of mem_up demo_arg (map_of d) s demo_client (demo d s)"
  using demo_db_is [of d s] demo_log_ok [of d s] by (simp add: cl_is_def demo_arg_def demo_def)

lemma demo_uuid: "mc_uuid demo_client = JStr (v_uuid (demo_view acc al))"
  by (simp add: demo_client_def demo_view_def)

lemmas demo_world = mem_etcd_store demo_cl_is demo_answers demo_wf demo_uuid

section \<open>The log\<close>

text \<open>
  C3.  The ring of \<^verbatim>\<open>Ufmlog\<close> refines the list of all entries ever added: after any sequence of
  \<^verbatim>\<open>_add\<close> and \<^verbatim>\<open>clear_log\<close> on a log of capacity \<open>n\<close>, asking for the last \<open>c\<close> entries returns the
  last \<open>c\<close> of the history, cut at the capacity and at the last clear, oldest first.
\<close>

theorem log_last_entries:
  assumes "0 < n" and "0 \<le> c"
  shows "get_entries None (Some c) (log_run ops (Ufmlog_init n)) =
    drop (length (history ops) - min (min (nat c) n) (length (history ops) - cleared ops)) (history ops)"
  using get_entries_last [OF log_run_init(1) [OF assms(1)] assms(2), of ops]
  by (simp add: log_run_init(2,3) [OF assms(1)])

theorem log_last_entries_witness:
  "get_entries None (Some 2) (log_run [OpAdd (PyTime 1 ''1.0'') ''A'' ''INFO'' ''x'', OpAdd (PyTime 2 ''2.0'') ''B'' ''INFO'' ''y'',
     OpAdd (PyTime 3 ''3.0'') ''C'' ''INFO'' ''z''] (Ufmlog_init 2)) =
   [\<lparr>timestamp = PyTime 2 ''2.0'', le_id = 1, le_module = ''B'', le_msg = ''y'', le_type = ''INFO''\<rparr>,
    \<lparr>timestamp = PyTime 3 ''3.0'', le_id = 2, le_module = ''C'', le_msg = ''z'', le_type = ''INFO''\<rparr>]"
  by (subst log_last_entries) (simp_all add: history_def cleared_def)

text \<open>
  Reading from a number \<open>i\<close>, the way a client pages through the log: as long as the start
  is still in the ring and something was logged since the last clear, the result is exactly
  the part of the history from \<open>i\<close> (or from the last clear) on, at most \<open>c\<close> entries.
\<close>

theorem log_entries_from:
  assumes "0 < n" and "0 \<le> c" and "i < int (length (history ops))" and "cleared ops < length (history ops)"
    and "length (history ops) \<le> nat (max i (int (cleared ops))) + n"
  shows "get_entries (Some i) (Some c) (log_run ops (Ufmlog_init n)) =
    take (nat c) (drop (nat (max i (int (cleared ops)))) (history ops))"
proof -
  note run = log_run_init [OF assms(1), of ops]
  have "entry_id (log_run ops (Ufmlog_init n)) = int (length (history ops))"
    using run(1) by (simp add: ring_def)
  with get_entries_from_count [OF run(1) assms(2), of i] assms show ?thesis by (simp add: run(2,3))
qed

theorem log_entries_from_witness:
  "get_entries (Some 1) (Some 5) (log_run [OpAdd (PyTime 1 ''1.0'') ''A'' ''INFO'' ''x'', OpAdd (PyTime 2 ''2.0'') ''B'' ''INFO'' ''y'']
     (Ufmlog_init 4)) =
   [\<lparr>timestamp = PyTime 2 ''2.0'', le_id = 1, le_module = ''B'', le_msg = ''y'', le_type = ''INFO''\<rparr>]"
  by (subst log_entries_from) (simp_all add: history_def cleared_def)


text \<open>
  Reading the whole log without options returns everything logged since the last clear, oldest
  first, as long as it fits into the ring.
\<close>

theorem log_all_entries:
  assumes "0 < n" and "length (history ops) \<le> cleared ops + n"
  shows "get_entries None None (log_run ops (Ufmlog_init n)) = drop (cleared ops) (history ops)"
proof -
  note run = log_run_init [OF assms(1), of ops]
  have "entry_id (log_run ops (Ufmlog_init n)) = int (length (history ops))"
    using run(1) by (simp add: ring_def)
  with get_entries_all [OF run(1)] assms(2) show ?thesis by (simp add: run(2,3))
qed

theorem log_all_entries_witness:
  "get_entries None None (log_run [OpAdd (PyTime 1 ''1.0'') ''A'' ''INFO'' ''x'', OpClear, OpAdd (PyTime 2 ''2.0'') ''B'' ''INFO'' ''y'']
     (Ufmlog_init 4)) =
   [\<lparr>timestamp = PyTime 2 ''2.0'', le_id = 1, le_module = ''B'', le_msg = ''y'', le_type = ''INFO''\<rparr>]"
  by (subst log_all_entries) (simp_all add: history_def cleared_def)

text \<open>
  When more entries were logged since the last clear than the ring holds, the same request
  returns them rotated: the newest \<open>k\<close> entries come first, followed by the older ones that are
  still in the ring.
\<close>

theorem log_all_entries_rotated:
  assumes "0 < n" and "length (history ops) = cleared ops + n + k" and "k \<le> n"
  shows "get_entries None None (log_run ops (Ufmlog_init n)) =
    drop (length (history ops) - k) (history ops) @ take (n - k) (drop (length (history ops) - n) (history ops))"
proof -
  note run = log_run_init [OF assms(1), of ops]
  have "entry_id (log_run ops (Ufmlog_init n)) = int (length (history ops))"
    using run(1) by (simp add: ring_def)
  with get_entries_all_rotated [OF run(1), of k] assms(2,3) show ?thesis by (simp add: run(2,3))
qed

theorem log_all_entries_rotated_witness:
  "map le_msg (get_entries None None (log_run [OpAdd (PyTime 1 ''1.0'') ''A'' ''INFO'' ''x'', OpAdd (PyTime 2 ''2.0'') ''A'' ''INFO'' ''y'',
     OpAdd (PyTime 3 ''3.0'') ''A'' ''INFO'' ''z''] (Ufmlog_init 2))) = [''z'', ''y'']"
  by (subst log_all_entries_rotated [of _ _ 1]) (simp_all add: history_def cleared_def)

text \<open>
  After \<^verbatim>\<open>clear_log\<close> a client that pages on from an older number still gets one entry: the last
  one of the cleared part.
\<close>

theorem log_cleared_entry:
  assumes "0 < n" and "history ops \<noteq> []" and "i < int (length (history ops))"
  shows "get_entries (Some i) None (clear_log (log_run ops (Ufmlog_init n))) = [last (history ops)]"
proof -
  note run = log_run_init [OF assms(1), of ops]
  have "entry_id (log_run ops (Ufmlog_init n)) = int (length (history ops))"
    using run(1) by (simp add: ring_def)
  with get_entries_cleared [OF run(1) assms(2)] assms(3) show ?thesis by simp
qed

theorem log_cleared_entry_witness:
  "map le_msg (get_entries (Some 0) None (clear_log (log_run [OpAdd (PyTime 1 ''1.0'') ''A'' ''INFO'' ''secret''] (Ufmlog_init 5)))) =
   [''secret'']"
  by (subst log_cleared_entry) (simp_all add: history_def)

text \<open>
  Switching a module's detail messages off silences that module and no other: its own calls
  leave the world as it is, and a module with a disjoint mask logs exactly when it did before.
\<close>

theorem log_detail_off_isolated:
  assumes "log_detail_off l w = (Inr (), w')" and "lg_mask l AND lg_mask l' = 0"
  shows "log_detail l s as w' = (Inr (), w') \<and>
    mask_hit (lg_mask l') (log_detail_mask (lw_log w')) = mask_hit (lg_mask l') (log_detail_mask (lw_log w))"
proof -
  obtain m' where m': "mask_off (lg_mask l) (log_detail_mask (lw_log w)) = Inr m'"
    "w' = w\<lparr>lw_log := (lw_log w)\<lparr>log_detail_mask := m'\<rparr>\<rparr>"
    using assms(1) by (auto simp: log_detail_off_def upd_mask_def bindP_def readP_def liftP_def modifyP_def
        set_log_detail_def split: sum.splits)
  have "log_detail l s as w' = (Inr (), w')"
    using mask_off_miss [OF m'(1)] by (intro log_detail_quiet) (simp add: quiet_def m'(2))
  with mask_other(2) [OF assms(2) m'(1)] show ?thesis by (simp add: m'(2))
qed

theorem log_detail_off_isolated_witness:
  "\<exists>w'. log_detail_off db_logger (demo [] ()) = (Inr (), w') \<and>
     mask_hit (lg_mask sw_logger) (log_detail_mask (lw_log w')) =
     mask_hit (lg_mask sw_logger) (log_detail_mask (lw_log (demo [] ())))"
proof -
  have "\<exists>w'. log_detail_off db_logger (demo [] ()) = (Inr (), w')"
    by (simp add: demo_simps log_detail_off_def upd_mask_def mask_off_def bindP_def readP_def liftP_def modifyP_def)
  moreover have "lg_mask db_logger AND lg_mask sw_logger = 0"
    by (simp add: demo_simps)
  ultimately show ?thesis using log_detail_off_isolated by blast
qed

section \<open>The database\<close>





text \<open>
  No call of the database layer raises, whatever the server does: an exception of the server or
  of the log message becomes an entry of the log and the call returns \<open>None\<close>.
\<close>

theorem Ufmdb_calls_return:
  assumes "has_ring w"
  shows "(\<exists>r w'. Ufmdb_put E l k v kw w = (Inr r, w')) \<and> (\<exists>r w'. Ufmdb_get E l k w = (Inr r, w')) \<and>
    (\<exists>r w'. Ufmdb_get_prefix E l k kw w = (Inr r, w')) \<and> (\<exists>r w'. Ufmdb_get_all E l kw w = (Inr r, w')) \<and>
    (\<exists>r w'. Ufmdb_delete E l k kw w = (Inr r, w')) \<and> (\<exists>r w'. Ufmdb_delete_prefix E l k w = (Inr r, w')) \<and>
    (\<exists>r w'. Ufmdb_lease E l ttl i w = (Inr r, w')) \<and> (\<exists>r w'. Ufmdb_revoke_lease E l ttl w = (Inr r, w'))"
  unfolding Ufmdb_put_def Ufmdb_get_def Ufmdb_get_prefix_def Ufmdb_get_all_def Ufmdb_delete_def
    Ufmdb_delete_prefix_def Ufmdb_lease_def Ufmdb_revoke_lease_def
  by (intro conjI guarded_call_returns assms)

theorem Ufmdb_calls_return_witness:
  "\<exists>r w'. Ufmdb_put (mem_etcd\<lparr>e_put := \<lambda>k v kw. raiseP (ExternalError ''down'')\<rparr>) db_logger ''/a'' ''1'' [] (demo [] ()) = (Inr r, w')"
  using Ufmdb_calls_return [OF demo_ring [of "[]" "()"]] by blast

text \<open>
  With the detail messages of the database module on, a lease without a number is never
  requested: the log message formats \<open>None\<close> with \<open>%d\<close>, which raises, so the call returns
  \<open>None\<close> and the server is not asked.
\<close>

theorem lease_lost_when_detailed:
  assumes "has_ring w" and "mask_hit (lg_mask l) (log_detail_mask (lw_log w)) = Inr True"
  shows "\<exists>w'. Ufmdb_lease E l ttl None w = (Inr None, w') \<and> w_db w' = w_db w"
proof -
  obtain h where "ring h (lw_log w)" using assms(1) by (auto simp: has_ring_def)
  from log_exception_ok [OF this, of l TypeError]
  obtain w' where "log_exception l TypeError w = (Inr (), w')" "lworld.more w' = lworld.more w" by blast
  moreover have "log_detail l ''LEASE: ttl=%d lease_id=%d'' [JInt ttl, JNull] w = (Inl TypeError, w)"
    using assms(2) by (simp add: log_detail_def log_filtered_def bindP_def readP_def liftP_def)
  ultimately show ?thesis
    by (cases w; cases w') (auto simp: Ufmdb_lease_def log_error_guard_def tryP_def thenP_def bindP_def retP_def opt_int_json_def)
qed

definition demo_detailed :: "string dict \<Rightarrow> 'sw \<Rightarrow> (string dict, 'sw) world" where
  "demo_detailed d s = (demo d s)\<lparr>lw_log := (Ufmlog_init 8)\<lparr>log_detail_mask := JInt UFM_ALL\<rparr>\<rparr>"

lemma demo_detailed_ring: "has_ring (demo_detailed d s)"
  using ring_init [of 8] by (auto simp: has_ring_def demo_detailed_def ring_def)

theorem lease_lost_when_detailed_witness:
  "\<exists>w'. Ufmdb_lease mem_etcd db_logger 10 None (demo_detailed [] ()) = (Inr None, w') \<and> w_db w' = []"
proof -
  have "mask_hit (lg_mask db_logger) (log_detail_mask (lw_log (demo_detailed [] ()))) = Inr True"
    by (simp add: mask_hit_def demo_detailed_def demo_simps)
  from lease_lost_when_detailed [OF demo_detailed_ring this, of mem_etcd 10]
  show ?thesis by (simp add: demo_detailed_def demo_def)
qed

text \<open>
  The numeric ranges a switch prints, such as \<^verbatim>\<open>1-8,10,14-20\<close>, are read back as the numbers
  they stand for, in order.
\<close>

theorem ranges_roundtrip:
  assumes "rs \<noteq> []"
  shows "convert_ranges_to_list (py_join '','' (map range_str rs)) = Inr (concat (map (\<lambda>(a, b). [int a..int b]) rs))"
  using assms by (rule ranges_print)

theorem ranges_roundtrip_witness:
  "convert_ranges_to_list ''1-3,10'' = Inr [1, 2, 3, 10]"
proof -
  have n: "nat_str 1 = ''1''" "nat_str 3 = ''3''" "nat_str 10 = ''10''" by code_simp+
  from ranges_roundtrip [of "[(1, 3), (10, 10)]"] show ?thesis
    by (simp add: range_str_def upto.simps n n(1) [simplified])
qed

text \<open>
  The document built from flat keys holds every value at the path of its key, provided no key
  is a prefix of another one.
\<close>

theorem flat_keys_roundtrip:
  assumes "prefix_free (map fst kvs)"
  shows "\<exists>j. convert_flat_key_list_to_json kvs = Inr j \<and> (\<forall>(k, v) \<in> set kvs. json_get (key_path k) j = Some (JStr v))"
proof -
  have "open_at (key_path k) (JObj [])" if "k \<in> set (map fst kvs)" for k
    using assms that by (intro open_at_empty) (auto simp: prefix_free_def)
  from convert_flat_all [OF assms this] show ?thesis
    by (auto simp: convert_flat_key_list_to_json_def)
qed

theorem flat_keys_roundtrip_witness:
  "\<exists>j. convert_flat_key_list_to_json [(''/a/b'', ''1''), (''/a/c'', ''2'')] = Inr j \<and> json_get [''a'', ''c''] j = Some (JStr ''2'')"
proof -
  have "prefix_free (map fst [(''/a/b'', ''1''), (''/a/c'', ''2'')])"
    by (simp add: prefix_free_def key_path_def)
  from flat_keys_roundtrip [OF this] show ?thesis by (auto simp: key_path_def)
qed

section \<open>Actions on the log\<close>

lemma setmask_run:
  "\<exists>r w'. ufm_setmask_action (JObj d) w = (Inr r, w') \<and> lw_log w' = (lw_log w)\<lparr>
     log_error_mask := or_else (map_of d ''ErrorMask'') (log_error_mask (lw_log w)),
     log_warning_mask := or_else (map_of d ''WarningMask'') (log_warning_mask (lw_log w)),
     log_info_mask := or_else (map_of d ''InfoMask'') (log_info_mask (lw_log w)),
     log_debug_mask := or_else (map_of d ''DebugMask'') (log_debug_mask (lw_log w)),
     log_detail_mask := or_else (map_of d ''DetailMask'') (log_detail_mask (lw_log w))\<rparr>"
  by (simp add: ufm_setmask_action_def bindP_def set_mask_run retP_def set_log_error_def set_log_warning_def
      set_log_info_def set_log_debug_def set_log_detail_def or_else_def split: option.splits)

text \<open>
  Setting masks: exactly the masks named in the request change, to the values of the request,
  and the entries of the log stay as they are.
\<close>

theorem setmask_sets:
  "\<exists>r w'. ufm_setmask_action (JObj d) w = (Inr r, w') \<and> lw_log w' = (lw_log w)\<lparr>
     log_error_mask := or_else (map_of d ''ErrorMask'') (log_error_mask (lw_log w)),
     log_warning_mask := or_else (map_of d ''WarningMask'') (log_warning_mask (lw_log w)),
     log_info_mask := or_else (map_of d ''InfoMask'') (log_info_mask (lw_log w)),
     log_debug_mask := or_else (map_of d ''DebugMask'') (log_debug_mask (lw_log w)),
     log_detail_mask := or_else (map_of d ''DetailMask'') (log_detail_mask (lw_log w))\<rparr>"
  by (rule setmask_run)

text \<open>
  A detail mask that is no integer is accepted, and from then on every database write returns
  \<open>None\<close> without reaching the server.
\<close>

theorem setmask_text_disables_put:
  assumes "has_ring w" and "ufm_setmask_action (JObj [(''DetailMask'', JStr s)]) w = (Inr r, w1)"
  shows "\<exists>w'. Ufmdb_put E l k v kw w1 = (Inr None, w') \<and> w_db w' = w_db w"
proof -
  have w1: "w1 = w\<lparr>lw_log := (lw_log w)\<lparr>log_detail_mask := JStr s\<rparr>\<rparr>"
    using assms(2) by (simp add: ufm_setmask_action_def bindP_def set_mask_run retP_def set_log_detail_def)
  obtain h where "ring h (lw_log w)" using assms(1) by (auto simp: has_ring_def)
  then have "ring h (lw_log w1)" by (simp add: w1 ring_def)
  from log_exception_ok [OF this, of l TypeError]
  obtain w' where w': "log_exception l TypeError w1 = (Inr (), w')" "lworld.more w' = lworld.more w1" by blast
  have "as_index (log_detail_mask (lw_log w1)) = Inl TypeError" by (simp add: w1)
  from guard_bad_mask [OF this] w'(1)
  have "Ufmdb_put E l k v kw w1 = (Inr None, w')" by (simp add: Ufmdb_put_def)
  moreover have "w_db w' = w_db w" using w'(2) w1 by (cases w; cases w') auto
  ultimately show ?thesis by blast
qed

theorem setmask_text_disables_put_witness:
  "\<exists>r w1 w'. ufm_setmask_action (JObj [(''DetailMask'', JStr ''all'')]) (demo [] ()) = (Inr r, w1) \<and>
     Ufmdb_put mem_etcd db_logger ''/a'' ''1'' [] w1 = (Inr None, w') \<and> w_db w' = []"
proof -
  obtain r w1 where r: "ufm_setmask_action (JObj [(''DetailMask'', JStr ''all'')]) (demo [] ()) = (Inr r, w1)"
    using setmask_run [of "[(''DetailMask'', JStr ''all'')]" "demo [] ()"] by blast
  from setmask_text_disables_put [OF demo_ring r, of mem_etcd db_logger "''/a''" "''1''" "[]"] r
  show ?thesis by (simp add: demo_def)
qed

text \<open>
  The action that lists the log with \<^verbatim>\<open>$skip\<close> and \<^verbatim>\<open>$top\<close> returns the history from the entry
  after number \<^verbatim>\<open>$skip\<close>, at most \<^verbatim>\<open>$top\<close> entries: the entry numbered \<^verbatim>\<open>$skip\<close> itself is left out.
\<close>

theorem entries_action_page:
  assumes "lw_log w = log_run ops (Ufmlog_init n)" and "0 < n" and "0 \<le> c"
    and "i + 1 < int (length (history ops))" and "cleared ops < length (history ops)"
    and "length (history ops) \<le> nat (max (i + 1) (int (cleared ops))) + n"
  shows "ufm_entries_action (JObj [(''$skip'', JInt i), (''$top'', JInt c)]) w =
    (Inr (log_collection (take (nat c) (drop (nat (max (i + 1) (int (cleared ops)))) (history ops)))), w)"
proof -
  note run = log_run_init [OF assms(2), of ops]
  have "entry_id (log_run ops (Ufmlog_init n)) = int (length (history ops))"
    using run(1) by (simp add: ring_def)
  with get_entries_from_count [OF run(1) assms(3), of "i + 1"] assms(4-6)
  have "get_entries (Some (i + 1)) (Some c) (lw_log w) =
      take (nat c) (drop (nat (max (i + 1) (int (cleared ops)))) (history ops))"
    by (simp add: assms(1) run(2,3))
  then show ?thesis
    by (subst entries_action_run [of _ "Some i" "Some c"]) (simp_all add: opt_int_def dict_has_def dict_get_def)
qed

theorem entries_action_page_witness:
  "ufm_entries_action (JObj [(''$skip'', JInt 0), (''$top'', JInt 5)])
     ((demo [] ())\<lparr>lw_log := log_run [OpAdd (PyTime 1 ''1.0'') ''A'' ''INFO'' ''x'', OpAdd (PyTime 2 ''2.0'') ''B'' ''INFO'' ''y''] (Ufmlog_init 4)\<rparr>) =
   (Inr (log_collection [\<lparr>timestamp = PyTime 2 ''2.0'', le_id = 1, le_module = ''B'', le_msg = ''y'', le_type = ''INFO''\<rparr>]),
    (demo [] ())\<lparr>lw_log := log_run [OpAdd (PyTime 1 ''1.0'') ''A'' ''INFO'' ''x'', OpAdd (PyTime 2 ''2.0'') ''B'' ''INFO'' ''y''] (Ufmlog_init 4)\<rparr>)"
  by (subst entries_action_page [of _ "[OpAdd (PyTime 1 ''1.0'') ''A'' ''INFO'' ''x'', OpAdd (PyTime 2 ''2.0'') ''B'' ''INFO'' ''y'']" 4])
    (simp_all add: history_def cleared_def)

section \<open>The switch and the database\<close>

text \<open>
  C2.  One poll writes the configuration of the switch: while the server is up and the switch answers
  its five questions with the view \<open>V\<close>, the poll returns and the database gains exactly the keys
  of \<open>V\<close>, the fabric and the port of the request socket, every other key unchanged.
\<close>

theorem poll_writes_view:
  assumes "etcd_store E kv up" and "cl_is kv up a m s c w" and "answers S (mc_url c) s V" and "wf_view V"
    and "mc_uuid c = JStr (v_uuid V)"
  shows "\<exists>t w'. poll_to_db E S a w = (Inr (), w') \<and> cl_is kv up a (put_all m (poll_keys a V t)) s c w'"
proof -
  have "wp (poll_to_db E S a) (\<lambda>_ w'. \<exists>t. cl_is kv up a (put_all m (poll_keys a V t)) s c w') (\<lambda>_ _. False) w"
    by (rule etcd_store.wp_poll_to_db [OF assms]) blast
  then show ?thesis by (auto dest!: wpD)
qed

theorem poll_writes_view_witness:
  "\<exists>t w'. poll_to_db mem_etcd (demo_switch [] (demo_view ''6'' '''')) demo_arg (demo [(''/x'', ''1'')] (demo_view ''6'' '''')) = (Inr (), w') \<and>
     map_of (w_db w') = put_all (map_of [(''/x'', ''1'')]) (poll_keys demo_arg (demo_view ''6'' '''') t)"
  using poll_writes_view [OF mem_etcd_store demo_cl_is [of "[(''/x'', ''1'')]"] demo_answers demo_wf demo_uuid,
      of "[]" "demo_view ''6'' ''''" "''6''" "''''"]
  by (auto simp: cl_is_def db_is_def)





text \<open>
  C5.  No request can touch a key outside \<^verbatim>\<open>/switches/\<close> and \<^verbatim>\<open>/Fabrics/\<close>, whatever it asks for and
  whatever the switch answers, even when calls of the database fail half way.
\<close>

theorem action_touches_switch_keys:
  assumes "etcd_frame E kv" and "action_handler E S a U msg w = (r, w')" and "\<not> sw_key k"
  shows "kv (w_db w') k = kv (w_db w) k"
  using keepsD [OF etcd_frame.keeps_action_handler [OF assms(1)] assms(2)] assms(3)
  by (simp add: same_keys_def)

theorem action_touches_switch_keys_witness:
  "\<exists>r w'. action_handler mem_etcd (demo_switch [''no vlan 6''] (demo_view ''1'' '''')) demo_arg (JStr ''f1ec15f8'')
     (Inr (JObj [(''cmd'', JStr ''DeleteVLAN''), (''VLANId'', JStr ''6'')])) (demo [(''/x'', ''1'')] (demo_view ''6'' '''')) = (r, w') \<and>
     map_of (w_db w') ''/x'' = Some ''1''"
proof -
  obtain r w' where run: "action_handler mem_etcd (demo_switch [''no vlan 6''] (demo_view ''1'' '''')) demo_arg (JStr ''f1ec15f8'')
     (Inr (JObj [(''cmd'', JStr ''DeleteVLAN''), (''VLANId'', JStr ''6'')])) (demo [(''/x'', ''1'')] (demo_view ''6'' '''')) = (r, w')"
    by fastforce
  from action_touches_switch_keys [OF mem_etcd_frame run, of "''/x''"] run show ?thesis
    by (simp add: demo_def sw_key_def)
qed

lemma handler_run:
  assumes "map_of (dispatcher E S a U) c = Some h" and "py_key payload ''cmd'' = Inr (JStr c)" and "h payload w = (Inr r, w')"
  shows "action_handler E S a U (Inr payload) w = (Inr r, w')"
  using assms by (simp add: action_handler_def dispatch_def tryP_def bindP_def liftP_def)

lemma set_access_port_eq:
  assumes "py_key payload ''port_id'' = Inr (JStr p)" and "py_key payload ''VLANId'' = Inr (JStr v)"
    and "cs = [''interface ethernet 1/'' @ p @ '' switchport mode access'',
      ''interface ethernet 1/'' @ p @ '' switchport access vlan '' @ v]"
  shows "handle_set_access_port_vlan E S a U payload =
    send_update (send_cmds S a cs) (JStr (cs ! 1)) (port_mode_change E S a U (JStr p))"
  unfolding handle_set_access_port_vlan_def set_access_port_vlan_def assms(1,2) bindP_liftP
  by (simp add: assms(3) eth_def)

text \<open>
  C1.  A port put into access mode can be read back: when the switch executes the two commands of
  \<^verbatim>\<open>SetAccessPortVLAN\<close> and from then on reports the port as (mode, access VLAN, allowed VLANs), the
  request returns the answer of the switch, and reading the port resource afterwards shows that
  mode and those VLANs, however the port was configured before.
\<close>

theorem set_access_port_shown:
  assumes "etcd_store E kv up" and "cl_is kv up a m s c w" and "payload = JObj [(''cmd'', JStr ''SetAccessPortVLAN''),
      (''port_id'', JStr p), (''VLANId'', JStr v)]"
    and "cs = [''interface ethernet 1/'' @ p @ '' switchport mode access'',
      ''interface ethernet 1/'' @ p @ '' switchport access vlan '' @ v]"
    and "executes S (mc_url c) s cs s'" and "answers S (mc_url c) s' V" and "wf_view V" and "mc_uuid c = JStr (v_uuid V)"
    and "CHR ''%'' \<notin> set p" and "CHR ''%'' \<notin> set v" and "CHR ''/'' \<notin> set (v_uuid V)"
    and "distinct (map fst (v_ports V))" and "(p, mode, acc, al) \<in> set (v_ports V)"
    and "CHR ''/'' \<notin> set mode" and "acc \<noteq> ''N/A'' \<Longrightarrow> CHR ''/'' \<notin> set acc" and "CHR ''/'' \<notin> set al"
    and "allowed_entry al [] = Inr vs"
  shows "\<exists>w1 w2 pfc trust. action_handler E S a (JStr (v_uuid V)) (Inr payload) w = (Inr (all_ok cs), w1) \<and>
    port_backend_get E fab (v_uuid V) p w1 = (Inr (Resp (port_document fab (v_uuid V) p
      \<lparr>p_mode = mode, p_pfc_status = pfc, p_trust_mode = trust,
       p_access_vlan = (if acc = ''N/A'' then '''' else acc), p_allowed_vlans = vs\<rparr>) SUCCESS), w2)"
proof -
  let ?U = "JStr (v_uuid V)"
  have eq: "handle_set_access_port_vlan E S a ?U payload =
      send_update (send_cmds S a cs) (JStr (cs ! 1)) (port_mode_change E S a ?U (JStr p))"
    by (rule set_access_port_eq) (simp_all add: assms(3,4) dict_get_def)
  have "wp (handle_set_access_port_vlan E S a ?U payload)
      (\<lambda>r w1. r = all_ok cs \<and> (\<exists>t. cl_is kv up a (put_all (m |` (- stale_port (v_uuid V) p m)) (poll_keys a V t)) s' c w1))
      (\<lambda>_ _. False) w"
    unfolding eq by (rule etcd_store.wp_port_mode_cmd [OF assms(1,2,5)]) (use assms in auto)
  then obtain w1 t where w1: "handle_set_access_port_vlan E S a ?U payload w = (Inr (all_ok cs), w1)"
    "cl_is kv up a (put_all (m |` (- stale_port (v_uuid V) p m)) (poll_keys a V t)) s' c w1"
    by (auto dest!: wpD)
  have "action_handler E S a ?U (Inr payload) w = (Inr (all_ok cs), w1)"
    using w1(1) by (intro handler_run [of _ _ _ _ "''SetAccessPortVLAN''" "handle_set_access_port_vlan E S a ?U"])
      (simp_all add: dispatcher_def assms(3) dict_get_def)
  moreover have "wp (port_backend_get E fab (v_uuid V) p) (\<lambda>r _. \<exists>pfc trust. r = Resp (port_document fab (v_uuid V) p
      \<lparr>p_mode = mode, p_pfc_status = pfc, p_trust_mode = trust,
       p_access_vlan = (if acc = ''N/A'' then '''' else acc), p_allowed_vlans = vs\<rparr>) SUCCESS) (\<lambda>_ _. False) w1"
    by (rule etcd_store.wp_port_view [OF assms(1) w1(2) assms(7,11,12,13,14,15,16,17)])
  ultimately show ?thesis by (blast dest: wpD)
qed

theorem set_access_port_shown_witness:
  "\<exists>w1 w2 pfc trust. action_handler mem_etcd (demo_switch demo_cmds (demo_view ''6'' '''')) demo_arg (JStr ''f1ec15f8'')
       (Inr (JObj [(''cmd'', JStr ''SetAccessPortVLAN''), (''port_id'', JStr ''7''), (''VLANId'', JStr ''6'')]))
       (demo [(''/switches/f1ec15f8/ports/7/mode/trunk'', '''')] (demo_view ''N/A'' ''1-8'')) = (Inr (all_ok demo_cmds), w1) \<and>
     port_backend_get mem_etcd ''Fabric.1'' ''f1ec15f8'' ''7'' w1 = (Inr (Resp (port_document ''Fabric.1'' ''f1ec15f8'' ''7''
       \<lparr>p_mode = ''access'', p_pfc_status = pfc, p_trust_mode = trust, p_access_vlan = ''6'', p_allowed_vlans = []\<rparr>) SUCCESS), w2)"
proof -
  let ?V = "demo_view ''6'' ''''"
  let ?d = "[(''/switches/f1ec15f8/ports/7/mode/trunk'', '''')]"
  have V: "v_uuid ?V = ''f1ec15f8''" "(''7'', ''access'', ''6'', '''') \<in> set (v_ports ?V)" "distinct (map fst (v_ports ?V))"
    by (simp_all add: demo_view_def)
  have cl: "cl_is map_of mem_up demo_arg (map_of ?d) (demo_view ''N/A'' ''1-8'') demo_client (demo ?d (demo_view ''N/A'' ''1-8''))"
    by (rule demo_cl_is) simp
  have ex: "executes (demo_switch demo_cmds ?V) (mc_url demo_client) (demo_view ''N/A'' ''1-8'') demo_cmds ?V"
    by (rule demo_executes) (simp_all add: demo_cmds_def)
  have cs: "demo_cmds = [''interface ethernet 1/'' @ ''7'' @ '' switchport mode access'',
      ''interface ethernet 1/'' @ ''7'' @ '' switchport access vlan '' @ ''6'']"
    by (simp add: demo_cmds_def)
  show ?thesis
    using set_access_port_shown [OF mem_etcd_store cl refl cs ex demo_answers demo_wf demo_uuid, of "''access''" "''6''" "''''" "[]" "''Fabric.1''"] V
    by (simp add: allowed_entry_def)
qed

text \<open>
  C32.  Deleting a VLAN that the switch deletes: every key that starts with the path of the VLAN goes
  (which includes the keys of VLANs whose number merely starts with the same digits), its list
  entry goes, and then the view the switch reports is written again.
\<close>

theorem delete_vlan_db:
  assumes "etcd_store E kv up" and "cl_is kv up a m s c w" and "executes S (mc_url c) s [''no vlan '' @ v] s'" and "CHR ''%'' \<notin> set v"
    and "answers S (mc_url c) s' V" and "wf_view V" and "mc_uuid c = JStr (v_uuid V)"
  shows "\<exists>t w'. action_handler E S a (JStr (v_uuid V)) (Inr (JObj [(''cmd'', JStr ''DeleteVLAN''), (''VLANId'', JStr v)])) w =
      (Inr (all_ok [''no vlan '' @ v]), w') \<and>
    kv (w_db w') = put_all ((m |` {k. \<not> prefix (sw_pre V @ ''/VLANs/'' @ v) k})(sw_pre V @ ''/VLANs/list/'' @ v := None))
      (poll_keys a V t)"
proof -
  let ?p = "JObj [(''cmd'', JStr ''DeleteVLAN''), (''VLANId'', JStr v)]"
  have "wp (handle_delete_vlan E S a (JStr (v_uuid V)) ?p) (\<lambda>r w'. r = all_ok [''no vlan '' @ v] \<and>
      (\<exists>t. kv (w_db w') = put_all ((m |` {k. \<not> prefix (sw_pre V @ ''/VLANs/'' @ v) k})(sw_pre V @ ''/VLANs/list/'' @ v := None))
      (poll_keys a V t))) (\<lambda>_ _. False) w"
    by (rule etcd_store.wp_delete_vlan [OF assms]) (auto simp: dict_get_def cl_is_def db_is_def)
  then obtain w' t where "handle_delete_vlan E S a (JStr (v_uuid V)) ?p w = (Inr (all_ok [''no vlan '' @ v]), w')"
    "kv (w_db w') = put_all ((m |` {k. \<not> prefix (sw_pre V @ ''/VLANs/'' @ v) k})(sw_pre V @ ''/VLANs/list/'' @ v := None)) (poll_keys a V t)"
    by (auto dest!: wpD)
  moreover from this(1) have "action_handler E S a (JStr (v_uuid V)) (Inr ?p) w = (Inr (all_ok [''no vlan '' @ v]), w')"
    by (intro handler_run [of _ _ _ _ "''DeleteVLAN''" "handle_delete_vlan E S a (JStr (v_uuid V))"])
      (simp_all add: dispatcher_def dict_get_def)
  ultimately show ?thesis by blast
qed

theorem delete_vlan_db_witness:
  "\<exists>t w'. action_handler mem_etcd (demo_switch [''no vlan 6''] (demo_view ''1'' '''')) demo_arg (JStr ''f1ec15f8'')
       (Inr (JObj [(''cmd'', JStr ''DeleteVLAN''), (''VLANId'', JStr ''6'')]))
       (demo [(''/switches/f1ec15f8/VLANs/60/name/x'', '''')] (demo_view ''6'' '''')) = (Inr (all_ok [''no vlan 6'']), w') \<and>
     map_of (w_db w') ''/switches/f1ec15f8/VLANs/60/name/x'' =
       put_all Map.empty (poll_keys demo_arg (demo_view ''1'' '''') t) ''/switches/f1ec15f8/VLANs/60/name/x''"
proof -
  let ?V = "demo_view ''1'' ''''" and ?d = "[(''/switches/f1ec15f8/VLANs/60/name/x'', '''')]"
  have cl: "cl_is map_of mem_up demo_arg (map_of ?d) (demo_view ''6'' '''') demo_client (demo ?d (demo_view ''6'' ''''))"
    by (rule demo_cl_is) simp
  have ex: "executes (demo_switch [''no vlan 6''] ?V) (mc_url demo_client) (demo_view ''6'' '''') [''no vlan '' @ ''6''] ?V"
    using demo_executes [of "[''no vlan 6'']"] by simp
  have "v_uuid ?V = ''f1ec15f8''" by (simp add: demo_view_def)
  then show ?thesis
    using delete_vlan_db [OF mem_etcd_store cl ex _ demo_answers demo_wf demo_uuid]
    by (auto simp: put_all_def sw_pre_def restrict_map_def)
qed

text \<open>
  A free command whose text has a lone percent sign is never sent: the text is used as the
  format of a log message, which raises before the post, so the controller raises too and the
  switch and the database stay as they were.
\<close>

theorem any_cmd_percent:
  assumes "log_ok (lw_log w)" and "mask_hit (lg_mask (sa_log a)) (log_info_mask (lw_log w)) = Inr True"
    and "CHR ''%'' \<notin> set x" and "y = [] \<or> hd y \<noteq> CHR ''%''"
  shows "\<exists>w'. action_handler E S a U (Inr (JObj [(''cmd'', JStr ''AnyCmd''), (''AnyCmdStr'', JStr (x @ ''%'' @ y))])) w =
    (Inl TypeError, w') \<and> w_sw w' = w_sw w \<and> w_db w' = w_db w"
proof -
  have "\<exists>e. py_percent (json_dumps (JObj [(''commands'', JList [JStr (x @ ''%'' @ y)])])) [] = Inl e"
    using commands_lone [OF assms(3,4)] by (simp add: commands_def)
  then obtain e w' where w': "send_cmd S a (JObj [(''commands'', JList [JStr (x @ ''%'' @ y)])]) w = (Inl e, w')" "log_step w w'"
    using send_cmd_percent [OF assms(1,2), where S = S] by blast
  have "handle_any_cmd E S a U (JObj [(''cmd'', JStr ''AnyCmd''), (''AnyCmdStr'', JStr (x @ ''%'' @ y))]) w = (Inl e, w')"
    using w'(1) by (simp add: handle_any_cmd_def any_cmd_def send_update_def bindP_def liftP_def dict_get_def)
  then have "action_handler E S a U (Inr (JObj [(''cmd'', JStr ''AnyCmd''), (''AnyCmdStr'', JStr (x @ ''%'' @ y))])) w =
      (Inl TypeError, w')"
    by (simp add: action_handler_def dispatch_def dispatcher_def tryP_def bindP_def liftP_def dict_get_def
        get_server_error_response_unbound_def raiseP_def)
  with w'(2) log_step_world [of w w'] show ?thesis by auto
qed

theorem any_cmd_percent_witness:
  "\<exists>w'. action_handler mem_etcd silent_switch demo_arg JNull (Inr (JObj [(''cmd'', JStr ''AnyCmd''), (''AnyCmdStr'', JStr ''alpha 50%'')]))
     (demo [] ()) = (Inl TypeError, w') \<and> w_db w' = []"
proof -
  have "mask_hit (lg_mask (sa_log demo_arg)) (log_info_mask (lw_log (demo [] ()))) = Inr True"
    by (simp add: mask_hit_def demo_arg_def demo_simps)
  from any_cmd_percent [OF demo_log_ok this, of "''alpha 50''" "''''" mem_etcd silent_switch JNull] show ?thesis
    by (auto simp: demo_def)
qed

section \<open>The request server\<close>

text \<open>
  C12.  The server answers the waiting requests in order with what the controller returns, up to the
  first request on which the controller raises; with at least as many passes as requests, these
  are all the answers there will be.
\<close>

theorem server_answers:
  assumes "rep_socket Z awaiting queue sent" and "\<not> awaiting z" and "length (queue z) \<le> n"
  shows "sent (fst (rf_run Z process n (z, w))) = sent z @ answers_of process (queue z) w"
  using assms by (rule rep_socket.run_answers)

theorem server_answers_witness:
  "mr_sent (fst (rf_run mem_zmq (\<lambda>q n. if q = JNull then (Inl TypeError, n) else (Inr (JList [q, JInt n]), n + 1)) 7
     (\<lparr>mr_awaiting = False, mr_queue = [JBool True, JBool False, JNull, JBool True], mr_sent = []\<rparr>, 0))) =
   [JList [JBool True, JInt 0], JList [JBool False, JInt 1]]"
  using server_answers [OF rep.rep_socket_axioms, of "\<lparr>mr_awaiting = False, mr_queue = [JBool True, JBool False, JNull, JBool True], mr_sent = []\<rparr>" 7
      "\<lambda>q n. if q = JNull then (Inl TypeError, n) else (Inr (JList [q, JInt n]), n + 1)" 0]
  by simp

text \<open>
  C13.  One request with a command the controller does not know silences its server for good: the
  fallback handler raises TypeError, the error answer raises again, no answer is sent, and the
  reply socket takes no further request, for any number of passes.
\<close>

theorem unknown_command_silences_server:
  fixes w :: "('db, 'sw, 'r) world_scheme"
  assumes "rep_socket Z awaiting queue sent" and "\<not> awaiting z" and "queue z = q # qs"
    and "loads q = Inr payload" and "py_key payload ''cmd'' = Inr (JStr c)"
    and "c \<notin> set (dict_keys (dispatcher E S a U :: (json \<Rightarrow> (('db, 'sw, 'r) world_scheme, json) py) dict))"
  shows "sent (fst (rf_run Z (\<lambda>q. action_handler E S a U (loads q)) n (z, w))) = sent z"
proof -
  have "map_of (dispatcher E S a U :: (json \<Rightarrow> (('db, 'sw, 'r) world_scheme, json) py) dict) c = None"
    using assms(6) by (simp add: map_of_eq_None_iff dict_keys_def)
  then have "action_handler E S a U (loads q) w = (Inl TypeError, w)"
    by (simp add: action_handler_def dispatch_def tryP_def bindP_def liftP_def raiseP_def assms(4,5)
        get_server_error_response_unbound_def)
  then show ?thesis
    by (intro rep_socket.run_stuck [OF assms(1-3)])
qed

theorem unknown_command_silences_server_witness:
  "mr_sent (fst (rf_run mem_zmq (\<lambda>q. action_handler mem_etcd silent_switch demo_arg JNull (Inr q)) 100
     (\<lparr>mr_awaiting = False, mr_queue = [JObj [(''cmd'', JStr ''Reboot'')], JObj [(''cmd'', JStr ''ShowConfigurationFiles'')]], mr_sent = []\<rparr>,
      demo [] ()))) = []"
  by (rule unknown_command_silences_server [OF rep.rep_socket_axioms, THEN trans, where q1 = "JObj [(''cmd'', JStr ''Reboot'')]"
      and c1 = "''Reboot''"]) (simp add: dispatcher_def dict_keys_def dict_get_def)+

section \<open>Resources\<close>

text \<open>
  The collection of ports lists each port of the switch exactly once, in the order of the
  database, with its count.
\<close>

theorem port_collection_exact:
  assumes "etcd_store E kv up" and "db_is kv up l m w"
    and "\<forall>k \<in> dom m. prefix ((''/switches/'' @ sw_id @ ''/ports/list'') @ ''/'') k \<longrightarrow>
      CHR ''/'' \<notin> set (drop (length (''/switches/'' @ sw_id @ ''/ports/list'') + 1) k)"
  shows "\<exists>ids w'. port_collection_get E fab_id sw_id w = (Inr (Resp (JObj ([(''@odata.id'', JStr (ports_path fab_id sw_id)),
            (''@odata.type'', JStr ''#PortCollection.PortCollection''),
            (''Description'', JStr ''Collection of Ports''), (''Name'', JStr ''Port Collection'')] @
          members_of (ports_path fab_id sw_id) ids)) SUCCESS), w') \<and> distinct ids \<and>
    set ids = {i. (''/switches/'' @ sw_id @ ''/ports/list'') @ ''/'' @ i \<in> dom m \<and> CHR ''/'' \<notin> set i}"
proof -
  have "wp (port_collection_get E fab_id sw_id) (\<lambda>r _. \<exists>ids. r = Resp (JObj ([(''@odata.id'', JStr (ports_path fab_id sw_id)),
            (''@odata.type'', JStr ''#PortCollection.PortCollection''),
            (''Description'', JStr ''Collection of Ports''), (''Name'', JStr ''Port Collection'')] @
          members_of (ports_path fab_id sw_id) ids)) SUCCESS \<and> distinct ids \<and>
    set ids = {i. (''/switches/'' @ sw_id @ ''/ports/list'') @ ''/'' @ i \<in> dom m \<and> CHR ''/'' \<notin> set i}) (\<lambda>_ _. False) w"
    by (rule etcd_store.wp_port_collection [OF assms]) blast
  then show ?thesis by (blast dest: wpD)
qed

theorem port_collection_exact_witness:
  "\<exists>ids w'. port_collection_get mem_etcd ''Fabric.1'' ''s'' (demo [(''/switches/s/ports/list/7'', ''''), (''/x'', '''')] ()) =
     (Inr (Resp (JObj ([(''@odata.id'', JStr (ports_path ''Fabric.1'' ''s'')),
            (''@odata.type'', JStr ''#PortCollection.PortCollection''),
            (''Description'', JStr ''Collection of Ports''), (''Name'', JStr ''Port Collection'')] @
          members_of (ports_path ''Fabric.1'' ''s'') ids)) SUCCESS), w') \<and> ''7'' \<in> set ids"
proof -
  let ?d = "[(''/switches/s/ports/list/7'', ''''), (''/x'', '''')]"
  have "\<forall>k \<in> dom (map_of ?d). prefix ((''/switches/'' @ ''s'' @ ''/ports/list'') @ ''/'') k \<longrightarrow>
      CHR ''/'' \<notin> set (drop (length (''/switches/'' @ ''s'' @ ''/ports/list'') + 1) k)"
    by simp
  from port_collection_exact [OF mem_etcd_store demo_db_is [of ?d "()"] this, where fab_id = "''Fabric.1''" ]
  obtain ids w' where "port_collection_get mem_etcd ''Fabric.1'' ''s'' (demo ?d ()) =
     (Inr (Resp (JObj ([(''@odata.id'', JStr (ports_path ''Fabric.1'' ''s'')),
            (''@odata.type'', JStr ''#PortCollection.PortCollection''),
            (''Description'', JStr ''Collection of Ports''), (''Name'', JStr ''Port Collection'')] @
          members_of (ports_path ''Fabric.1'' ''s'') ids)) SUCCESS), w')"
    and ids: "set ids = {i. (''/switches/'' @ ''s'' @ ''/ports/list'') @ ''/'' @ i \<in> dom (map_of ?d) \<and> CHR ''/'' \<notin> set i}"
    by (simp only: list.simps fst_conv) (blast | simp)+
  moreover have "''7'' \<in> set ids" unfolding ids by simp
  ultimately show ?thesis by blast
qed

text \<open>
  Asking for a switch the database knows nothing about raises TypeError out of the resource: the
  missing serial number raises, and the handler's call of \<^verbatim>\<open>get_server_error_response\<close> raises again
  instead of giving the error answer.
\<close>

theorem unknown_switch_raises:
  assumes "etcd_store E kv up" and "db_is kv up l m w"
    and "\<And>k. k \<in> dom m \<Longrightarrow> \<not> prefix (''/switches/'' @ sw_id @ ''/switch_attributes/'') k"
  shows "\<exists>w'. switch_backend_get E fab_id sw_id w = (Inl TypeError, w')"
proof -
  have "wp (switch_backend_get E fab_id sw_id) (\<lambda>_ _. False) (\<lambda>e _. e = TypeError) w"
    by (rule etcd_store.wp_switch_missing [OF assms]) simp_all
  then show ?thesis by (auto simp: wp_def split: prod.splits sum.splits)
qed

theorem unknown_switch_raises_witness:
  "\<exists>w'. switch_backend_get mem_etcd ''Fabric.1'' ''nosuch'' (demo [] ()) = (Inl TypeError, w')"
  using unknown_switch_raises [OF mem_etcd_store demo_db_is [of "[]" "()"], of "''nosuch''" "''Fabric.1''"] by simp

text \<open>
  A request to a port action is sent with the fields of its body written over those of its URL:
  a body that names \<^verbatim>\<open>cmd\<close> or \<^verbatim>\<open>port_id\<close> decides which command goes to the switch, and for which
  port; without them the URL does.  The caller gets an answer in either case.
\<close>

theorem port_action_body_wins:
  assumes "payload = dict_update (action_data act uuid4 (''port_id'', JStr p)) u" and "distinct (map fst u)"
  shows "PortActionAPI_post E exchange uuid4 (Inr (JObj u)) fab sw p act w = post_to_switch E exchange sw (Some (JObj payload)) w \<and>
    map_of payload ''cmd'' = Some (or_else (map_of u ''cmd'') (JStr act)) \<and>
    map_of payload ''port_id'' = Some (or_else (map_of u ''port_id'') (JStr p)) \<and>
    (\<exists>r w'. PortActionAPI_post E exchange uuid4 (Inr (JObj u)) fab sw p act w = (Inr r, w'))"
proof -
  have returns: "\<exists>r w'. post_to_switch E exchange sw j w = (Inr r, w')" for j
    by (auto simp: post_to_switch_def tryP_def retP_def split: prod.splits sum.splits)
  obtain r w' where r: "post_to_switch E exchange sw (Some (JObj payload)) w = (Inr r, w')" using returns by blast
  then have "PortActionAPI_post E exchange uuid4 (Inr (JObj u)) fab sw p act w = (Inr r, w')"
    by (simp add: PortActionAPI_post_def post_action_def guard_error_def tryP_def bindP_liftP assms(1))
  with r show ?thesis
    by (simp add: assms(1) action_data_def map_of_dict_update [OF assms(2)] map_add_def or_else_def split: option.splits)
qed

theorem port_action_body_wins_witness:
  "\<exists>payload. PortActionAPI_post mem_etcd (\<lambda>url j. retP j) ''id'' (Inr (JObj [(''cmd'', JStr ''AnyCmd'')])) ''Fabric.1'' ''s'' ''7'' ''EnablePortPfc'' (demo [] ()) =
       post_to_switch mem_etcd (\<lambda>url j. retP j) ''s'' (Some (JObj payload)) (demo [] ()) \<and>
     map_of payload ''cmd'' = Some (JStr ''AnyCmd'') \<and> map_of payload ''port_id'' = Some (JStr ''7'')"
  using port_action_body_wins [OF refl, of "[(''cmd'', JStr ''AnyCmd'')]" mem_etcd "\<lambda>url j. retP j" "''id''" "''Fabric.1''" "''s''" "''7''"
      "''EnablePortPfc''" "demo [] ()"]
  by (auto simp: or_else_def)

text \<open>
  The emulated ports: creating a port makes exactly that port readable, with the document of its
  template, and every other port reads as before.
\<close>

theorem emulated_port_roundtrip:
  assumes "map_of ws ''rest_base'' = Some rb" and "map_of ws ''fab_id'' = Some f" and "map_of ws ''switch_id'' = Some s"
    and "map_of ws ''port_id'' = Some p"
  shows "\<exists>j ms'. get_port_instance ws = Inr j \<and> CreatePortEmulation ws ms = (Inr (), ms') \<and>
    PortEmulationAPI_get f s p ms' = Resp j SUCCESS \<and>
    (\<forall>f' s' p'. (f', s', p') \<noteq> (f, s, p) \<longrightarrow> PortEmulationAPI_get f' s' p' ms' = PortEmulationAPI_get f' s' p' ms)"
proof -
  obtain j where j: "get_port_instance ws = Inr j"
    using assms by (simp add: get_port_instance_def dict_get_def)
  then show ?thesis
    using assms
    by (auto simp: CreatePortEmulation_def create3_def PortEmulationAPI_get_def emulation3_get_def sub_dict_def not_found_def
        bindP_def thenP_def liftP_def modifyP_def dict_get_def split: option.splits)
qed

theorem emulated_port_roundtrip_witness:
  "\<exists>j ms'. CreatePortEmulation [(''rest_base'', ''/redfish/v1''), (''fab_id'', ''F''), (''switch_id'', ''S''), (''port_id'', ''7'')] [] = (Inr (), ms') \<and>
     PortEmulationAPI_get ''F'' ''S'' ''7'' ms' = Resp j SUCCESS"
  using emulated_port_roundtrip [of "[(''rest_base'', ''/redfish/v1''), (''fab_id'', ''F''), (''switch_id'', ''S''), (''port_id'', ''7'')]"
      "''/redfish/v1''" "''F''" "''S''" "''7''" "[]"] by auto

text \<open>
  Starting a subsystem starts its services in order and stops at the first one that raises; the
  subsystem counts as running as soon as its first service has started.
\<close>

theorem subsystem_start_effect:
  "subsystem_start None cls svs (b, w) =
     (fst (started svs w),
      (b \<or> (case svs of [] \<Rightarrow> False | sv # _ \<Rightarrow> fst (sv_start sv w) = Inr ()), snd (started svs w)))"
  by (rule subsystem_start_run)

section \<open>Events\<close>

definition demo_node :: "string dict \<Rightarrow> mem_req \<Rightarrow> string dict \<Rightarrow> (string dict, mem_req) mworld" where
  "demo_node d q es =
     \<lparr>lw_log = Ufmlog_init 8, lw_clock = (\<lambda>n. PyTime (int n) ''0.0''), lw_tick = 0, lw_traceback = (\<lambda>e. ''trace''),
      w_db = d, w_q = q, w_queue = es\<rparr>"

definition demo_socket :: "string option list \<Rightarrow> mem_req" where
  "demo_socket as = \<lparr>rq_answers = as, rq_sent = [], rq_received = []\<rparr>"

definition demo_nenv :: nenv where
  "demo_nenv = \<lparr>ne_db = db_logger, ne_log = \<lparr>lg_module = ''NKV'', lg_mask = UFM_NKV\<rparr>, ne_host = ''node1''\<rparr>"

definition demo_notifier :: notifier where
  "demo_notifier = \<lparr>en_address = ''10.1.10.1'', en_port = ''6000'', en_log = ne_log demo_nenv\<rparr>"

definition demo_event :: json where
  "demo_event = JObj [(''name'', JStr ''AGENT_UP'')]"

definition demo_eval :: "string \<Rightarrow> exn + json" where
  "demo_eval v = (if v = ''ev'' then Inr demo_event else Inl ValueError)"

lemma demo_node_db_is:
  "distinct (map fst d) \<Longrightarrow> db_is map_of mem_up (ne_db demo_nenv) (map_of d) (demo_node d q es)"
  by (simp add: db_is_def quiet_def mask_hit_def mem_up_def demo_node_def demo_nenv_def demo_simps)

lemma demo_category: "get_category demo_event = Inr ''AGENT''"
  by (simp add: demo_event_def events_def events_1_def)

lemma demo_send:
  "send_events mem_req shw demo_notifier ''AGENT'' demo_event (demo_node d (demo_socket [Some ''RECEIVED'']) es) =
     (Inr True, demo_node d \<lparr>rq_answers = [], rq_sent = [repr_pair ''AGENT'' demo_event], rq_received = [''RECEIVED'']\<rparr> es)"
  by (simp add: send_events_def REQUEST_RETRIES_def numeral_3_eq_3 mem_req_def bindP_def thenP_def tryP_def on_q_def retP_def
      modifyP_def demo_node_def demo_socket_def)

lemma demo_ack:
  "process_events mem_req shw demo_notifier [demo_event] (demo_node d (demo_socket [Some ''RECEIVED'']) es) =
     (Inr [demo_event], demo_node d \<lparr>rq_answers = [], rq_sent = [repr_pair ''AGENT'' demo_event], rq_received = [''RECEIVED'']\<rparr> es)"
  by (simp add: process_events_def bindP_def liftP_def retP_def demo_category demo_send)

lemma demo_known: "py_key demo_event ''name'' = Inr (JStr ''AGENT_UP'')" "''AGENT_UP'' \<in> set (dict_keys events)"
  by (simp_all add: demo_event_def dict_get_def dict_keys_def events_def events_1_def)

text \<open>
  C17.  Sending an event: at most three copies of it go to the broker, and it is reported as
  delivered only when the broker's acknowledgement was received.
\<close>

theorem event_delivery_bounded:
  assumes "req_socket Q sent received" and "send_events Q shw n cat ev w = (r, w')"
  shows "(\<exists>k \<le> 3. sent (w_q w') = sent (w_q w) @ replicate k (repr_pair cat ev)) \<and>
    (r = Inr True \<longrightarrow> received (w_q w') = received (w_q w) @ [''RECEIVED''])"
  using req_socket.wp_send_events [OF assms(1), of shw n cat ev w] assms(2)
  by (cases r) (auto simp: wp_run wp_run_exn sent_upto_def REQUEST_RETRIES_def)

theorem event_delivery_bounded_witness:
  "\<exists>w'. send_events mem_req (\<lambda>e. '''') demo_notifier ''AGENT'' demo_event (demo_node [] (demo_socket [Some ''RECEIVED'']) []) = (Inr True, w') \<and>
     rq_received (w_q w') = [''RECEIVED'']"
  using demo_send event_delivery_bounded [OF rq.req_socket_axioms demo_send] by (auto simp: demo_node_def demo_socket_def)



definition demo_key :: string where "demo_key = EVENT_PROCESS_KEY_PREFIX @ ''/17/u''"

definition demo_pending :: "(string dict, mem_req) mworld" where
  "demo_pending = demo_node [(demo_key, ''ev'')] (demo_socket [Some ''RECEIVED'']) [(demo_key, ''ev'')]"

lemma demo_node_queue [simp]: "(demo_node d q es)\<lparr>w_queue := es'\<rparr> = demo_node d q es'"
  by (simp add: demo_node_def)

lemma demo_pending_facts:
  "db_is map_of mem_up (ne_db demo_nenv) [demo_key \<mapsto> ''ev''] demo_pending" "w_queue demo_pending = [] @ [(demo_key, ''ev'')]"
  "demo_eval ''ev'' = Inr demo_event"
  "\<exists>w1. process_events mem_req shw demo_notifier [demo_event] (demo_pending\<lparr>w_queue := []\<rparr>) = (Inr [demo_event], w1)"
  using demo_node_db_is [of "[(demo_key, ''ev'')]"] demo_ack [where d = "[(demo_key, ''ev'')]" and es = "[]"]
  by (auto simp: demo_pending_def demo_eval_def) (simp add: demo_node_def)



text \<open>
  C14.  An acknowledged event is moved: its key below the events to process is replaced by the key
  below the events, with the same value, no other key changes, and it leaves the queue.
\<close>

theorem acknowledged_event_moved:
  assumes "etcd_store E kv up" and "db_is kv up (ne_db M) m w" and "w_queue w = q @ [(k, v)]" and "literal_eval v = Inr info"
    and "py_key info ''name'' = Inr (JStr s)" and "s \<in> set (dict_keys events)"
    and "process_events Q shw n [info] (w\<lparr>w_queue := q\<rparr>) = (Inr [info], w1)"
  shows "\<exists>w'. processor_pass E M exc literal_eval (Some (process_events Q shw n)) w = (Inr (), w') \<and>
    kv (w_db w') = (m(py_replace EVENT_PROCESS_KEY_PREFIX EVENT_KEY_PREFIX k \<mapsto> v))(k := None) \<and> w_queue w' = q"
proof -
  have q: "w_queue w1 = q" using keepsD [OF qq.keeps_process_events assms(7)] by (simp add: same_queue_def)
  have "wp (processor_pass E M exc literal_eval (Some (process_events Q shw n)))
      (\<lambda>_ w'. kv (w_db w') = (m(py_replace EVENT_PROCESS_KEY_PREFIX EVENT_KEY_PREFIX k \<mapsto> v))(k := None) \<and> w_queue w' = q)
      (\<lambda>_ _. False) w"
    by (rule etcd_store.wp_pass_moves [where literal_eval = literal_eval and f = "process_events Q shw n", OF assms(1-6)], rule qd.keeps_process_events, rule assms(7))
      (auto simp: db_is_def q dest: db_step_queue)
  then show ?thesis by (auto dest!: wpD)
qed

theorem acknowledged_event_moved_witness:
  "\<exists>w'. processor_pass mem_etcd demo_nenv (\<lambda>e. '''') demo_eval (Some (process_events mem_req (\<lambda>e. '''') demo_notifier)) demo_pending = (Inr (), w') \<and>
     map_of (w_db w') demo_key = None \<and> map_of (w_db w') ''/events/17/u'' = Some ''ev'' \<and> w_queue w' = []"
proof -
  obtain w1 where w1: "process_events mem_req (\<lambda>e. '''') demo_notifier [demo_event] (demo_pending\<lparr>w_queue := []\<rparr>) = (Inr [demo_event], w1)"
    using demo_pending_facts(4) by blast
  have "py_replace EVENT_PROCESS_KEY_PREFIX EVENT_KEY_PREFIX demo_key = ''/events/17/u''" "demo_key \<noteq> ''/events/17/u''"
    by (simp_all add: demo_key_def EVENT_PROCESS_KEY_PREFIX_def EVENT_KEY_PREFIX_def)
  with acknowledged_event_moved [where literal_eval = demo_eval, OF mem_etcd_store demo_pending_facts(1-3) demo_known w1, of "\<lambda>e. ''''"] show ?thesis by auto
qed

text \<open>
  C19.  A change of the status of a cluster node stores exactly one event to process, with the name,
  node, cluster and time of the change.  Only the text \<^verbatim>\<open>down\<close> counts as a node that went down: when
  the key is deleted or its lease ends, the event says that the node came up.
\<close>

theorem status_change_stored:
  assumes "etcd_store E kv up" and "db_is kv up (ne_db M) m w" and "tree_keys {k \<in> dom m. prefix ''/cluster/'' k}"
    and "m ''/cluster/name'' = Some cl" and "cl \<noteq> []" and "CHR ''/'' \<notin> set node" and "we_key we = ''/cluster/'' @ node @ ''/status''"
    and "we_value we = [] \<or> we_prev we \<noteq> we_value we" and "ts = int_str (time_secs (lw_clock w (lw_tick w)))"
  shows "\<exists>w'. process_event E M exc uuid1 systemctl True servers we w = (Inr (), w') \<and>
    kv (w_db w') = m(py_join ''/'' [EVENT_PROCESS_KEY_PREFIX, ts, uuid1 0] \<mapsto>
      json_dumps (JObj [(''node'', JStr node), (''args'', node_args (JStr node) (JStr cl)),
        (''name'', JStr (if we_value we = ''down'' then ''CM_NODE_DOWN'' else ''CM_NODE_UP'')), (''timestamp'', JStr ts)]))"
proof -
  let ?kv = "m(py_join ''/'' [EVENT_PROCESS_KEY_PREFIX, ts, uuid1 0] \<mapsto> json_dumps (JObj (status_event node cl (we_value we) @ [(''timestamp'', JStr ts)])))"
  have "wp (report_change E M exc uuid1 servers we) (\<lambda>_ w'. kv (w_db w') = ?kv) (\<lambda>_ _. False) w"
    by (rule etcd_store.wp_status_change [OF assms(1-5,7,6)]) (simp add: db_is_def assms(9))
  then obtain w' where "report_change E M exc uuid1 servers we w = (Inr (), w')" "kv (w_db w') = ?kv" by (auto dest!: wpD)
  moreover have "\<not> prefix EVENT_PROCESS_KEY_PREFIX (we_key we)" "\<not> prefix EVENT_KEY_PREFIX (we_key we)"
    by (simp_all add: assms(7) EVENT_PROCESS_KEY_PREFIX_def EVENT_KEY_PREFIX_def)
  ultimately show ?thesis
    using assms(8) by (auto simp: process_event_def keepalived_def thenP_def bindP_def retP_def status_event_def)
qed

theorem status_change_stored_witness:
  "\<exists>w'. process_event mem_etcd demo_nenv (\<lambda>e. '''') (\<lambda>i. ''u'') (\<lambda>c. retP ('''', '''')) True JNull
       \<lparr>we_key = ''/cluster/n1/status'', we_value = '''', we_prev = ''up''\<rparr> (demo_node [(''/cluster/name'', ''c1'')] (demo_socket []) []) = (Inr (), w') \<and>
     (\<exists>k v. map_of (w_db w') k = Some v \<and> py_in_str ''CM_NODE_UP'' v)"
proof -
  let ?we = "\<lparr>we_key = ''/cluster/n1/status'', we_value = '''', we_prev = ''up''\<rparr>"
  let ?d = "[(''/cluster/name'', ''c1'')]"
  let ?v = "json_dumps (JObj [(''node'', JStr ''n1''), (''args'', node_args (JStr ''n1'') (JStr ''c1'')),
        (''name'', JStr ''CM_NODE_UP''), (''timestamp'', JStr ''0'')])"
  have db: "db_is map_of mem_up (ne_db demo_nenv) (map_of ?d) (demo_node ?d (demo_socket []) [])"
    by (rule demo_node_db_is) simp
  have tree: "tree_keys {k \<in> dom (map_of ?d). prefix ''/cluster/'' k}"
    by (simp add: tree_keys_def key_path_def)
  have ts: "''0'' = int_str (time_secs (lw_clock (demo_node ?d (demo_socket []) []) (lw_tick (demo_node ?d (demo_socket []) []))))"
    by (simp add: demo_node_def int_str_def digit_char_def nat_str.simps [of 0] char_of_def bit_0)
  have "\<exists>w'. process_event mem_etcd demo_nenv (\<lambda>e. '''') (\<lambda>i. ''u'') (\<lambda>c. retP ('''', '''')) True JNull ?we
      (demo_node ?d (demo_socket []) []) = (Inr (), w') \<and>
      map_of (w_db w') = (map_of ?d)(py_join ''/'' [EVENT_PROCESS_KEY_PREFIX, ''0'', ''u''] \<mapsto> ?v)"
    using status_change_stored [OF mem_etcd_store db tree, where cl = "''c1''" and node = "''n1''" and we = ?we,
        OF _ _ _ _ _ ts, of "\<lambda>e. ''''" "\<lambda>i. ''u''" "\<lambda>c. retP ('''', '''')" JNull]
    by (simp del: json_dumps.simps py_join.simps)
  moreover have "py_in_str ''CM_NODE_UP'' ?v"
    by (simp add: node_args_def dumps_str_def dumps_char_def)
  ultimately show ?thesis by (metis fun_upd_same)
qed



section \<open>Node health\<close>



text \<open>
  C31.  The state of a node is never among the keys a pass collects, and no key gets the lease: the
  old and the new states are one dictionary, so no node is ever found to have changed.
\<close>

theorem node_status_never_collected:
  assumes "check_servers fping l interval hb servers hs w = (Inr (store, kvs, leased), w')"
  shows "leased = [] \<and> (\<forall>k \<in> fst ` set kvs. \<exists>u i. k = tgt_interface_key u i \<or> k = tgt_interface_crc u i) \<and>
    (\<forall>u. tgt_node_key u \<notin> fst ` set kvs)"
proof -
  have ok: "acc_ok (store, kvs, leased)" by (rule yieldsD [OF yields_check_servers assms])
  have "\<not> nic_key (tgt_node_key u)" for u
  proof
    assume "nic_key (tgt_node_key u)"
    then have "rev (take 6 (rev (tgt_node_key u))) = ''Status'' \<or> rev (take 3 (rev (tgt_node_key u))) = ''CRC''"
      by (auto simp: nic_key_def tgt_interface_key_def tgt_interface_crc_def)
    then show False by (simp add: tgt_node_key_def)
  qed
  with ok show ?thesis by (fastforce simp: acc_ok_def nic_only_def nic_key_def)
qed

definition demo_servers :: "string \<Rightarrow> json" where
  "demo_servers st = JObj [(''u1'', JObj [(''server_attributes'', JObj [(''identity'', JObj [(''Hostname'', JStr ''n1'')]),
     (''network'', JObj [(''interfaces'', JObj [(''eth0'', JObj [(''IPv4'', JStr ''10.0.0.1''), (''Status'', JStr st)])])])])])]"

definition demo_ping :: "string list \<Rightarrow> ('w, string \<times> string) py" where
  "demo_ping c = retP ('''', ''10.0.0.1 : xmt/rcv/%loss = 3/3/0%, min/avg/max = 0.1/0.1/0.1'')"

definition demo_quiet :: "(string dict, mem_req) mworld" where
  "demo_quiet = (demo_node [] (demo_socket []) [])\<lparr>lw_log := (Ufmlog_init 8)\<lparr>log_info_mask := JInt 0, log_debug_mask := JInt 0,
     log_detail_mask := JInt 0\<rparr>, lw_clock := \<lambda>n. PyTime 1000 ''1000.0''\<rparr>"

lemma wp_masked:
  "log_info_mask (lw_log w) = JInt 0 \<Longrightarrow> wp (log_info l s as) Q X w = Q () w"
  "log_debug_mask (lw_log w) = JInt 0 \<Longrightarrow> wp (log_debug l s as) Q X w = Q () w"
  "log_detail_mask (lw_log w) = JInt 0 \<Longrightarrow> wp (log_detail l s as) Q X w = Q () w"
  by (simp_all add: log_info_def log_debug_def log_detail_def log_filtered_def mask_hit_def wp_simps)

lemma demo_check_up:
  "wp (check_interfaces demo_ping l (JObj [(''eth0'', JObj [(''IPv4'', JStr ''10.0.0.1''), (''Status'', JStr ''down'')])]) [] ''u1'')
     (\<lambda>r w'. \<exists>kv. r = (True, kv)) (\<lambda>_ _. False) (demo_quiet\<lparr>lw_tick := t\<rparr>)"
  by (simp add: check_interfaces_def wp_simps demo_ping_def dict_has_def dict_get_def py_strip_def py_isspace_def wp_masked
      mark_nic_def set_field_def Let_def demo_quiet_def)

lemma demo_check:
  "\<exists>x w'. check_servers demo_ping (ne_log demo_nenv) 60 (JList []) (demo_servers ''down'') \<lparr>hs_store = \<lambda>_. [], hs_new = 0, hs_lease = None\<rparr>
     demo_quiet = (Inr x, w')"
proof -
  have "wp (check_servers demo_ping (ne_log demo_nenv) 60 (JList []) (demo_servers ''down'')
      \<lparr>hs_store = \<lambda>_. [], hs_new = 0, hs_lease = None\<rparr>) (\<lambda>_ _. True) (\<lambda>_ _. False) demo_quiet"
    by (simp add: check_servers_def check_server_def wp_simps wp_time_now demo_servers_def dict_get_def
        wp_masked note_status_same demo_quiet_def)
      (rule wp_mono [OF demo_check_up [unfolded demo_quiet_def, simplified]], auto simp: wp_simps note_status_def Let_def)
  then show ?thesis by (auto dest!: wpD)
qed

theorem node_status_never_collected_witness:
  "\<exists>store kvs leased w'. check_servers demo_ping (ne_log demo_nenv) 60 (JList []) (demo_servers ''down'')
     \<lparr>hs_store = \<lambda>_. [], hs_new = 0, hs_lease = None\<rparr> demo_quiet = (Inr (store, kvs, leased), w') \<and> leased = []"
proof -
  obtain store kvs leased w' where run: "check_servers demo_ping (ne_log demo_nenv) 60 (JList []) (demo_servers ''down'')
     \<lparr>hs_store = \<lambda>_. [], hs_new = 0, hs_lease = None\<rparr> demo_quiet = (Inr (store, kvs, leased), w')"
    using demo_check by (metis prod_cases3)
  with node_status_never_collected [OF run] show ?thesis by blast
qed

text \<open>
  A node whose interfaces all answer the ping and were up before counts as a node none of
  whose interfaces answer: the check returns \<open>False\<close> and collects nothing for it.
\<close>

theorem healthy_node_not_counted:
  assumes "check_interfaces fping l ifaces kvs server w = (Inr (up, kvs'), w')"
    and "bindE (py_iter ifaces) (\<lambda>is. add_addresses ifaces is []) = Inr ips"
    and "\<And>c v out err v'. fping c v = (Inr (out, err), v') \<Longrightarrow>
      \<forall>line \<in> set (py_split (CHR 0x0A) err). line = [] \<or> answers_up ips ifaces line"
  shows "\<not> up \<and> kvs' = kvs"
  using yieldsD [OF yields_check_up [OF assms(2,3)] assms(1)] by simp

theorem healthy_node_not_counted_witness:
  "\<exists>up kvs' w'. check_interfaces demo_ping (ne_log demo_nenv) (JObj [(''eth0'', JObj [(''IPv4'', JStr ''10.0.0.1''), (''Status'', JStr ''up'')])])
     [] ''u1'' demo_quiet = (Inr (up, kvs'), w') \<and> \<not> up"
proof -
  let ?ifs = "JObj [(''eth0'', JObj [(''IPv4'', JStr ''10.0.0.1''), (''Status'', JStr ''up'')])]"
  have "wp (check_interfaces demo_ping (ne_log demo_nenv) ?ifs [] ''u1'') (\<lambda>_ _. True) (\<lambda>_ _. False) demo_quiet"
    by (simp add: check_interfaces_def wp_simps demo_ping_def dict_has_def dict_get_def py_strip_def py_isspace_def wp_masked demo_quiet_def)
  then obtain up kvs' w' where run: "check_interfaces demo_ping (ne_log demo_nenv) ?ifs [] ''u1'' demo_quiet = (Inr (up, kvs'), w')"
    by (auto dest!: wpD)
  have "\<not> up \<and> kvs' = []"
  proof (rule healthy_node_not_counted [OF run])
    show "bindE (py_iter ?ifs) (\<lambda>is. add_addresses ?ifs is []) = Inr [(''10.0.0.1'', ''eth0'')]"
      by (simp add: dict_has_def dict_get_def)
  qed (auto simp: demo_ping_def retP_def answers_up_def py_strip_def py_isspace_def dict_get_def)
  with run show ?thesis by blast
qed

section \<open>The Redfish tree of the systems\<close>

definition demo_rfenv :: rfenv where
  "demo_rfenv = \<lparr>re_db = db_logger, re_log = \<lparr>lg_module = ''RFDB'', lg_mask = UFM_REDFISH_DB\<rparr>, re_root_uuid = ''r'', re_auto_update = True,
     re_percent = (\<lambda>u c. JFloat (100 - 100 * u div c) ''x''), re_later = (\<lambda>t x. True), re_left = (\<lambda>x t. 0)\<rparr>"

definition demo_rf :: "string dict \<Rightarrow> string dict rworld" where
  "demo_rf d =
     \<lparr>lw_log = Ufmlog_init 8, lw_clock = (\<lambda>n. PyTime (int n) ''0.0''), lw_tick = 0, lw_traceback = (\<lambda>e. ''trace''),
      w_db = d, rf_tree = [], rf_systems = [], rf_fabrics = [], rf_expiration = None\<rparr>"

lemma demo_rf_good: "distinct (map fst d) \<Longrightarrow> rf_good map_of mem_up demo_rfenv (map_of d) (demo_rf d)"
  using ring_init [of 8]
  by (auto simp: rf_good_def db_is_def quiet_def mask_hit_def mem_up_def demo_rf_def demo_rfenv_def demo_simps log_works_def has_ring_def)



text \<open>
  One server without drives has the same effect on all servers: the percentage of its free
  space divides by a capacity of zero, and the update fails before any document is built.
\<close>

theorem server_without_drives_hides_tree:
  fixes w :: "('db, 'r) rworld_scheme"
  assumes "etcd_store E kv up" and "db_is kv up (re_db R) m w" and "log_works w"
    and "CHR ''/'' \<notin> set u" and "m (''/object_storage/servers/list/'' @ u) = Some v"
    and "\<And>k v. m k = Some v \<Longrightarrow> prefix (devices_path u) k \<Longrightarrow> \<not> py_in_str ''Serial'' k"
    and "re_auto_update R" and "\<And>t. re_later R t (rf_expiration w)" and "\<And>t. re_later R t None"
    and "request \<notin> set (dict_keys (redfish_actions shell (re_log R)))" and "CHR ''%'' \<notin> set request"
  shows "\<exists>w'. rf_get shell E R request payload w = (Inr not_found_doc, w')"
proof -
  have "map_of (redfish_actions shell (re_log R)) request = None"
    using assms(10) by (simp add: map_of_eq_None_iff dict_keys_def)
  moreover have "rf_good kv up R m w" using assms(2,3) by (simp add: rf_good_def)
  moreover have nth: "py_nth (py_split (CHR ''/'') (''/object_storage/servers/list/'' @ u)) 4 = Inr u"
    using py_split_no_sep [OF assms(4)] by (simp add: py_nth_def)
  moreover have pre: "prefix ''/object_storage/servers/list'' (''/object_storage/servers/list/'' @ u)"
    by (rule prefixI [of _ _ "''/'' @ u"]) simp
  moreover have "etcd_store.reading_fails E kv up R m TYPE('r)"
    by (rule etcd_store.systems_fail [where m = m and u = u, OF assms(1)]) (rule assms(6), assumption+, rule nth, rule pre, rule assms(5))
  ultimately have "wp (rf_get shell E R request payload) (\<lambda>r _. r = not_found_doc) (\<lambda>_ _. False) w"
    by (intro etcd_store.wp_rf_get_empty [OF assms(1)] assms)
  then show ?thesis by (auto dest!: wpD)
qed

theorem server_without_drives_hides_tree_witness:
  "\<exists>w'. rf_get (\<lambda>c. retP ()) mem_etcd demo_rfenv ''/redfish/v1/Systems'' JNull (demo_rf [(''/object_storage/servers/list/u1'', '''')]) =
     (Inr not_found_doc, w')"
proof -
  let ?d = "[(''/object_storage/servers/list/u1'', '''')]"
  have good: "db_is map_of mem_up (re_db demo_rfenv) (map_of ?d) (demo_rf ?d)" "log_works (demo_rf ?d)"
    using demo_rf_good [of ?d] by (simp_all add: rf_good_def)
  show ?thesis
    by (rule server_without_drives_hides_tree [OF mem_etcd_store good, of "''u1''" "''''"])
      (simp_all add: demo_rfenv_def redfish_actions_def dict_keys_def devices_path_def server_path_def split: if_splits)
qed



section \<open>The resources of the systems\<close>









text \<open>
  Filling the emulated resources stops at the first fabric of the configuration, with a name that is not
  defined; what was made of the systems stays.
\<close>

theorem populate_stops_at_fabrics:
  assumes "populate_systems config w = (Inr (), w')" and "py_key config ''Fabrics'' = Inr (JList (t # ts))"
    and "count_of t = Inr (Suc c)" and "template_id t 1 = Inr i"
  shows "populate config w = (Inl (NameError ''CreateFabric''), w')"
proof -
  have "[0..<Suc c] = 0 # [1..<Suc c]" by (simp add: upt_conv_Cons)
  with assms show ?thesis
    by (simp add: populate_def numbered_def thenP_def bindP_def liftP_def raiseP_def del: upt_Suc)
qed

section \<open>The cluster library of the agent\<close>

text \<open>A connected object without a cache over a list as database; the programs of the library do nothing.\<close>

definition demo_agent :: "string dict \<Rightarrow> (string dict, unit) cworld" where
  "demo_agent d = \<lparr>ew_db = d, ew_client = True, ew_cache_data = False, ew_cache = None, ew_watch_id = None, cw_sys = ()\<rparr>"

definition demo_lib :: "unit libenv" where
  "demo_lib = \<lparr>le_float = (\<lambda>j. Inl ValueError), le_age = (\<lambda>t. 0), le_later = (\<lambda>s t. False), le_int = (\<lambda>t. 0), le_date = (\<lambda>j. Inr ''today''),
     le_stat = (\<lambda>f. None), le_popen = (\<lambda>c. retP ([], [])), le_tar = (\<lambda>f. Inr [(''a.md5sum'', ''ab a.tar''), (''a.tar'', ''x'')]),
     le_md5 = (\<lambda>s. ''ab''), le_literal = (\<lambda>j. Inl ValueError), le_loads = (\<lambda>s. Inl ValueError)\<rparr>"

definition demo_cluster :: "string dict" where
  "demo_cluster = [(''/cluster/node1/status'', ''up''), (''/cluster/node1/ip_address'', ''a1''),
     (''/cluster/node2/status'', ''up''), (''/cluster/node2/ip_address'', ''a2''), (''/cluster/node3/status'', ''down''), (''/cluster/node3/ip_address'', ''a3'')]"

lemma demo_agent_live: "distinct (map fst d) \<Longrightarrow> live map_of mem_up (demo_agent d)"
  by (simp add: live_def demo_agent_def mem_up_def)

text \<open>
  C6.  The health document of the cluster: of the members, subsystems and agents never more are
  reported up than there are, and the overall status is the one the quorum rule demands.
\<close>

theorem cluster_health_quorum:
  assumes "get_cluster_health E L detail w = (Inr doc, w')"
  shows "\<exists>n up st su an au fs. doc = JObj ([(''number_of_cm_server_instances'', JInt n), (''number_of_up_cm_server_instances'', JInt up),
        (''number_of_target_subsystems'', JInt st), (''number_of_up_target_subsystems'', JInt su),
        (''number_of_cm_agent_instances'', JInt an), (''number_of_up_cm_agent_instances'', JInt au),
        (''overall_cluster_status'', JInt (quorum_status n up st su))] @ fs) \<and>
      0 \<le> up \<and> up \<le> n \<and> 0 \<le> su \<and> su \<le> st \<and> 0 \<le> au \<and> au \<le> an"
    (is "?good doc")
proof -
  have "yields ?good (get_cluster_health E L detail)"
    unfolding get_cluster_health_def
  proof (intro yields_pre yields_bind_with [OF yields_info], goal_cases)
    case (1 x)
    then show ?case
      by (cases x) (simp del: append.simps,
        intro yields_bind_with [OF yields_targets] yields_bind yields_ret, simp add: overall_status_quorum)
  qed
  then show ?thesis using assms by (rule yieldsD)
qed

theorem cluster_health_quorum_witness:
  "\<exists>doc w'. get_cluster_health mem_agent demo_lib False (demo_agent demo_cluster) = (Inr doc, w') \<and>
     py_key doc ''overall_cluster_status'' = Inr (JInt HEALTH_CRITICAL) \<and>
     (\<exists>n up st su an au fs. doc = JObj ([(''number_of_cm_server_instances'', JInt n), (''number_of_up_cm_server_instances'', JInt up),
        (''number_of_target_subsystems'', JInt st), (''number_of_up_target_subsystems'', JInt su),
        (''number_of_cm_agent_instances'', JInt an), (''number_of_up_cm_agent_instances'', JInt au),
        (''overall_cluster_status'', JInt (quorum_status n up st su))] @ fs) \<and>
      0 \<le> up \<and> up \<le> n \<and> 0 \<le> su \<and> su \<le> st \<and> 0 \<le> au \<and> au \<le> an)"
proof -
  let ?r = "get_cluster_health mem_agent demo_lib False (demo_agent demo_cluster)"
  have run: "(case fst ?r of Inr doc \<Rightarrow> py_key doc ''overall_cluster_status'' = Inr (JInt HEALTH_CRITICAL) | Inl _ \<Rightarrow> False)"
    by code_simp
  then obtain doc w' where r: "?r = (Inr doc, w')" by (cases ?r) (auto split: sum.splits)
  with run cluster_health_quorum [OF r] show ?thesis by auto
qed

text \<open>
  C20.  The cache follows the database: after the callbacks for any series of changes that store no
  empty text, every read from the cache gives what the database holds.
\<close>

theorem cache_tracks_database:
  assumes "agent_store E kv up" and "in_step kv up w" and "ew_cache_data w"
    and "up d" and "kv d = changes cs (kv (ew_db w))" and "\<forall>c \<in> set cs. snd c \<noteq> Some []"
  shows "\<exists>w'. forP cs (\<lambda>(k, v). callback_fn k v) (w\<lparr>ew_db := d\<rparr>) = (Inr (), w') \<and>
    (\<forall>key. fst (get_key_value E key w') = Inr (kv d key)) \<and>
    (\<forall>kw p. \<exists>es. fst (get_raw E kw p w') = Inr es \<and> distinct (map fst es) \<and> map_of es = kv d |` {k. prefix p k})"
proof -
  obtain c where "ew_cache w = Some c" "distinct (map fst c)" "map_of c = kv (ew_db w)" using assms(2,3) by (auto simp: in_step_def)
  then obtain c' where c': "forP cs (\<lambda>(k, v). callback_fn k v) (w\<lparr>ew_db := d\<rparr>) = (Inr (), w\<lparr>ew_db := d, ew_cache := Some c'\<rparr>)"
      "distinct (map fst c')" "map_of c' = kv d"
    using callbacks_follow [of "w\<lparr>ew_db := d\<rparr>" c cs] assms(3,5,6) by auto
  then have step: "in_step kv up (w\<lparr>ew_db := d, ew_cache := Some c'\<rparr>)" using assms(2,4) by (simp add: in_step_def)
  show ?thesis
    using c'(1) agent_store.get_key_value_run [OF assms(1) step] agent_store.get_raw_run [OF assms(1) step]
    by simp (metis fst_conv)
qed

theorem cache_tracks_database_witness:
  "let w = (demo_agent [(''/a'', ''1'')])\<lparr>ew_cache_data := True, ew_cache := Some [(''/a'', ''1'')]\<rparr>; d = [(''/b'', ''2'')] in
   \<exists>w'. forP [(''/b'', Some ''2''), (''/a'', None)] (\<lambda>(k, v). callback_fn k v) (w\<lparr>ew_db := d\<rparr>) = (Inr (), w') \<and>
     fst (get_key_value mem_agent ''/a'' w') = Inr None \<and> fst (get_key_value mem_agent ''/b'' w') = Inr (Some ''2'')"
proof -
  let ?w = "(demo_agent [(''/a'', ''1'')])\<lparr>ew_cache_data := True, ew_cache := Some [(''/a'', ''1'')]\<rparr>"
  have "in_step map_of mem_up ?w" "ew_cache_data ?w" "mem_up [(''/b'', ''2'')]"
    by (simp_all add: in_step_def demo_agent_def mem_up_def)
  moreover have "map_of [(''/b'', ''2'')] = changes [(''/b'', Some ''2''), (''/a'', None)] (map_of (ew_db ?w))"
    by (auto simp: demo_agent_def fun_eq_iff)
  ultimately show ?thesis
    using cache_tracks_database [OF mem_agent_store, of ?w "[(''/b'', ''2'')]" "[(''/b'', Some ''2''), (''/a'', None)]"]
    by (auto simp: Let_def)
qed

text \<open>
  C11.  A software upgrade or downgrade that does not report success, with any error code or exception,
  has changed no key of the database.
\<close>

theorem failed_change_keeps_db:
  fixes w :: "('db, 's, 'r) cworld_scheme"
  assumes "agent_frame E kv" and "initiate_sw_upgrade E L file w = (r, w') \<or> initiate_sw_downgrade E L file w = (r, w')" and "r \<noteq> Inr 0"
  shows "kv (ew_db w') = kv (ew_db w)"
proof -
  have "wp (initiate_sw_upgrade E L file) (\<lambda>c w'. c \<noteq> 0 \<longrightarrow> same_store kv w w') (\<lambda>_. same_store kv w) w"
    "wp (initiate_sw_downgrade E L file) (\<lambda>c w'. c \<noteq> 0 \<longrightarrow> same_store kv w w') (\<lambda>_. same_store kv w) w"
    by (rule agent_frame.wp_upgrade_fails [OF assms(1)], rule agent_frame.wp_downgrade_fails [OF assms(1)])
  with assms(2,3) show ?thesis by (cases r) (auto simp: wp_def same_store_def)
qed

theorem failed_change_keeps_db_witness:
  "let d = [(''/software/upgrade/progress/image_name'', ''a.tar'')] in
   fst (initiate_sw_upgrade mem_agent demo_lib ''/tmp/a.tar'' (demo_agent d)) = Inr 2 \<and>
   map_of (ew_db (snd (initiate_sw_upgrade mem_agent demo_lib ''/tmp/a.tar'' (demo_agent d)))) = map_of d"
proof -
  let ?w = "demo_agent [(''/software/upgrade/progress/image_name'', ''a.tar'')]"
  let ?m = "initiate_sw_upgrade mem_agent demo_lib ''/tmp/a.tar''"
  have run: "fst (?m ?w) = Inr 2" by code_simp
  moreover have "map_of (ew_db (snd (?m ?w))) = map_of (ew_db ?w)"
    by (rule failed_change_keeps_db [OF agent_store.axioms(1) [OF mem_agent_store], of demo_lib "''/tmp/a.tar''" _ "Inr 2"])
      (use run in \<open>simp_all add: prod_eq_iff\<close>)
  ultimately show ?thesis by (simp add: Let_def demo_agent_def)
qed



text \<open>
  With no server in the database the document read back still has one server, with the empty name:
  one agent is counted and one target listed that do not exist.
\<close>

theorem empty_database_has_target:
  fixes w :: "('db, 'r) eworld_scheme"
  assumes "agent_store E kv up" and "in_step kv up w" and "\<And>k. prefix ''/object_storage/servers/'' k \<Longrightarrow> kv (ew_db w) k = None"
  shows "\<exists>ti w'. get_targets_info E L w = (Inr ti, w') \<and> ti_agents ti = 1 \<and> ti_agents_up ti = 0 \<and>
    (\<exists>fs. ti_targets ti = [JObj ((''target_id'', JStr []) # fs)])"
proof -
  have "kv (ew_db w) |` {k. prefix ''/object_storage/servers/'' k} = Map.empty"
    using assms(3) by (auto simp: restrict_map_def fun_eq_iff)
  then obtain w' where raw: "get_raw E [(''sort_order'', KText None), (''sort_target'', KText None)] ''/object_storage/servers/'' w = (Inr [], w')"
    using agent_store.get_raw_run [OF assms(1,2)] by (metis map_of_eq_empty_iff)
  have path: "tl (py_split (CHR ''/'') ''/object_storage/servers/'') = [''object_storage'', ''servers'', []]" by code_simp
  have "\<exists>ti. targets_of L (nest [''object_storage'', ''servers'', []]) = Inr ti \<and> ti_agents ti = 1 \<and> ti_agents_up ti = 0 \<and>
      (\<exists>fs. ti_targets ti = [JObj ((''target_id'', JStr []) # fs)])"
    by (simp add: targets_of_def add_target_def heartbeat_def no_targets_def dict_get_def)
  then show ?thesis
    using raw assms(2) path
    by (auto simp: get_targets_info_def do_pre_checks_def get_key_with_prefix_def bindP_def readP_def thenP_def retP_def liftP_def in_step_def)
qed

theorem empty_database_has_target_witness:
  "\<exists>ti w'. get_targets_info mem_agent demo_lib (demo_agent demo_cluster) = (Inr ti, w') \<and> ti_agents ti = 1"
proof -
  have "in_step map_of mem_up (demo_agent demo_cluster)"
    by (rule live_in_step, rule demo_agent_live) (simp add: demo_cluster_def)
  moreover have "list_all (\<lambda>k. \<not> prefix ''/object_storage/servers/'' k) (map fst demo_cluster)" by code_simp
  then have "map_of (ew_db (demo_agent demo_cluster)) k = None" if "prefix ''/object_storage/servers/'' k" for k
    using that by (auto simp: demo_agent_def list_all_iff map_of_eq_None_iff)
  ultimately show ?thesis
    using empty_database_has_target [OF mem_agent_store, of "demo_agent demo_cluster" demo_lib] by blast
qed

end
